(* ===== verification/Prelude.thy ===== *)
theory Prelude
  imports Main "HOL-Library.AList" "HOL-Library.Word" "HOL-Library.Multiset"
begin

text \<open>
  What every component shares: Go's errors as values, the outcome of a call (a value, a returned
  error, or a panic), the string functions of Go's standard library that the source uses
  (\<open>strings.Split\<close>, \<open>strings.TrimSpace\<close>, \<open>strings.Trim\<close>, \<open>strings.ToLower\<close>, \<open>strings.Contains\<close>,
  \<open>path.Base\<close>, \<open>strconv.ParseUint\<close>, \<open>strconv.Atoi\<close>, \<open>strconv.ParseBool\<close>, \<open>strconv.Itoa\<close>), and Go maps
  as association lists with distinct keys.  A Go string is a list of bytes (HOL's \<open>char\<close>); letter case
  and white space are the ASCII ones, the only ones in the output of the LVM and block-device tools.
\<close>

named_theorems outcome_simps \<open>unfolding of the outcome monad\<close>
named_theorems emits_intros \<open>compositional rules for the events a program may emit\<close>

section \<open>Errors and outcomes\<close>

datatype grpc_code =
  InvalidArgument | NotFound | Internal | ResourceExhausted | Unimplemented

text \<open>
  An \<open>error\<close> value of the source: the API server's status errors (told apart by
  \<open>kerrors.IsNotFound\<close> and its kin), a process that exited with a status, a process that could not be
  started, a gRPC status, a plain message, and \<open>errors.Wrap\<close> around another error.
\<close>

datatype go_error =
    ApiNotFound string
  | ApiAlreadyExists string
  | ApiConflict string
  | ApiInvalid string
  | ApiOther string
  | ExitError int string
  | ExecError string
  | GrpcStatus grpc_code string
  | Msg string
  | Wrapped string go_error

fun is_not_found :: "go_error \<Rightarrow> bool" where
  "is_not_found (ApiNotFound m) = True"
| "is_not_found (Wrapped m e) = is_not_found e"
| "is_not_found _ = False"

fun is_already_exists :: "go_error \<Rightarrow> bool" where
  "is_already_exists (ApiAlreadyExists m) = True"
| "is_already_exists (Wrapped m e) = is_already_exists e"
| "is_already_exists _ = False"

fun is_conflict :: "go_error \<Rightarrow> bool" where
  "is_conflict (ApiConflict m) = True"
| "is_conflict (Wrapped m e) = is_conflict e"
| "is_conflict _ = False"

fun is_invalid :: "go_error \<Rightarrow> bool" where
  "is_invalid (ApiInvalid m) = True"
| "is_invalid (Wrapped m e) = is_invalid e"
| "is_invalid _ = False"

text \<open>
  The result of a call: it returns a value, returns an error, or panics (an index out of range, an
  assignment to a nil map).  A panic is not an error value: no \<open>if err != nil\<close> of the source sees it.
\<close>

datatype 'a outcome = Ok 'a | Fail go_error | Panic string

section \<open>Decimal numbers\<close>

definition digit_char :: "int \<Rightarrow> char" where
  "digit_char d = char_of (48 + d)"

definition digit_val :: "char \<Rightarrow> int option" where
  "digit_val c = (let n = (of_char c :: int) in if 48 \<le> n \<and> n \<le> 57 then Some (n - 48) else None)"

text \<open>Decimal digits of a number that is not negative.\<close>

function show_digits :: "int \<Rightarrow> string" where
  "show_digits n = (if n < 10 then [digit_char n] else show_digits (n div 10) @ [digit_char (n mod 10)])"
  by pat_completeness auto
termination by (relation "measure nat") auto

declare show_digits.simps [simp del]

definition show_int :: "int \<Rightarrow> string" where
  "show_int i = (if i < 0 then ''-'' @ show_digits (- i) else show_digits i)"

fun digits_value :: "int \<Rightarrow> string \<Rightarrow> int option" where
  "digits_value acc [] = Some acc"
| "digits_value acc (c # cs) =
     (case digit_val c of None \<Rightarrow> None | Some d \<Rightarrow> digits_value (10 * acc + d) cs)"

text \<open>\<open>strconv.ParseUint(s, 10, bits)\<close>: a non-empty run of digits whose value fits the width.\<close>

definition parse_uint :: "nat \<Rightarrow> string \<Rightarrow> int option" where
  "parse_uint bits s =
     (if s = [] then None
      else case digits_value 0 s of
             None \<Rightarrow> None
           | Some n \<Rightarrow> if n < 2 ^ bits then Some n else None)"

text \<open>\<open>strconv.Atoi\<close> on a 64-bit platform: an optional sign, then digits, within \<open>int64\<close>.\<close>

definition parse_int :: "nat \<Rightarrow> string \<Rightarrow> int option" where
  "parse_int bits s =
     (case s of
        [] \<Rightarrow> None
      | c # cs \<Rightarrow>
          let neg = (c = CHR ''-''); ds = (if neg \<or> c = CHR ''+'' then cs else s) in
          if ds = [] then None
          else case digits_value 0 ds of
                 None \<Rightarrow> None
               | Some n \<Rightarrow>
                   let v = (if neg then - n else n) in
                   if - (2 ^ (bits - 1)) \<le> v \<and> v < 2 ^ (bits - 1) then Some v else None)"

definition atoi :: "string \<Rightarrow> int option" where
  "atoi s = parse_int 64 s"

definition parse_bool :: "string \<Rightarrow> bool option" where
  "parse_bool s =
     (if s \<in> {''1'', ''t'', ''T'', ''TRUE'', ''true'', ''True''} then Some True
      else if s \<in> {''0'', ''f'', ''F'', ''FALSE'', ''false'', ''False''} then Some False
      else None)"

lemma digit_val_digit_char: "0 \<le> d \<Longrightarrow> d < 10 \<Longrightarrow> digit_val (digit_char d) = Some d"
  by (simp add: digit_val_def digit_char_def of_char_of)

lemma digits_value_append:
  "digits_value acc (xs @ ys) =
     (case digits_value acc xs of None \<Rightarrow> None | Some n \<Rightarrow> digits_value n ys)"
  by (induction xs arbitrary: acc) (auto split: option.splits)

lemma show_digits_nonempty: "show_digits n \<noteq> []"
  by (subst show_digits.simps) simp

lemma digits_value_show_digits: "0 \<le> n \<Longrightarrow> digits_value 0 (show_digits n) = Some n"
proof (induction n rule: show_digits.induct)
  case (1 n)
  show ?case
  proof (cases "n < 10")
    case True
    with 1 show ?thesis by (simp add: show_digits.simps [of n] digit_val_digit_char)
  next
    case False
    with 1 have "digits_value 0 (show_digits (n div 10)) = Some (n div 10)" by simp
    with False show ?thesis
      by (simp add: show_digits.simps [of n] digits_value_append digit_val_digit_char)
  qed
qed

lemma parse_uint_show: "0 \<le> n \<Longrightarrow> n < 2 ^ bits \<Longrightarrow> parse_uint bits (show_int n) = Some n"
  by (simp add: parse_uint_def show_int_def show_digits_nonempty digits_value_show_digits)

lemma digits_value_nonneg: "digits_value acc s = Some n \<Longrightarrow> 0 \<le> acc \<Longrightarrow> 0 \<le> n"
proof (induction s arbitrary: acc)
  case (Cons c cs)
  from Cons.prems(1) obtain d where d: "digit_val c = Some d" "digits_value (10 * acc + d) cs = Some n"
    by (auto split: option.splits)
  then have "0 \<le> d" by (auto simp: digit_val_def Let_def split: if_splits)
  with d Cons.prems(2) show ?case by (intro Cons.IH [of "10 * acc + d"]) auto
qed simp

lemma parse_uint_bound: "parse_uint bits s = Some n \<Longrightarrow> 0 \<le> n \<and> n < 2 ^ bits"
  using digits_value_nonneg [of 0 s n] by (auto simp: parse_uint_def split: if_splits option.splits)

text \<open>\<open>err.Error()\<close>.\<close>

fun grpc_code_text :: "grpc_code \<Rightarrow> string" where
  "grpc_code_text InvalidArgument = ''InvalidArgument''"
| "grpc_code_text NotFound = ''NotFound''"
| "grpc_code_text Internal = ''Internal''"
| "grpc_code_text ResourceExhausted = ''ResourceExhausted''"
| "grpc_code_text Unimplemented = ''Unimplemented''"

fun err_text :: "go_error \<Rightarrow> string" where
  "err_text (ApiNotFound m) = m"
| "err_text (ApiAlreadyExists m) = m"
| "err_text (ApiConflict m) = m"
| "err_text (ApiInvalid m) = m"
| "err_text (ApiOther m) = m"
| "err_text (ExitError st m) = ''exit status '' @ show_int st"
| "err_text (ExecError m) = m"
| "err_text (GrpcStatus c m) = ''rpc error: code = '' @ grpc_code_text c @ '' desc = '' @ m"
| "err_text (Msg m) = m"
| "err_text (Wrapped m e) = m @ '': '' @ err_text e"

section \<open>Strings\<close>

fun split_on :: "char \<Rightarrow> string \<Rightarrow> string list" where
  "split_on c [] = [[]]"
| "split_on c (x # xs) =
     (if x = c then [] # split_on c xs
      else case split_on c xs of [] \<Rightarrow> [[x]] | y # ys \<Rightarrow> (x # y) # ys)"

fun join_with :: "char \<Rightarrow> string list \<Rightarrow> string" where
  "join_with c [] = []"
| "join_with c [x] = x"
| "join_with c (x # y # zs) = x @ c # join_with c (y # zs)"

abbreviation newline :: char where "newline \<equiv> CHR 0x0A"

definition is_space :: "char \<Rightarrow> bool" where
  "is_space c = (c \<in> {CHR '' '', CHR 0x09, CHR 0x0A, CHR 0x0B, CHR 0x0C, CHR 0x0D})"

definition trim_by :: "(char \<Rightarrow> bool) \<Rightarrow> string \<Rightarrow> string" where
  "trim_by p s = rev (dropWhile p (rev (dropWhile p s)))"

definition trim_space :: "string \<Rightarrow> string" where
  "trim_space s = trim_by is_space s"

definition trim_char :: "char \<Rightarrow> string \<Rightarrow> string" where
  "trim_char c s = trim_by (\<lambda>x. x = c) s"

definition lower_char :: "char \<Rightarrow> char" where
  "lower_char c = (let n = (of_char c :: nat) in if 65 \<le> n \<and> n \<le> 90 then char_of (n + 32) else c)"

definition to_lower :: "string \<Rightarrow> string" where
  "to_lower s = map lower_char s"

definition has_prefix :: "string \<Rightarrow> string \<Rightarrow> bool" where
  "has_prefix p s = (take (length p) s = p)"

definition has_suffix :: "string \<Rightarrow> string \<Rightarrow> bool" where
  "has_suffix p s = has_prefix (rev p) (rev s)"

fun contains_str :: "string \<Rightarrow> string \<Rightarrow> bool" where
  "contains_str p [] = (p = [])"
| "contains_str p (x # xs) = (has_prefix p (x # xs) \<or> contains_str p xs)"

text \<open>\<open>path.Base\<close>: trailing slashes are dropped, then everything up to the last slash.\<close>

definition path_base :: "string \<Rightarrow> string" where
  "path_base s =
     (if s = [] then ''.''
      else let r = dropWhile (\<lambda>c. c = CHR ''/'') (rev s) in
           if r = [] then ''/'' else rev (takeWhile (\<lambda>c. c \<noteq> CHR ''/'') r))"

text \<open>
  \<open>path.Clean\<close>: the components are read from left to right over a stack of the kept ones (\<open>..\<close> drops
  the last kept component; at the root there is none to drop); \<open>path.Dir\<close> and \<open>path.Join\<close> with it.
\<close>

fun clean_components :: "bool \<Rightarrow> string list \<Rightarrow> string list \<Rightarrow> string list" where
  "clean_components rooted stack [] = rev stack"
| "clean_components rooted stack (c # cs) =
     (if c = [] \<or> c = ''.'' then clean_components rooted stack cs
      else if c = ''..'' then
        (case stack of
           [] \<Rightarrow> clean_components rooted (if rooted then [] else [''..'']) cs
         | t # rest \<Rightarrow>
             if t = ''..'' then clean_components rooted (''..'' # stack) cs
             else clean_components rooted rest cs)
      else clean_components rooted (c # stack) cs)"

definition path_clean :: "string \<Rightarrow> string" where
  "path_clean p =
     (let rooted = has_prefix ''/'' p;
          body = join_with (CHR ''/'') (clean_components rooted [] (split_on (CHR ''/'') p)) in
      if rooted then ''/'' @ body else if body = [] then ''.'' else body)"

definition path_dir :: "string \<Rightarrow> string" where
  "path_dir p = path_clean (rev (dropWhile (\<lambda>c. c \<noteq> CHR ''/'') (rev p)))"

definition path_join :: "string \<Rightarrow> string \<Rightarrow> string" where
  "path_join a b =
     (if a = [] \<and> b = [] then []
      else if a = [] then path_clean b else if b = [] then path_clean a
      else path_clean (a @ ''/'' @ b))"

lemma split_on_nonempty [simp]: "split_on c s \<noteq> []"
  by (induction s) (auto split: list.splits)

lemma split_on_no_sep: "c \<notin> set s \<Longrightarrow> split_on c s = [s]"
  by (induction s) auto

lemma split_on_append:
  "c \<notin> set a \<Longrightarrow> split_on c (a @ c # b) = a # split_on c b"
  by (induction a) auto

lemma join_split [simp]: "join_with c (split_on c s) = s"
proof (induction s)
  case Nil
  then show ?case by simp
next
  case (Cons x xs)
  obtain y ys where "split_on c xs = y # ys" by (metis list.exhaust split_on_nonempty)
  with Cons show ?case by (cases ys) auto
qed

lemma split_join:
  "\<forall>x \<in> set xs. c \<notin> set x \<Longrightarrow> xs \<noteq> [] \<Longrightarrow> split_on c (join_with c xs) = xs"
  by (induction c xs rule: join_with.induct) (auto simp: split_on_no_sep split_on_append)

lemma length_split_on: "length (split_on c s) = Suc (count_list s c)"
  by (induction s) (auto split: list.splits)

lemma trim_by_id:
  "s = [] \<or> (\<not> p (hd s) \<and> \<not> p (last s)) \<Longrightarrow> trim_by p s = s"
  by (cases "s = []") (auto simp: trim_by_def hd_rev dropWhile_eq_self_iff[THEN iffD2])

lemma trim_space_id:
  "s = [] \<or> (\<not> is_space (hd s) \<and> \<not> is_space (last s)) \<Longrightarrow> trim_space s = s"
  unfolding trim_space_def by (rule trim_by_id)

lemma has_prefix_iff: "has_prefix p s = (\<exists>t. s = p @ t)"
  by (auto simp: has_prefix_def) (metis append_take_drop_id)

section \<open>Go maps\<close>

text \<open>
  A Go map is an association list with distinct keys.  Go ranges over a map in an order it does not
  specify: where the order can be seen, the definition takes it as an argument.
\<close>

type_synonym 'v gomap = "(string \<times> 'v) list"

definition well_keyed :: "'v gomap \<Rightarrow> bool" where
  "well_keyed m = distinct (map fst m)"

definition has_key :: "'v gomap \<Rightarrow> string \<Rightarrow> bool" where
  "has_key m k = (map_of m k \<noteq> None)"

text \<open>Reading a missing key of a \<open>map[string]string\<close> gives the empty string.\<close>

definition map_get :: "string gomap \<Rightarrow> string \<Rightarrow> string" where
  "map_get m k = (case map_of m k of None \<Rightarrow> [] | Some v \<Rightarrow> v)"

lemma has_key_iff: "has_key m k = (k \<in> fst ` set m)"
  by (simp add: has_key_def map_of_eq_None_iff)

lemma well_keyed_Nil [simp]: "well_keyed []"
  by (simp add: well_keyed_def)

lemma well_keyed_update [simp]: "well_keyed m \<Longrightarrow> well_keyed (AList.update k v m)"
  by (simp add: well_keyed_def distinct_update)

lemma well_keyed_delete [simp]: "well_keyed m \<Longrightarrow> well_keyed (AList.delete k m)"
  by (simp add: well_keyed_def distinct_delete)

lemma has_key_update [simp]: "has_key (AList.update k v m) j = (j = k \<or> has_key m j)"
  by (simp add: has_key_def update_conv')

lemma has_key_delete [simp]: "has_key (AList.delete k m) j = (j \<noteq> k \<and> has_key m j)"
  by (simp add: has_key_def delete_conv')

lemma has_key_Nil [simp]: "\<not> has_key [] k"
  by (simp add: has_key_def)

lemma map_of_map_entry: "map_of (AList.map_entry k f m) j = (if j = k then map_option f (map_of m k) else map_of m j)"
  by (induction m) (auto split: if_splits)

lemma has_key_map_entry [simp]: "has_key (AList.map_entry k f m) j = has_key m j"
  by (simp add: has_key_def map_of_map_entry)

lemma well_keyed_map_entry [simp]: "well_keyed (AList.map_entry k f m) = well_keyed m"
proof -
  have "map fst (AList.map_entry k f m) = map fst m" by (induction m) auto
  then show ?thesis by (simp add: well_keyed_def)
qed

text \<open>
  The order of a \<open>range\<close> over a map is an argument: a function that permutes the list of keys.
\<close>

type_synonym range_ord = "string list \<Rightarrow> string list"

definition range_order :: "range_ord \<Rightarrow> bool" where
  "range_order ord = (\<forall>ks. mset (ord ks) = mset ks)"

definition range_keys :: "range_ord \<Rightarrow> 'v gomap \<Rightarrow> string list" where
  "range_keys ord m = ord (map fst m)"

definition range_values :: "range_ord \<Rightarrow> 'v gomap \<Rightarrow> 'v list" where
  "range_values ord m = List.map_filter (map_of m) (range_keys ord m)"

lemma range_order_id [simp]: "range_order (\<lambda>ks. ks)"
  by (simp add: range_order_def)

lemma range_order_rev: "range_order rev"
  by (simp add: range_order_def)

lemma mset_range_keys: "range_order ord \<Longrightarrow> mset (range_keys ord m) = mset (map fst m)"
  by (simp add: range_keys_def range_order_def)

lemma set_range_keys: "range_order ord \<Longrightarrow> set (range_keys ord m) = {k. has_key m k}"
  using mset_eq_setD [OF mset_range_keys, of ord m] by (auto simp: has_key_iff)

lemma set_range_values:
  assumes "range_order ord"
  shows "set (range_values ord m) = {v. \<exists>k. map_of m k = Some v}"
proof -
  have "set (range_values ord m) = {v. \<exists>k \<in> set (range_keys ord m). map_of m k = Some v}"
    by (force simp: range_values_def List.map_filter_def)
  then show ?thesis using assms by (auto simp: set_range_keys has_key_def)
qed

lemma map_range_values:
  assumes "\<And>k v. map_of m k = Some v \<Longrightarrow> f v = k" and "range_order ord"
  shows "map f (range_values ord m) = range_keys ord m"
proof -
  have "map f (List.map_filter (map_of m) ks) = ks" if "\<forall>k \<in> set ks. has_key m k" for ks
    using that assms(1) by (induction ks) (auto simp: List.map_filter_simps has_key_def)
  then show ?thesis using assms(2) by (simp add: range_values_def set_range_keys)
qed

lemma distinct_range_keys: "range_order ord \<Longrightarrow> well_keyed m \<Longrightarrow> distinct (range_keys ord m)"
  using mset_eq_imp_distinct_iff [OF mset_range_keys, of ord m] by (simp add: well_keyed_def)

text \<open>
  The interface of a map: what a read returns after a store and after a delete.  The lemmas of the
  locale are the ones the bookkeeping of the volume-group classes rests on.
\<close>

locale key_store =
  fixes get :: "'m \<Rightarrow> 'k \<Rightarrow> 'v option"
    and put :: "'k \<Rightarrow> 'v \<Rightarrow> 'm \<Rightarrow> 'm"
    and del :: "'k \<Rightarrow> 'm \<Rightarrow> 'm"
  assumes get_put: "get (put k v m) = (get m)(k \<mapsto> v)"
    and get_del: "get (del k m) = (get m)(k := None)"
begin

definition held :: "'m \<Rightarrow> 'k set" where
  "held m = dom (get m)"

lemma held_put: "held (put k v m) = insert k (held m)"
  by (simp add: held_def get_put)

lemma held_del: "held (del k m) = held m - {k}"
  by (simp add: held_def get_del)

text \<open>Moving a key from one store to the other keeps the two disjoint.\<close>

lemma move_disjoint:
  "held a \<inter> held b = {} \<Longrightarrow> held (put k v a) \<inter> held (del k b) = {}"
  by (auto simp: held_put held_del)

lemma move_union: "held (put k v a) \<union> held (del k b) = insert k (held a \<union> held b)"
  by (auto simp: held_put held_del)

lemma put_disjoint:
  "held a \<inter> held b = {} \<Longrightarrow> k \<notin> held b \<Longrightarrow> held (put k v a) \<inter> held b = {}"
  by (auto simp: held_put)

end

interpretation gomap: key_store map_of AList.update AList.delete
  by unfold_locales (auto simp: update_conv' delete_conv')

lemma gomap_held: "gomap.held m = {k. has_key m k}"
  by (auto simp: gomap.held_def has_key_def)

end
