(* ===== verification/Types.thy ===== *)
theory Types
  imports Prelude
begin

text \<open>
  The data the program stores and exchanges: the API types of \<open>apis/topolvm/v2\<close> and
  \<open>apis/rawdevice/v1\<close>, lvmd's configuration (\<open>pkg/cluster/topolvm/type.go\<close>), the block-device
  records of \<open>pkg/util/sys\<close>, and the part of Kubernetes' \<open>ConfigMap\<close> and \<open>Node\<close> objects the code
  reads and writes.  A slice or map whose nil value the code tells apart is an \<open>option\<close>.
\<close>

section \<open>TopolvmCluster (apis/topolvm/v2)\<close>

record disk =
  disk_name :: string
  disk_type :: string
  disk_auto :: bool
  disk_path :: string
  disk_size :: "64 word"

record device_class =
  dc_class_name :: string
  dc_vg_name :: string
  dc_device :: "disk list"
  dc_default :: bool
  dc_spare_gb :: "64 word"
  dc_stripe :: "64 word"
  dc_stripe_size :: string

record node_devices =
  nd_node_name :: string
  nd_device_classes :: "device_class list"

record storage =
  st_device_classes :: "node_devices list option"
  st_use_all_nodes :: bool
  st_use_all_devices :: bool
  st_devices :: "disk list option"
  st_volume_group_name :: string
  st_class_name :: string
  st_use_loop :: bool

record cluster_spec =
  sp_topolvm_version :: string
  sp_certs_secret :: string
  sp_storage :: storage
  sp_clean_up :: bool

text \<open>
  \<open>ConditionType\<close>, \<open>ClassStateType\<close> and \<open>DeviceStateType\<close> are named string types: the zero value is
  the empty string, and the code does leave it in place.
\<close>

definition ConditionReady :: string where "ConditionReady = ''Ready''"
definition ConditionFailure :: string where "ConditionFailure = ''Failure''"
definition ConditionUnknown :: string where "ConditionUnknown = ''Unknown''"
definition ConditionPending :: string where "ConditionPending = ''Pending''"

definition ClassReady :: string where "ClassReady = ''Ready''"
definition ClassUnReady :: string where "ClassUnReady = ''UnReady''"

definition DeviceOnline :: string where "DeviceOnline = ''Online''"
definition DeviceOffline :: string where "DeviceOffline = ''Offline''"

lemmas phase_defs = ConditionReady_def ConditionFailure_def ConditionUnknown_def
  ConditionPending_def ClassReady_def ClassUnReady_def DeviceOnline_def DeviceOffline_def

record device_state =
  ds_name :: string
  ds_state :: string
  ds_message :: string

record class_state =
  cs_name :: string
  cs_vg_name :: string
  cs_state :: string
  cs_message :: string
  cs_device_states :: "device_state list"

record loop_state =
  ls_name :: string
  ls_file :: string
  ls_device_name :: string
  ls_status :: string
  ls_message :: string

record node_storage_state =
  nss_node :: string
  nss_phase :: string
  nss_fail_classes :: "class_state list"
  nss_success_classes :: "class_state list"
  nss_loops :: "loop_state list"

record cluster_status =
  cst_phase :: string
  cst_node_storage :: "node_storage_state list"

record topolvm_cluster =
  tc_name :: string
  tc_namespace :: string
  tc_finalizers :: "string list"
  tc_deleted :: bool
  tc_created :: nat
  tc_spec :: cluster_spec
  tc_status :: cluster_status

text \<open>Zero values, as \<open>T{}\<close> in Go.\<close>

definition zero_node_storage_state :: node_storage_state where
  "zero_node_storage_state =
     \<lparr>nss_node = [], nss_phase = [], nss_fail_classes = [], nss_success_classes = [], nss_loops = []\<rparr>"

definition zero_class_state :: class_state where
  "zero_class_state =
     \<lparr>cs_name = [], cs_vg_name = [], cs_state = [], cs_message = [], cs_device_states = []\<rparr>"

definition zero_device_state :: device_state where
  "zero_device_state = \<lparr>ds_name = [], ds_state = [], ds_message = []\<rparr>"

definition zero_loop_state :: loop_state where
  "zero_loop_state =
     \<lparr>ls_name = [], ls_file = [], ls_device_name = [], ls_status = [], ls_message = []\<rparr>"

definition zero_device_class :: device_class where
  "zero_device_class =
     \<lparr>dc_class_name = [], dc_vg_name = [], dc_device = [], dc_default = False, dc_spare_gb = 0,
      dc_stripe = 0, dc_stripe_size = []\<rparr>"

definition zero_disk :: disk where
  "zero_disk = \<lparr>disk_name = [], disk_type = [], disk_auto = False, disk_path = [], disk_size = 0\<rparr>"

lemmas zero_defs = zero_node_storage_state_def zero_class_state_def zero_device_state_def
  zero_loop_state_def zero_device_class_def zero_disk_def

section \<open>RawDevice (apis/rawdevice/v1)\<close>

record raw_device =
  rd_name :: string
  rd_labels :: "string gomap"
  rd_node_name :: string
  rd_size :: "64 word"
  rd_type :: string
  rd_real_path :: string
  rd_major :: "32 word"
  rd_minor :: "32 word"
  rd_uuid :: string
  rd_available :: bool
  rd_status_name :: string

section \<open>lvmd configuration (pkg/cluster/topolvm/type.go)\<close>

record lvmd_device_class =
  ldc_name :: string
  ldc_volume_group :: string
  ldc_spare_gb :: "64 word"
  ldc_default :: bool
  ldc_stripe :: "64 word"
  ldc_stripe_size :: string

record lvmd_conf =
  lc_socket_name :: string
  lc_device_classes :: "lvmd_device_class list"

record node_status_metrics =
  nsm_node :: string
  nsm_status :: "8 word"

record metrics =
  mt_cluster :: string
  mt_cluster_status :: "8 word"
  mt_node_status :: "node_status_metrics list"

section \<open>Block devices (pkg/util/sys)\<close>

record partition =
  pt_name :: string
  pt_size :: "64 word"
  pt_label :: string
  pt_filesystem :: string

record local_disk =
  ld_name :: string
  ld_parent :: string
  ld_has_children :: bool
  ld_dev_links :: string
  ld_size :: "64 word"
  ld_uuid :: string
  ld_serial :: string
  ld_type :: string
  ld_rotational :: bool
  ld_readonly :: bool
  ld_partitions :: "partition list"
  ld_filesystem :: string
  ld_vendor :: string
  ld_model :: string
  ld_wwn :: string
  ld_wwn_vendor_extension :: string
  ld_empty :: bool
  ld_real_path :: string
  ld_mount_point :: string
  ld_kernel_name :: string
  ld_encrypted :: bool
  ld_major :: "32 word"
  ld_minor :: "32 word"

record disk_info =
  di_disk :: local_disk
  di_available :: bool
  di_message :: string

definition zero_local_disk :: local_disk where
  "zero_local_disk =
     \<lparr>ld_name = [], ld_parent = [], ld_has_children = False, ld_dev_links = [], ld_size = 0, ld_uuid = [],
      ld_serial = [], ld_type = [], ld_rotational = False, ld_readonly = False, ld_partitions = [],
      ld_filesystem = [], ld_vendor = [], ld_model = [], ld_wwn = [], ld_wwn_vendor_extension = [],
      ld_empty = False, ld_real_path = [], ld_mount_point = [], ld_kernel_name = [], ld_encrypted = False,
      ld_major = 0, ld_minor = 0\<rparr>"

section \<open>Kubernetes objects\<close>

text \<open>A ConfigMap; its \<open>Data\<close> is a Go map that can be nil.\<close>

record config_map =
  cm_name :: string
  cm_namespace :: string
  cm_labels :: "string gomap"
  cm_annotations :: "string gomap"
  cm_data :: "string gomap option"

text \<open>Reading from a nil map finds nothing; assigning into one panics.\<close>

definition cm_lookup :: "config_map \<Rightarrow> string \<Rightarrow> string option" where
  "cm_lookup cm k = (case cm_data cm of None \<Rightarrow> None | Some d \<Rightarrow> map_of d k)"

definition cm_get :: "config_map \<Rightarrow> string \<Rightarrow> string" where
  "cm_get cm k = (case cm_lookup cm k of None \<Rightarrow> [] | Some v \<Rightarrow> v)"

definition cm_set :: "string \<Rightarrow> string \<Rightarrow> config_map \<Rightarrow> config_map outcome" where
  "cm_set k v cm =
     (case cm_data cm of
        None \<Rightarrow> Panic ''assignment to entry in nil map''
      | Some d \<Rightarrow> Ok (cm\<lparr>cm_data := Some (AList.update k v d)\<rparr>))"

definition cm_delete :: "string \<Rightarrow> config_map \<Rightarrow> config_map" where
  "cm_delete k cm = cm\<lparr>cm_data := map_option (AList.delete k) (cm_data cm)\<rparr>"

lemma cm_lookup_set:
  "cm_set k v cm = Ok cm' \<Longrightarrow> cm_lookup cm' j = (if j = k then Some v else cm_lookup cm j)"
  by (auto simp: cm_set_def cm_lookup_def update_conv' split: option.splits)

lemma cm_lookup_delete [simp]:
  "cm_lookup (cm_delete k cm) j = (if j = k then None else cm_lookup cm j)"
  by (auto simp: cm_delete_def cm_lookup_def delete_conv' split: option.splits)

lemma cm_set_meta:
  "cm_set k v cm = Ok cm' \<Longrightarrow> cm_name cm' = cm_name cm \<and> cm_namespace cm' = cm_namespace cm
     \<and> cm_annotations cm' = cm_annotations cm \<and> cm_labels cm' = cm_labels cm"
  by (auto simp: cm_set_def split: option.splits)

lemma cm_set_defined: "cm_data cm = Some d \<Longrightarrow> \<exists>cm' d'. cm_set k v cm = Ok cm' \<and> cm_data cm' = Some d'"
  by (simp add: cm_set_def)

text \<open>Owner references, and the batch jobs the operator makes.\<close>

record owner_ref =
  or_api_version :: string
  or_kind :: string
  or_name :: string
  or_uid :: string
  or_controller :: "bool option"
  or_block_owner_deletion :: "bool option"

record job_container =
  jc_name :: string
  jc_image :: string
  jc_command :: "string list"
  jc_limits :: "string gomap"
  jc_requests :: "string gomap"
  jc_privileged :: bool
  jc_run_as_user :: int
  jc_mounts :: "string gomap"
  jc_env :: "string gomap"

record job_template =
  jt_name :: string
  jt_labels :: "string gomap"
  jt_service_account :: string
  jt_containers :: "job_container list"
  jt_tolerates_all :: bool
  jt_node_selector :: "string gomap"
  jt_restart_policy :: string
  jt_host_paths :: "string gomap"
  jt_host_ipc :: bool
  jt_host_pid :: bool

record batch_job =
  jb_name :: string
  jb_namespace :: string
  jb_labels :: "string gomap"
  jb_owners :: "owner_ref list"
  jb_template :: job_template
  jb_completion_mode :: "string option"
  jb_completions :: "int option"
  jb_parallelism :: "int option"

record job_status =
  js_active :: int
  js_failed :: int
  js_succeeded :: int

text \<open>Constants of \<open>pkg/cluster/topolvm/common.go\<close>.\<close>

definition LvmdConfigMapKey :: string where "LvmdConfigMapKey = ''lvmd.yaml''"
definition LocalDiskCMData :: string where "LocalDiskCMData = ''devices''"
definition VgStatusConfigMapKey :: string where "VgStatusConfigMapKey = ''status.json''"
definition LvmdAnnotationsNodeKey :: string where "LvmdAnnotationsNodeKey = ''node-name''"
definition LvmdConfigMapLabelKey :: string where "LvmdConfigMapLabelKey = ''topolvm/lvmdconfig''"
definition LvmdConfigMapLabelValue :: string where "LvmdConfigMapLabelValue = ''lvmdconfig''"
definition LvmdSocketPath :: string where "LvmdSocketPath = ''/run/topolvm/lvmd.sock''"
definition LoopCreateSuccessful :: string where "LoopCreateSuccessful = ''successful''"
definition CapacityKeyPrefix :: string where
  "CapacityKeyPrefix = ''capacity.topolvm.cybozu.com/''"

lemmas cm_key_defs = LvmdConfigMapKey_def LocalDiskCMData_def VgStatusConfigMapKey_def
  LvmdAnnotationsNodeKey_def LvmdConfigMapLabelKey_def LvmdConfigMapLabelValue_def

text \<open>\<open>fmt.Sprintf\<close> with one \<open>%s\<close>: the format is split at it.\<close>

record format1 =
  fmt_before :: string
  fmt_after :: string

definition sprintf1 :: "format1 \<Rightarrow> string \<Rightarrow> string" where
  "sprintf1 f s = fmt_before f @ s @ fmt_after f"

definition LvmdConfigMapFmt :: format1 where
  "LvmdConfigMapFmt = \<lparr>fmt_before = ''lvmdconfig-'', fmt_after = []\<rparr>"
definition TopolvmNodeDeploymentFmt :: format1 where
  "TopolvmNodeDeploymentFmt = \<lparr>fmt_before = ''topolvm-node-'', fmt_after = []\<rparr>"
definition PrepareVgJobFmt :: format1 where
  "PrepareVgJobFmt = \<lparr>fmt_before = ''topolvm-prepare-vg-'', fmt_after = []\<rparr>"
definition CleanDeviceJobFmt :: format1 where
  "CleanDeviceJobFmt = \<lparr>fmt_before = ''topolvm-clean-'', fmt_after = []\<rparr>"

text \<open>
  \<open>TruncateNodeName\<close> of \<open>pkg/operator/k8sutil/k8sutils.go\<close>: a name that would not fit a DNS label
  (\<open>validation.DNS1035LabelMaxLength\<close>, 63) is replaced by its hash.  The hash (\<open>Hash\<close>: the first
  16 bytes of SHA-256 in hexadecimal) is an argument.
\<close>

definition dns1035_label_max_length :: nat where "dns1035_label_max_length = 63"

definition TruncateNodeName :: "(string \<Rightarrow> string) \<Rightarrow> format1 \<Rightarrow> string \<Rightarrow> string" where
  "TruncateNodeName hash f node_name =
     sprintf1 f (if length node_name + length (sprintf1 f []) > dns1035_label_max_length
                 then hash node_name else node_name)"

lemma length_sprintf1 [simp]: "length (sprintf1 f s) = length (sprintf1 f []) + length s"
  by (simp add: sprintf1_def)

lemma sprintf1_inj: "sprintf1 f s = sprintf1 f t \<Longrightarrow> s = t"
  by (simp add: sprintf1_def)

section \<open>Encodings\<close>

text \<open>
  \<open>encoding/json\<close> and \<open>gopkg.in/yaml.v2\<close> are arguments: what the program writes into a config map, and
  how it reads it back.  Marshalling these types does not fail.
\<close>

record codec =
  co_devices :: "disk_info list \<Rightarrow> string"
  co_status :: "node_storage_state \<Rightarrow> string"
  co_status_parse :: "string \<Rightarrow> go_error + node_storage_state"
  co_lvmd :: "lvmd_conf \<Rightarrow> string"
  co_lvmd_parse :: "string \<Rightarrow> go_error + lvmd_conf"
  co_class :: "device_class \<Rightarrow> string"
  co_class_parse :: "string \<Rightarrow> go_error + lvmd_device_class"

text \<open>The fields of a device class that lvmd's configuration has under the same YAML keys.\<close>

definition lvmd_class_of :: "device_class \<Rightarrow> lvmd_device_class" where
  "lvmd_class_of d =
     \<lparr>ldc_name = dc_class_name d, ldc_volume_group = dc_vg_name d, ldc_spare_gb = dc_spare_gb d,
      ldc_default = dc_default d, ldc_stripe = dc_stripe d, ldc_stripe_size = dc_stripe_size d\<rparr>"

text \<open>The documented behaviour the program relies on: what was written is read back.\<close>

definition codec_ok :: "codec \<Rightarrow> bool" where
  "codec_ok co = ((\<forall>s. co_status_parse co (co_status co s) = Inr s)
     \<and> (\<forall>c. co_lvmd_parse co (co_lvmd co c) = Inr c)
     \<and> (\<forall>d. co_class_parse co (co_class co d) = Inr (lvmd_class_of d)))"

end
