(* ===== verification/World.thy ===== *)
theory World
  imports Types
begin

text \<open>
  How the program acts on its surroundings.  A program is a function from a world to an outcome and
  the next world.  A world holds the environment (the node's devices and processes, the API server:
  an arbitrary type, only ever touched by the functions given as arguments for it) and the trace of
  the events the program has caused so far, so that theorems can speak of the order of effects.
  The second half models \<open>pkg/util/exec/exec.go\<close>, the runner of external commands.
\<close>

section \<open>Worlds, events and programs\<close>

datatype event =
    RunCmd string "string list"
  | CmCreate config_map
  | CmPatch config_map config_map
  | CmUpdate config_map
  | RawCreate raw_device
  | RawUpdate raw_device
  | RawUpdateStatus raw_device
  | RawDelete string
  | ClusterUpdate topolvm_cluster
  | ClusterUpdateStatus topolvm_cluster
  | CmDelete string string
  | JobCreate batch_job
  | JobDelete string
  | ResourceCreate string
  | ResourceUpdate string
  | ResourceDelete string
  | NodePatch string
  | SendMetric metrics
  | FsMkdirAll string
  | FsMknod string int
  | FsRemove string
  | FsWrite string string
  | Launch string
  | Sleep nat

record 'e world =
  w_env :: 'e
  w_trace :: "event list"

type_synonym ('e, 'a) prog = "'e world \<Rightarrow> 'a outcome \<times> 'e world"

definition ret :: "'a \<Rightarrow> ('e, 'a) prog" where
  "ret x = (\<lambda>w. (Ok x, w))"

definition failM :: "go_error \<Rightarrow> ('e, 'a) prog" where
  "failM e = (\<lambda>w. (Fail e, w))"

definition panicM :: "string \<Rightarrow> ('e, 'a) prog" where
  "panicM m = (\<lambda>w. (Panic m, w))"

text \<open>Sequencing with \<open>if err != nil { return err }\<close> after the first step.\<close>

definition bindM :: "('e, 'a) prog \<Rightarrow> ('a \<Rightarrow> ('e, 'b) prog) \<Rightarrow> ('e, 'b) prog" where
  "bindM m f = (\<lambda>w. case m w of
      (Ok x, w') \<Rightarrow> f x w'
    | (Fail e, w') \<Rightarrow> (Fail e, w')
    | (Panic p, w') \<Rightarrow> (Panic p, w'))"

text \<open>A call whose error the caller inspects itself; a panic still ends the caller.\<close>

definition attempt :: "('e, 'a) prog \<Rightarrow> ('e, go_error + 'a) prog" where
  "attempt m = (\<lambda>w. case m w of
      (Ok x, w') \<Rightarrow> (Ok (Inr x), w')
    | (Fail e, w') \<Rightarrow> (Ok (Inl e), w')
    | (Panic p, w') \<Rightarrow> (Panic p, w'))"

definition lift_outcome :: "'a outcome \<Rightarrow> ('e, 'a) prog" where
  "lift_outcome r = (\<lambda>w. (r, w))"

definition lift_sum :: "go_error + 'a \<Rightarrow> ('e, 'a) prog" where
  "lift_sum r = (case r of Inl e \<Rightarrow> failM e | Inr x \<Rightarrow> ret x)"

text \<open>A call's error wrapped with \<open>errors.Wrap\<close>.\<close>

definition wrapM :: "string \<Rightarrow> ('e, 'a) prog \<Rightarrow> ('e, 'a) prog" where
  "wrapM msg m = (\<lambda>w. case m w of
      (Ok x, w') \<Rightarrow> (Ok x, w')
    | (Fail e, w') \<Rightarrow> (Fail (Wrapped msg e), w')
    | (Panic p, w') \<Rightarrow> (Panic p, w'))"

text \<open>\<open>for _, x := range xs\<close> over a state, with early return on an error.\<close>

fun for_each :: "('a \<Rightarrow> 's \<Rightarrow> ('e, 's) prog) \<Rightarrow> 'a list \<Rightarrow> 's \<Rightarrow> ('e, 's) prog" where
  "for_each f [] s = ret s"
| "for_each f (x # xs) s = bindM (f x s) (for_each f xs)"

definition emit :: "event \<Rightarrow> ('e, unit) prog" where
  "emit ev = (\<lambda>w. (Ok (), w\<lparr>w_trace := w_trace w @ [ev]\<rparr>))"

text \<open>
  A call to the environment: it returns a value or an error, may change the environment, and the
  events it counts as are recorded.
\<close>

type_synonym ('e, 'a) call = "'e \<Rightarrow> (go_error + 'a) \<times> 'e"

definition external :: "event list \<Rightarrow> ('e, 'a) call \<Rightarrow> ('e, 'a) prog" where
  "external evs c = (\<lambda>w. case c (w_env w) of (r, e') \<Rightarrow>
     ((case r of Inl err \<Rightarrow> Fail err | Inr x \<Rightarrow> Ok x),
      w\<lparr>w_env := e', w_trace := w_trace w @ evs\<rparr>))"

lemmas prog_defs = ret_def failM_def panicM_def bindM_def attempt_def lift_outcome_def
  lift_sum_def wrapM_def emit_def external_def

lemma bindM_ret [simp]: "bindM (ret x) f = f x"
  by (simp add: bindM_def ret_def)

lemma bindM_failM [simp]: "bindM (failM e) f = failM e"
  by (simp add: bindM_def failM_def)

lemma bindM_panicM [simp]: "bindM (panicM p) f = panicM p"
  by (simp add: bindM_def panicM_def)

lemma bindM_ret_right [simp]: "bindM m ret = m"
  by (rule ext) (auto simp: bindM_def ret_def split: outcome.splits prod.splits)

lemma bindM_assoc: "bindM (bindM m f) g = bindM m (\<lambda>x. bindM (f x) g)"
  by (rule ext) (auto simp: bindM_def split: outcome.splits prod.splits)

lemma bindM_OkE:
  assumes "bindM m f w = (Ok y, w')"
  obtains x w1 where "m w = (Ok x, w1)" and "f x w1 = (Ok y, w')"
  using assms by (auto simp: bindM_def split: outcome.splits prod.splits)

lemma bindM_eqs:
  "m w = (Ok x, w1) \<Longrightarrow> bindM m f w = f x w1"
  "m w = (Fail e, w1) \<Longrightarrow> bindM m f w = (Fail e, w1)"
  "m w = (Panic p, w1) \<Longrightarrow> bindM m f w = (Panic p, w1)"
  by (simp_all add: bindM_def)

lemma attempt_eqs:
  "m w = (Ok x, w1) \<Longrightarrow> attempt m w = (Ok (Inr x), w1)"
  "m w = (Fail e, w1) \<Longrightarrow> attempt m w = (Ok (Inl e), w1)"
  "m w = (Panic p, w1) \<Longrightarrow> attempt m w = (Panic p, w1)"
  by (simp_all add: attempt_def)

lemma attempt_external:
  "attempt (external evs c) w =
     (Ok (fst (c (w_env w))), w\<lparr>w_env := snd (c (w_env w)), w_trace := w_trace w @ evs\<rparr>)"
  by (simp add: attempt_def external_def split: prod.splits sum.splits)

lemma for_each_append:
  "for_each f (xs @ ys) s = bindM (for_each f xs s) (for_each f ys)"
proof (induction xs arbitrary: s)
  case (Cons x xs)
  then have "for_each f (xs @ ys) = (\<lambda>s. bindM (for_each f xs s) (for_each f ys))" by (rule ext)
  then show ?case by (simp add: bindM_assoc)
qed simp

text \<open>A successful loop keeps what each of its successful steps keeps.\<close>

lemma for_each_invariant:
  assumes "for_each f xs s w = (Ok s', w')" and "I s"
    and "\<And>x s w s1 w1. x \<in> set xs \<Longrightarrow> I s \<Longrightarrow> f x s w = (Ok s1, w1) \<Longrightarrow> I s1"
  shows "I s'"
  using assms
proof (induction xs arbitrary: s w)
  case Nil
  then show ?case by (simp add: ret_def)
next
  case (Cons x xs)
  from Cons.prems(1) obtain s1 w1 where f: "f x s w = (Ok s1, w1)" and rest: "for_each f xs s1 w1 = (Ok s', w')"
    by (auto elim: bindM_OkE)
  from Cons.prems(3) [OF _ Cons.prems(2) f] have "I s1" by simp
  from rest this show ?case by (rule Cons.IH) (rule Cons.prems(3), simp_all)
qed

section \<open>What a program emits\<close>

text \<open>\<open>emits P m\<close>: whatever the world, \<open>m\<close> only appends events that satisfy \<open>P\<close> to the trace.\<close>

definition emits :: "(event \<Rightarrow> bool) \<Rightarrow> ('e, 'a) prog \<Rightarrow> bool" where
  "emits P m = (\<forall>w. \<exists>es. w_trace (snd (m w)) = w_trace w @ es \<and> list_all P es)"

lemma emitsI: "(\<And>w. \<exists>es. w_trace (snd (m w)) = w_trace w @ es \<and> list_all P es) \<Longrightarrow> emits P m"
  by (simp add: emits_def)

lemma emits_at: "emits P m \<Longrightarrow> m w = (r, w') \<Longrightarrow> \<exists>es. w_trace w' = w_trace w @ es \<and> list_all P es"
  by (metis emits_def snd_conv)

lemma emits_mono: "emits P m \<Longrightarrow> (\<And>e. P e \<Longrightarrow> Q e) \<Longrightarrow> emits Q m"
  unfolding emits_def by (metis list.pred_mono_strong)

lemma emits_ret [emits_intros]: "emits P (ret x)"
  by (simp add: emits_def ret_def)

lemma emits_failM [emits_intros]: "emits P (failM e)"
  by (simp add: emits_def failM_def)

lemma emits_panicM [emits_intros]: "emits P (panicM p)"
  by (simp add: emits_def panicM_def)

lemma emits_lift_outcome [emits_intros]: "emits P (lift_outcome r)"
  by (simp add: emits_def lift_outcome_def)

lemma emits_lift_sum [emits_intros]: "emits P (lift_sum r)"
  by (simp add: lift_sum_def emits_ret emits_failM split: sum.split)

lemma emits_emit [emits_intros]: "P e \<Longrightarrow> emits P (emit e)"
  by (simp add: emits_def emit_def)

lemma emits_external [emits_intros]: "list_all P evs \<Longrightarrow> emits P (external evs c)"
  by (simp add: emits_def external_def split: prod.splits)

lemma emits_attempt [emits_intros]: "emits P m \<Longrightarrow> emits P (attempt m)"
  by (auto simp: emits_def attempt_def split: prod.splits outcome.splits) (metis snd_conv)+

lemma emits_wrapM [emits_intros]: "emits P m \<Longrightarrow> emits P (wrapM msg m)"
  by (auto simp: emits_def wrapM_def split: prod.splits outcome.splits) (metis snd_conv)+

lemma emits_bindM [emits_intros]:
  assumes "emits P m" and "\<And>x. emits P (f x)"
  shows "emits P (bindM m f)"
proof (rule emitsI)
  fix w
  obtain r w1 where m: "m w = (r, w1)" by (cases "m w")
  with assms(1) obtain es where es: "w_trace w1 = w_trace w @ es" "list_all P es"
    using emits_at by blast
  show "\<exists>es. w_trace (snd (bindM m f w)) = w_trace w @ es \<and> list_all P es"
  proof (cases r)
    case (Ok x)
    obtain r2 w2 where f: "f x w1 = (r2, w2)" by (cases "f x w1")
    with assms(2) obtain fs where "w_trace w2 = w_trace w1 @ fs" "list_all P fs"
      using emits_at by blast
    with m f Ok es show ?thesis by (auto simp: bindM_eqs)
  qed (use m es in \<open>auto simp: bindM_eqs\<close>)
qed

lemma emits_for_each [emits_intros]:
  "(\<And>x s. emits P (f x s)) \<Longrightarrow> emits P (for_each f xs s)"
  by (induction xs arbitrary: s) (auto intro: emits_intros)

lemma emits_if [emits_intros]: "emits P a \<Longrightarrow> emits P b \<Longrightarrow> emits P (if c then a else b)"
  by simp

lemma emits_option [emits_intros]:
  "emits P a \<Longrightarrow> (\<And>x. emits P (b x)) \<Longrightarrow> emits P (case o1 of None \<Rightarrow> a | Some x \<Rightarrow> b x)"
  by (cases o1) auto

lemma emits_sum [emits_intros]:
  "(\<And>x. emits P (a x)) \<Longrightarrow> (\<And>x. emits P (b x)) \<Longrightarrow> emits P (case s of Inl x \<Rightarrow> a x | Inr x \<Rightarrow> b x)"
  by (cases s) auto

lemma emits_prod [emits_intros]:
  "(\<And>x y. emits P (a x y)) \<Longrightarrow> emits P (case p of (x, y) \<Rightarrow> a x y)"
  by (cases p) auto

lemma emits_list [emits_intros]:
  "emits P a \<Longrightarrow> (\<And>x xs. emits P (b x xs)) \<Longrightarrow> emits P (case l of [] \<Rightarrow> a | x # xs \<Rightarrow> b x xs)"
  by (cases l) auto

section \<open>Programs that do not panic\<close>

definition is_panic :: "'a outcome \<Rightarrow> bool" where
  "is_panic r = (case r of Panic p \<Rightarrow> True | _ \<Rightarrow> False)"

definition no_panic :: "('e, 'a) prog \<Rightarrow> bool" where
  "no_panic m = (\<forall>w. \<not> is_panic (fst (m w)))"

named_theorems no_panic_intros \<open>compositional rules for the absence of panics\<close>

lemma no_panic_basic [no_panic_intros]:
  "no_panic (ret x)" "no_panic (failM e)" "no_panic (external evs c)" "no_panic (emit ev)"
  "no_panic (lift_sum r)"
  by (auto simp: no_panic_def is_panic_def prog_defs split: prod.splits sum.splits)

lemma no_panic_attempt [no_panic_intros]: "no_panic m \<Longrightarrow> no_panic (attempt m)"
  unfolding no_panic_def is_panic_def attempt_def
  by (auto split: prod.splits outcome.splits) (metis fst_conv outcome.simps(12))

lemma no_panic_wrapM [no_panic_intros]: "no_panic m \<Longrightarrow> no_panic (wrapM msg m)"
  unfolding no_panic_def is_panic_def wrapM_def
  by (auto split: prod.splits outcome.splits) (metis fst_conv outcome.simps(12))

lemma no_panic_bindM [no_panic_intros]:
  "no_panic m \<Longrightarrow> (\<And>x. no_panic (f x)) \<Longrightarrow> no_panic (bindM m f)"
  unfolding no_panic_def is_panic_def bindM_def
  by (auto split: prod.splits outcome.splits) (metis fst_conv outcome.simps(12))+

lemma no_panic_for_each [no_panic_intros]:
  "(\<And>x s. no_panic (f x s)) \<Longrightarrow> no_panic (for_each f xs s)"
  by (induction xs arbitrary: s) (auto intro: no_panic_intros)

lemma no_panic_if [no_panic_intros]: "no_panic a \<Longrightarrow> no_panic b \<Longrightarrow> no_panic (if c then a else b)"
  by simp

section \<open>External commands (pkg/util/exec/exec.go)\<close>

text \<open>
  What the operating system reports of a finished process; \<open>pr_err\<close> is the error of \<open>cmd.Start\<close> or
  \<open>cmd.Wait\<close>.  Running a process is an argument (\<open>os\<close>).
\<close>

record proc_result =
  pr_stdout :: string
  pr_stderr :: string
  pr_combined :: string
  pr_err :: "go_error option"

type_synonym 'e os = "string \<Rightarrow> string list \<Rightarrow> 'e \<Rightarrow> proc_result \<times> 'e"

definition run_process :: "'e os \<Rightarrow> string \<Rightarrow> string list \<Rightarrow> ('e, proc_result) prog" where
  "run_process os cmd args = external [RunCmd cmd args] (\<lambda>e. case os cmd args e of (r, e') \<Rightarrow> (Inr r, e'))"

fun assertErrorType :: "go_error \<Rightarrow> string \<Rightarrow> string" where
  "assertErrorType (ExitError st m) err_out = err_out"
| "assertErrorType (ExecError m) err_out = m"
| "assertErrorType _ err_out = []"

definition runCommandWithOutput :: "bool \<Rightarrow> proc_result \<Rightarrow> string \<times> go_error option" where
  "runCommandWithOutput combined r =
     (let output =
        (if combined then pr_combined r
         else case pr_err r of
                None \<Rightarrow> pr_stdout r
              | Some err \<Rightarrow> pr_stdout r @ ''. '' @ assertErrorType err (pr_stderr r))
      in (trim_space output, pr_err r))"

text \<open>\<open>ExecuteCommand\<close>: start, log the output, wait; only the error matters to the caller.\<close>

definition ExecuteCommand :: "'e os \<Rightarrow> string \<Rightarrow> string list \<Rightarrow> ('e, unit) prog" where
  "ExecuteCommand os cmd args =
     bindM (run_process os cmd args) (\<lambda>r.
       case pr_err r of None \<Rightarrow> ret () | Some err \<Rightarrow> failM err)"

text \<open>\<open>ExecuteCommandWithOutput\<close> returns the output beside the error, so both are the value here.\<close>

definition ExecuteCommandWithOutput ::
  "'e os \<Rightarrow> string \<Rightarrow> string list \<Rightarrow> ('e, string \<times> go_error option) prog" where
  "ExecuteCommandWithOutput os cmd args =
     bindM (run_process os cmd args) (\<lambda>r. ret (runCommandWithOutput False r))"

definition ExecuteCommandWithCombinedOutput ::
  "'e os \<Rightarrow> string \<Rightarrow> string list \<Rightarrow> ('e, string \<times> go_error option) prog" where
  "ExecuteCommandWithCombinedOutput os cmd args =
     bindM (run_process os cmd args) (\<lambda>r. ret (runCommandWithOutput True r))"

text \<open>The usual caller: \<open>out, err := ...; if err != nil { return err }\<close>.\<close>

definition output_or_fail :: "('e, string \<times> go_error option) prog \<Rightarrow> ('e, string) prog" where
  "output_or_fail m =
     bindM m (\<lambda>(out, err). case err of None \<Rightarrow> ret out | Some e \<Rightarrow> failM e)"

lemma emits_run_process [emits_intros]: "P (RunCmd cmd args) \<Longrightarrow> emits P (run_process os cmd args)"
  by (auto simp: run_process_def intro: emits_intros)

lemma emits_ExecuteCommand [emits_intros]:
  "P (RunCmd cmd args) \<Longrightarrow> emits P (ExecuteCommand os cmd args)"
  unfolding ExecuteCommand_def by (intro emits_intros)

lemma emits_ExecuteCommandWithOutput [emits_intros]:
  "P (RunCmd cmd args) \<Longrightarrow> emits P (ExecuteCommandWithOutput os cmd args)"
  unfolding ExecuteCommandWithOutput_def by (intro emits_intros)

lemma emits_output_or_fail [emits_intros]: "emits P m \<Longrightarrow> emits P (output_or_fail m)"
  unfolding output_or_fail_def by (intro emits_intros)

lemma no_panic_option [no_panic_intros]:
  "no_panic a \<Longrightarrow> (\<And>x. no_panic (b x)) \<Longrightarrow> no_panic (case o1 of None \<Rightarrow> a | Some x \<Rightarrow> b x)"
  by (cases o1) auto

lemma no_panic_sum [no_panic_intros]:
  "(\<And>x. no_panic (a x)) \<Longrightarrow> (\<And>x. no_panic (b x)) \<Longrightarrow>
     no_panic (case s of Inl x \<Rightarrow> a x | Inr x \<Rightarrow> b x)"
  by (cases s) auto

lemma no_panic_prod [no_panic_intros]:
  "(\<And>x y. no_panic (a x y)) \<Longrightarrow> no_panic (case p of (x, y) \<Rightarrow> a x y)"
  by (cases p) auto

lemma no_panic_run_process [no_panic_intros]: "no_panic (run_process os cmd args)"
  unfolding run_process_def by (intro no_panic_intros)

lemma no_panic_ExecuteCommand [no_panic_intros]: "no_panic (ExecuteCommand os cmd args)"
  unfolding ExecuteCommand_def by (intro no_panic_intros)

lemma no_panic_ExecuteCommandWithOutput [no_panic_intros]:
  "no_panic (ExecuteCommandWithOutput os cmd args)"
  unfolding ExecuteCommandWithOutput_def by (intro no_panic_intros)

lemma no_panic_output_or_fail [no_panic_intros]: "no_panic m \<Longrightarrow> no_panic (output_or_fail m)"
  unfolding output_or_fail_def by (intro no_panic_intros)

text \<open>The two command runners, evaluated.\<close>

lemma ExecuteCommand_eq:
  "os cmd args (w_env w) = (r, e') \<Longrightarrow>
     ExecuteCommand os cmd args w =
       ((case pr_err r of None \<Rightarrow> Ok () | Some err \<Rightarrow> Fail err),
        w\<lparr>w_env := e', w_trace := w_trace w @ [RunCmd cmd args]\<rparr>)"
  by (auto simp: ExecuteCommand_def run_process_def prog_defs split: option.splits)

lemma ExecuteCommandWithOutput_eq:
  "os cmd args (w_env w) = (r, e') \<Longrightarrow>
     ExecuteCommandWithOutput os cmd args w =
       (Ok (runCommandWithOutput False r),
        w\<lparr>w_env := e', w_trace := w_trace w @ [RunCmd cmd args]\<rparr>)"
  by (auto simp: ExecuteCommandWithOutput_def run_process_def prog_defs)

end
