(* ===== verification/Lvm.thy ===== *)
theory Lvm
  imports World
begin

text \<open>
  \<open>pkg/util/sys/lvm.go\<close>: the commands of the LVM family, run in the host's namespaces through
  \<open>nsenter\<close>, and the parser of their report output.  The lemmas show what each operation runs, in
  which order and under which guard: a volume group or physical volume that still holds a logical
  volume is never removed, and the parser reads back what the tools print.
\<close>

section \<open>Running LVM\<close>

definition nsenter_args :: "string \<Rightarrow> string list \<Rightarrow> string list" where
  "nsenter_args cmd args = [''-u'', ''-i'', ''-n'', ''-m'', ''-p'', ''-t'', ''1'', cmd] @ args"

definition wrapExecCommandWithOutput ::
  "'e os \<Rightarrow> string \<Rightarrow> string list \<Rightarrow> ('e, string \<times> go_error option) prog" where
  "wrapExecCommandWithOutput os cmd args =
     ExecuteCommandWithOutput os ''nsenter'' (nsenter_args cmd args)"

definition wrapExecCommand :: "'e os \<Rightarrow> string \<Rightarrow> string list \<Rightarrow> ('e, unit) prog" where
  "wrapExecCommand os cmd args = ExecuteCommand os ''nsenter'' (nsenter_args cmd args)"

text \<open>The event of an LVM command.\<close>

definition lvm_event :: "string list \<Rightarrow> event" where
  "lvm_event args = RunCmd ''nsenter'' (nsenter_args ''lvm'' args)"

section \<open>Parsing the report\<close>

text \<open>
  A token is \<open>LVM2_KEY='value'\<close>.  The code indexes the pieces without a check, so a token without
  \<open>=\<close>, or with fewer than five bytes before it, panics.
\<close>

definition parse_token :: "string \<Rightarrow> (string \<times> string) outcome" where
  "parse_token token =
     (let kv = split_on (CHR ''='') token in
      if length kv < 2 then Panic ''index out of range''
      else let k = kv ! 0; v = kv ! 1 in
           if length k < 5 then Panic ''slice bounds out of range''
           else Ok (to_lower (drop 5 k), trim_char (CHR 0x27) v))"

fun parse_tokens :: "string list \<Rightarrow> string gomap \<Rightarrow> string gomap outcome" where
  "parse_tokens [] m = Ok m"
| "parse_tokens (token # ts) m =
     (if token = [] then parse_tokens ts m
      else case parse_token token of
             Ok (k, v) \<Rightarrow> parse_tokens ts (AList.update k v m)
           | Fail e \<Rightarrow> Fail e
           | Panic p \<Rightarrow> Panic p)"

definition parseOneLine :: "string \<Rightarrow> string gomap outcome" where
  "parseOneLine line = parse_tokens (split_on (CHR '' '') (trim_space line)) []"

fun parse_each_line :: "string list \<Rightarrow> string gomap list outcome" where
  "parse_each_line [] = Ok []"
| "parse_each_line (line # ls) =
     (if line = [] then parse_each_line ls
      else case parseOneLine line of
             Ok info \<Rightarrow>
               (case parse_each_line ls of
                  Ok infos \<Rightarrow> Ok (info # infos) | Fail e \<Rightarrow> Fail e | Panic p \<Rightarrow> Panic p)
           | Fail e \<Rightarrow> Fail e
           | Panic p \<Rightarrow> Panic p)"

definition parseLines :: "string \<Rightarrow> string gomap list outcome" where
  "parseLines output = parse_each_line (split_on newline output)"

definition report_args :: "string \<Rightarrow> string \<Rightarrow> string list \<Rightarrow> string list" where
  "report_args cmd flds args =
     [cmd, ''-o'', flds, ''--noheadings'', ''--separator= '', ''--units=b'', ''--nosuffix'',
      ''--unbuffered'', ''--nameprefixes''] @ args"

definition parseOutput ::
  "'e os \<Rightarrow> string \<Rightarrow> string \<Rightarrow> string list \<Rightarrow> ('e, string gomap list) prog" where
  "parseOutput os cmd flds args =
     bindM (output_or_fail (wrapExecCommandWithOutput os ''lvm'' (report_args cmd flds args)))
       (\<lambda>out. lift_outcome (parseLines out))"

section \<open>Queries\<close>

definition parse_failed :: "string list \<Rightarrow> string" where
  "parse_failed ws = ''parse out failed cmd:'' @ join_with (CHR '' '') ws"

definition collect_field :: "string \<Rightarrow> string gomap list \<Rightarrow> string gomap" where
  "collect_field field infos =
     fold (\<lambda>info m. AList.update (map_get info field) (map_get info field) m) infos []"

definition GetVolumeGroups :: "'e os \<Rightarrow> ('e, string gomap) prog" where
  "GetVolumeGroups os =
     bindM (wrapM (parse_failed [''vgs'', ''vg_name'']) (parseOutput os ''vgs'' ''vg_name'' []))
       (\<lambda>infos. ret (collect_field ''vg_name'' infos))"

definition GetPhysicalVolume :: "'e os \<Rightarrow> string \<Rightarrow> ('e, string gomap) prog" where
  "GetPhysicalVolume os vgname =
     bindM (wrapM (parse_failed [''vgs'', ''pv_name'', vgname])
              (parseOutput os ''vgs'' ''pv_name'' [vgname]))
       (\<lambda>infos. ret (collect_field ''pv_name'' infos))"

definition CheckPVHasLogicalVolume :: "'e os \<Rightarrow> string \<Rightarrow> ('e, bool) prog" where
  "CheckPVHasLogicalVolume os pvname =
     bindM (wrapM (parse_failed [''pvs'', ''+lv_name'', pvname])
              (parseOutput os ''pvs'' ''+lv_name'' [pvname, ''--segments'']))
       (\<lambda>infos. ret (\<exists>info \<in> set infos. map_get info ''lv_name'' \<noteq> []))"

definition CheckVgHasLogicalVolume :: "'e os \<Rightarrow> string \<Rightarrow> ('e, bool) prog" where
  "CheckVgHasLogicalVolume os vgname =
     bindM (wrapM (parse_failed [''vgs'', ''lv_name'', vgname])
              (parseOutput os ''vgs'' ''lv_name'' [vgname]))
       (\<lambda>infos. ret (\<exists>info \<in> set infos. map_get info ''lv_name'' \<noteq> []))"

definition GetVolumeGroupSize :: "'e os \<Rightarrow> string \<Rightarrow> ('e, 64 word) prog" where
  "GetVolumeGroupSize os vgname =
     bindM (parseOutput os ''vgs'' ''vg_size'' [vgname]) (\<lambda>infos.
       case infos of
         [info] \<Rightarrow>
           (case parse_uint 64 (map_get info ''vg_size'') of
              None \<Rightarrow> failM (Msg ''strconv.ParseUint'')
            | Some n \<Rightarrow> ret (word_of_int n))
       | _ \<Rightarrow> failM (Msg (''volume group not found: '' @ vgname)))"

section \<open>Changes\<close>

definition RemovePhysicalVolume :: "'e os \<Rightarrow> string \<Rightarrow> ('e, unit) prog" where
  "RemovePhysicalVolume os pv = wrapExecCommand os ''lvm'' [''pvremove'', pv]"

definition RemoveVolumeGroup :: "'e os \<Rightarrow> range_ord \<Rightarrow> string \<Rightarrow> ('e, unit) prog" where
  "RemoveVolumeGroup os ord vgName =
     bindM (CheckVgHasLogicalVolume os vgName) (\<lambda>has_lv.
       if has_lv then failM (Msg (''vg '' @ vgName @ '' has some lv can not remove''))
       else
         bindM (GetPhysicalVolume os vgName) (\<lambda>infos.
         bindM (wrapExecCommand os ''lvm'' [''vgremove'', vgName]) (\<lambda>_.
           for_each (\<lambda>key _. wrapExecCommand os ''lvm'' [''pvremove'', key])
             (range_keys ord infos) ())))"

definition ShrinkVolumeGroup :: "'e os \<Rightarrow> string \<Rightarrow> string list \<Rightarrow> ('e, unit) prog" where
  "ShrinkVolumeGroup os vgName pvs =
     bindM (for_each (\<lambda>dev _.
              bindM (CheckPVHasLogicalVolume os dev) (\<lambda>has_lv.
                if has_lv then failM (Msg (''pv '' @ dev @ '' has some lv can not remove''))
                else ret ())) pvs ()) (\<lambda>_.
     bindM (wrapExecCommand os ''lvm'' ([''vgreduce'', vgName] @ pvs)) (\<lambda>_.
       wrapExecCommand os ''lvm'' ([''pvremove''] @ pvs)))"

definition ExpandVolumeGroup :: "'e os \<Rightarrow> string \<Rightarrow> string list \<Rightarrow> ('e, unit) prog" where
  "ExpandVolumeGroup os vgName pvs = wrapExecCommand os ''lvm'' ([''vgextend'', vgName] @ pvs)"

definition CreatePhysicalVolume :: "'e os \<Rightarrow> string \<Rightarrow> ('e, unit) prog" where
  "CreatePhysicalVolume os diskName = wrapExecCommand os ''lvm'' [''pvcreate'', diskName]"

text \<open>The loop of \<open>CreateVolumeGroup\<close>: it initialises each disk and collects the names.\<close>

definition create_pvs :: "'e os \<Rightarrow> disk list \<Rightarrow> string list \<Rightarrow> ('e, string list) prog" where
  "create_pvs os disks diskList =
     for_each (\<lambda>dev diskList.
       bindM (wrapExecCommand os ''lvm'' [''pvcreate'', disk_name dev]) (\<lambda>_.
         ret (diskList @ [disk_name dev]))) disks diskList"

definition CreateVolumeGroup :: "'e os \<Rightarrow> disk list \<Rightarrow> string \<Rightarrow> ('e, unit) prog" where
  "CreateVolumeGroup os disks volumeGroupName =
     bindM (create_pvs os disks []) (\<lambda>diskList.
       wrapExecCommand os ''lvm'' ([''vgcreate'', volumeGroupName] @ diskList))"

section \<open>The parser reads back what the tools print\<close>

definition report_token :: "string \<times> string \<Rightarrow> string" where
  "report_token kv = ''LVM2_'' @ fst kv @ ''='' @ [CHR 0x27] @ snd kv @ [CHR 0x27]"

definition report_line :: "(string \<times> string) list \<Rightarrow> string" where
  "report_line kvs = join_with (CHR '' '') (map report_token kvs)"

definition plain_value :: "string \<Rightarrow> bool" where
  "plain_value v = (CHR ''='' \<notin> set v \<and> CHR '' '' \<notin> set v \<and> newline \<notin> set v \<and> CHR 0x27 \<notin> set v)"

definition plain_pair :: "string \<times> string \<Rightarrow> bool" where
  "plain_pair kv = (plain_value (fst kv) \<and> plain_value (snd kv))"

lemma trim_char_quoted:
  assumes "CHR 0x27 \<notin> set v"
  shows "trim_char (CHR 0x27) ([CHR 0x27] @ v @ [CHR 0x27]) = v"
proof (cases v rule: rev_cases)
  case (snoc u x)
  with assms have "dropWhile (\<lambda>c. c = CHR 0x27) (v @ [CHR 0x27]) = v @ [CHR 0x27]"
    by (cases u) auto
  with assms snoc show ?thesis by (auto simp: trim_char_def trim_by_def)
qed (simp add: trim_char_def trim_by_def)

lemma parse_token_report:
  assumes "plain_pair kv"
  shows "parse_token (report_token kv) = Ok (to_lower (fst kv), snd kv)"
proof -
  obtain k v where kv: "kv = (k, v)" by (cases kv)
  with assms have k: "CHR ''='' \<notin> set (''LVM2_'' @ k)" and q: "CHR 0x27 \<notin> set v"
    and v: "CHR ''='' \<notin> set ([CHR 0x27] @ v @ [CHR 0x27])"
    by (auto simp: plain_pair_def plain_value_def)
  have "report_token kv = (''LVM2_'' @ k) @ CHR ''='' # ([CHR 0x27] @ v @ [CHR 0x27])"
    by (simp add: report_token_def kv)
  then have "split_on (CHR ''='') (report_token kv) = [''LVM2_'' @ k, [CHR 0x27] @ v @ [CHR 0x27]]"
    by (simp only: split_on_append [OF k] split_on_no_sep [OF v])
  with trim_char_quoted [OF q] show ?thesis by (simp add: parse_token_def kv)
qed

lemma report_token_nonempty [simp]: "report_token kv \<noteq> []"
  by (simp add: report_token_def)

lemma parse_tokens_report:
  "list_all plain_pair kvs \<Longrightarrow>
     parse_tokens (map report_token kvs) m =
       Ok (fold (\<lambda>(k, v). AList.update (to_lower k) v) kvs m)"
proof (induction kvs arbitrary: m)
  case (Cons kv kvs)
  then show ?case
    by (cases kv) (simp add: parse_token_report)
qed simp

lemma trim_space_padding [simp]: "trim_space (replicate n (CHR '' '') @ s) = trim_space s"
  by (induction n) (simp_all add: trim_space_def trim_by_def is_space_def)

lemma report_token_chars:
  assumes "plain_pair kv"
  shows "CHR '' '' \<notin> set (report_token kv)" and "newline \<notin> set (report_token kv)"
  using assms by (auto simp: plain_pair_def plain_value_def report_token_def)

lemma hd_last_report_line:
  assumes "kvs \<noteq> []"
  shows "hd (report_line kvs) = CHR ''L'' \<and> last (report_line kvs) = CHR 0x27 \<and> report_line kvs \<noteq> []"
  using assms
proof (induction kvs rule: list_nonempty_induct)
  case (single kv)
  then show ?case by (simp add: report_line_def report_token_def)
next
  case (cons kv kvs)
  then obtain kv' kvs' where "kvs = kv' # kvs'" by (cases kvs) auto
  with cons show ?case by (simp add: report_line_def report_token_def)
qed

lemma join_with_chars: "c \<noteq> d \<Longrightarrow> \<forall>x \<in> set xs. d \<notin> set x \<Longrightarrow> d \<notin> set (join_with c xs)"
  by (induction c xs rule: join_with.induct) auto

lemma parseOneLine_report:
  assumes "list_all plain_pair kvs" and "kvs \<noteq> []"
  shows "parseOneLine (replicate n (CHR '' '') @ report_line kvs) =
    Ok (fold (\<lambda>(k, v). AList.update (to_lower k) v) kvs [])"
proof -
  have "trim_space (report_line kvs) = report_line kvs"
    by (rule trim_space_id) (use hd_last_report_line [OF assms(2)] in \<open>simp add: is_space_def\<close>)
  moreover have "split_on (CHR '' '') (report_line kvs) = map report_token kvs"
    unfolding report_line_def
    by (rule split_join) (use assms in \<open>auto simp: list_all_iff report_token_chars\<close>)
  ultimately show ?thesis
    by (simp add: parseOneLine_def parse_tokens_report [OF assms(1)])
qed

definition report_rows :: "(nat \<times> (string \<times> string) list) list \<Rightarrow> string" where
  "report_rows rows =
     join_with newline (map (\<lambda>(n, kvs). replicate n (CHR '' '') @ report_line kvs) rows)"

definition row_ok :: "nat \<times> (string \<times> string) list \<Rightarrow> bool" where
  "row_ok row = (snd row \<noteq> [] \<and> list_all plain_pair (snd row))"

lemma parse_each_line_report:
  "list_all row_ok rows \<Longrightarrow>
     parse_each_line (map (\<lambda>(n, kvs). replicate n (CHR '' '') @ report_line kvs) rows) =
       Ok (map (\<lambda>(n, kvs). fold (\<lambda>(k, v). AList.update (to_lower k) v) kvs []) rows)"
proof (induction rows)
  case (Cons row rows)
  obtain n kvs where row: "row = (n, kvs)" by (cases row)
  with Cons.prems have kvs: "list_all plain_pair kvs" "kvs \<noteq> []" by (simp_all add: row_ok_def)
  with Cons row show ?case
    by (simp add: parseOneLine_report [OF kvs] hd_last_report_line [OF kvs(2)])
qed simp

lemma parseLines_report:
  assumes "list_all row_ok rows" and "rows \<noteq> []"
  shows "parseLines (report_rows rows) =
    Ok (map (\<lambda>(n, kvs). fold (\<lambda>(k, v). AList.update (to_lower k) v) kvs []) rows)"
proof -
  have "newline \<notin> set (replicate n (CHR '' '') @ report_line kvs)" if "(n, kvs) \<in> set rows" for n kvs
  proof -
    from that assms(1) have "list_all plain_pair kvs" by (auto simp: list_all_iff row_ok_def)
    then have "newline \<notin> set (report_line kvs)"
      unfolding report_line_def
      by (intro join_with_chars) (auto simp: list_all_iff report_token_chars)
    then show ?thesis by auto
  qed
  then have "split_on newline (report_rows rows) =
      map (\<lambda>(n, kvs). replicate n (CHR '' '') @ report_line kvs) rows"
    unfolding report_rows_def using assms(2) by (intro split_join) auto
  then show ?thesis by (simp add: parseLines_def parse_each_line_report [OF assms(1)])
qed

section \<open>What each operation runs\<close>

text \<open>The LVM commands that change the node, as against the reports.\<close>

definition lvm_change :: "event \<Rightarrow> bool" where
  "lvm_change ev = (\<exists>sub args. ev = lvm_event (sub # args) \<and>
     sub \<in> {''pvcreate'', ''pvremove'', ''vgcreate'', ''vgremove'', ''vgextend'', ''vgreduce''})"

lemma lvm_event_inject [simp]: "lvm_event xs = lvm_event ys \<longleftrightarrow> xs = ys"
  by (simp add: lvm_event_def nsenter_args_def)

lemma report_not_change:
  "cmd \<in> {''vgs'', ''pvs''} \<Longrightarrow>
     \<not> lvm_change (RunCmd ''nsenter'' (nsenter_args ''lvm'' (report_args cmd flds args)))"
  by (auto simp: lvm_change_def lvm_event_def nsenter_args_def report_args_def)

lemma emits_parseOutput:
  "P (lvm_event (report_args cmd flds args)) \<Longrightarrow> emits P (parseOutput os cmd flds args)"
  unfolding parseOutput_def wrapExecCommandWithOutput_def lvm_event_def by (intro emits_intros)

lemma emits_wrapExecCommand [emits_intros]:
  "P (RunCmd ''nsenter'' (nsenter_args cmd args)) \<Longrightarrow> emits P (wrapExecCommand os cmd args)"
  unfolding wrapExecCommand_def by (intro emits_intros)

lemma emits_wrapExecCommandWithOutput [emits_intros]:
  "P (RunCmd ''nsenter'' (nsenter_args cmd args)) \<Longrightarrow> emits P (wrapExecCommandWithOutput os cmd args)"
  unfolding wrapExecCommandWithOutput_def by (intro emits_intros)

lemma queries_change_nothing [emits_intros]:
  "emits (\<lambda>ev. \<not> lvm_change ev) (GetVolumeGroups os)"
  "emits (\<lambda>ev. \<not> lvm_change ev) (GetPhysicalVolume os vg)"
  "emits (\<lambda>ev. \<not> lvm_change ev) (CheckPVHasLogicalVolume os pv)"
  "emits (\<lambda>ev. \<not> lvm_change ev) (CheckVgHasLogicalVolume os vg)"
  "emits (\<lambda>ev. \<not> lvm_change ev) (GetVolumeGroupSize os vg)"
  unfolding GetVolumeGroups_def GetPhysicalVolume_def CheckPVHasLogicalVolume_def
    CheckVgHasLogicalVolume_def GetVolumeGroupSize_def
  by (intro emits_intros emits_parseOutput; simp add: lvm_event_def report_not_change)+

lemma wrapExecCommand_trace:
  "w_trace (snd (wrapExecCommand os ''lvm'' args w)) = w_trace w @ [lvm_event args]"
  by (cases "os ''nsenter'' (nsenter_args ''lvm'' args) (w_env w)")
    (simp add: wrapExecCommand_def ExecuteCommand_eq lvm_event_def)

lemma wrapExecCommand_not_panic: "fst (wrapExecCommand os ''lvm'' args w) \<noteq> Panic p"
  by (cases "os ''nsenter'' (nsenter_args ''lvm'' args) (w_env w)")
    (auto simp: wrapExecCommand_def ExecuteCommand_eq split: option.splits)

text \<open>A loop that runs one command per element stops at the first command that fails.\<close>

lemma command_loop_trace:
  "\<exists>n. w_trace (snd (for_each (\<lambda>k _. wrapExecCommand os ''lvm'' (f k)) ks () w)) =
         w_trace w @ take n (map (\<lambda>k. lvm_event (f k)) ks)
     \<and> (fst (for_each (\<lambda>k _. wrapExecCommand os ''lvm'' (f k)) ks () w) = Ok () \<longrightarrow> length ks \<le> n)"
proof (induction ks arbitrary: w)
  case Nil
  then show ?case by (simp add: ret_def)
next
  case (Cons k ks)
  obtain r w1 where m: "wrapExecCommand os ''lvm'' (f k) w = (r, w1)" by fastforce
  with wrapExecCommand_trace [of os "f k" w] have w1: "w_trace w1 = w_trace w @ [lvm_event (f k)]" by simp
  show ?case
  proof (cases r)
    case (Ok x)
    from Cons.IH [of w1] obtain n where
      "w_trace (snd (for_each (\<lambda>k _. wrapExecCommand os ''lvm'' (f k)) ks () w1)) =
         w_trace w1 @ take n (map (\<lambda>k. lvm_event (f k)) ks)"
      "fst (for_each (\<lambda>k _. wrapExecCommand os ''lvm'' (f k)) ks () w1) = Ok () \<longrightarrow> length ks \<le> n"
      by blast
    with m Ok w1 show ?thesis by (intro exI [of _ "Suc n"]) (simp add: bindM_eqs)
  qed (use m w1 in \<open>auto simp: bindM_eqs intro!: exI [of _ "Suc 0"]\<close>)
qed

lemma RemoveVolumeGroup_blocked:
  assumes "CheckVgHasLogicalVolume os vg w = (r, w1)" and "r \<noteq> Ok False"
  shows "snd (RemoveVolumeGroup os ord vg w) = w1 \<and> fst (RemoveVolumeGroup os ord vg w) \<noteq> Ok ()"
  using assms by (cases r) (auto simp: RemoveVolumeGroup_def bindM_eqs failM_def)

text \<open>
  \<open>free_of_lvs os pvs w\<close>: the checks \<open>ShrinkVolumeGroup\<close> makes one after the other all find no logical
  volume.
\<close>

fun free_of_lvs :: "'e os \<Rightarrow> string list \<Rightarrow> 'e world \<Rightarrow> bool" where
  "free_of_lvs os [] w = True"
| "free_of_lvs os (dev # devs) w =
     (fst (CheckPVHasLogicalVolume os dev w) = Ok False
      \<and> free_of_lvs os devs (snd (CheckPVHasLogicalVolume os dev w)))"

lemma shrink_checks_ok:
  "fst (for_each (\<lambda>dev _. bindM (CheckPVHasLogicalVolume os dev) (\<lambda>has_lv.
            if has_lv then failM (Msg (''pv '' @ dev @ '' has some lv can not remove''))
            else ret ())) pvs () w) = Ok () \<Longrightarrow> free_of_lvs os pvs w"
proof (induction pvs arbitrary: w)
  case (Cons dev devs)
  obtain c w1 where c: "CheckPVHasLogicalVolume os dev w = (c, w1)" by fastforce
  with Cons show ?case
    by (cases c) (auto simp: bindM_eqs bindM_assoc failM_def split: if_splits)
qed simp

lemma shrink_checks_emit:
  "emits (\<lambda>ev. \<not> lvm_change ev) (for_each (\<lambda>dev _. bindM (CheckPVHasLogicalVolume os dev) (\<lambda>has_lv.
            if has_lv then failM (Msg (''pv '' @ dev @ '' has some lv can not remove''))
            else ret ())) pvs ())"
  by (intro emits_intros)

text \<open>The commands \<open>CreateVolumeGroup\<close> means to run.\<close>

definition create_plan :: "string list \<Rightarrow> string \<Rightarrow> event list" where
  "create_plan names vg =
     map (\<lambda>d. lvm_event [''pvcreate'', d]) names @ [lvm_event ([''vgcreate'', vg] @ names)]"

lemma create_pvs_Cons:
  "create_pvs os (d # ds) acc =
     bindM (wrapExecCommand os ''lvm'' [''pvcreate'', disk_name d]) (\<lambda>_. create_pvs os ds (acc @ [disk_name d]))"
  by (simp add: create_pvs_def bindM_assoc)

lemma create_pvs_trace:
  "\<exists>n. w_trace (snd (create_pvs os disks acc w)) =
         w_trace w @ take n (map (\<lambda>d. lvm_event [''pvcreate'', disk_name d]) disks)
     \<and> (case fst (create_pvs os disks acc w) of
          Ok names \<Rightarrow> names = acc @ map disk_name disks \<and> length disks \<le> n
        | Fail e \<Rightarrow> n \<le> length disks | Panic p \<Rightarrow> False)"
proof (induction disks arbitrary: acc w)
  case Nil
  then show ?case by (simp add: ret_def create_pvs_def)
next
  case (Cons d ds)
  obtain r w1 where m: "wrapExecCommand os ''lvm'' [''pvcreate'', disk_name d] w = (r, w1)" by fastforce
  with wrapExecCommand_trace [of os "[''pvcreate'', disk_name d]" w]
  have w1: "w_trace w1 = w_trace w @ [lvm_event [''pvcreate'', disk_name d]]" by simp
  show ?case
  proof (cases r)
    case (Ok u)
    from Cons.IH [where acc = "acc @ [disk_name d]" and w = w1] obtain n where
      "w_trace (snd (create_pvs os ds (acc @ [disk_name d]) w1)) =
         w_trace w1 @ take n (map (\<lambda>d. lvm_event [''pvcreate'', disk_name d]) ds)"
      "case fst (create_pvs os ds (acc @ [disk_name d]) w1) of
         Ok names \<Rightarrow> names = (acc @ [disk_name d]) @ map disk_name ds \<and> length ds \<le> n
       | Fail e \<Rightarrow> n \<le> length ds | Panic p \<Rightarrow> False"
      by blast
    with m Ok w1 show ?thesis
      by (intro exI [of _ "Suc n"]) (simp add: create_pvs_Cons bindM_eqs split: outcome.splits)
  next
    case (Fail e)
    with m w1 show ?thesis by (intro exI [of _ "Suc 0"]) (simp add: create_pvs_Cons bindM_eqs)
  next
    case (Panic p)
    with m wrapExecCommand_not_panic [of os "[''pvcreate'', disk_name d]" w p] show ?thesis by simp
  qed
qed

lemma emits_create_pvs [emits_intros]: "emits (\<lambda>ev. True) (create_pvs os disks acc)"
  unfolding create_pvs_def by (intro emits_intros) simp

end
