(* ===== verification/Host.thy ===== *)
theory Host
  imports Lvm
begin

text \<open>
  A reference host: an executable stand-in for the node's LVM tools, the argument with which the
  witnesses of the theorems about LVM operations are evaluated.  It keeps physical volumes, volume
  groups and logical volumes, prints its reports in the tools' format, and fails with exit status 5
  where the tools do.  No theorem depends on it except through its witness.
\<close>

record host =
  h_pvs :: "string list"
  h_vgs :: "(string \<times> string list) list"
  h_lvs :: "(string \<times> string) list"

definition ok_result :: "string \<Rightarrow> proc_result" where
  "ok_result out = \<lparr>pr_stdout = out, pr_stderr = [], pr_combined = out, pr_err = None\<rparr>"

definition bad_result :: proc_result where
  "bad_result = \<lparr>pr_stdout = [], pr_stderr = [], pr_combined = [], pr_err = Some (ExitError 5 [])\<rparr>"

definition rows_of :: "string \<Rightarrow> string list \<Rightarrow> string" where
  "rows_of k vs = report_rows (map (\<lambda>v. (2, [(k, v)])) vs)"

definition host_vgs :: "string \<Rightarrow> string list \<Rightarrow> host \<Rightarrow> proc_result" where
  "host_vgs flds args h =
     (case args of
        [] \<Rightarrow> ok_result (rows_of ''VG_NAME'' (map fst (h_vgs h)))
      | vg # _ \<Rightarrow>
          (case map_of (h_vgs h) vg of
             None \<Rightarrow> bad_result
           | Some pvs \<Rightarrow>
               if flds = ''pv_name'' then ok_result (rows_of ''PV_NAME'' pvs)
               else ok_result (rows_of ''LV_NAME''
                      (case filter (\<lambda>lv. fst lv = vg) (h_lvs h) of [] \<Rightarrow> [[]] | lvs \<Rightarrow> map (\<lambda>_. ''lv'') lvs))))"

definition host_pvs :: "string list \<Rightarrow> host \<Rightarrow> proc_result" where
  "host_pvs args h =
     (case args of
        [] \<Rightarrow> bad_result
      | pv # _ \<Rightarrow>
          if pv \<in> set (h_pvs h)
          then ok_result (rows_of ''LV_NAME'' (map (\<lambda>b. if b then ''lv'' else [])
                 [pv \<in> set (map snd (h_lvs h))]))
          else bad_result)"

definition host_lvm :: "string \<Rightarrow> string list \<Rightarrow> host \<Rightarrow> proc_result \<times> host" where
  "host_lvm cmd args h =
     (if cmd = ''vgs'' then (host_vgs (args ! 1) (drop 8 args) h, h)
      else if cmd = ''pvs'' then (host_pvs (drop 8 args) h, h)
      else if cmd = ''pvcreate'' then
        (if args ! 0 \<in> set (h_pvs h) then (bad_result, h)
         else (ok_result [], h\<lparr>h_pvs := h_pvs h @ args\<rparr>))
      else if cmd = ''pvremove'' then
        (ok_result [], h\<lparr>h_pvs := filter (\<lambda>p. p \<notin> set args) (h_pvs h)\<rparr>)
      else if cmd = ''vgcreate'' then
        (ok_result [], h\<lparr>h_vgs := AList.update (args ! 0) (drop 1 args) (h_vgs h)\<rparr>)
      else if cmd = ''vgremove'' then
        (ok_result [], h\<lparr>h_vgs := AList.delete (args ! 0) (h_vgs h)\<rparr>)
      else if cmd = ''vgextend'' then
        (ok_result [], h\<lparr>h_vgs := AList.map_entry (args ! 0) (\<lambda>ps. ps @ drop 1 args) (h_vgs h)\<rparr>)
      else if cmd = ''vgreduce'' then
        (ok_result [], h\<lparr>h_vgs := AList.map_entry (args ! 0)
            (filter (\<lambda>p. p \<notin> set (drop 1 args))) (h_vgs h)\<rparr>)
      else (bad_result, h))"

definition host_os :: "host os" where
  "host_os cmd args h =
     (if cmd = ''nsenter'' then
        (if args ! 7 = ''lvm'' then host_lvm (args ! 8) (drop 9 args) h else (bad_result, h))
      else (bad_result, h))"

definition host_world :: "host \<Rightarrow> host world" where
  "host_world h = \<lparr>w_env = h, w_trace = []\<rparr>"

text \<open>One volume group \<open>hdd\<close> on two disks, without a logical volume.\<close>

definition idle_host :: host where
  "idle_host = \<lparr>h_pvs = [''/dev/sdb'', ''/dev/sdc''],
     h_vgs = [(''hdd'', [''/dev/sdb'', ''/dev/sdc''])], h_lvs = []\<rparr>"

text \<open>The same group with a logical volume on its first disk.\<close>

definition busy_host :: host where
  "busy_host = idle_host\<lparr>h_lvs := [(''hdd'', ''/dev/sdb'')]\<rparr>"

text \<open>A host that answers exactly the commands of a table, and fails on every other one.\<close>

definition script_os :: "((string \<times> string list) \<times> string) list \<Rightarrow> unit os" where
  "script_os table cmd args e =
     (case map_of table (cmd, args) of Some out \<Rightarrow> (ok_result out, e) | None \<Rightarrow> (bad_result, e))"

definition start :: "unit world" where
  "start = \<lparr>w_env = (), w_trace = []\<rparr>"

end
