(* ===== verification/Lvm_Props.thy ===== *)
theory Lvm_Props
  imports Host
begin

text \<open>
  What is proved of \<open>pkg/util/sys/lvm.go\<close>: the parser reads back the report format (and crashes on a
  value with a space), a volume group or physical volume is not removed while it holds a logical
  volume, and the order of the commands of a creation and of a removal.
\<close>

text \<open>
  C31: Round trip of the LVM report.  Whatever plain keys and values a report holds, printing it the
  way \<open>vgs\<close> and \<open>pvs --nameprefixes\<close> do (one row per line, any left padding, \<open>LVM2_KEY='value'\<close>
  tokens separated by a space) and parsing it with \<open>parseLines\<close> gives one map per row, from each
  key without its prefix and in lower case to its value without quotes.
\<close>

theorem lvm_report_roundtrip:
  assumes "list_all row_ok rows" and "rows \<noteq> []"
  shows "parseLines (report_rows rows) =
    Ok (map (\<lambda>(n, kvs). fold (\<lambda>(k, v). AList.update (to_lower k) v) kvs []) rows)"
  using assms by (rule parseLines_report)

theorem lvm_report_roundtrip_witness:
  "parseLines (report_rows [(0, [(''VG_NAME'', ''hdd'')]), (2, [(''PV_NAME'', ''/dev/sdb''), (''LV_NAME'', [])])]) =
     Ok [[(''vg_name'', ''hdd'')], [(''pv_name'', ''/dev/sdb''), (''lv_name'', [])]]"
proof -
  let ?rows = "[(0, [(''VG_NAME'', ''hdd'')]), (2, [(''PV_NAME'', ''/dev/sdb''), (''LV_NAME'', [])])]
    :: (nat \<times> (string \<times> string) list) list"
  have "list_all row_ok ?rows" by (simp add: row_ok_def plain_pair_def plain_value_def)
  then have "parseLines (report_rows ?rows) =
      Ok (map (\<lambda>(n, kvs). fold (\<lambda>(k, v). AList.update (to_lower k) v) kvs []) ?rows)"
    by (rule lvm_report_roundtrip) simp
  moreover have "map (\<lambda>(n, kvs). fold (\<lambda>(k, v). AList.update (to_lower k) v) kvs []) ?rows =
      [[(''vg_name'', ''hdd'')], [(''pv_name'', ''/dev/sdb''), (''lv_name'', [])]]"
    by code_simp
  ultimately show ?thesis by (simp only:)
qed

text \<open>
  C40: The parser crashes on a value with a space in it.  Reports separate fields by a space, so the
  rest of such a value is a token without \<open>=\<close>, whose missing second piece \<open>parseOneLine\<close> indexes:
  the process panics instead of returning an error.
\<close>

theorem parse_space_in_value_panics:
  assumes "plain_value k" and "plain_value a" and "plain_value b" and "b \<noteq> []"
  shows "parseOneLine (report_token (k, a @ '' '' @ b)) = Panic ''index out of range''"
proof -
  let ?left = "''LVM2_'' @ k @ ''='' @ [CHR 0x27] @ a" and ?right = "b @ [CHR 0x27]"
  have line: "report_token (k, a @ '' '' @ b) = ?left @ CHR '' '' # ?right"
    by (simp add: report_token_def)
  have "trim_space (?left @ CHR '' '' # ?right) = ?left @ CHR '' '' # ?right"
    by (rule trim_space_id) (simp add: is_space_def)
  moreover have "split_on (CHR '' '') (?left @ CHR '' '' # ?right) = [?left, ?right]"
    using assms by (subst split_on_append) (auto simp: plain_value_def split_on_no_sep)
  moreover have "split_on (CHR ''='') ?left = [''LVM2_'' @ k, [CHR 0x27] @ a]"
    using assms split_on_append [of "CHR ''=''" "''LVM2_'' @ k" "[CHR 0x27] @ a"]
    by (simp add: plain_value_def split_on_no_sep)
  moreover have "split_on (CHR ''='') ?right = [?right]"
    using assms by (intro split_on_no_sep) (simp add: plain_value_def)
  ultimately show ?thesis
    unfolding parseOneLine_def line by (simp add: parse_token_def)
qed

theorem parse_space_in_value_panics_witness:
  "parseOneLine (report_token (''PV_NAME'', ''unknown'' @ '' '' @ ''device'')) =
     Panic ''index out of range''"
  by (rule parse_space_in_value_panics) (simp_all add: plain_value_def)

text \<open>
  C8: \<open>RemoveVolumeGroup\<close> never changes a volume group that may hold a logical volume: if the call
  ran any LVM command that changes the node, then the check of logical volumes with which it starts
  had returned \<open>false\<close> without an error.
\<close>

theorem remove_volume_group_guarded:
  "\<exists>es. w_trace (snd (RemoveVolumeGroup os ord vg w)) = w_trace w @ es
     \<and> (list_all (\<lambda>ev. \<not> lvm_change ev) es \<or> fst (CheckVgHasLogicalVolume os vg w) = Ok False)"
proof -
  obtain c w1 where check: "CheckVgHasLogicalVolume os vg w = (c, w1)" by fastforce
  show ?thesis
  proof (cases "c = Ok False")
    case True
    have "emits (\<lambda>ev. True) (RemoveVolumeGroup os ord vg)"
      unfolding RemoveVolumeGroup_def
      by (intro emits_intros emits_mono [OF queries_change_nothing(2)]
          emits_mono [OF queries_change_nothing(4)]) simp_all
    with check True show ?thesis by (auto simp: emits_def)
  next
    case False
    from RemoveVolumeGroup_blocked [OF check False, of ord]
    have "snd (RemoveVolumeGroup os ord vg w) = w1" by simp
    with emits_at [OF queries_change_nothing(4) check] show ?thesis by auto
  qed
qed

text \<open>
  A successful \<open>RemoveVolumeGroup\<close> removes the group first and then each of its physical volumes
  exactly once: after the two reports, the commands are \<open>vgremove\<close> and one \<open>pvremove\<close> per volume the
  second report listed, in some order.
\<close>

theorem remove_volume_group_complete:
  assumes "RemoveVolumeGroup os ord vg w = (Ok (), w')" and "range_order ord"
  shows "\<exists>w1 pvs w2 ks. CheckVgHasLogicalVolume os vg w = (Ok False, w1)
    \<and> GetPhysicalVolume os vg w1 = (Ok pvs, w2) \<and> mset ks = mset (map fst pvs)
    \<and> w_trace w' = w_trace w2 @ lvm_event [''vgremove'', vg]
                     # map (\<lambda>k. lvm_event [''pvremove'', k]) ks"
proof -
  from assms(1) obtain c w1 where c: "CheckVgHasLogicalVolume os vg w = (Ok c, w1)"
    and rest: "(if c then failM (Msg (''vg '' @ vg @ '' has some lv can not remove''))
       else bindM (GetPhysicalVolume os vg) (\<lambda>infos.
         bindM (wrapExecCommand os ''lvm'' [''vgremove'', vg]) (\<lambda>_.
           for_each (\<lambda>key _. wrapExecCommand os ''lvm'' [''pvremove'', key])
             (range_keys ord infos) ()))) w1 = (Ok (), w')"
    unfolding RemoveVolumeGroup_def by (elim bindM_OkE)
  from rest have nc: "\<not> c" by (auto simp: failM_def split: if_splits)
  with rest obtain pvs w2 w3 where pvs: "GetPhysicalVolume os vg w1 = (Ok pvs, w2)"
    and rm: "wrapExecCommand os ''lvm'' [''vgremove'', vg] w2 = (Ok (), w3)"
    and loop: "for_each (\<lambda>key _. wrapExecCommand os ''lvm'' [''pvremove'', key])
       (range_keys ord pvs) () w3 = (Ok (), w')"
    by (auto elim!: bindM_OkE)
  from wrapExecCommand_trace [of os "[''vgremove'', vg]" w2] rm
  have w3: "w_trace w3 = w_trace w2 @ [lvm_event [''vgremove'', vg]]" by simp
  from command_loop_trace [of os "\<lambda>k. [''pvremove'', k]" "range_keys ord pvs" w3] loop
  have "w_trace w' = w_trace w3 @ map (\<lambda>k. lvm_event [''pvremove'', k]) (range_keys ord pvs)"
    by auto
  with c nc pvs w3 mset_range_keys [OF assms(2), of pvs] show ?thesis by auto
qed

theorem remove_volume_group_complete_witness:
  "\<exists>w1 pvs w2 ks. CheckVgHasLogicalVolume host_os ''hdd'' (host_world idle_host) = (Ok False, w1)
    \<and> GetPhysicalVolume host_os ''hdd'' w1 = (Ok pvs, w2) \<and> mset ks = mset (map fst pvs)
    \<and> w_trace (snd (RemoveVolumeGroup host_os rev ''hdd'' (host_world idle_host))) =
        w_trace w2 @ lvm_event [''vgremove'', ''hdd'']
          # map (\<lambda>k. lvm_event [''pvremove'', k]) ks"
proof -
  have "fst (RemoveVolumeGroup host_os rev ''hdd'' (host_world idle_host)) = Ok ()" by code_simp
  then have "RemoveVolumeGroup host_os rev ''hdd'' (host_world idle_host) =
      (Ok (), snd (RemoveVolumeGroup host_os rev ''hdd'' (host_world idle_host)))"
    by (metis prod.collapse)
  from remove_volume_group_complete [OF this range_order_rev] show ?thesis .
qed

text \<open>
  C19: \<open>ShrinkVolumeGroup\<close> never takes away a physical volume that may hold a logical volume: either it
  ran only reports, or every one of the volumes to remove had been checked, in order, and found free.
\<close>

theorem shrink_volume_group_guarded:
  "\<exists>es. w_trace (snd (ShrinkVolumeGroup os vg pvs w)) = w_trace w @ es
     \<and> (list_all (\<lambda>ev. \<not> lvm_change ev) es \<or> free_of_lvs os pvs w)"
proof -
  define checks where "checks = for_each (\<lambda>dev _. bindM (CheckPVHasLogicalVolume os dev) (\<lambda>has_lv.
       if has_lv then failM (Msg (''pv '' @ dev @ '' has some lv can not remove'')) else ret ())) pvs ()"
  obtain r w1 where c: "checks w = (r, w1)" by fastforce
  have "emits (\<lambda>ev. \<not> lvm_change ev) checks" unfolding checks_def by (rule shrink_checks_emit)
  from emits_at [OF this c] obtain es where
    es: "w_trace w1 = w_trace w @ es" "list_all (\<lambda>ev. \<not> lvm_change ev) es" by blast
  show ?thesis
  proof (cases r)
    case (Ok u)
    with c have "free_of_lvs os pvs w" by (intro shrink_checks_ok) (simp add: checks_def)
    moreover have "emits (\<lambda>ev. True) (ShrinkVolumeGroup os vg pvs)"
      unfolding ShrinkVolumeGroup_def
      by (intro emits_intros emits_mono [OF queries_change_nothing(3)]) simp_all
    ultimately show ?thesis by (auto simp: emits_def)
  qed (use c es in \<open>auto simp: ShrinkVolumeGroup_def checks_def [symmetric] bindM_eqs\<close>)
qed

text \<open>
  \<open>CreateVolumeGroup\<close> initialises the disks one by one in the order given and creates the group
  over all of them last, stopping at the first command that fails: the commands run are always a
  prefix of that plan, and the whole plan when the call succeeds.
\<close>

theorem create_volume_group_plan:
  "\<exists>n. w_trace (snd (CreateVolumeGroup os disks vg w)) =
         w_trace w @ take n (create_plan (map disk_name disks) vg)
     \<and> (length disks < n \<or> (\<exists>e. fst (CreateVolumeGroup os disks vg w) = Fail e))"
proof -
  obtain n where
    trace: "w_trace (snd (create_pvs os disks [] w)) =
      w_trace w @ take n (map (\<lambda>d. lvm_event [''pvcreate'', disk_name d]) disks)"
    and res: "case fst (create_pvs os disks [] w) of
         Ok names \<Rightarrow> names = [] @ map disk_name disks \<and> length disks \<le> n
       | Fail e \<Rightarrow> n \<le> length disks | Panic p \<Rightarrow> False"
    using create_pvs_trace [of os disks "[]" w] by blast
  obtain r w1 where r: "create_pvs os disks [] w = (r, w1)" by fastforce
  show ?thesis
  proof (cases r)
    case (Ok names)
    with r res trace wrapExecCommand_trace [of os "[''vgcreate'', vg] @ names" w1] show ?thesis
      by (intro exI [of _ "Suc (length disks)"])
        (simp add: CreateVolumeGroup_def bindM_eqs create_plan_def comp_def)
  next
    case (Fail e)
    with r res trace show ?thesis
      by (intro exI [of _ n]) (simp add: CreateVolumeGroup_def bindM_eqs create_plan_def comp_def)
  next
    case (Panic p)
    with r res show ?thesis by simp
  qed
qed

end
