(* ===== verification/Device.thy ===== *)
theory Device
  imports Lvm
begin

text \<open>
  Block devices: \<open>pkg/util/sys/device.go\<close> (the tools that describe a device and the parsers of their
  output), \<open>disks.go\<close> (discovery of the devices of a node and the choice of the usable ones) and
  \<open>loop.go\<close> (loop devices).  The lemmas show that the parsers read back what the tools print, that
  discovery never changes the node, and that a device is offered only if it is large enough and
  carries neither a file system nor a mount point.
\<close>

section \<open>Parsers\<close>

definition DiskType :: string where "DiskType = ''disk''"
definition SSDType :: string where "SSDType = ''ssd''"
definition PartType :: string where "PartType = ''part''"
definition CryptType :: string where "CryptType = ''crypt''"
definition LVMType :: string where "LVMType = ''lvm''"
definition MultiPath :: string where "MultiPath = ''mpath''"
definition LinearType :: string where "LinearType = ''linear''"
definition LoopType :: string where "LoopType = ''loop''"
definition sgdiskCmd :: string where "sgdiskCmd = ''sgdisk''"

lemmas device_type_defs = DiskType_def SSDType_def PartType_def CryptType_def LVMType_def
  MultiPath_def LinearType_def LoopType_def

definition remove_char :: "char \<Rightarrow> string \<Rightarrow> string" where
  "remove_char c s = filter (\<lambda>x. x \<noteq> c) s"

definition add_pair :: "string \<Rightarrow> string gomap \<Rightarrow> string gomap" where
  "add_pair kvpRaw propMap =
     (case split_on (CHR ''='') kvpRaw of
        [k, v] \<Rightarrow> AList.update k (remove_char (CHR 0x22) v) propMap
      | _ \<Rightarrow> propMap)"

definition parseKeyValuePairString :: "string \<Rightarrow> string gomap" where
  "parseKeyValuePairString propsRaw = fold add_pair (split_on (CHR '' '') propsRaw) []"

definition add_udev :: "string \<Rightarrow> string gomap \<Rightarrow> string gomap" where
  "add_udev line result =
     (case split_on (CHR ''='') line of
        k # v # _ \<Rightarrow> AList.update k v result
      | _ \<Rightarrow> result)"

definition parseUdevInfo :: "string \<Rightarrow> string gomap" where
  "parseUdevInfo output = fold add_udev (split_on newline output) []"

definition parseFS :: "string \<Rightarrow> string" where
  "parseFS output =
     (case map_of (parseUdevInfo output) ''ID_FS_TYPE'' of Some v \<Rightarrow> v | None \<Rightarrow> [])"

text \<open>\<open>uuid.Parse(word).String()\<close> of the \<open>google/uuid\<close> package is an argument.\<close>

fun first_uuid :: "(string \<Rightarrow> string option) \<Rightarrow> string list \<Rightarrow> string option" where
  "first_uuid uuid_parse [] = None"
| "first_uuid uuid_parse (word # ws) =
     (case uuid_parse word of Some u \<Rightarrow> Some u | None \<Rightarrow> first_uuid uuid_parse ws)"

fun uuid_lines :: "(string \<Rightarrow> string option) \<Rightarrow> string list \<Rightarrow> string option" where
  "uuid_lines uuid_parse [] = None"
| "uuid_lines uuid_parse (line # ls) =
     (if contains_str ''Disk identifier (GUID)'' line then
        (case first_uuid uuid_parse (split_on (CHR '' '') line) of
           Some u \<Rightarrow> Some u
         | None \<Rightarrow> uuid_lines uuid_parse ls)
      else uuid_lines uuid_parse ls)"

definition parseUUID :: "(string \<Rightarrow> string option) \<Rightarrow> string \<Rightarrow> string \<Rightarrow> go_error + string" where
  "parseUUID uuid_parse device output =
     (case uuid_lines uuid_parse (split_on newline output) of
        Some u \<Rightarrow> Inr u
      | None \<Rightarrow> Inl (Msg (''uuid not found for device '' @ device @ ''. output='' @ output)))"

section \<open>Queries of one device\<close>

text \<open>
  \<open>sgdisk\<close>'s presence (\<open>exec.LookPath\<close>) and \<open>uuid.Parse\<close> are the arguments discovery takes besides the
  operating system.
\<close>

record device_env =
  de_sgdisk :: bool
  de_uuid_parse :: "string \<Rightarrow> string option"

text \<open>\<open>fmt.Errorf(format, ..., err)\<close> around a command's error.\<close>

definition output_or_msg :: "string \<Rightarrow> ('e, string \<times> go_error option) prog \<Rightarrow> ('e, string) prog" where
  "output_or_msg msg m =
     bindM m (\<lambda>(out, err). case err of None \<Rightarrow> ret out | Some e \<Rightarrow> failM (Msg (msg @ err_text e)))"

definition ListDevices :: "'e os \<Rightarrow> ('e, string list) prog" where
  "ListDevices os =
     bindM (output_or_msg ''failed to list all devices: ''
              (ExecuteCommandWithOutput os ''lsblk''
                 [''--all'', ''--noheadings'', ''--list'', ''--output'', ''KNAME'']))
       (\<lambda>devices. ret (split_on newline devices))"

text \<open>A bare device name is taken under \<open>/dev\<close>; anything with a slash is a path already.\<close>

definition device_path :: "string \<Rightarrow> string" where
  "device_path device =
     (if length (split_on (CHR ''/'') device) = 1 then ''/dev/'' @ device else device)"

fun ExitStatus :: "go_error \<Rightarrow> int option" where
  "ExitStatus (ExitError st m) = Some st"
| "ExitStatus _ = None"

definition GetDevicePropertiesFromPath :: "'e os \<Rightarrow> string \<Rightarrow> ('e, string gomap) prog" where
  "GetDevicePropertiesFromPath os devicePath =
     bindM (ExecuteCommandWithOutput os ''lsblk''
              [devicePath, ''--bytes'', ''--nodeps'', ''--pairs'', ''--paths'', ''--output'',
               ''SIZE,ROTA,RO,TYPE,PKNAME,NAME,KNAME,MOUNTPOINT,MAJ:MIN''])
       (\<lambda>(output, err).
         case err of
           Some e \<Rightarrow>
             if contains_str ''not a block device'' output then failM e
             else if ExitStatus e = Some 32 then ret []
             else failM e
         | None \<Rightarrow> ret (parseKeyValuePairString output))"

definition GetDeviceProperties :: "'e os \<Rightarrow> string \<Rightarrow> ('e, string gomap) prog" where
  "GetDeviceProperties os device = GetDevicePropertiesFromPath os (device_path device)"

definition IsLV :: "'e os \<Rightarrow> string \<Rightarrow> ('e, bool) prog" where
  "IsLV os devicePath =
     bindM (attempt (GetDevicePropertiesFromPath os devicePath)) (\<lambda>r.
       case r of
         Inl err \<Rightarrow> failM (Msg (''failed to get device properties for '' @ devicePath @ '': '' @ err_text err))
       | Inr devProps \<Rightarrow>
           (case map_of devProps ''TYPE'' of
              None \<Rightarrow> failM (Msg (''TYPE property is not found for '' @ devicePath))
            | Some diskType \<Rightarrow> ret (diskType = LVMType)))"

definition GetUdevInfo :: "'e os \<Rightarrow> string \<Rightarrow> ('e, string gomap) prog" where
  "GetUdevInfo os device =
     bindM (output_or_fail (ExecuteCommandWithOutput os ''udevadm''
              [''info'', ''--query=property'', ''/dev/'' @ device]))
       (\<lambda>output. ret (parseUdevInfo output))"

definition GetDeviceFilesystems :: "'e os \<Rightarrow> string \<Rightarrow> ('e, string) prog" where
  "GetDeviceFilesystems os device =
     bindM (output_or_fail (ExecuteCommandWithOutput os ''udevadm''
              [''info'', ''--query=property'', device_path device]))
       (\<lambda>output. ret (parseFS output))"

definition GetDiskUUID :: "'e os \<Rightarrow> device_env \<Rightarrow> string \<Rightarrow> ('e, string) prog" where
  "GetDiskUUID os env device =
     (if \<not> de_sgdisk env then ret ''sgdiskNotFound''
      else
        bindM (output_or_fail (ExecuteCommandWithOutput os sgdiskCmd [''--print'', device_path device]))
          (\<lambda>output. lift_sum (parseUUID (de_uuid_parse env) (device_path device) output)))"

definition GetLVName :: "'e os \<Rightarrow> string \<Rightarrow> ('e, string) prog" where
  "GetLVName os devicePath =
     bindM (output_or_msg (''failed to execute dmsetup info for '' @ devicePath @ ''. '')
              (ExecuteCommandWithOutput os ''dmsetup''
                 [''info'', ''-c'', ''--noheadings'', ''-o'', ''name'', devicePath])) (\<lambda>devInfo.
     bindM (output_or_msg (''failed to execute dmsetup splitname for '' @ devInfo @ ''. '')
              (ExecuteCommandWithOutput os ''dmsetup'' [''splitname'', ''--noheadings'', devInfo])) (\<lambda>out.
       case split_on (CHR '':'') out of
         vg # lv # _ \<Rightarrow> ret (vg @ ''/'' @ lv)
       | _ \<Rightarrow> failM (Msg (''dmsetup splitname returned unexpected result for '' @ devInfo @
                           ''. output: '' @ out))))"

definition ListDevicesChild :: "'e os \<Rightarrow> string \<Rightarrow> ('e, string list) prog" where
  "ListDevicesChild os device =
     bindM (output_or_msg (''failed to list child devices of '' @ device @ ''. '')
              (ExecuteCommandWithOutput os ''lsblk''
                 [''--noheadings'', ''--pairs'', path_join ''/dev'' device]))
       (\<lambda>childListRaw. ret (split_on newline childListRaw))"

section \<open>Partitions\<close>

record partition_scan =
  ps_partitions :: "partition list"
  ps_device_size :: "64 word"
  ps_total :: "64 word"

definition partition_of :: "string \<Rightarrow> 64 word \<Rightarrow> string gomap \<Rightarrow> partition" where
  "partition_of name bytes info =
     \<lparr>pt_name = name, pt_size = bytes,
      pt_label = (case map_of info ''ID_PART_ENTRY_NAME'' of
                    Some v \<Rightarrow> v
                  | None \<Rightarrow> (case map_of info ''PARTNAME'' of Some v \<Rightarrow> v | None \<Rightarrow> [])),
      pt_filesystem = (case map_of info ''ID_FS_TYPE'' of Some v \<Rightarrow> v | None \<Rightarrow> [])\<rparr>"

definition partition_step ::
  "'e os \<Rightarrow> string \<Rightarrow> string \<Rightarrow> partition_scan \<Rightarrow> ('e, partition_scan) prog" where
  "partition_step os device line s =
     (let props = parseKeyValuePairString line; name = map_get props ''NAME'' in
      if name = device then
        (case parse_uint 64 (map_get props ''SIZE'') of
           None \<Rightarrow> failM (Msg (''failed to get device '' @ device @ '' size. ''))
         | Some n \<Rightarrow> ret (s\<lparr>ps_device_size := word_of_int n\<rparr>))
      else if map_get props ''PKNAME'' = device \<and> map_get props ''TYPE'' = PartType then
        (case parse_uint 64 (map_get props ''SIZE'') of
           None \<Rightarrow> failM (Msg (''failed to get partition '' @ name @ '' size. ''))
         | Some n \<Rightarrow>
             bindM (GetUdevInfo os name) (\<lambda>info.
               ret (s\<lparr>ps_total := ps_total s + word_of_int n,
                      ps_partitions := ps_partitions s @ [partition_of name (word_of_int n) info]\<rparr>)))
      else ret s)"

definition GetDevicePartitions :: "'e os \<Rightarrow> string \<Rightarrow> ('e, partition list \<times> 64 word) prog" where
  "GetDevicePartitions os device =
     bindM (output_or_msg (''failed to get device '' @ device @ '' partitions. '')
              (ExecuteCommandWithOutput os ''lsblk''
                 [device_path device, ''--bytes'', ''--pairs'', ''--output'', ''NAME,SIZE,TYPE,PKNAME'']))
       (\<lambda>output.
         bindM (for_each (partition_step os device) (split_on newline output)
                  \<lparr>ps_partitions = [], ps_device_size = 0, ps_total = 0\<rparr>) (\<lambda>s.
           ret (ps_partitions s,
                if ps_device_size s > 0 then ps_device_size s - ps_total s else 0)))"

section \<open>Discovery (disks.go)\<close>

definition supportedDeviceType :: "string \<Rightarrow> bool" where
  "supportedDeviceType device =
     (device = DiskType \<or> device = SSDType \<or> device = CryptType \<or> device = MultiPath
      \<or> device = PartType \<or> device = LinearType \<or> device = LoopType)"

text \<open>The optional properties: what is missing or does not parse keeps the zero value.\<close>

definition apply_props :: "string gomap \<Rightarrow> local_disk \<Rightarrow> local_disk" where
  "apply_props props d =
     d\<lparr>ld_type := map_get props ''TYPE'',
       ld_size := (case parse_uint 64 (map_get props ''SIZE'') of Some n \<Rightarrow> word_of_int n | None \<Rightarrow> ld_size d),
       ld_rotational := (case parse_bool (map_get props ''ROTA'') of Some b \<Rightarrow> b | None \<Rightarrow> ld_rotational d),
       ld_readonly := (case parse_bool (map_get props ''RO'') of Some b \<Rightarrow> b | None \<Rightarrow> ld_readonly d),
       ld_parent := (if map_get props ''PKNAME'' \<noteq> [] then path_base (map_get props ''PKNAME'') else ld_parent d),
       ld_real_path := map_get props ''NAME'',
       ld_kernel_name := (case map_of props ''KNAME'' of Some v \<Rightarrow> path_base v | None \<Rightarrow> ld_kernel_name d),
       ld_mount_point := (if map_get props ''MOUNTPOINT'' \<noteq> [] then path_base (map_get props ''MOUNTPOINT'')
                          else ld_mount_point d)\<rparr>"

text \<open>The device numbers: \<open>strconv.Atoi\<close>, whose error is returned, then truncation to \<open>uint32\<close>.\<close>

definition apply_numbers :: "string gomap \<Rightarrow> local_disk \<Rightarrow> go_error + local_disk" where
  "apply_numbers props d =
     (let val = map_get props ''MAJ:MIN'' in
      if val = [] then Inr d
      else case split_on (CHR '':'') val of
             [a, b] \<Rightarrow>
               (case atoi a of
                  None \<Rightarrow> Inl (Msg (''strconv.Atoi: parsing '' @ a))
                | Some major \<Rightarrow>
                   (case atoi b of
                      None \<Rightarrow> Inl (Msg (''strconv.Atoi: parsing '' @ b))
                    | Some minor \<Rightarrow> Inr (d\<lparr>ld_major := word_of_int major, ld_minor := word_of_int minor\<rparr>)))
           | _ \<Rightarrow> Inr d)"

definition populateDeviceInfo :: "'e os \<Rightarrow> device_env \<Rightarrow> string \<Rightarrow> ('e, local_disk) prog" where
  "populateDeviceInfo os env d =
     bindM (GetDeviceProperties os d) (\<lambda>diskProps.
       case map_of diskProps ''TYPE'' of
         None \<Rightarrow> failM (Msg ''diskType is empty'')
       | Some diskType \<Rightarrow>
           if \<not> supportedDeviceType diskType then failM (Msg (''unsupported diskType '' @ diskType))
           else
             bindM (if diskType \<noteq> PartType then GetDiskUUID os env d else ret []) (\<lambda>diskUUID.
               lift_sum (apply_numbers diskProps
                 (apply_props diskProps (zero_local_disk\<lparr>ld_name := d, ld_uuid := diskUUID\<rparr>)))))"

definition or_keep :: "string gomap \<Rightarrow> string \<Rightarrow> string \<Rightarrow> string" where
  "or_keep info k old = (case map_of info k of Some v \<Rightarrow> v | None \<Rightarrow> old)"

definition apply_udev :: "string gomap \<Rightarrow> local_disk \<Rightarrow> local_disk" where
  "apply_udev info d =
     d\<lparr>ld_dev_links := or_keep info ''DEVLINKS'' (ld_dev_links d),
       ld_filesystem := or_keep info ''ID_FS_TYPE'' (ld_filesystem d),
       ld_serial := or_keep info ''ID_SERIAL'' (ld_serial d),
       ld_vendor := or_keep info ''ID_VENDOR'' (ld_vendor d),
       ld_model := or_keep info ''ID_MODEL'' (ld_model d),
       ld_wwn_vendor_extension := or_keep info ''ID_WWN_WITH_EXTENSION'' (ld_wwn_vendor_extension d),
       ld_wwn := or_keep info ''ID_WWN'' (ld_wwn d)\<rparr>"

text \<open>
  \<open>populateDeviceUdevInfo\<close> returns the disk beside its error; the caller logs the error and goes on
  with the disk as it was.
\<close>

definition populateDeviceUdevInfo :: "'e os \<Rightarrow> string \<Rightarrow> local_disk \<Rightarrow> ('e, local_disk) prog" where
  "populateDeviceUdevInfo os d disk =
     bindM (attempt (GetUdevInfo os d)) (\<lambda>r.
       case r of Inl _ \<Rightarrow> ret disk | Inr info \<Rightarrow> ret (apply_udev info disk))"

text \<open>The children of a device; an error counts as none.\<close>

definition children_of :: "'e os \<Rightarrow> string \<Rightarrow> ('e, string list) prog" where
  "children_of os d =
     bindM (attempt (ListDevicesChild os d)) (\<lambda>r. ret (case r of Inl _ \<Rightarrow> [] | Inr cs \<Rightarrow> cs))"

definition discover_step ::
  "'e os \<Rightarrow> device_env \<Rightarrow> bool \<Rightarrow> string \<Rightarrow> local_disk list \<Rightarrow> ('e, local_disk list) prog" where
  "discover_step os env listParent d disks =
     bindM (attempt (populateDeviceInfo os env d)) (\<lambda>r.
       case r of
         Inl _ \<Rightarrow> ret disks
       | Inr disk0 \<Rightarrow>
           bindM (populateDeviceUdevInfo os d disk0) (\<lambda>disk.
             if ld_type disk = DiskType then
               bindM (children_of os d) (\<lambda>deviceChild.
                 if \<not> listParent \<and> length deviceChild > 1 then ret disks else ret (disks @ [disk]))
             else ret (disks @ [disk])))"

definition DiscoverDevices :: "'e os \<Rightarrow> device_env \<Rightarrow> bool \<Rightarrow> ('e, local_disk list) prog" where
  "DiscoverDevices os env listParent =
     bindM (ListDevices os) (\<lambda>devices. for_each (discover_step os env listParent) devices [])"

definition two_gib :: "64 word" where
  "two_gib = 2 * (2 ^ 30)"

definition unavailable :: "local_disk \<Rightarrow> string \<Rightarrow> disk_info" where
  "unavailable d msg = \<lparr>di_disk = d, di_available = False, di_message = msg\<rparr>"

definition all_devices_step ::
  "'e os \<Rightarrow> local_disk \<Rightarrow> disk_info list \<Rightarrow> ('e, disk_info list) prog" where
  "all_devices_step os device res =
     (if ld_size device < two_gib then ret (res @ [unavailable device ''size less than 2G''])
      else if ld_filesystem device \<noteq> []
      then ret (res @ [unavailable device (''containe a filesystem '' @ ld_filesystem device)])
      else if ld_mount_point device \<noteq> []
      then ret (res @ [unavailable device (''has a mount point '' @ ld_mount_point device)])
      else
        bindM (if ld_type device = DiskType then children_of os (ld_kernel_name device) else ret [])
          (\<lambda>deviceChild.
            if ld_type device = DiskType \<and> length deviceChild > 1
            then ret (res @ [unavailable device ''has child''])
            else if ld_type device = LoopType then ret res
            else ret (res @ [\<lparr>di_disk = device, di_available = True, di_message = []\<rparr>])))"

definition GetAllDevices :: "'e os \<Rightarrow> device_env \<Rightarrow> ('e, disk_info list) prog" where
  "GetAllDevices os env =
     bindM (DiscoverDevices os env True) (\<lambda>disks. for_each (all_devices_step os) disks [])"

definition usable :: "local_disk \<Rightarrow> bool" where
  "usable d = (\<not> ld_size d < two_gib \<and> ld_filesystem d = [] \<and> ld_mount_point d = [])"

definition available_step :: "local_disk \<Rightarrow> local_disk gomap \<Rightarrow> local_disk gomap" where
  "available_step device m =
     (if ld_size device < two_gib then m
      else if ld_filesystem device \<noteq> [] then m
      else if ld_mount_point device \<noteq> [] then m
      else AList.update (''/dev/'' @ ld_name device) device m)"

definition GetAvailableDevices :: "'e os \<Rightarrow> device_env \<Rightarrow> ('e, local_disk gomap) prog" where
  "GetAvailableDevices os env =
     bindM (DiscoverDevices os env False) (\<lambda>disks. ret (fold available_step disks []))"

section \<open>Loop devices (loop.go)\<close>

text \<open>\<open>strconv.Itoa(int(size))\<close> reads the size as a signed number.\<close>

definition second_line :: "string \<Rightarrow> string option" where
  "second_line out =
     (case split_on newline out of [a, b] \<Rightarrow> Some (trim_space b) | _ \<Rightarrow> None)"

definition CreateLoop :: "'e os \<Rightarrow> string \<Rightarrow> 64 word \<Rightarrow> ('e, string) prog" where
  "CreateLoop os filename bytes =
     bindM (wrapExecCommand os ''truncate'' [''--size='' @ show_int (sint bytes) @ ''G'', filename]) (\<lambda>_.
     bindM (attempt (wrapExecCommand os ''losetup'' [''-f'', filename])) (\<lambda>r.
       case r of
         Inl err \<Rightarrow>
           bindM (attempt (wrapExecCommand os ''rm'' [''-f'', filename])) (\<lambda>_. failM err)
       | Inr _ \<Rightarrow>
           bindM (output_or_fail (wrapExecCommandWithOutput os ''losetup'' [''-j'', filename, ''-O'', ''name'']))
             (\<lambda>out. case second_line out of
                      None \<Rightarrow> failM (Msg (''get loop name failed for file'' @ filename))
                    | Some device \<Rightarrow> ret device)))"

definition GetLoopBackFile :: "'e os \<Rightarrow> string \<Rightarrow> ('e, string) prog" where
  "GetLoopBackFile os loop =
     bindM (output_or_fail (wrapExecCommandWithOutput os ''losetup'' [loop, ''-O'', ''back-file''])) (\<lambda>out.
       case second_line out of
         None \<Rightarrow> failM (Msg (''get loop %s back file name failed '' @ loop))
       | Some file \<Rightarrow> ret file)"

definition ReSetupLoop :: "'e os \<Rightarrow> device_env \<Rightarrow> string \<Rightarrow> string \<Rightarrow> ('e, unit) prog" where
  "ReSetupLoop os env filename loop =
     bindM (DiscoverDevices os env False) (\<lambda>devices.
       if \<exists>ele \<in> set devices. ''/dev/'' @ ld_name ele = loop then ret ()
       else wrapExecCommand os ''losetup'' [loop, filename])"

section \<open>Discovery only looks\<close>

definition inspects :: "event \<Rightarrow> bool" where
  "inspects ev = (case ev of
      RunCmd cmd args \<Rightarrow> cmd \<in> {''lsblk'', ''udevadm'', ''sgdisk'', ''dmsetup''} | _ \<Rightarrow> False)"

lemma inspects_run [simp]:
  "inspects (RunCmd cmd args) \<longleftrightarrow> cmd \<in> {''lsblk'', ''udevadm'', ''sgdisk'', ''dmsetup''}"
  by (simp add: inspects_def)

lemma inspects_not_change: "inspects ev \<Longrightarrow> \<not> lvm_change ev"
  by (auto simp: inspects_def lvm_change_def lvm_event_def)

lemma emits_output_or_msg [emits_intros]: "emits P m \<Longrightarrow> emits P (output_or_msg msg m)"
  unfolding output_or_msg_def by (intro emits_intros)

lemma queries_inspect [emits_intros]:
  "emits inspects (ListDevices os)"
  "emits inspects (GetDevicePropertiesFromPath os d)"
  "emits inspects (GetUdevInfo os d)"
  "emits inspects (GetDeviceFilesystems os d)"
  "emits inspects (GetDiskUUID os env d)"
  "emits inspects (ListDevicesChild os d)"
  "emits inspects (GetLVName os d)"
  unfolding ListDevices_def GetDevicePropertiesFromPath_def GetUdevInfo_def GetDeviceFilesystems_def
    GetDiskUUID_def ListDevicesChild_def GetLVName_def sgdiskCmd_def
  by (intro emits_intros; simp)+

lemma queries_inspect2 [emits_intros]:
  "emits inspects (GetDeviceProperties os d)"
  "emits inspects (IsLV os d)"
  "emits inspects (children_of os d)"
  "emits inspects (populateDeviceUdevInfo os d dk)"
  unfolding GetDeviceProperties_def IsLV_def children_of_def populateDeviceUdevInfo_def
  by (intro emits_intros)+

lemma emits_populateDeviceInfo [emits_intros]: "emits inspects (populateDeviceInfo os env d)"
  unfolding populateDeviceInfo_def by (intro emits_intros)

lemma emits_DiscoverDevices [emits_intros]: "emits inspects (DiscoverDevices os env b)"
  unfolding DiscoverDevices_def discover_step_def by (intro emits_intros)

lemma emits_GetAllDevices [emits_intros]: "emits inspects (GetAllDevices os env)"
  unfolding GetAllDevices_def all_devices_step_def by (intro emits_intros)

lemma emits_GetAvailableDevices [emits_intros]: "emits inspects (GetAvailableDevices os env)"
  unfolding GetAvailableDevices_def by (intro emits_intros)

section \<open>The key-value reports are read back\<close>

definition pair_text :: "string \<times> string \<Rightarrow> string" where
  "pair_text kv = fst kv @ ''='' @ [CHR 0x22] @ snd kv @ [CHR 0x22]"

definition pair_ok :: "string \<times> string \<Rightarrow> bool" where
  "pair_ok kv = (CHR ''='' \<notin> set (fst kv) \<and> CHR '' '' \<notin> set (fst kv)
     \<and> CHR ''='' \<notin> set (snd kv) \<and> CHR '' '' \<notin> set (snd kv) \<and> CHR 0x22 \<notin> set (snd kv))"

lemma add_pair_text: "pair_ok kv \<Longrightarrow> add_pair (pair_text kv) m = AList.update (fst kv) (snd kv) m"
proof -
  assume ok: "pair_ok kv"
  then have "split_on (CHR ''='') (fst kv @ CHR ''='' # ([CHR 0x22] @ snd kv @ [CHR 0x22])) =
      [fst kv, [CHR 0x22] @ snd kv @ [CHR 0x22]]"
    by (subst split_on_append) (auto simp: pair_ok_def split_on_no_sep)
  moreover from ok have "remove_char (CHR 0x22) ([CHR 0x22] @ snd kv @ [CHR 0x22]) = snd kv"
    by (auto simp: remove_char_def pair_ok_def filter_id_conv)
  ultimately show ?thesis by (simp add: add_pair_def pair_text_def)
qed

lemma fold_add_pair:
  "list_all pair_ok kvs \<Longrightarrow> fold add_pair (map pair_text kvs) m = fold (\<lambda>(k, v). AList.update k v) kvs m"
  by (induction kvs arbitrary: m) (auto simp: add_pair_text split: prod.splits)

lemma parse_pairs:
  assumes "list_all pair_ok kvs" and "kvs \<noteq> []"
  shows "parseKeyValuePairString (join_with (CHR '' '') (map pair_text kvs)) =
    fold (\<lambda>(k, v). AList.update k v) kvs []"
proof -
  have "split_on (CHR '' '') (join_with (CHR '' '') (map pair_text kvs)) = map pair_text kvs"
    using assms by (intro split_join) (auto simp: list_all_iff pair_ok_def pair_text_def)
  with assms(1) show ?thesis by (simp add: parseKeyValuePairString_def fold_add_pair)
qed

section \<open>Which devices are offered\<close>

lemma available_step_usable:
  "available_step d m = (if usable d then AList.update (''/dev/'' @ ld_name d) d m else m)"
  by (simp add: available_step_def usable_def)

lemma fold_available:
  "map_of (fold available_step ds m) k =
     (case filter (\<lambda>d. usable d \<and> ''/dev/'' @ ld_name d = k) ds of
        [] \<Rightarrow> map_of m k | x # xs \<Rightarrow> Some (last (x # xs)))"
  by (induction ds arbitrary: m)
    (auto simp: available_step_usable update_conv' split: list.splits)

lemma fold_available_keys: "well_keyed m \<Longrightarrow> well_keyed (fold available_step ds m)"
  by (induction ds arbitrary: m) (auto simp: available_step_usable)

lemma apply_numbers_type: "apply_numbers props d = Inr d' \<Longrightarrow> ld_type d' = ld_type d"
  by (auto simp: apply_numbers_def Let_def split: if_splits list.splits option.splits)

lemma populateDeviceInfo_type:
  assumes "populateDeviceInfo os env d w = (Ok dk, w')"
  shows "supportedDeviceType (ld_type dk)"
proof -
  from assms obtain props w1 where p: "(case map_of props ''TYPE'' of
         None \<Rightarrow> failM (Msg ''diskType is empty'')
       | Some diskType \<Rightarrow>
           if \<not> supportedDeviceType diskType then failM (Msg (''unsupported diskType '' @ diskType))
           else
             bindM (if diskType \<noteq> PartType then GetDiskUUID os env d else ret []) (\<lambda>diskUUID.
               lift_sum (apply_numbers props
                 (apply_props props (zero_local_disk\<lparr>ld_name := d, ld_uuid := diskUUID\<rparr>))))) w1 = (Ok dk, w')"
    unfolding populateDeviceInfo_def by (elim bindM_OkE)
  then obtain ty where ty: "map_of props ''TYPE'' = Some ty" by (cases "map_of props ''TYPE''") (auto simp: failM_def)
  with p have sup: "supportedDeviceType ty" by (auto simp: failM_def split: if_splits)
  with p ty obtain uu w2 where
    "lift_sum (apply_numbers props (apply_props props (zero_local_disk\<lparr>ld_name := d, ld_uuid := uu\<rparr>))) w2 = (Ok dk, w')"
    by (auto elim: bindM_OkE)
  then have "apply_numbers props (apply_props props (zero_local_disk\<lparr>ld_name := d, ld_uuid := uu\<rparr>)) = Inr dk"
    by (auto simp: lift_sum_def failM_def ret_def split: sum.splits)
  from apply_numbers_type [OF this] have "ld_type dk = ty" by (simp add: apply_props_def map_get_def ty)
  with sup show ?thesis by simp
qed

lemma populateDeviceUdevInfo_type:
  "populateDeviceUdevInfo os d dk w = (Ok disk, w') \<Longrightarrow> ld_type disk = ld_type dk"
  unfolding populateDeviceUdevInfo_def
  by (erule bindM_OkE) (auto simp: ret_def apply_udev_def split: sum.splits)

lemma discover_step_type:
  assumes "discover_step os env b d s w = (Ok s1, w1)" and "\<forall>x \<in> set s. supportedDeviceType (ld_type x)"
  shows "\<forall>x \<in> set s1. supportedDeviceType (ld_type x)"
proof -
  from assms(1) obtain r wr where r: "attempt (populateDeviceInfo os env d) w = (Ok r, wr)"
    and rest: "(case r of Inl _ \<Rightarrow> ret s
       | Inr disk0 \<Rightarrow>
           bindM (populateDeviceUdevInfo os d disk0) (\<lambda>disk.
             if ld_type disk = DiskType then
               bindM (children_of os d) (\<lambda>deviceChild.
                 if \<not> b \<and> length deviceChild > 1 then ret s else ret (s @ [disk]))
             else ret (s @ [disk]))) wr = (Ok s1, w1)"
    unfolding discover_step_def by (elim bindM_OkE)
  show ?thesis
  proof (cases r)
    case (Inl e)
    with rest assms(2) show ?thesis by (simp add: ret_def)
  next
    case (Inr dk)
    with r have p: "populateDeviceInfo os env d w = (Ok dk, wr)"
      by (auto simp: attempt_def split: prod.splits outcome.splits)
    from rest Inr obtain disk w3 where u: "populateDeviceUdevInfo os d dk wr = (Ok disk, w3)"
      and s1: "(if ld_type disk = DiskType then
               bindM (children_of os d) (\<lambda>deviceChild.
                 if \<not> b \<and> length deviceChild > 1 then ret s else ret (s @ [disk]))
             else ret (s @ [disk])) w3 = (Ok s1, w1)"
      by (auto elim: bindM_OkE)
    from s1 have "s1 = s \<or> s1 = s @ [disk]" by (auto simp: ret_def elim!: bindM_OkE split: if_splits)
    with assms(2) populateDeviceInfo_type [OF p] populateDeviceUdevInfo_type [OF u] show ?thesis by auto
  qed
qed

lemma discovered_supported:
  assumes "DiscoverDevices os env b w = (Ok ds, w')"
  shows "\<forall>d \<in> set ds. supportedDeviceType (ld_type d)"
proof -
  from assms obtain devices w1
    where f: "for_each (discover_step os env b) devices [] w1 = (Ok ds, w')"
    unfolding DiscoverDevices_def by (elim bindM_OkE)
  show ?thesis by (rule for_each_invariant [OF f]) (auto dest: discover_step_type)
qed

lemma all_devices_step_Ok:
  assumes "all_devices_step os d res w = (Ok res', w')"
  shows "res' = res \<and> usable d \<and> ld_type d = LoopType
    \<or> (\<exists>i. res' = res @ [i] \<and> di_disk i = d
         \<and> (di_available i \<longrightarrow> usable d \<and> ld_type d \<noteq> LoopType))"
  using assms
  by (auto simp: all_devices_step_def usable_def unavailable_def ret_def DiskType_def LoopType_def
      elim!: bindM_OkE split: if_splits)

lemma all_devices_step_kept:
  assumes "all_devices_step os d res w = (Ok res', w')"
  shows "map di_disk res' = map di_disk res @ (if usable d \<and> ld_type d = LoopType then [] else [d])"
  using assms
  by (auto simp: all_devices_step_def usable_def unavailable_def ret_def DiskType_def LoopType_def
      elim!: bindM_OkE split: if_splits)

end
