(* ===== verification/Device_Props.thy ===== *)
theory Device_Props
  imports Device Host
begin

text \<open>
  What is proved of the block-device code: which devices are offered to users, that looking at the
  devices changes nothing, that the key-value reports are read back, and that a failed creation of a
  loop device leaves no backing file behind.
\<close>

section \<open>A node for the witnesses\<close>

text \<open>A node with one empty 4 GiB disk, one small disk and one partition that carries a file system.\<close>

definition quote_mark :: string where "quote_mark = [CHR 0x22]"

definition props_line :: "string \<Rightarrow> string \<Rightarrow> string \<Rightarrow> string" where
  "props_line bytes ty name = join_with (CHR '' '') (map pair_text
     [(''SIZE'', bytes), (''ROTA'', ''1''), (''RO'', ''0''), (''TYPE'', ty), (''PKNAME'', []),
      (''NAME'', ''/dev/'' @ name), (''KNAME'', ''/dev/'' @ name), (''MOUNTPOINT'', []), (''MAJ:MIN'', ''8:16'')])"

definition props_args :: "string \<Rightarrow> string list" where
  "props_args name = [''/dev/'' @ name, ''--bytes'', ''--nodeps'', ''--pairs'', ''--paths'', ''--output'',
     ''SIZE,ROTA,RO,TYPE,PKNAME,NAME,KNAME,MOUNTPOINT,MAJ:MIN'']"

definition udev_args :: "string \<Rightarrow> string list" where
  "udev_args name = [''info'', ''--query=property'', ''/dev/'' @ name]"

definition node_os :: "unit os" where
  "node_os = script_os
     [((''lsblk'', [''--all'', ''--noheadings'', ''--list'', ''--output'', ''KNAME'']), ''sdb'' @ [newline] @ ''sdc1''),
      ((''lsblk'', props_args ''sdb''), props_line ''4294967296'' ''disk'' ''sdb''),
      ((''lsblk'', props_args ''sdc1''), props_line ''4294967296'' ''part'' ''sdc1''),
      ((''udevadm'', udev_args ''sdb''), ''DEVNAME=/dev/sdb''),
      ((''udevadm'', udev_args ''sdc1''), ''DEVNAME=/dev/sdc1'' @ [newline] @ ''ID_FS_TYPE=ext4''),
      ((''lsblk'', [''--noheadings'', ''--pairs'', ''/dev/sdb'']), ''NAME=sdb'')]"

definition no_sgdisk :: device_env where
  "no_sgdisk = \<lparr>de_sgdisk = False, de_uuid_parse = (\<lambda>_. None)\<rparr>"

lemma run_Ok:
  assumes "case fst (m w) of Ok x \<Rightarrow> P x | _ \<Rightarrow> False"
  obtains x w' where "m w = (Ok x, w')" and "P x"
  using assms by (cases "m w") (auto split: outcome.splits)

section \<open>Properties\<close>

text \<open>
  C24: \<open>GetAvailableDevices\<close> offers exactly the usable ones of the discovered devices: every entry is
  a discovered device of a supported type, filed under its path, at least 2 GiB large, without a file
  system and without a mount point; and every such device is offered.
\<close>

theorem available_devices_exact:
  assumes "GetAvailableDevices os env w = (Ok m, w')"
  shows "\<exists>disks. fst (DiscoverDevices os env False w) = Ok disks
    \<and> (\<forall>k d. map_of m k = Some d \<longrightarrow>
         k = ''/dev/'' @ ld_name d \<and> d \<in> set disks \<and> supportedDeviceType (ld_type d)
         \<and> 2147483648 \<le> unat (ld_size d) \<and> ld_filesystem d = [] \<and> ld_mount_point d = [])
    \<and> (\<forall>d \<in> set disks. 2147483648 \<le> unat (ld_size d) \<and> ld_filesystem d = [] \<and> ld_mount_point d = []
         \<longrightarrow> has_key m (''/dev/'' @ ld_name d))"
proof -
  from assms obtain disks w1 where d: "DiscoverDevices os env False w = (Ok disks, w1)"
    and m: "m = fold available_step disks []"
    unfolding GetAvailableDevices_def by (auto elim!: bindM_OkE simp: ret_def)
  have u: "usable d \<longleftrightarrow> 2147483648 \<le> unat (ld_size d) \<and> ld_filesystem d = [] \<and> ld_mount_point d = []" for d
    by (simp add: usable_def two_gib_def word_less_nat_alt not_less)
  have look: "map_of m k = (case filter (\<lambda>d. usable d \<and> ''/dev/'' @ ld_name d = k) disks of
      [] \<Rightarrow> None | x # xs \<Rightarrow> Some (last (x # xs)))" for k
    unfolding m fold_available by (simp split: list.splits)
  have "k = ''/dev/'' @ ld_name d \<and> d \<in> set disks \<and> usable d" if "map_of m k = Some d" for k d
  proof -
    from that look [of k]
    obtain x xs where "filter (\<lambda>d. usable d \<and> ''/dev/'' @ ld_name d = k) disks = x # xs" "d = last (x # xs)"
      by (auto split: list.splits)
    then have "d \<in> set (filter (\<lambda>d. usable d \<and> ''/dev/'' @ ld_name d = k) disks)" by (metis last_in_set list.distinct(1))
    then show ?thesis by auto
  qed
  moreover have "has_key m (''/dev/'' @ ld_name d)" if "d \<in> set disks" "usable d" for d
  proof -
    from that have "filter (\<lambda>x. usable x \<and> ''/dev/'' @ ld_name x = ''/dev/'' @ ld_name d) disks \<noteq> []"
      by (auto simp: filter_empty_conv)
    then show ?thesis by (simp add: has_key_def look split: list.splits)
  qed
  ultimately show ?thesis using d discovered_supported [OF d] by (auto simp: u)
qed

theorem available_devices_exact_witness:
  "\<exists>m w'. GetAvailableDevices node_os no_sgdisk start = (Ok m, w') \<and> map fst m = [''/dev/sdb'']
     \<and> (\<forall>d. map_of m ''/dev/sdb'' = Some d \<longrightarrow> ld_filesystem d = [])"
proof -
  have "case fst (GetAvailableDevices node_os no_sgdisk start) of Ok m \<Rightarrow> map fst m = [''/dev/sdb''] | _ \<Rightarrow> False"
    by code_simp
  then obtain m w' where m: "GetAvailableDevices node_os no_sgdisk start = (Ok m, w')" "map fst m = [''/dev/sdb'']"
    by (rule run_Ok)
  from available_devices_exact [OF m(1)]
  have "\<forall>d. map_of m ''/dev/sdb'' = Some d \<longrightarrow> ld_filesystem d = []" by metis
  with m show ?thesis by (intro exI [of _ m] exI [of _ w'] conjI)
qed


lemma all_devices_loop:
  "for_each (all_devices_step os) ds res w = (Ok infos, w') \<Longrightarrow>
     (\<forall>i \<in> set res. di_available i \<longrightarrow> usable (di_disk i) \<and> ld_type (di_disk i) \<noteq> LoopType) \<Longrightarrow>
     map di_disk infos = map di_disk res @ filter (\<lambda>d. \<not> (usable d \<and> ld_type d = LoopType)) ds
     \<and> (\<forall>i \<in> set infos. di_available i \<longrightarrow> usable (di_disk i) \<and> ld_type (di_disk i) \<noteq> LoopType)"
proof (induction ds arbitrary: res w)
  case Nil
  then show ?case by (simp add: ret_def)
next
  case (Cons d ds)
  from Cons.prems(1) obtain res1 w1 where s: "all_devices_step os d res w = (Ok res1, w1)"
    and rest: "for_each (all_devices_step os) ds res1 w1 = (Ok infos, w')" by (auto elim: bindM_OkE)
  from all_devices_step_Ok [OF s] Cons.prems(2)
  have "\<forall>i \<in> set res1. di_available i \<longrightarrow> usable (di_disk i) \<and> ld_type (di_disk i) \<noteq> LoopType" by auto
  from Cons.IH [OF rest this] all_devices_step_kept [OF s] show ?case by auto
qed

text \<open>
  \<open>GetAllDevices\<close> reports every discovered device in order, except the loop devices that would
  otherwise be usable, and marks a device as available only if it is usable and not a loop device.
\<close>

theorem all_devices_reported:
  assumes "GetAllDevices os env w = (Ok infos, w')"
  shows "\<exists>disks. fst (DiscoverDevices os env True w) = Ok disks
    \<and> map di_disk infos = filter (\<lambda>d. \<not> (usable d \<and> ld_type d = LoopType)) disks
    \<and> (\<forall>i \<in> set infos. di_available i \<longrightarrow> usable (di_disk i) \<and> ld_type (di_disk i) \<noteq> LoopType)"
proof -
  from assms obtain disks w1 where d: "DiscoverDevices os env True w = (Ok disks, w1)"
    and f: "for_each (all_devices_step os) disks [] w1 = (Ok infos, w')"
    unfolding GetAllDevices_def by (elim bindM_OkE)
  from all_devices_loop [OF f] d show ?thesis by simp
qed

theorem all_devices_reported_witness:
  "\<exists>infos w'. GetAllDevices node_os no_sgdisk start = (Ok infos, w') \<and> map di_available infos = [True, False]
     \<and> (\<forall>i \<in> set infos. di_available i \<longrightarrow> usable (di_disk i))"
proof -
  have "case fst (GetAllDevices node_os no_sgdisk start) of
      Ok infos \<Rightarrow> map di_available infos = [True, False] | _ \<Rightarrow> False"
    by code_simp
  then obtain infos w' where m: "GetAllDevices node_os no_sgdisk start = (Ok infos, w')"
    "map di_available infos = [True, False]" by (rule run_Ok)
  from all_devices_reported [OF m(1)] have "\<forall>i \<in> set infos. di_available i \<longrightarrow> usable (di_disk i)" by metis
  with m show ?thesis by (intro exI [of _ infos] exI [of _ w'] conjI)
qed

text \<open>
  Round trip of the \<open>lsblk --pairs\<close> line.  Keys and values without a space, an equals sign or (in
  a value) a double quote, printed as \<open>KEY="value"\<close> pairs with spaces between them, are read back by
  \<open>parseKeyValuePairString\<close> as the map of those pairs.
\<close>

theorem key_value_roundtrip:
  assumes "list_all pair_ok kvs" and "kvs \<noteq> []"
  shows "parseKeyValuePairString (join_with (CHR '' '') (map pair_text kvs)) =
    fold (\<lambda>(k, v). AList.update k v) kvs []"
  by (rule parse_pairs [OF assms])

theorem key_value_roundtrip_witness:
  "parseKeyValuePairString (join_with (CHR '' '') (map pair_text [(''SIZE'', ''10''), (''TYPE'', ''disk'')])) =
     [(''SIZE'', ''10''), (''TYPE'', ''disk'')]"
  by (subst key_value_roundtrip) (simp_all add: pair_ok_def)

text \<open>
  The commands of \<open>CreateLoop\<close>.  The backing file is created first; if \<open>losetup\<close> then refuses
  it, the file is removed and the call fails; a device name is returned only after \<open>losetup\<close> has
  attached the file and has been asked for the name.
\<close>

theorem create_loop_commands:
  "let T = RunCmd ''nsenter'' (nsenter_args ''truncate'' [''--size='' @ show_int (sint n) @ ''G'', file]);
       L = RunCmd ''nsenter'' (nsenter_args ''losetup'' [''-f'', file]);
       R = RunCmd ''nsenter'' (nsenter_args ''rm'' [''-f'', file]);
       Q = RunCmd ''nsenter'' (nsenter_args ''losetup'' [''-j'', file, ''-O'', ''name'']);
       r = fst (CreateLoop os file n w); tr = w_trace (snd (CreateLoop os file n w)) in
     (tr = w_trace w @ [T] \<and> (\<exists>e. r = Fail e)) \<or> (tr = w_trace w @ [T, L, R] \<and> (\<exists>e. r = Fail e))
     \<or> (tr = w_trace w @ [T, L, Q])"
proof -
  note defs = CreateLoop_def wrapExecCommand_def wrapExecCommandWithOutput_def output_or_fail_def
  obtain r1 e1 where 1: "os ''nsenter'' (nsenter_args ''truncate'' [''--size='' @ show_int (sint n) @ ''G'', file])
      (w_env w) = (r1, e1)" by fastforce
  obtain r2 e2 where 2: "os ''nsenter'' (nsenter_args ''losetup'' [''-f'', file]) e1 = (r2, e2)" by fastforce
  obtain r3 e3 where 3: "os ''nsenter'' (nsenter_args ''rm'' [''-f'', file]) e2 = (r3, e3)" by fastforce
  obtain r4 e4 where 4: "os ''nsenter'' (nsenter_args ''losetup'' [''-j'', file, ''-O'', ''name'']) e2 = (r4, e4)"
    by fastforce
  show ?thesis
    unfolding Let_def
    using 1 2 3 4
    by (cases "pr_err r1"; cases "pr_err r2"; cases "pr_err r3")
      (auto simp: defs bindM_def attempt_def ExecuteCommand_eq ExecuteCommandWithOutput_eq ret_def failM_def
        split: option.splits prod.splits)
qed

end
