(* ===== verification/RawCsi.thy ===== *)
theory RawCsi
  imports World
begin

text \<open>
  \<open>driver/raw_device\<close>: the CSI driver of raw devices.  The controller service hands out whole
  devices: creating a volume picks the smallest free \<open>RawDevice\<close> object of a node that is large enough
  and marks it in its status, deleting a volume clears the mark.  The lister (an informer cache) and
  the API client are arguments.  Sizes are Go's \<open>int64\<close>: 64-bit words read with \<open>sint\<close>.
\<close>

type_synonym int64 = "64 word"

record 'e raw_api =
  ra_list :: "'e \<Rightarrow> go_error + raw_device list"
  ra_get :: "string \<Rightarrow> ('e, raw_device) call"
  ra_create :: "raw_device \<Rightarrow> ('e, unit) call"
  ra_update :: "raw_device \<Rightarrow> ('e, unit) call"
  ra_update_status :: "raw_device \<Rightarrow> ('e, unit) call"
  ra_delete :: "string \<Rightarrow> ('e, unit) call"

definition TopologyNodeKey :: string where
  "TopologyNodeKey = ''topology.nativestor.alauda.io/node''"

text \<open>\<open>List(labels.Everything())\<close> and \<open>List(labels.SelectorFromSet({"node": node}))\<close>.\<close>

definition list_all_devices :: "'e raw_api \<Rightarrow> ('e, raw_device list) prog" where
  "list_all_devices api = external [] (\<lambda>e. (ra_list api e, e))"

definition on_node :: "string \<Rightarrow> raw_device \<Rightarrow> bool" where
  "on_node node d = (map_of (rd_labels d) ''node'' = Some node)"

definition list_node_devices :: "'e raw_api \<Rightarrow> string \<Rightarrow> ('e, raw_device list) prog" where
  "list_node_devices api node =
     bindM (list_all_devices api) (\<lambda>ds. ret (filter (on_node node) ds))"

definition update_status :: "'e raw_api \<Rightarrow> raw_device \<Rightarrow> ('e, unit) prog" where
  "update_status api d = external [RawUpdateStatus d] (ra_update_status api d)"

section \<open>Controller service: state of a device\<close>

text \<open>The test both loops of the source make before they consider a device.\<close>

definition is_free :: "raw_device \<Rightarrow> bool" where
  "is_free d = (\<not> (rd_status_name d \<noteq> [] \<or> \<not> rd_available d))"

fun max_capacity_loop :: "raw_device list \<Rightarrow> string \<times> int64 \<Rightarrow> string \<times> int64" where
  "max_capacity_loop [] acc = acc"
| "max_capacity_loop (d # ds) (node, capacity) =
     (if \<not> is_free d then max_capacity_loop ds (node, capacity)
      else if sint (rd_size d) > sint capacity then max_capacity_loop ds (rd_node_name d, rd_size d)
      else max_capacity_loop ds (node, capacity))"

definition getMaxCapacity :: "'e raw_api \<Rightarrow> ('e, string \<times> int64) prog" where
  "getMaxCapacity api =
     bindM (list_all_devices api) (\<lambda>ds. ret (max_capacity_loop ds ([], 0)))"

text \<open>\<open>size >> 30\<close> on \<open>int64\<close> is an arithmetic shift; \<open>gb << 30\<close> drops the high bits.\<close>

definition to_gb :: "int64 \<Rightarrow> int64" where
  "to_gb bytes = signed_drop_bit 30 bytes"

definition from_gb :: "int64 \<Rightarrow> int64" where
  "from_gb gb = push_bit 30 gb"

fun match_device :: "int64 \<Rightarrow> nat \<Rightarrow> raw_device list \<Rightarrow> nat option \<times> int64 \<Rightarrow> nat option \<times> int64" where
  "match_device requestGb index [] acc = acc"
| "match_device requestGb index (dev # devs) (matchIndex, matchSize) =
     (if \<not> is_free dev then match_device requestGb (Suc index) devs (matchIndex, matchSize)
      else if sint (to_gb (rd_size dev)) \<ge> sint requestGb then
        let (mi, ms) = (if matchSize = 0 then (Some index, rd_size dev) else (matchIndex, matchSize));
            (mi, ms) = (if sint (rd_size dev) < sint ms then (Some index, rd_size dev) else (mi, ms))
        in match_device requestGb (Suc index) devs (mi, ms)
      else match_device requestGb (Suc index) devs (matchIndex, matchSize))"

definition createVolume :: "'e raw_api \<Rightarrow> string \<Rightarrow> int64 \<Rightarrow> string \<Rightarrow> ('e, string) prog" where
  "createVolume api node requestGb name =
     bindM (list_node_devices api node) (\<lambda>rawDevicelist.
       case fst (match_device requestGb 0 rawDevicelist (None, 0)) of
         Some matchIndex \<Rightarrow>
           let device = rawDevicelist ! matchIndex; volumeId = rd_name device in
           bindM (update_status api (device\<lparr>rd_status_name := volumeId\<rparr>)) (\<lambda>_. ret volumeId)
       | None \<Rightarrow> failM (GrpcStatus Internal ''not found match device''))"

section \<open>Controller service: requests\<close>

datatype access_type = AccessBlock | AccessMount | AccessNone

record volume_capability =
  vc_access :: access_type
  vc_mode :: "int option"

record topology_requirement =
  tr_requisite :: "string gomap list"
  tr_preferred :: "string gomap list"

record create_volume_request =
  cv_name :: string
  cv_required_bytes :: int64
  cv_limit_bytes :: int64
  cv_has_content_source :: bool
  cv_capabilities :: "volume_capability list option"
  cv_requirements :: "topology_requirement option"

record create_volume_response =
  cr_capacity_bytes :: int64
  cr_volume_id :: string
  cr_node :: string

definition mode_name :: "int \<Rightarrow> string" where
  "mode_name m =
     (if m = 0 then ''UNKNOWN'' else if m = 1 then ''SINGLE_NODE_WRITER''
      else if m = 2 then ''SINGLE_NODE_READER_ONLY'' else if m = 3 then ''MULTI_NODE_READER_ONLY''
      else if m = 4 then ''MULTI_NODE_SINGLE_WRITER'' else if m = 5 then ''MULTI_NODE_MULTI_WRITER''
      else if m = 6 then ''SINGLE_NODE_SINGLE_WRITER''
      else if m = 7 then ''SINGLE_NODE_MULTI_WRITER'' else [])"

fun check_capabilities :: "volume_capability list \<Rightarrow> go_error option" where
  "check_capabilities [] = None"
| "check_capabilities (c # cs) =
     (if vc_access c = AccessNone
      then Some (GrpcStatus InvalidArgument ''unknown or empty access_type'')
      else case vc_mode c of
             None \<Rightarrow> check_capabilities cs
           | Some m \<Rightarrow>
               if m = 1 then check_capabilities cs
               else Some (GrpcStatus InvalidArgument (''unsupported access mode: '' @ mode_name m)))"

definition convertRequestCapacity :: "int64 \<Rightarrow> int64 \<Rightarrow> go_error + int64" where
  "convertRequestCapacity requestBytes limitBytes =
     (if sint requestBytes < 0 then Inl (Msg ''required capacity must not be negative'')
      else if sint limitBytes < 0 then Inl (Msg ''capacity limit must not be negative'')
      else if limitBytes \<noteq> 0 \<and> sint requestBytes > sint limitBytes
      then Inl (Msg (''requested capacity exceeds limit capacity: request='' @ show_int (sint requestBytes)
             @ '' limit='' @ show_int (sint limitBytes)))
      else if requestBytes = 0 then Inr 1
      else Inr (to_gb (requestBytes - 1) + 1))"

fun first_segment :: "string gomap list \<Rightarrow> string" where
  "first_segment [] = []"
| "first_segment (t # ts) =
     (case map_of t TopologyNodeKey of Some v \<Rightarrow> v | None \<Rightarrow> first_segment ts)"

definition topology_node :: "topology_requirement \<Rightarrow> string" where
  "topology_node req =
     (let node = first_segment (tr_preferred req) in
      if node = [] then first_segment (tr_requisite req) else node)"

text \<open>The node a request is for: the one with the largest free device when no topology is asked.\<close>

definition choose_node :: "'e raw_api \<Rightarrow> topology_requirement option \<Rightarrow> int64 \<Rightarrow> ('e, string) prog" where
  "choose_node api requirements requestGb =
     (case requirements of
        None \<Rightarrow>
          bindM (attempt (getMaxCapacity api)) (\<lambda>r.
            case r of
              Inl err \<Rightarrow> failM (GrpcStatus Internal (''failed to get max capacity node '' @ err_text err))
            | Inr (nodeName, capacity) \<Rightarrow>
                if nodeName = [] then failM (GrpcStatus Internal ''can not find any node'')
                else if sint capacity < sint (from_gb requestGb)
                then failM (GrpcStatus ResourceExhausted
                       (''can not find enough volume space '' @ show_int (sint capacity)))
                else ret nodeName)
      | Some req \<Rightarrow>
          let node = topology_node req in
          if node = []
          then failM (GrpcStatus InvalidArgument
                 (''cannot find key '' @ TopologyNodeKey @ '' in accessibility_requirements''))
          else ret node)"

text \<open>An error that is not a gRPC status is returned as \<open>Internal\<close>.\<close>

fun as_status :: "go_error \<Rightarrow> go_error" where
  "as_status (GrpcStatus c m) = GrpcStatus c m"
| "as_status e = GrpcStatus Internal (err_text e)"

definition status_of :: "('e, 'a) prog \<Rightarrow> ('e, 'a) prog" where
  "status_of m = bindM (attempt m) (\<lambda>r. case r of Inl e \<Rightarrow> failM (as_status e) | Inr x \<Rightarrow> ret x)"

definition CreateVolume ::
  "'e raw_api \<Rightarrow> create_volume_request \<Rightarrow> ('e, create_volume_response) prog" where
  "CreateVolume api req =
     (if cv_has_content_source req
      then failM (GrpcStatus InvalidArgument ''volume_content_source not supported'')
      else case cv_capabilities req of
        None \<Rightarrow> failM (GrpcStatus InvalidArgument ''no volume capabilities are provided'')
      | Some caps \<Rightarrow>
         (case check_capabilities caps of
            Some err \<Rightarrow> failM err
          | None \<Rightarrow>
             (case convertRequestCapacity (cv_required_bytes req) (cv_limit_bytes req) of
                Inl err \<Rightarrow> failM (GrpcStatus InvalidArgument (err_text err))
              | Inr requestGb \<Rightarrow>
                  bindM (choose_node api (cv_requirements req) requestGb) (\<lambda>node.
                    if cv_name req = [] then failM (GrpcStatus InvalidArgument ''invalid name'')
                    else
                      bindM (status_of (createVolume api node requestGb (to_lower (cv_name req)))) (\<lambda>volumeID.
                        ret \<lparr>cr_capacity_bytes = from_gb requestGb, cr_volume_id = volumeID,
                             cr_node = node\<rparr>)))))"

text \<open>Both look-ups by volume id keep the last match of the list.\<close>

fun last_match :: "string \<Rightarrow> raw_device list \<Rightarrow> raw_device option \<Rightarrow> raw_device option" where
  "last_match volumeId [] acc = acc"
| "last_match volumeId (d # ds) acc =
     last_match volumeId ds (if rd_status_name d = volumeId then Some d else acc)"

definition deleteVolume :: "'e raw_api \<Rightarrow> string \<Rightarrow> ('e, unit) prog" where
  "deleteVolume api volumeId =
     bindM (list_all_devices api) (\<lambda>ds.
       case last_match volumeId ds None of
         None \<Rightarrow> failM (GrpcStatus NotFound [])
       | Some d \<Rightarrow> update_status api (d\<lparr>rd_status_name := []\<rparr>))"

definition getVolume :: "'e raw_api \<Rightarrow> string \<Rightarrow> ('e, raw_device) prog" where
  "getVolume api volumeId =
     bindM (list_all_devices api) (\<lambda>ds.
       case last_match volumeId ds None of
         None \<Rightarrow> failM (GrpcStatus NotFound [])
       | Some d \<Rightarrow> ret d)"

definition DeleteVolume :: "'e raw_api \<Rightarrow> string \<Rightarrow> ('e, unit) prog" where
  "DeleteVolume api volumeId =
     (if volumeId = [] then failM (GrpcStatus InvalidArgument ''volume_id is not provided'')
      else status_of (deleteVolume api volumeId))"

definition ValidateVolumeCapabilities ::
  "'e raw_api \<Rightarrow> string \<Rightarrow> volume_capability list \<Rightarrow> ('e, volume_capability list) prog" where
  "ValidateVolumeCapabilities api volumeId caps =
     (if volumeId = [] then failM (GrpcStatus InvalidArgument ''volume id is nil'')
      else if caps = [] then failM (GrpcStatus InvalidArgument ''volume capabilities are empty'')
      else bindM (attempt (getVolume api volumeId)) (\<lambda>r.
        case r of
          Inl err \<Rightarrow>
            if is_not_found err
            then failM (GrpcStatus NotFound (''LogicalVolume for volume id '' @ volumeId @ '' is not found''))
            else failM (GrpcStatus Internal (err_text err))
        | Inr _ \<Rightarrow> ret caps))"

text \<open>\<open>for index, dev := range ...\<close> with the three running figures of the source.\<close>

fun capacity_loop :: "nat \<Rightarrow> raw_device list \<Rightarrow> int64 \<times> int64 \<times> int64 \<Rightarrow> int64 \<times> int64 \<times> int64" where
  "capacity_loop index [] acc = acc"
| "capacity_loop index (dev # devs) (available, maxSize, minSize) =
     (if rd_status_name dev \<noteq> [] \<or> \<not> rd_available dev
      then capacity_loop (Suc index) devs (available, maxSize, minSize)
      else
        let available = available + rd_size dev;
            minSize = (if index = 0 then rd_size dev else minSize);
            maxSize = (if sint (rd_size dev) > sint maxSize then rd_size dev else maxSize);
            minSize = (if sint (rd_size dev) < sint minSize then rd_size dev else minSize)
        in capacity_loop (Suc index) devs (available, maxSize, minSize))"

definition getCapacityByTopologyLabel ::
  "'e raw_api \<Rightarrow> string \<Rightarrow> ('e, int64 \<times> int64 \<times> int64) prog" where
  "getCapacityByTopologyLabel api node =
     bindM (list_node_devices api node) (\<lambda>ds. ret (capacity_loop 0 ds (0, 0, 0)))"

record get_capacity_response =
  gc_available :: int64
  gc_maximum :: "int64 option"
  gc_minimum :: "int64 option"

definition GetCapacity :: "'e raw_api \<Rightarrow> string gomap option \<Rightarrow> ('e, get_capacity_response) prog" where
  "GetCapacity api topology =
     (case topology of
        None \<Rightarrow> failM (GrpcStatus InvalidArgument ''must provide topology info'')
      | Some segments \<Rightarrow>
         (case map_of segments TopologyNodeKey of
            None \<Rightarrow> ret \<lparr>gc_available = 0, gc_maximum = None, gc_minimum = None\<rparr>
          | Some v \<Rightarrow>
              bindM (attempt (getCapacityByTopologyLabel api v)) (\<lambda>r.
                case r of
                  Inl err \<Rightarrow> failM (GrpcStatus Internal (err_text err))
                | Inr (capacity, maxSize, minSize) \<Rightarrow>
                    ret \<lparr>gc_available = capacity, gc_maximum = Some maxSize, gc_minimum = Some minSize\<rparr>)))"

datatype rpc_type = RPC_CREATE_DELETE_VOLUME | RPC_GET_CAPACITY

definition ControllerGetCapabilities :: "rpc_type list" where
  "ControllerGetCapabilities = [RPC_CREATE_DELETE_VOLUME, RPC_GET_CAPACITY]"

definition ControllerExpandVolume :: "string \<Rightarrow> ('e, unit) prog" where
  "ControllerExpandVolume volumeID = failM (GrpcStatus Unimplemented [])"

section \<open>Node service and identity service\<close>

text \<open>
  The file-system calls of the node service and \<open>unix.Mkdev\<close> are arguments.  The mutex of the service
  makes a publish or unpublish one step with respect to the others, which a \<open>prog\<close> is.
\<close>

record 'e fs_api =
  fs_mkdir_all :: "string \<Rightarrow> ('e, unit) call"
  fs_mknod :: "string \<Rightarrow> int \<Rightarrow> ('e, unit) call"
  fs_remove :: "string \<Rightarrow> ('e, unit) call"

record publish_request =
  np_volume_id :: string
  np_target_path :: string
  np_capability :: "volume_capability option"

definition nodePublishBlockVolume ::
  "'e fs_api \<Rightarrow> 'e raw_api \<Rightarrow> (32 word \<Rightarrow> 32 word \<Rightarrow> int) \<Rightarrow> publish_request \<Rightarrow> ('e, unit) prog" where
  "nodePublishBlockVolume fs api mkdev req =
     (let target = np_target_path req in
      bindM (attempt (external [FsMkdirAll (path_dir target)] (fs_mkdir_all fs (path_dir target)))) (\<lambda>r.
        case r of
          Inl err \<Rightarrow> failM (GrpcStatus Internal (''mkdir failed: target='' @ path_dir target @
                                 '', error='' @ err_text err))
        | Inr _ \<Rightarrow>
            bindM (external [] (ra_get api (np_volume_id req))) (\<lambda>rawDevice.
              let devno = mkdev (rd_major rawDevice) (rd_minor rawDevice) in
              bindM (attempt (external [FsMknod target devno] (fs_mknod fs target devno))) (\<lambda>r.
                case r of
                  Inl err \<Rightarrow> failM (GrpcStatus Internal (''mknod failed for '' @ target @
                                         '': error='' @ err_text err))
                | Inr _ \<Rightarrow> ret ()))))"

definition NodePublishVolume ::
  "'e fs_api \<Rightarrow> 'e raw_api \<Rightarrow> (32 word \<Rightarrow> 32 word \<Rightarrow> int) \<Rightarrow> publish_request \<Rightarrow> ('e, unit) prog" where
  "NodePublishVolume fs api mkdev req =
     (if np_volume_id req = [] then failM (GrpcStatus InvalidArgument ''no volume_id is provided'')
      else if np_target_path req = [] then failM (GrpcStatus InvalidArgument ''no target_path is provided'')
      else case np_capability req of
             None \<Rightarrow> failM (GrpcStatus InvalidArgument ''no volume_capability is provided'')
           | Some vc \<Rightarrow>
               if vc_access vc \<noteq> AccessBlock
               then failM (GrpcStatus InvalidArgument ''no supported volume capability'')
               else nodePublishBlockVolume fs api mkdev req)"

definition nodeUnpublishBlockVolume :: "'e fs_api \<Rightarrow> string \<Rightarrow> ('e, unit) prog" where
  "nodeUnpublishBlockVolume fs target =
     bindM (attempt (external [FsRemove target] (fs_remove fs target))) (\<lambda>r.
       case r of
         Inl err \<Rightarrow> failM (GrpcStatus Internal (''remove failed for '' @ target @ '': error='' @ err_text err))
       | Inr _ \<Rightarrow> ret ())"

definition NodeUnpublishVolume :: "'e fs_api \<Rightarrow> string \<Rightarrow> string \<Rightarrow> ('e, unit) prog" where
  "NodeUnpublishVolume fs volID target =
     (if volID = [] then failM (GrpcStatus InvalidArgument ''no volume_id is provided'')
      else if target = [] then failM (GrpcStatus InvalidArgument ''no target_path is provided'')
      else nodeUnpublishBlockVolume fs target)"

record node_info =
  ni_node_id :: string
  ni_segments :: "string gomap"

definition NodeGetInfo :: "string \<Rightarrow> node_info" where
  "NodeGetInfo nodeName = \<lparr>ni_node_id = nodeName, ni_segments = [(TopologyNodeKey, nodeName)]\<rparr>"

datatype plugin_capability = CONTROLLER_SERVICE | VOLUME_ACCESSIBILITY_CONSTRAINTS

definition GetPluginInfo :: "string \<times> string" where
  "GetPluginInfo = (''nativestor.alauda.io'', ''1.0'')"

definition GetPluginCapabilities :: "plugin_capability list" where
  "GetPluginCapabilities = [CONTROLLER_SERVICE, VOLUME_ACCESSIBILITY_CONSTRAINTS]"

definition Probe :: bool where
  "Probe = True"

end
