(* ===== verification/K8sApi.thy ===== *)
theory K8sApi
  imports RawCsi
begin

text \<open>
  \<open>pkg/operator/k8sutil\<close>, the part that talks to the API server: deletion with a bounded wait
  (\<open>delete.go\<close>, \<open>options.go\<close>, \<open>deployment.go\<close>), creation that falls back to an update
  (\<open>deployment.go\<close>, \<open>daemonset.go\<close>, \<open>csidriver.go\<close>, \<open>rawdevice.go\<close>), status updates (\<open>status.go\<close>),
  jobs that replace their predecessor (\<open>job.go\<close>) and config maps (\<open>configmap.go\<close>).  The client calls
  are arguments.
\<close>

section \<open>Deletion\<close>

text \<open>
  A retry count is a Go \<open>uint\<close> and an interval a Go duration; both are taken as unbounded numbers
  here, as no caller comes near their limits.
\<close>

record wait_options =
  wo_wait :: bool
  wo_retry_count :: nat
  wo_retry_interval :: int
  wo_error_on_timeout :: bool

record delete_options =
  do_must_delete :: bool
  do_wait :: wait_options

definition retryCountOrDefault :: "wait_options \<Rightarrow> nat \<Rightarrow> nat" where
  "retryCountOrDefault w d = (if wo_retry_count w > 0 then wo_retry_count w else d)"

definition retryIntervalOrDefault :: "wait_options \<Rightarrow> int \<Rightarrow> int" where
  "retryIntervalOrDefault w d = (if wo_retry_interval w > 0 then wo_retry_interval w else d)"

text \<open>
  \<open>for i = 0; i <= retries; i++\<close>, by the number of retries left: \<open>True\<close> when the resource was found to
  be gone, with the last error otherwise.
\<close>

fun verify_loop :: "('e, unit) prog \<Rightarrow> nat \<Rightarrow> nat \<Rightarrow> ('e, bool \<times> go_error option) prog" where
  "verify_loop verify interval left =
     bindM (attempt verify) (\<lambda>r.
       let err = (case r of Inl e \<Rightarrow> Some e | Inr _ \<Rightarrow> None) in
       if (case err of Some e \<Rightarrow> is_not_found e | None \<Rightarrow> False) then ret (True, None)
       else case left of
              0 \<Rightarrow> ret (False, err)
            | Suc left' \<Rightarrow> bindM (emit (Sleep interval)) (\<lambda>_. verify_loop verify interval left'))"

declare verify_loop.simps [simp del]

definition DeleteResource ::
  "('e, unit) prog \<Rightarrow> ('e, unit) prog \<Rightarrow> string \<Rightarrow> delete_options \<Rightarrow> wait_options \<Rightarrow> ('e, unit) prog" where
  "DeleteResource del verify resource opts defaultWaitOptions =
     bindM (attempt del) (\<lambda>r.
       case r of
         Inl err \<Rightarrow>
           if is_not_found err \<and> do_must_delete opts
           then failM (Msg (''failed to delete '' @ resource @ ''; it does not exist. '' @ err_text err))
           else if is_not_found err \<and> \<not> do_must_delete opts then ret ()
           else failM (Msg (''failed to delete '' @ resource @ ''. '' @ err_text err))
       | Inr _ \<Rightarrow>
           if \<not> wo_wait (do_wait opts) then ret ()
           else
             let retries = retryCountOrDefault (do_wait opts) (retryCountOrDefault defaultWaitOptions 30);
                 retryInterval = retryIntervalOrDefault (do_wait opts) (retryIntervalOrDefault defaultWaitOptions 5)
             in bindM (verify_loop verify (nat retryInterval) retries) (\<lambda>(gone, err).
                  if gone then ret ()
                  else if wo_error_on_timeout (do_wait opts)
                  then failM (Msg (''failed to delete '' @ resource @ ''. gave up waiting after ''
                         @ show_int (int retries) @ '' retries every '' @ show_int retryInterval
                         @ '' seconds. '' @ (case err of Some e \<Rightarrow> err_text e | None \<Rightarrow> ''<nil>'')))
                  else ret ()))"

text \<open>\<open>for i := 0; i < 45; i++\<close> of \<open>deleteResourceAndWait\<close>.\<close>

fun wait_gone :: "nat \<Rightarrow> ('e, unit) prog \<Rightarrow> string \<Rightarrow> ('e, unit) prog" where
  "wait_gone 0 getAction name = failM (Msg (''gave up waiting for '' @ name @ '' pods to be terminated''))"
| "wait_gone (Suc n) getAction name =
     bindM (attempt getAction) (\<lambda>r.
       case r of
         Inl err \<Rightarrow>
           if is_not_found err then ret ()
           else failM (Msg (''failed to get '' @ name @ ''. '' @ err_text err))
       | Inr _ \<Rightarrow> bindM (emit (Sleep 2)) (\<lambda>_. wait_gone n getAction name))"

definition deleteResourceAndWait ::
  "string \<Rightarrow> string \<Rightarrow> ('e, unit) prog \<Rightarrow> ('e, unit) prog \<Rightarrow> ('e, unit) prog" where
  "deleteResourceAndWait name resourceType deleteAction getAction =
     bindM (attempt deleteAction) (\<lambda>r.
       case r of
         Inl err \<Rightarrow>
           if \<not> is_not_found err then failM (Msg (''failed to delete '' @ name @ ''. '' @ err_text err))
           else ret ()
       | Inr _ \<Rightarrow> wait_gone 45 getAction name)"

section \<open>A kind of object and its client\<close>

text \<open>The verbs of one kind of object in one namespace; \<open>'o\<close> is the object.\<close>

record ('e, 'o) kind_api =
  ka_get :: "string \<Rightarrow> 'e \<Rightarrow> go_error + 'o"
  ka_create :: "'o \<Rightarrow> ('e, 'o) call"
  ka_update :: "'o \<Rightarrow> ('e, 'o) call"
  ka_delete :: "string \<Rightarrow> ('e, unit) call"

definition get_obj :: "('e, 'o) kind_api \<Rightarrow> string \<Rightarrow> ('e, 'o) prog" where
  "get_obj api name = external [] (\<lambda>e. (ka_get api name e, e))"

definition create_obj :: "('e, 'o) kind_api \<Rightarrow> ('o \<Rightarrow> string) \<Rightarrow> 'o \<Rightarrow> ('e, 'o) prog" where
  "create_obj api nm obj = external [ResourceCreate (nm obj)] (ka_create api obj)"

definition update_obj :: "('e, 'o) kind_api \<Rightarrow> ('o \<Rightarrow> string) \<Rightarrow> 'o \<Rightarrow> ('e, 'o) prog" where
  "update_obj api nm obj = external [ResourceUpdate (nm obj)] (ka_update api obj)"

definition delete_obj :: "('e, 'o) kind_api \<Rightarrow> string \<Rightarrow> ('e, unit) prog" where
  "delete_obj api name = external [ResourceDelete name] (ka_delete api name)"

definition exists_obj :: "('e, 'o) kind_api \<Rightarrow> string \<Rightarrow> ('e, unit) prog" where
  "exists_obj api name = bindM (get_obj api name) (\<lambda>_. ret ())"

text \<open>
  Deployments.  \<open>SetLastAppliedAnnotation\<close> (k8s-objectmatcher) is an argument; it changes the object
  in place, so the update sends the annotated one.
\<close>

definition CreateDeployment ::
  "('e, 'o) kind_api \<Rightarrow> ('o \<Rightarrow> string) \<Rightarrow> ('o \<Rightarrow> go_error + 'o) \<Rightarrow> 'o \<Rightarrow> ('e, 'o) prog" where
  "CreateDeployment api nm annotate dep =
     (case annotate dep of
        Inl err \<Rightarrow> failM (Wrapped (''failed to set hash annotation on deployment '' @ nm dep) err)
      | Inr dep' \<Rightarrow> create_obj api nm dep')"

definition CreateOrUpdateDeployment ::
  "('e, 'o) kind_api \<Rightarrow> ('o \<Rightarrow> string) \<Rightarrow> ('o \<Rightarrow> go_error + 'o) \<Rightarrow> 'o \<Rightarrow> ('e, 'o) prog" where
  "CreateOrUpdateDeployment api nm annotate dep =
     bindM (attempt (CreateDeployment api nm annotate dep)) (\<lambda>r.
       case r of
         Inr newDep \<Rightarrow> ret newDep
       | Inl err \<Rightarrow>
           wrapM (''failed to create or update deployment '' @ nm dep)
             (if is_already_exists err
              then update_obj api nm (case annotate dep of Inr dep' \<Rightarrow> dep' | Inl _ \<Rightarrow> dep)
              else failM err))"

definition DeleteDeployment :: "('e, 'o) kind_api \<Rightarrow> string \<Rightarrow> ('e, unit) prog" where
  "DeleteDeployment api name =
     deleteResourceAndWait name ''deployment'' (delete_obj api name) (exists_obj api name)"

definition CheckDeploymentIsExisting :: "('e, 'o) kind_api \<Rightarrow> string \<Rightarrow> ('e, bool) prog" where
  "CheckDeploymentIsExisting api deploymentName =
     bindM (attempt (get_obj api deploymentName)) (\<lambda>r.
       case r of
         Inl err \<Rightarrow>
           if \<not> is_not_found err then failM (Wrapped (''failed to detect deployment '' @ deploymentName) err)
           else ret False
       | Inr _ \<Rightarrow> ret True)"

definition CreateDaemonSet :: "('e, 'o) kind_api \<Rightarrow> ('o \<Rightarrow> string) \<Rightarrow> string \<Rightarrow> 'o \<Rightarrow> ('e, unit) prog" where
  "CreateDaemonSet api nm name ds =
     bindM (attempt (create_obj api nm ds)) (\<lambda>r.
       case r of
         Inr _ \<Rightarrow> ret ()
       | Inl err \<Rightarrow>
           bindM (if is_already_exists err then attempt (update_obj api nm ds) else ret (Inl err)) (\<lambda>r.
             case r of
               Inl err \<Rightarrow> failM (Msg (''failed to start '' @ name @ '' daemonset: '' @ err_text err))
             | Inr _ \<Rightarrow> ret ()))"

definition DeleteDaemonset :: "('e, 'o) kind_api \<Rightarrow> string \<Rightarrow> ('e, unit) prog" where
  "DeleteDaemonset api name =
     deleteResourceAndWait name ''daemonset'' (delete_obj api name) (exists_obj api name)"

definition CreateCSIDriver :: "('e, 'o) kind_api \<Rightarrow> ('o \<Rightarrow> string) \<Rightarrow> 'o \<Rightarrow> ('e, unit) prog" where
  "CreateCSIDriver api nm csiDriver =
     bindM (attempt (create_obj api nm csiDriver)) (\<lambda>r.
       case r of
         Inr _ \<Rightarrow> ret ()
       | Inl err \<Rightarrow> if is_already_exists err then ret () else failM err)"

definition DeleteCSIDriver :: "('e, 'o) kind_api \<Rightarrow> string \<Rightarrow> ('e, unit) prog" where
  "DeleteCSIDriver api name =
     bindM (attempt (delete_obj api name)) (\<lambda>r.
       case r of
         Inr _ \<Rightarrow> ret ()
       | Inl err \<Rightarrow> if is_not_found err then ret () else failM err)"

section \<open>Raw devices\<close>

definition CreateRawDevice :: "'e raw_api \<Rightarrow> raw_device \<Rightarrow> ('e, unit) prog" where
  "CreateRawDevice api device = external [RawCreate device] (ra_create api device)"

text \<open>\<open>newDev.Spec = device.Spec\<close>: the name, the labels and the status of the object found are kept.\<close>

definition with_spec_of :: "raw_device \<Rightarrow> raw_device \<Rightarrow> raw_device" where
  "with_spec_of device newDev =
     device\<lparr>rd_name := rd_name newDev, rd_labels := rd_labels newDev, rd_status_name := rd_status_name newDev\<rparr>"

text \<open>
  The \<open>err\<close> of the inner block shadows the outer one: after an update that succeeds, the function
  still returns the \<open>AlreadyExists\<close> error of the creation.
\<close>

definition CreateOrUpdateRawDevice :: "'e raw_api \<Rightarrow> raw_device \<Rightarrow> ('e, unit) prog" where
  "CreateOrUpdateRawDevice api device =
     bindM (attempt (CreateRawDevice api device)) (\<lambda>r.
       case r of
         Inr _ \<Rightarrow> ret ()
       | Inl err \<Rightarrow>
           if is_already_exists err then
             bindM (external [] (ra_get api (rd_name device))) (\<lambda>newDev.
             bindM (external [RawUpdate (with_spec_of device newDev)] (ra_update api (with_spec_of device newDev)))
               (\<lambda>_. failM err))
           else failM err)"

section \<open>Status updates\<close>

text \<open>
  The guard \<open>!IsConflict(err) || !IsInvalid(err)\<close> holds for every error (none is both), so the second
  attempt is never made.
\<close>

definition status_or_update :: "('e, unit) prog \<Rightarrow> ('e, unit) prog \<Rightarrow> ('e, unit) prog" where
  "status_or_update status_update update =
     bindM (attempt status_update) (\<lambda>r.
       case r of Inl err \<Rightarrow> if is_not_found err then update else failM err | Inr _ \<Rightarrow> ret ())"

definition UpdateStatus :: "('e, unit) prog \<Rightarrow> ('e, unit) prog \<Rightarrow> string \<Rightarrow> ('e, unit) prog" where
  "UpdateStatus status_update update name =
     bindM (attempt (status_or_update status_update update)) (\<lambda>r.
       case r of
         Inr _ \<Rightarrow> ret ()
       | Inl err \<Rightarrow>
           if \<not> is_conflict err \<or> \<not> is_invalid err
           then failM (Wrapped (''failed to update object '' @ name @ '' status'') err)
           else wrapM (''failed to update object '' @ name @ '' status'') (status_or_update status_update update))"

section \<open>Jobs\<close>

record 'e job_api =
  ja_get :: "string \<Rightarrow> 'e \<Rightarrow> go_error + job_status"
  ja_create :: "batch_job \<Rightarrow> ('e, unit) call"
  ja_delete :: "string \<Rightarrow> ('e, unit) call"

definition get_job :: "'e job_api \<Rightarrow> string \<Rightarrow> ('e, job_status) prog" where
  "get_job api name = external [] (\<lambda>e. (ja_get api name e, e))"

text \<open>The condition that \<open>wait.Poll\<close> (an argument) polls: done, not yet, or an error.\<close>

definition job_done :: "'e job_api \<Rightarrow> string \<Rightarrow> ('e, bool) prog" where
  "job_done api name =
     bindM (attempt (get_job api name)) (\<lambda>r.
       case r of
         Inl err \<Rightarrow> failM (Msg (''failed to detect job '' @ name @ ''. '' @ err_text err))
       | Inr job \<Rightarrow>
           if js_active job > 0 then ret False
           else if js_failed job > 0 then failM (Msg (''job '' @ name @ '' failed''))
           else if js_succeeded job > 0 then ret True
           else ret False)"

type_synonym 'e poll = "nat \<Rightarrow> nat \<Rightarrow> ('e, bool) prog \<Rightarrow> ('e, unit) prog"

definition WaitForJobCompletion :: "'e poll \<Rightarrow> 'e job_api \<Rightarrow> string \<Rightarrow> nat \<Rightarrow> ('e, unit) prog" where
  "WaitForJobCompletion poll api name timeout = poll 5 timeout (job_done api name)"

fun wait_job_gone :: "nat \<Rightarrow> 'e job_api \<Rightarrow> string \<Rightarrow> ('e, unit) prog" where
  "wait_job_gone 0 api name = ret ()"
| "wait_job_gone (Suc n) api name =
     bindM (attempt (get_job api name)) (\<lambda>r.
       if (case r of Inl err \<Rightarrow> is_not_found err | Inr _ \<Rightarrow> False) then ret ()
       else bindM (emit (Sleep 2)) (\<lambda>_. wait_job_gone n api name))"

definition DeleteBatchJob :: "'e job_api \<Rightarrow> string \<Rightarrow> bool \<Rightarrow> ('e, unit) prog" where
  "DeleteBatchJob api name waits =
     bindM (attempt (external [JobDelete name] (ja_delete api name))) (\<lambda>r.
       case r of
         Inl err \<Rightarrow>
           if is_not_found err then ret ()
           else failM (Msg (''failed to remove previous provisioning job for node '' @ name @ ''. '' @ err_text err))
       | Inr _ \<Rightarrow> if \<not> waits then ret () else wait_job_gone 20 api name)"

definition RunReplaceableJob :: "'e poll \<Rightarrow> 'e job_api \<Rightarrow> batch_job \<Rightarrow> bool \<Rightarrow> ('e, unit) prog" where
  "RunReplaceableJob poll api job deleteIfFound =
     (let create = external [JobCreate job] (ja_create api job) in
      bindM (attempt (get_job api (jb_name job))) (\<lambda>r.
        case r of
          Inl err \<Rightarrow> create
        | Inr existingJob \<Rightarrow>
            if js_active existingJob > 0 \<and> \<not> deleteIfFound then ret ()
            else
              bindM (attempt (WaitForJobCompletion poll api (jb_name job) 3600)) (\<lambda>_.
              bindM (attempt (DeleteBatchJob api (jb_name job) True)) (\<lambda>_. create))))"

section \<open>Config maps\<close>

record 'e cm_api =
  ca_get :: "string \<Rightarrow> string \<Rightarrow> 'e \<Rightarrow> go_error + config_map"
  ca_list :: "string \<Rightarrow> 'e \<Rightarrow> go_error + config_map list"
  ca_create :: "config_map \<Rightarrow> ('e, unit) call"
  ca_update :: "config_map \<Rightarrow> ('e, unit) call"
  ca_patch :: "string \<Rightarrow> config_map \<Rightarrow> config_map \<Rightarrow> ('e, unit) call"
  ca_delete :: "string \<Rightarrow> string \<Rightarrow> ('e, unit) call"

definition get_cm :: "'e cm_api \<Rightarrow> string \<Rightarrow> string \<Rightarrow> ('e, config_map) prog" where
  "get_cm api ns name = external [] (\<lambda>e. (ca_get api ns name e, e))"

definition create_cm :: "'e cm_api \<Rightarrow> config_map \<Rightarrow> ('e, unit) prog" where
  "create_cm api cm = external [CmCreate cm] (ca_create api cm)"

text \<open>
  The patch sent is the difference of the two objects (\<open>CreateTwoWayMergePatch\<close>), applied by the
  server to the object of that name.
\<close>

definition PatchConfigMap :: "'e cm_api \<Rightarrow> string \<Rightarrow> config_map \<Rightarrow> config_map \<Rightarrow> ('e, unit) prog" where
  "PatchConfigMap api ns oldConfigMap newConfigMap =
     external [CmPatch oldConfigMap newConfigMap] (ca_patch api ns oldConfigMap newConfigMap)"

definition DeleteConfigMap :: "'e cm_api \<Rightarrow> string \<Rightarrow> string \<Rightarrow> delete_options \<Rightarrow> ('e, unit) prog" where
  "DeleteConfigMap api cmName ns opts =
     DeleteResource (external [CmDelete ns cmName] (ca_delete api ns cmName))
       (bindM (get_cm api ns cmName) (\<lambda>_. ret ())) (''ConfigMap '' @ cmName) opts
       \<lparr>wo_wait = False, wo_retry_count = 20, wo_retry_interval = 2, wo_error_on_timeout = False\<rparr>"

definition must_delete :: delete_options where
  "must_delete = \<lparr>do_must_delete = True,
     do_wait = \<lparr>wo_wait = False, wo_retry_count = 0, wo_retry_interval = 0, wo_error_on_timeout = False\<rparr>\<rparr>"

definition CreateReplaceableConfigmap :: "'e cm_api \<Rightarrow> config_map \<Rightarrow> ('e, unit) prog" where
  "CreateReplaceableConfigmap api cm =
     bindM (attempt (get_cm api (cm_namespace cm) (cm_name cm))) (\<lambda>r.
       case r of
         Inl err \<Rightarrow> create_cm api cm
       | Inr existing \<Rightarrow>
           bindM (attempt (DeleteConfigMap api (cm_name existing) (cm_namespace existing) must_delete))
             (\<lambda>_. create_cm api cm))"

definition CreateOrPatchConfigmap :: "'e cm_api \<Rightarrow> config_map \<Rightarrow> ('e, unit) prog" where
  "CreateOrPatchConfigmap api cm =
     bindM (attempt (get_cm api (cm_namespace cm) (cm_name cm))) (\<lambda>r.
       case r of
         Inl err \<Rightarrow> create_cm api cm
       | Inr existing \<Rightarrow> PatchConfigMap api (cm_namespace existing) existing cm)"

text \<open>Settings: the config map first, then the environment (\<open>os.LookupEnv\<close>), then the default.\<close>

definition GetValue :: "(string \<Rightarrow> string option) \<Rightarrow> string gomap option \<Rightarrow> string \<Rightarrow> string \<Rightarrow> string" where
  "GetValue env data settingName defaultValue =
     (case (case data of None \<Rightarrow> None | Some d \<Rightarrow> map_of d settingName) of
        Some settingValue \<Rightarrow> settingValue
      | None \<Rightarrow> (case env settingName of Some settingValue \<Rightarrow> settingValue | None \<Rightarrow> defaultValue))"

definition GetOperatorSetting ::
  "(string \<Rightarrow> string option) \<Rightarrow> 'e cm_api \<Rightarrow> string \<Rightarrow> string \<Rightarrow> string \<Rightarrow> string
     \<Rightarrow> ('e, string \<times> go_error option) prog" where
  "GetOperatorSetting env api ns configMapName settingName defaultValue =
     bindM (attempt (get_cm api ns configMapName)) (\<lambda>r.
       case r of
         Inl err \<Rightarrow>
           if is_not_found err then ret (GetValue env None settingName defaultValue, None)
           else ret (defaultValue, Some (Msg (''error reading ConfigMap '' @ configMapName @ ''. '' @ err_text err)))
       | Inr cm \<Rightarrow> ret (GetValue env (cm_data cm) settingName defaultValue, None))"

end
