(* ===== verification/Discover.thy ===== *)
theory Discover
  imports Device K8sApi
begin

text \<open>
  \<open>pkg/operator/discover/discover.go\<close>: the agent on every node.  It reports the node's block devices
  in a config map and as \<open>RawDevice\<close> objects, deletes the objects of devices that have gone (never
  one that is allocated), sets loop devices up again after a reboot, and keeps the state of the
  volume-group classes in step with the physical volumes LVM reports.
\<close>

record 'e manager =
  dm_os :: "'e os"
  dm_device_env :: device_env
  dm_raw :: "'e raw_api"
  dm_cm :: "'e cm_api"
  dm_codec :: codec
  dm_hash :: "string \<Rightarrow> string"
  dm_node_name :: string
  dm_namespace :: string
  dm_use_loop :: bool

definition cmName :: "'e manager \<Rightarrow> string" where
  "cmName m = TruncateNodeName (dm_hash m) LvmdConfigMapFmt (dm_node_name m)"

section \<open>Raw devices\<close>

definition convertDiskToRawDevice :: "(string \<Rightarrow> string) \<Rightarrow> string \<Rightarrow> disk_info \<Rightarrow> raw_device" where
  "convertDiskToRawDevice hash nodeName info =
     (let d = di_disk info in
      \<lparr>rd_name = hash (nodeName @ ld_real_path d), rd_labels = [(''node'', nodeName)],
       rd_node_name = nodeName, rd_size = ld_size d, rd_type = ld_type d, rd_real_path = ld_real_path d,
       rd_major = ld_major d, rd_minor = ld_minor d, rd_uuid = ld_uuid d,
       rd_available = di_available info, rd_status_name = []\<rparr>)"

definition still_there :: "'e manager \<Rightarrow> disk_info list \<Rightarrow> raw_device \<Rightarrow> bool" where
  "still_there m devices dev =
     (\<exists>i \<in> set devices. rd_name dev = dm_hash m (dm_node_name m @ ld_real_path (di_disk i)))"

text \<open>The variable \<open>err\<close> of the loop keeps the result of the last deletion, and is returned.\<close>

definition delete_step ::
  "'e manager \<Rightarrow> disk_info list \<Rightarrow> raw_device \<Rightarrow> go_error option \<Rightarrow> ('e, go_error option) prog" where
  "delete_step m devices dev err =
     (if \<not> still_there m devices dev \<and> rd_status_name dev = [] then
        bindM (attempt (external [RawDelete (rd_name dev)] (ra_delete (dm_raw m) (rd_name dev)))) (\<lambda>r.
          ret (case r of Inl e \<Rightarrow> Some e | Inr _ \<Rightarrow> None))
      else ret err)"

definition checkRawDeviceDeleted :: "'e manager \<Rightarrow> disk_info list \<Rightarrow> ('e, unit) prog" where
  "checkRawDeviceDeleted m devices =
     bindM (list_node_devices (dm_raw m) (dm_node_name m)) (\<lambda>raws.
     bindM (for_each (delete_step m devices) raws None) (\<lambda>err.
       case err of None \<Rightarrow> ret () | Some e \<Rightarrow> failM e))"

definition createOrUpdateRawDevice :: "'e manager \<Rightarrow> disk_info list \<Rightarrow> ('e, unit) prog" where
  "createOrUpdateRawDevice m devices =
     bindM (for_each (\<lambda>i _.
              bindM (attempt (CreateOrUpdateRawDevice (dm_raw m)
                       (convertDiskToRawDevice (dm_hash m) (dm_node_name m) i))) (\<lambda>_. ret ()))
              devices ())
       (\<lambda>_. checkRawDeviceDeleted m devices)"

section \<open>The config map of a node\<close>

definition new_device_cm :: "'e manager \<Rightarrow> string \<Rightarrow> config_map" where
  "new_device_cm m deviceStr =
     \<lparr>cm_name = cmName m, cm_namespace = dm_namespace m,
      cm_labels = [(LvmdConfigMapLabelKey, LvmdConfigMapLabelValue)],
      cm_annotations = [(LvmdAnnotationsNodeKey, dm_node_name m)],
      cm_data = Some [(LocalDiskCMData, deviceStr)]\<rparr>"

definition publish_devices :: "'e manager \<Rightarrow> string \<Rightarrow> ('e, unit) prog" where
  "publish_devices m deviceStr =
     bindM (attempt (get_cm (dm_cm m) (dm_namespace m) (cmName m))) (\<lambda>r.
       case r of
         Inr cm \<Rightarrow>
           if cm_get cm LocalDiskCMData \<noteq> deviceStr then
             bindM (lift_outcome (cm_set LocalDiskCMData deviceStr cm)) (\<lambda>newcm.
               PatchConfigMap (dm_cm m) (cm_namespace newcm) cm newcm)
           else ret ()
       | Inl err \<Rightarrow>
           if \<not> is_not_found err then failM err
           else
             bindM (attempt (create_cm (dm_cm m) (new_device_cm m deviceStr))) (\<lambda>r.
               case r of
                 Inl e \<Rightarrow> failM (Msg (''failed to create local device map '' @ cmName m @ '': '' @ err_text e))
               | Inr _ \<Rightarrow> ret ()))"

definition updateDeviceCM :: "'e manager \<Rightarrow> ('e, unit) prog" where
  "updateDeviceCM m =
     bindM (GetAllDevices (dm_os m) (dm_device_env m)) (\<lambda>devices.
     bindM (createOrUpdateRawDevice m devices) (\<lambda>_.
       publish_devices m (co_devices (dm_codec m) devices)))"

section \<open>Loop devices after a reboot\<close>

definition resetup_step :: "'e manager \<Rightarrow> loop_state \<Rightarrow> bool \<Rightarrow> ('e, bool) prog" where
  "resetup_step m ele failed =
     (if ls_status ele = LoopCreateSuccessful then
        bindM (attempt (ReSetupLoop (dm_os m) (dm_device_env m) (ls_file ele) (ls_device_name ele))) (\<lambda>r.
          ret (case r of Inl _ \<Rightarrow> True | Inr _ \<Rightarrow> failed))
      else ret failed)"

definition checkLoopDevice :: "'e manager \<Rightarrow> ('e, unit) prog" where
  "checkLoopDevice m =
     bindM (attempt (get_cm (dm_cm m) (dm_namespace m) (cmName m))) (\<lambda>r.
       case r of
         Inl err \<Rightarrow> if \<not> is_not_found err then failM err else ret ()
       | Inr cmTemp \<Rightarrow>
           (case cm_lookup cmTemp VgStatusConfigMapKey of
              None \<Rightarrow> ret ()
            | Some loopDevices \<Rightarrow>
                bindM (lift_sum (co_status_parse (dm_codec m) loopDevices)) (\<lambda>nodeStatus.
                bindM (for_each (resetup_step m) (nss_loops nodeStatus) False) (\<lambda>failed.
                  if failed then failM (Msg ''some loop device resetup failed'') else ret ()))))"

section \<open>The state of the classes\<close>

text \<open>
  One pass over a class, given the physical volumes LVM reports for its group: a device that is not
  among them becomes offline and the class not ready; a class without such a device becomes ready.
\<close>

definition check_device :: "string gomap \<Rightarrow> device_state \<Rightarrow> device_state" where
  "check_device pvs d = (if has_key pvs (ds_name d) then d else d\<lparr>ds_state := DeviceOffline\<rparr>)"

definition check_class :: "string gomap \<Rightarrow> class_state \<Rightarrow> class_state" where
  "check_class pvs c =
     c\<lparr>cs_device_states := map (check_device pvs) (cs_device_states c),
       cs_state := (if list_all (\<lambda>d. has_key pvs (ds_name d)) (cs_device_states c) then ClassReady
                    else ClassUnReady)\<rparr>"

definition class_step :: "'e manager \<Rightarrow> class_state \<Rightarrow> class_state list \<Rightarrow> ('e, class_state list) prog" where
  "class_step m ele done =
     bindM (GetPhysicalVolume (dm_os m) (cs_vg_name ele)) (\<lambda>pvs. ret (done @ [check_class pvs ele]))"

definition checkDeviceClass :: "'e manager \<Rightarrow> ('e, unit) prog" where
  "checkDeviceClass m =
     bindM (attempt (get_cm (dm_cm m) (dm_namespace m) (cmName m))) (\<lambda>r.
       case r of
         Inl _ \<Rightarrow> ret ()
       | Inr cm \<Rightarrow>
           let status = cm_get cm VgStatusConfigMapKey in
           if status = [] then ret ()
           else
             bindM (lift_sum (co_status_parse (dm_codec m) status)) (\<lambda>nodeStatus.
             bindM (for_each (class_step m) (nss_success_classes nodeStatus) []) (\<lambda>classes.
             bindM (lift_outcome (cm_set VgStatusConfigMapKey
                      (co_status (dm_codec m) (nodeStatus\<lparr>nss_success_classes := classes\<rparr>)) cm)) (\<lambda>newcm.
               PatchConfigMap (dm_cm m) (cm_namespace newcm) cm newcm))))"

section \<open>udev events\<close>

text \<open>\<open>regexp.MatchString\<close> is an argument; an exclusion that does not compile is an error.\<close>

type_synonym regexp = "string \<Rightarrow> string \<Rightarrow> go_error + bool"

fun has_exclusion :: "regexp \<Rightarrow> string list \<Rightarrow> string \<Rightarrow> go_error + bool" where
  "has_exclusion re [] text = Inr False"
| "has_exclusion re (ex # exs) text =
     (case re ex text of
        Inl err \<Rightarrow> Inl (Msg (''failed to search string: '' @ err_text err))
      | Inr True \<Rightarrow> Inr True
      | Inr False \<Rightarrow> has_exclusion re exs text)"

fun matchUdevEvent :: "regexp \<Rightarrow> string \<Rightarrow> string list \<Rightarrow> string list \<Rightarrow> go_error + bool" where
  "matchUdevEvent re text [] exclusions = Inr False"
| "matchUdevEvent re text (m # ms) exclusions =
     (case re m text of
        Inl err \<Rightarrow> Inl (Msg (''failed to search string: '' @ err_text err))
      | Inr False \<Rightarrow> matchUdevEvent re text ms exclusions
      | Inr True \<Rightarrow>
          (case has_exclusion re exclusions text of
             Inl err \<Rightarrow> Inl err
           | Inr True \<Rightarrow> matchUdevEvent re text ms exclusions
           | Inr False \<Rightarrow> Inr True))"

text \<open>The scanner loop: the lines it sends on, up to the first one the filter fails on.\<close>

fun rawUdevBlockMonitor :: "regexp \<Rightarrow> string list \<Rightarrow> string list \<Rightarrow> string list \<Rightarrow> string list" where
  "rawUdevBlockMonitor re ms exclusions [] = []"
| "rawUdevBlockMonitor re ms exclusions (text # ts) =
     (case matchUdevEvent re text ms exclusions of
        Inl err \<Rightarrow> []
      | Inr b \<Rightarrow> (if b then [text] else []) @ rawUdevBlockMonitor re ms exclusions ts)"

text \<open>
  The patterns: additions and removals, less those of an environment variable (device mapper and network disks when it
  is unset).
\<close>

definition udev_matches :: "string list" where
  "udev_matches = [''(?i)add'', ''(?i)remove'']"

definition udevFilter :: "(string \<Rightarrow> string) \<Rightarrow> string list" where
  "udevFilter getenv =
     (let discoverUdev = getenv ''DISCOVER_DAEMON_UDEV_BLACKLIST'' in
      split_on (CHR '','') (if discoverUdev = [] then ''(?i)dm-[0-9]+,(?i)rbd[0-9]+,(?i)nbd[0-9]+'' else discoverUdev))"

definition udev_events :: "regexp \<Rightarrow> (string \<Rightarrow> string) \<Rightarrow> string list \<Rightarrow> string list" where
  "udev_events re getenv output = rawUdevBlockMonitor re udev_matches (udevFilter getenv) output"

text \<open>
  \<open>udevBlockMonitor\<close> collapses events: the first one starts a timer, further ones until it fires are
  dropped, then the first one is sent.  Its inputs are the events, the firing of the timer, and the
  closing of the event channel.
\<close>

datatype udev_input = Event string | TimerFires | Closed

datatype udev_state = Waiting | Collapsing string | Finished

fun udev_step :: "udev_state \<Rightarrow> udev_input \<Rightarrow> udev_state \<times> string list" where
  "udev_step Finished i = (Finished, [])"
| "udev_step s Closed = (Finished, [])"
| "udev_step Waiting (Event e) = (Collapsing e, [])"
| "udev_step Waiting TimerFires = (Waiting, [])"
| "udev_step (Collapsing e) (Event e') = (Collapsing e, [])"
| "udev_step (Collapsing e) TimerFires = (Waiting, [e])"

fun udevBlockMonitor :: "udev_state \<Rightarrow> udev_input list \<Rightarrow> string list" where
  "udevBlockMonitor s [] = []"
| "udevBlockMonitor s (i # is) = (case udev_step s i of (s', out) \<Rightarrow> out @ udevBlockMonitor s' is)"

section \<open>The agent's loop\<close>

text \<open>\<open>Run\<close>: its start, and one turn of its \<open>select\<close> loop per event; errors of a turn are logged.\<close>

datatype manager_input = ProbeTick | UdevTick | UdevClosed | Shutdown

definition Run_start :: "'e manager \<Rightarrow> ('e, bool) prog" where
  "Run_start m =
     bindM (updateDeviceCM m) (\<lambda>_.
       if dm_use_loop m then
         bindM (attempt (checkLoopDevice m)) (\<lambda>r. ret (case r of Inl _ \<Rightarrow> True | Inr _ \<Rightarrow> False))
       else ret False)"

definition Run_turn :: "'e manager \<Rightarrow> manager_input \<Rightarrow> ('e, unit) prog" where
  "Run_turn m i =
     (case i of
        ProbeTick \<Rightarrow>
          bindM (attempt (updateDeviceCM m)) (\<lambda>_. bindM (attempt (checkDeviceClass m)) (\<lambda>_. ret ()))
      | UdevTick \<Rightarrow> bindM (attempt (updateDeviceCM m)) (\<lambda>_. ret ())
      | UdevClosed \<Rightarrow> ret ()
      | Shutdown \<Rightarrow> ret ())"

text \<open>
  The whole of \<open>Run\<close>: whether the goroutine that retries the loop devices was started, and whether the
  agent has ended.  Once \<open>UdevClosed\<close> came there is no further \<open>UdevTick\<close>.
\<close>

fun Run_loop :: "'e manager \<Rightarrow> manager_input list \<Rightarrow> ('e, bool) prog" where
  "Run_loop m [] = ret False"
| "Run_loop m (i # is) =
     (if i = Shutdown then ret True else bindM (Run_turn m i) (\<lambda>_. Run_loop m is))"

definition Run :: "'e manager \<Rightarrow> manager_input list \<Rightarrow> ('e, bool \<times> bool) prog" where
  "Run m is = bindM (Run_start m) (\<lambda>retry. bindM (Run_loop m is) (\<lambda>ended. ret (retry, ended)))"

text \<open>\<open>retryLoopDevice\<close>: until it succeeds, at most \<open>fuel\<close> times here; \<open>None\<close> when it never did.\<close>

fun retryLoopDevice :: "nat \<Rightarrow> 'e manager \<Rightarrow> ('e, unit option) prog" where
  "retryLoopDevice 0 m = ret None"
| "retryLoopDevice (Suc fuel) m =
     bindM (attempt (checkLoopDevice m)) (\<lambda>r.
       case r of
         Inr _ \<Rightarrow> ret (Some ())
       | Inl _ \<Rightarrow> bindM (emit (Sleep 5)) (\<lambda>_. retryLoopDevice fuel m))"

end
