(* ===== verification/CmStore.thy ===== *)
theory CmStore
  imports K8sApi
begin

text \<open>
  The interface between the components that keep their state in config maps and the API server: what
  a read returns after a create or a patch.  The laws are the documented behaviour of the API (a
  two-way merge patch from the current object to a new one makes the object the new one).  They are
  interpreted on an in-memory server.
\<close>

locale cm_store =
  fixes api :: "'e cm_api" and view :: "'e \<Rightarrow> string \<times> string \<Rightarrow> config_map option"
  assumes get_found: "ca_get api ns n e = Inr cm \<Longrightarrow> view e (ns, n) = Some cm"
    and get_named: "ca_get api ns n e = Inr cm \<Longrightarrow> cm_name cm = n \<and> cm_namespace cm = ns"
    and get_missing: "ca_get api ns n e = Inl err \<Longrightarrow> is_not_found err \<Longrightarrow> view e (ns, n) = None"
    and created: "ca_create api cm e = (Inr u, e') \<Longrightarrow> view e' = (view e)((cm_namespace cm, cm_name cm) \<mapsto> cm)"
    and create_refused: "ca_create api cm e = (Inl err, e') \<Longrightarrow> view e' = view e"
    and patched: "ca_patch api ns old new e = (Inr u, e') \<Longrightarrow> view e (ns, cm_name old) = Some old \<Longrightarrow>
      view e' = (view e)((ns, cm_name old) \<mapsto> new)"
    and patch_refused: "ca_patch api ns old new e = (Inl err, e') \<Longrightarrow> view e' = view e"
begin

lemma get_cm_cases:
  assumes "get_cm api ns n w = (r, w')"
  shows "w' = w" and "r = Ok cm \<Longrightarrow> view (w_env w) (ns, n) = Some cm \<and> cm_name cm = n \<and> cm_namespace cm = ns"
    and "r = Fail err \<Longrightarrow> is_not_found err \<Longrightarrow> view (w_env w) (ns, n) = None" and "r \<noteq> Panic p"
  using assms get_found get_named get_missing
  by (auto simp: get_cm_def external_def split: sum.splits)

lemma create_cm_cases:
  assumes "create_cm api cm w = (r, w')"
  shows "r = Ok u \<Longrightarrow> view (w_env w') = (view (w_env w))((cm_namespace cm, cm_name cm) \<mapsto> cm)"
    and "r = Fail err \<Longrightarrow> view (w_env w') = view (w_env w)" and "r \<noteq> Panic p"
    and "w_trace w' = w_trace w @ [CmCreate cm]"
  using assms created [of cm "w_env w"] create_refused [of cm "w_env w"]
  by (auto simp: create_cm_def external_def split: prod.splits sum.splits)

lemma patch_cm_cases:
  assumes "PatchConfigMap api ns old new w = (r, w')"
  shows "r = Ok u \<Longrightarrow> view (w_env w) (ns, cm_name old) = Some old \<Longrightarrow>
      view (w_env w') = (view (w_env w))((ns, cm_name old) \<mapsto> new)"
    and "r = Fail err \<Longrightarrow> view (w_env w') = view (w_env w)" and "r \<noteq> Panic p"
    and "w_trace w' = w_trace w @ [CmPatch old new]"
  using assms patched [of ns old new "w_env w"] patch_refused [of ns old new "w_env w"]
  by (auto simp: PatchConfigMap_def external_def split: prod.splits sum.splits)

text \<open>\<open>CreateOrPatchConfigmap\<close>: when it succeeds the server has the given config map.\<close>

lemma create_or_patch_stores:
  assumes "CreateOrPatchConfigmap api cm w = (Ok u, w')"
  shows "view (w_env w') = (view (w_env w))((cm_namespace cm, cm_name cm) \<mapsto> cm)"
proof -
  obtain g w1 where g: "get_cm api (cm_namespace cm) (cm_name cm) w = (g, w1)" by fastforce
  note g' = get_cm_cases [OF g]
  show ?thesis
  proof (cases g)
    case (Ok existing)
    with assms g g'(1) have p: "PatchConfigMap api (cm_namespace existing) existing cm w = (Ok u, w')"
      by (simp add: CreateOrPatchConfigmap_def attempt_eqs bindM_eqs)
    from Ok g'(2) have "view (w_env w) (cm_namespace cm, cm_name cm) = Some existing"
      "cm_name existing = cm_name cm" "cm_namespace existing = cm_namespace cm" by auto
    with patch_cm_cases(1) [OF p] show ?thesis by simp
  next
    case (Fail err)
    with assms g g'(1) have "create_cm api cm w = (Ok u, w')"
      by (simp add: CreateOrPatchConfigmap_def attempt_eqs bindM_eqs)
    from create_cm_cases(1) [OF this] show ?thesis by simp
  qed (use g'(4) in auto)
qed

end

section \<open>An in-memory server\<close>

type_synonym cm_table = "((string \<times> string) \<times> config_map) list"

definition table_view :: "cm_table \<Rightarrow> string \<times> string \<Rightarrow> config_map option" where
  "table_view t k = (case map_of t k of
     Some cm \<Rightarrow> if (cm_namespace cm, cm_name cm) = k then Some cm else None | None \<Rightarrow> None)"

definition mem_cms :: "cm_table cm_api" where
  "mem_cms =
     \<lparr>ca_get = (\<lambda>ns n t. case table_view t (ns, n) of Some cm \<Rightarrow> Inr cm | None \<Rightarrow> Inl (ApiNotFound n)),
      ca_list = (\<lambda>ns t. Inr (map snd (filter (\<lambda>x. fst (fst x) = ns) t))),
      ca_create = (\<lambda>cm t. case table_view t (cm_namespace cm, cm_name cm) of
          Some _ \<Rightarrow> (Inl (ApiAlreadyExists (cm_name cm)), t)
        | None \<Rightarrow> (Inr (), AList.update (cm_namespace cm, cm_name cm) cm t)),
      ca_update = (\<lambda>cm t. case table_view t (cm_namespace cm, cm_name cm) of
          None \<Rightarrow> (Inl (ApiNotFound (cm_name cm)), t)
        | Some _ \<Rightarrow> (Inr (), AList.update (cm_namespace cm, cm_name cm) cm t)),
      ca_patch = (\<lambda>ns old new t. if table_view t (ns, cm_name old) = None then (Inl (ApiNotFound (cm_name old)), t)
          else if cm_namespace new = ns \<and> cm_name new = cm_name old
          then (Inr (), AList.update (ns, cm_name old) new t)
          else (Inl (ApiInvalid (cm_name old)), t)),
      ca_delete = (\<lambda>ns n t. if table_view t (ns, n) = None then (Inl (ApiNotFound n), t)
          else (Inr (), AList.delete (ns, n) t))\<rparr>"

lemma table_view_update:
  "cm_namespace cm = ns \<Longrightarrow> cm_name cm = n \<Longrightarrow>
     table_view (AList.update (ns, n) cm t) = (table_view t)((ns, n) \<mapsto> cm)"
  by (rule ext) (simp add: table_view_def update_conv')

lemma table_view_named: "table_view t (ns, n) = Some cm \<Longrightarrow> cm_namespace cm = ns \<and> cm_name cm = n"
  by (auto simp: table_view_def split: option.splits if_splits)

interpretation mem_cm: cm_store mem_cms table_view
  by unfold_locales
    (auto simp: mem_cms_def table_view_update dest: table_view_named split: option.splits if_splits)

end
