(* ===== verification/RawStore.thy ===== *)
theory RawStore
  imports RawCsi
begin

text \<open>
  The interface between the CSI controller and the store of \<open>RawDevice\<close> objects, and the controller's
  behaviour over it.  The laws are the documented behaviour of the API: a list shows the objects of
  the store, \<open>UpdateStatus\<close> writes the status of the object it names and nothing else, and a failed
  write writes nothing.  They are interpreted on an in-memory store.
\<close>

section \<open>Arithmetic of sizes\<close>

lemma sint_to_gb: "sint (to_gb n) = sint n div 2 ^ 30"
  by (simp add: to_gb_def sint_signed_drop_bit_eq drop_bit_eq_div)

lemma sint_range: "- (2 ^ 63) \<le> sint (n :: int64)" "sint (n :: int64) < 2 ^ 63"
  using sint_ge [of n] sint_lt [of n] by simp_all

lemma sint_add_in_range:
  "- (2 ^ 63) \<le> sint a + sint b \<Longrightarrow> sint a + sint b < 2 ^ 63 \<Longrightarrow> sint (a + b :: int64) = sint a + sint b"
  by (simp add: sint_word_ariths(1) signed_take_bit_int_eq_self)

lemma sint_minus_one: "sint (a :: int64) > 0 \<Longrightarrow> sint (a - 1) = sint a - 1"
  using sint_range [of a] by (simp add: sint_word_ariths(2) signed_take_bit_int_eq_self)

lemma sint_from_gb:
  assumes "0 \<le> sint gb" and "sint gb < 2 ^ 33"
  shows "sint (from_gb gb) = sint gb * 2 ^ 30"
proof -
  have "from_gb gb = gb * 2 ^ 30" by (simp add: from_gb_def push_bit_eq_mult)
  moreover have "sint (2 ^ 30 :: int64) = 2 ^ 30" by simp
  ultimately have "sint (from_gb gb) = signed_take_bit 63 (sint gb * 2 ^ 30)"
    by (simp add: sint_word_ariths(3))
  with assms show ?thesis by (simp add: signed_take_bit_int_eq_self)
qed

lemma le_div_mult: "q \<le> x div k \<Longrightarrow> 0 < k \<Longrightarrow> q * k \<le> (x :: int)"
  using mult_right_mono [of q "x div k" k] div_mult_mod_eq [of x k] pos_mod_sign [of k x] by linarith

lemma le_div_iff: "0 < k \<Longrightarrow> q \<le> x div k \<longleftrightarrow> q * k \<le> (x :: int)"
  using zdiv_mono1 [of "q * k" x k] le_div_mult [of q x k] by auto

lemma convertRequestCapacity_Inr:
  assumes "convertRequestCapacity req lim = Inr gb"
  shows "0 \<le> sint req" and "lim = 0 \<or> sint req \<le> sint lim"
    and "1 \<le> sint gb" and "sint gb \<le> 2 ^ 33"
    and "sint req \<le> sint gb * 2 ^ 30" and "(sint gb - 1) * 2 ^ 30 < max 1 (sint req)"
proof -
  from assms show r: "0 \<le> sint req" and "lim = 0 \<or> sint req \<le> sint lim"
    by (auto simp: convertRequestCapacity_def split: if_splits)
  have "1 \<le> sint gb \<and> sint gb \<le> 2 ^ 33 \<and> sint req \<le> sint gb * 2 ^ 30 \<and> (sint gb - 1) * 2 ^ 30 < max 1 (sint req)"
  proof (cases "req = 0")
    case True
    with assms have "gb = 1" by (auto simp: convertRequestCapacity_def split: if_splits)
    with True show ?thesis by simp
  next
    case False
    then have "sint req \<noteq> 0" using signed_word_eqI [of req 0] by auto
    with r have pos: "0 < sint req" by simp
    from False assms have gb: "gb = to_gb (req - 1) + 1"
      by (auto simp: convertRequestCapacity_def split: if_splits)
    define q where "q = (sint req - 1) div 2 ^ 30"
    have q: "sint (to_gb (req - 1)) = q" by (simp add: q_def sint_to_gb sint_minus_one [OF pos])
    have "0 \<le> q" "q < 2 ^ 33" using pos sint_range(2) [of req] by (simp_all add: q_def)
    then have "sint gb = q + 1" unfolding gb by (subst sint_add_in_range) (simp_all add: q)
    moreover have "q * 2 ^ 30 \<le> sint req - 1" "sint req - 1 < (q + 1) * 2 ^ 30"
      unfolding q_def by (simp_all add: algebra_simps)
    ultimately show ?thesis using \<open>0 \<le> q\<close> \<open>q < 2 ^ 33\<close> pos by simp
  qed
  then show "1 \<le> sint gb" "sint gb \<le> 2 ^ 33" "sint req \<le> sint gb * 2 ^ 30"
    "(sint gb - 1) * 2 ^ 30 < max 1 (sint req)" by auto
qed

section \<open>Choice of a device\<close>

definition fits :: "int64 \<Rightarrow> raw_device \<Rightarrow> bool" where
  "fits gb d = (is_free d \<and> sint gb \<le> sint (to_gb (rd_size d)))"

lemma fits_size:
  assumes "fits gb d"
  shows "sint gb * 2 ^ 30 \<le> sint (rd_size d)"
proof -
  from assms have "sint gb \<le> sint (rd_size d) div 2 ^ 30" by (simp add: fits_def sint_to_gb)
  then show ?thesis by (rule le_div_mult) simp
qed

lemma fits_nonzero: "fits gb d \<Longrightarrow> 0 < sint gb \<Longrightarrow> rd_size d \<noteq> 0"
  using fits_size [of gb d] by auto

definition no_better :: "int64 \<Rightarrow> int64 \<Rightarrow> raw_device list \<Rightarrow> bool" where
  "no_better gb s ds = (\<forall>d \<in> set ds. fits gb d \<longrightarrow> sint s \<le> sint (rd_size d))"

lemma match_device_gen:
  assumes "0 < sint gb"
  shows "match_device gb n ds (mi, ms) = (r, s) \<Longrightarrow> (mi = None) = (ms = 0) \<Longrightarrow>
    (r = mi \<and> s = ms \<and> (if mi = None then \<forall>d \<in> set ds. \<not> fits gb d else no_better gb ms ds))
    \<or> (\<exists>k < length ds. r = Some (n + k) \<and> fits gb (ds ! k) \<and> s = rd_size (ds ! k)
         \<and> no_better gb s ds \<and> (mi \<noteq> None \<longrightarrow> sint s \<le> sint ms))"
proof (induction ds arbitrary: n mi ms)
  case Nil
  then show ?case by (simp add: no_better_def)
next
  case (Cons d ds)
  show ?case
  proof (cases "fits gb d")
    case False
    with Cons.prems have "match_device gb (Suc n) ds (mi, ms) = (r, s)"
      by (auto simp: fits_def split: if_splits)
    from Cons.IH [OF this Cons.prems(2)] False show ?thesis
      by (force simp: no_better_def less_Suc_eq_0_disj)
  next
    case True
    with assms have nz: "rd_size d \<noteq> 0" by (simp add: fits_nonzero)
    define take_d where "take_d = (mi = None \<or> sint (rd_size d) < sint ms)"
    define mi' where "mi' = (if take_d then Some n else mi)"
    define ms' where "ms' = (if take_d then rd_size d else ms)"
    from True Cons.prems nz have run: "match_device gb (Suc n) ds (mi', ms') = (r, s)"
      by (auto simp: fits_def mi'_def ms'_def take_d_def Let_def split: if_splits)
    have inv: "(mi' = None) = (ms' = 0)" using Cons.prems(2) nz by (auto simp: mi'_def ms'_def take_d_def)
    have some: "mi' \<noteq> None" by (auto simp: mi'_def take_d_def)
    have le: "sint ms' \<le> sint (rd_size d)" "mi \<noteq> None \<longrightarrow> sint ms' \<le> sint ms"
      by (auto simp: ms'_def take_d_def)
    from Cons.IH [OF run inv] some
    consider "r = mi'" "s = ms'" "no_better gb ms' ds"
      | k where "k < length ds" "r = Some (Suc n + k)" "fits gb (ds ! k)" "s = rd_size (ds ! k)"
          "no_better gb s ds" "sint s \<le> sint ms'"
      by auto
    then show ?thesis
    proof cases
      case 1
      then show ?thesis using True le
        by (cases take_d) (auto simp: mi'_def ms'_def no_better_def take_d_def intro!: exI [of _ 0])
    next
      case 2
      then show ?thesis using le by (intro disjI2 exI [of _ "Suc k"]) (auto simp: no_better_def)
    qed
  qed
qed

lemma match_device_spec:
  assumes "0 < sint gb"
  shows "case fst (match_device gb 0 ds (None, 0)) of
      None \<Rightarrow> \<forall>d \<in> set ds. \<not> fits gb d
    | Some i \<Rightarrow> i < length ds \<and> fits gb (ds ! i) \<and> no_better gb (rd_size (ds ! i)) ds"
proof -
  obtain r s where rs: "match_device gb 0 ds (None, 0) = (r, s)" by fastforce
  from match_device_gen [OF assms rs] show ?thesis by (auto simp: rs)
qed

text \<open>The running maximum of \<open>getMaxCapacity\<close>.\<close>

lemma max_capacity_loop_spec:
  "max_capacity_loop ds (node, cap) = (node', cap') \<Longrightarrow>
     sint cap \<le> sint cap' \<and> (\<forall>d \<in> set ds. is_free d \<longrightarrow> sint (rd_size d) \<le> sint cap')
     \<and> ((node' = node \<and> cap' = cap) \<or>
         (\<exists>d \<in> set ds. is_free d \<and> rd_node_name d = node' \<and> rd_size d = cap' \<and> sint cap < sint cap'))"
proof (induction ds arbitrary: node cap)
  case Nil
  then show ?case by simp
next
  case (Cons d ds)
  show ?case
  proof (cases "is_free d \<and> sint (rd_size d) > sint cap")
    case True
    with Cons.prems have "max_capacity_loop ds (rd_node_name d, rd_size d) = (node', cap')" by simp
    from Cons.IH [OF this] True show ?thesis by fastforce
  next
    case False
    with Cons.prems have "max_capacity_loop ds (node, cap) = (node', cap')" by (auto split: if_splits)
    from Cons.IH [OF this] False show ?thesis by auto
  qed
qed

lemma last_match_Some_acc:
  "last_match v ds acc = Some d \<Longrightarrow> acc = Some d \<or> (d \<in> set ds \<and> rd_status_name d = v)"
  by (induction ds arbitrary: acc) (fastforce split: if_splits)+

lemma last_match_Some:
  "last_match v ds None = Some d \<Longrightarrow> d \<in> set ds \<and> rd_status_name d = v"
  using last_match_Some_acc [of v ds None d] by simp

lemma last_match_None_acc:
  "last_match v ds acc = None \<longleftrightarrow> acc = None \<and> (\<forall>d \<in> set ds. rd_status_name d \<noteq> v)"
  by (induction ds arbitrary: acc) auto

lemma last_match_None:
  "last_match v ds None = None \<longleftrightarrow> (\<forall>d \<in> set ds. rd_status_name d \<noteq> v)"
  by (simp add: last_match_None_acc)

section \<open>The store of RawDevice objects\<close>

definition set_status :: "raw_device \<Rightarrow> raw_device list \<Rightarrow> raw_device list" where
  "set_status d ds =
     map (\<lambda>x. if rd_name x = rd_name d then x\<lparr>rd_status_name := rd_status_name d\<rparr> else x) ds"

text \<open>
  The state the driver keeps: the objects have distinct non-empty names, and a device's status is empty
  or holds the device's own name (the volume id the driver gave out for it).
\<close>

definition volumes_ok :: "raw_device list \<Rightarrow> bool" where
  "volumes_ok ds = (distinct (map rd_name ds) \<and>
     (\<forall>d \<in> set ds. rd_name d \<noteq> [] \<and> (rd_status_name d = [] \<or> rd_status_name d = rd_name d)))"

definition held_ids :: "raw_device list \<Rightarrow> string set" where
  "held_ids ds = {rd_status_name d | d. d \<in> set ds \<and> rd_status_name d \<noteq> []}"

lemma map_name_set_status [simp]: "map rd_name (set_status d ds) = map rd_name ds"
  by (simp add: set_status_def)

lemma volumes_ok_set_status:
  "volumes_ok ds \<Longrightarrow> rd_status_name d = [] \<or> rd_status_name d = rd_name d \<Longrightarrow>
     volumes_ok (set_status d ds)"
  unfolding volumes_ok_def map_name_set_status by (auto simp: set_status_def)

lemma held_ids_image: "held_ids ds = rd_status_name ` set ds - {[]}"
  by (auto simp: held_ids_def)

lemma held_ids_set_status:
  "held_ids (set_status d ds) =
     (\<lambda>x. if rd_name x = rd_name d then rd_status_name d else rd_status_name x) ` set ds - {[]}"
  unfolding held_ids_image set_status_def set_map image_image by (intro arg_cong2 [of _ _ _ _ minus] image_cong) auto

lemma held_own:
  "volumes_ok ds \<Longrightarrow> x \<in> set ds \<Longrightarrow> rd_status_name x \<noteq> [] \<Longrightarrow> rd_status_name x = rd_name x"
  by (auto simp: volumes_ok_def)

lemma held_ids_take:
  assumes "volumes_ok ds" and "d \<in> set ds"
  shows "held_ids (set_status (d\<lparr>rd_status_name := rd_name d\<rparr>) ds) = insert (rd_name d) (held_ids ds)"
    (is "?l = ?r")
proof
  show "?l \<subseteq> ?r" unfolding held_ids_set_status by (auto simp: held_ids_image)
  have "rd_name d \<in> ?l"
    using assms by (auto simp: held_ids_set_status volumes_ok_def intro!: rev_image_eqI [OF assms(2)])
  moreover have "held_ids ds \<subseteq> ?l"
  proof
    fix v assume "v \<in> held_ids ds"
    then obtain x where x: "x \<in> set ds" "rd_status_name x = v" "v \<noteq> []" by (auto simp: held_ids_image)
    with held_own [OF assms(1) x(1)] have "rd_name x = v" by simp
    with x show "v \<in> ?l" by (auto simp: held_ids_set_status intro!: rev_image_eqI [OF x(1)])
  qed
  ultimately show "?r \<subseteq> ?l" by simp
qed

lemma held_ids_release:
  assumes "volumes_ok ds" and "d \<in> set ds"
  shows "held_ids (set_status (d\<lparr>rd_status_name := []\<rparr>) ds) = held_ids ds - {rd_name d}"
    (is "?l = ?r")
proof
  show "?l \<subseteq> ?r"
    unfolding held_ids_set_status by (auto simp: held_ids_image dest: held_own [OF assms(1)])
  show "?r \<subseteq> ?l"
  proof
    fix v assume "v \<in> ?r"
    then obtain x where x: "x \<in> set ds" "rd_status_name x = v" "v \<noteq> []" "v \<noteq> rd_name d"
      by (auto simp: held_ids_image)
    with held_own [OF assms(1) x(1)] have "rd_name x = v" by simp
    with x show "v \<in> ?l" by (auto simp: held_ids_set_status intro!: rev_image_eqI [OF x(1)])
  qed
qed

lemma free_not_held:
  assumes "volumes_ok ds" and "d \<in> set ds" and "rd_status_name d = []"
  shows "rd_name d \<notin> held_ids ds"
proof
  assume "rd_name d \<in> held_ids ds"
  then obtain x where x: "x \<in> set ds" "rd_status_name x \<noteq> []" "rd_status_name x = rd_name d"
    by (auto simp: held_ids_def)
  with assms(1) have "rd_name x = rd_name d" by (auto simp: volumes_ok_def)
  with assms x(1) have "x = d" by (auto simp: volumes_ok_def distinct_map inj_on_def)
  with assms(3) x(2) show False by simp
qed

text \<open>A \<open>CreateVolume\<close> that succeeds took one device, the best fit of its node.\<close>

definition took_device ::
  "('e \<Rightarrow> raw_device list) \<Rightarrow> 'e world \<Rightarrow> 'e world \<Rightarrow> string \<Rightarrow> int64 \<Rightarrow> raw_device \<Rightarrow> bool" where
  "took_device view w w1 node gb d = (d \<in> set (view (w_env w)) \<and> on_node node d \<and> fits gb d
     \<and> no_better gb (rd_size d) (filter (on_node node) (view (w_env w)))
     \<and> w_trace w1 = w_trace w @ [RawUpdateStatus (d\<lparr>rd_status_name := rd_name d\<rparr>)]
     \<and> view (w_env w1) = set_status (d\<lparr>rd_status_name := rd_name d\<rparr>) (view (w_env w)))"

lemma set_status_undo:
  assumes "volumes_ok ds" and "d \<in> set ds" and "rd_status_name d = []" and "rd_name x = rd_name d"
  shows "set_status (x\<lparr>rd_status_name := []\<rparr>) (set_status (d\<lparr>rd_status_name := rd_name d\<rparr>) ds) = ds"
proof -
  have same: "y = d" if "y \<in> set ds" "rd_name y = rd_name d" for y
    using assms(1,2) that by (auto simp: volumes_ok_def distinct_map inj_on_def)
  have "d\<lparr>rd_status_name := []\<rparr> = d" using assms(3) by (metis raw_device.surjective raw_device.update_convs(11))
  then show ?thesis
    unfolding set_status_def map_map using same assms(4) by (intro map_idI) auto
qed

text \<open>The laws of a store whose lists are up to date; \<open>Stale\<close> has the laws of a cache that lags.\<close>

locale raw_store =
  fixes api :: "'e raw_api" and view :: "'e \<Rightarrow> raw_device list"
  assumes list_shows: "ra_list api e = Inr ds \<Longrightarrow> ds = view e"
    and status_written: "ra_update_status api d e = (Inr u, e') \<Longrightarrow> view e' = set_status d (view e)"
    and status_refused: "ra_update_status api d e = (Inl err, e') \<Longrightarrow> view e' = view e"
begin

lemma list_all_devices_view:
  "list_all_devices api w = (r, w1) \<Longrightarrow> w1 = w \<and> (\<forall>ds. r = Ok ds \<longrightarrow> ds = view (w_env w)) \<and> (\<forall>p. r \<noteq> Panic p)"
  using list_shows by (auto simp: list_all_devices_def external_def split: sum.splits)

lemma list_node_devices_view:
  "list_node_devices api node w = (r, w1) \<Longrightarrow>
     w1 = w \<and> (\<forall>ds. r = Ok ds \<longrightarrow> ds = filter (on_node node) (view (w_env w))) \<and> (\<forall>p. r \<noteq> Panic p)"
  unfolding list_node_devices_def bindM_def ret_def
  by (auto split: prod.splits outcome.splits dest: list_all_devices_view)

lemma update_status_view:
  "update_status api d w = (r, w1) \<Longrightarrow>
     w_trace w1 = w_trace w @ [RawUpdateStatus d] \<and> (\<forall>p. r \<noteq> Panic p) \<and>
     view (w_env w1) = (case r of Ok u \<Rightarrow> set_status d (view (w_env w)) | _ \<Rightarrow> view (w_env w))"
  using status_written [of d "w_env w"] status_refused [of d "w_env w"]
  by (auto simp: update_status_def external_def split: prod.splits sum.splits)

lemma createVolume_view:
  assumes "createVolume api node gb name w = (r, w1)" and "0 < sint gb"
  shows "(\<exists>v d. r = Ok v \<and> v = rd_name d \<and> d \<in> set (view (w_env w)) \<and> on_node node d \<and> fits gb d
       \<and> no_better gb (rd_size d) (filter (on_node node) (view (w_env w)))
       \<and> w_trace w1 = w_trace w @ [RawUpdateStatus (d\<lparr>rd_status_name := rd_name d\<rparr>)]
       \<and> view (w_env w1) = set_status (d\<lparr>rd_status_name := rd_name d\<rparr>) (view (w_env w)))
    \<or> (\<exists>e. r = Fail e \<and> view (w_env w1) = view (w_env w))"
proof -
  obtain l w0 where l: "list_node_devices api node w = (l, w0)" by fastforce
  note l' = list_node_devices_view [OF l]
  show ?thesis
  proof (cases l)
    case (Ok ds)
    with l' have ds: "ds = filter (on_node node) (view (w_env w))" and w0: "w0 = w" by auto
    show ?thesis
    proof (cases "fst (match_device gb 0 ds (None, 0))")
      case None
      with assms(1) l Ok w0 show ?thesis by (auto simp: createVolume_def bindM_eqs failM_def)
    next
      case (Some i)
      define d where "d = ds ! i"
      from match_device_spec [OF assms(2), of ds] Some
      have d: "i < length ds" "fits gb d" "no_better gb (rd_size d) ds" by (simp_all add: d_def)
      then have "d \<in> set ds" by (simp add: d_def)
      then have mem: "d \<in> set (view (w_env w))" "on_node node d" by (simp_all add: ds)
      obtain u w2 where u: "update_status api (d\<lparr>rd_status_name := rd_name d\<rparr>) w = (u, w2)" by fastforce
      note u' = update_status_view [OF u]
      have run: "bindM (update_status api (d\<lparr>rd_status_name := rd_name d\<rparr>)) (\<lambda>_. ret (rd_name d)) w = (r, w1)"
        using assms(1) l Ok w0 Some by (simp add: createVolume_def bindM_eqs Let_def d_def)
      show ?thesis
      proof (cases u)
        case (Ok x)
        with run u u' d mem ds show ?thesis by (auto simp: bindM_eqs ret_def)
      qed (use run u u' in \<open>auto simp: bindM_eqs\<close>)
    qed
  qed (use assms(1) l l' in \<open>auto simp: createVolume_def bindM_eqs\<close>)
qed

lemma deleteVolume_view:
  assumes "deleteVolume api v w = (r, w1)"
  shows "(\<exists>d. r = Ok () \<and> last_match v (view (w_env w)) None = Some d
       \<and> w_trace w1 = w_trace w @ [RawUpdateStatus (d\<lparr>rd_status_name := []\<rparr>)]
       \<and> view (w_env w1) = set_status (d\<lparr>rd_status_name := []\<rparr>) (view (w_env w)))
    \<or> (\<exists>e. r = Fail e \<and> view (w_env w1) = view (w_env w))"
proof -
  obtain l w0 where l: "list_all_devices api w = (l, w0)" by fastforce
  note l' = list_all_devices_view [OF l]
  show ?thesis
  proof (cases l)
    case (Ok ds)
    with l' have ds: "ds = view (w_env w)" and w0: "w0 = w" by auto
    show ?thesis
    proof (cases "last_match v ds None")
      case None
      with assms l Ok w0 show ?thesis by (auto simp: deleteVolume_def bindM_eqs failM_def)
    next
      case (Some d)
      with assms l Ok w0 have run: "update_status api (d\<lparr>rd_status_name := []\<rparr>) w = (r, w1)"
        by (simp add: deleteVolume_def bindM_eqs)
      from update_status_view [OF run] Some ds show ?thesis by (cases r) auto
    qed
  qed (use assms l l' in \<open>auto simp: deleteVolume_def bindM_eqs\<close>)
qed

lemma getMaxCapacity_view:
  assumes "getMaxCapacity api w = (r, w1)"
  shows "w1 = w \<and> (\<forall>p. r \<noteq> Panic p) \<and> (\<forall>x. r = Ok x \<longrightarrow> x = max_capacity_loop (view (w_env w)) ([], 0))"
proof -
  obtain l w0 where l: "list_all_devices api w = (l, w0)" by fastforce
  from list_all_devices_view [OF l] assms l show ?thesis
    by (cases l) (auto simp: getMaxCapacity_def bindM_eqs ret_def)
qed

lemma choose_node_view:
  assumes "choose_node api rq gb w = (r, w1)"
  shows "w1 = w" and "r \<noteq> Panic p"
    and "rq = None \<Longrightarrow> r = Ok node \<Longrightarrow> 0 < sint (from_gb gb) \<Longrightarrow>
      \<exists>d \<in> set (view (w_env w)). is_free d \<and> rd_node_name d = node \<and> sint (from_gb gb) \<le> sint (rd_size d)"
proof -
  obtain c w0 where c: "getMaxCapacity api w = (c, w0)" by fastforce
  note c' = getMaxCapacity_view [OF c]
  show "w1 = w" using assms c c'
    by (cases rq; cases c)
      (auto simp: choose_node_def attempt_eqs bindM_eqs prog_defs Let_def split: if_splits prod.splits)
  show "r \<noteq> Panic p" using assms c c'
    by (cases rq; cases c)
      (auto simp: choose_node_def attempt_eqs bindM_eqs prog_defs Let_def split: if_splits prod.splits)
  assume rq: "rq = None" and r: "r = Ok node" and pos: "0 < sint (from_gb gb)"
  with assms c c' obtain cap where m: "max_capacity_loop (view (w_env w)) ([], 0) = (node, cap)"
    and le: "sint (from_gb gb) \<le> sint cap"
    by (cases c) (auto simp: choose_node_def attempt_eqs bindM_eqs prog_defs split: if_splits prod.splits)
  from max_capacity_loop_spec [OF m] pos le
  show "\<exists>d \<in> set (view (w_env w)). is_free d \<and> rd_node_name d = node \<and> sint (from_gb gb) \<le> sint (rd_size d)"
    by fastforce
qed

lemma status_of_cases:
  assumes "status_of m w = (r, w1)"
  obtains (ok) x where "m w = (Ok x, w1)" "r = Ok x"
    | (fail) e where "m w = (Fail e, w1)" "r = Fail (as_status e)"
    | (panic) p where "m w = (Panic p, w1)" "r = Panic p"
  using assms by (cases "fst (m w)") (auto simp: status_of_def prog_defs split: prod.splits outcome.splits)

lemma CreateVolume_view:
  assumes "CreateVolume api req w = (r, w1)"
  shows "(\<exists>resp gb d. r = Ok resp \<and> convertRequestCapacity (cv_required_bytes req) (cv_limit_bytes req) = Inr gb
       \<and> cr_capacity_bytes resp = from_gb gb \<and> cr_volume_id resp = rd_name d
       \<and> took_device view w w1 (cr_node resp) gb d)
    \<or> (\<exists>e. r = Fail e \<and> view (w_env w1) = view (w_env w))"
proof (cases "cv_has_content_source req \<or> cv_capabilities req = None
    \<or> (\<exists>e. check_capabilities (the (cv_capabilities req)) = Some e)
    \<or> (\<exists>e. convertRequestCapacity (cv_required_bytes req) (cv_limit_bytes req) = Inl e)")
  case True
  with assms show ?thesis by (auto simp: CreateVolume_def failM_def split: option.splits sum.splits if_splits)
next
  case False
  then obtain caps gb where g: "cv_has_content_source req = False" "cv_capabilities req = Some caps"
    "check_capabilities caps = None"
    "convertRequestCapacity (cv_required_bytes req) (cv_limit_bytes req) = Inr gb"
    by (cases "convertRequestCapacity (cv_required_bytes req) (cv_limit_bytes req)") auto
  from convertRequestCapacity_Inr(3) [OF g(4)] have pos: "0 < sint gb" by simp
  obtain n wn where n: "choose_node api (cv_requirements req) gb w = (n, wn)" by fastforce
  note n' = choose_node_view(1,2) [OF n]
  show ?thesis
  proof (cases n)
    case (Ok node)
    show ?thesis
    proof (cases "cv_name req = []")
      case True
      with assms g n n' Ok show ?thesis by (auto simp: CreateVolume_def bindM_eqs failM_def)
    next
      case False
      obtain v wv where v: "status_of (createVolume api node gb (to_lower (cv_name req))) w = (v, wv)"
        by fastforce
      have run: "bindM (status_of (createVolume api node gb (to_lower (cv_name req))))
          (\<lambda>volumeID. ret \<lparr>cr_capacity_bytes = from_gb gb, cr_volume_id = volumeID, cr_node = node\<rparr>) w = (r, w1)"
        using assms g n n'(1) Ok False by (simp add: CreateVolume_def bindM_eqs)
      from v show ?thesis
      proof (cases rule: status_of_cases)
        case (ok x)
        from createVolume_view [OF ok(1) pos] obtain d where "x = rd_name d" "took_device view w wv node gb d"
          by (auto simp: took_device_def)
        with run v ok g(4) show ?thesis by (auto simp: bindM_eqs ret_def)
      next
        case (fail e)
        from createVolume_view [OF fail(1) pos] run v fail show ?thesis by (auto simp: bindM_eqs)
      next
        case (panic p)
        from createVolume_view [OF panic(1) pos] show ?thesis by auto
      qed
    qed
  next
    case (Fail e)
    with assms g n n' show ?thesis by (auto simp: CreateVolume_def bindM_eqs)
  qed (use n' in auto)
qed

lemma DeleteVolume_view:
  assumes "DeleteVolume api v w = (r, w1)"
  shows "(\<exists>d. v \<noteq> [] \<and> r = Ok () \<and> last_match v (view (w_env w)) None = Some d
       \<and> w_trace w1 = w_trace w @ [RawUpdateStatus (d\<lparr>rd_status_name := []\<rparr>)]
       \<and> view (w_env w1) = set_status (d\<lparr>rd_status_name := []\<rparr>) (view (w_env w)))
    \<or> (\<exists>e. r = Fail e \<and> view (w_env w1) = view (w_env w))"
proof (cases "v = []")
  case True
  with assms show ?thesis by (auto simp: DeleteVolume_def failM_def)
next
  case False
  with assms have "status_of (deleteVolume api v) w = (r, w1)" by (simp add: DeleteVolume_def)
  then show ?thesis
  proof (cases rule: status_of_cases)
    case (ok x)
    from deleteVolume_view [OF ok(1)] ok(2) False show ?thesis by auto
  next
    case (fail e)
    from deleteVolume_view [OF fail(1)] fail(2) show ?thesis by auto
  next
    case (panic p)
    from deleteVolume_view [OF panic(1)] show ?thesis by auto
  qed
qed

end

section \<open>An in-memory store\<close>

text \<open>A list of objects with the writes of the API: the store the contract is interpreted on.\<close>

definition mem_api :: "raw_device list raw_api" where
  "mem_api =
     \<lparr>ra_list = (\<lambda>ds. Inr ds),
      ra_get = (\<lambda>n ds. (case find (\<lambda>d. rd_name d = n) ds of None \<Rightarrow> Inl (ApiNotFound n) | Some d \<Rightarrow> Inr d, ds)),
      ra_create = (\<lambda>d ds. if rd_name d \<in> set (map rd_name ds) then (Inl (ApiAlreadyExists (rd_name d)), ds)
                          else (Inr (), ds @ [d\<lparr>rd_status_name := []\<rparr>])),
      ra_update = (\<lambda>d ds. if rd_name d \<in> set (map rd_name ds)
                          then (Inr (), map (\<lambda>x. if rd_name x = rd_name d
                                  then d\<lparr>rd_status_name := rd_status_name x\<rparr> else x) ds)
                          else (Inl (ApiNotFound (rd_name d)), ds)),
      ra_update_status = (\<lambda>d ds. if rd_name d \<in> set (map rd_name ds) then (Inr (), set_status d ds)
                                 else (Inl (ApiNotFound (rd_name d)), ds)),
      ra_delete = (\<lambda>n ds. if n \<in> set (map rd_name ds) then (Inr (), filter (\<lambda>d. rd_name d \<noteq> n) ds)
                          else (Inl (ApiNotFound n), ds))\<rparr>"

interpretation mem: raw_store mem_api "\<lambda>ds. ds"
  by unfold_locales (auto simp: mem_api_def split: if_splits)

end
