(* ===== verification/RawCsi_Props.thy ===== *)
theory RawCsi_Props
  imports RawStore
begin

text \<open>
  What is proved of the raw-device CSI driver: the device a volume gets is the best fit and large
  enough, the store of devices stays consistent over every sequence of calls, and the controller
  implements an abstract pool of volume ids (an id is handed out at most once until it is deleted).
  The store is any one that satisfies the laws of \<open>raw_store\<close>; the witnesses use the in-memory one.
\<close>

section \<open>The step relation of the controller service\<close>

inductive csi_step :: "'e raw_api \<Rightarrow> 'e world \<Rightarrow> 'e world \<Rightarrow> bool" for api where
  create: "CreateVolume api req w = (r, w') \<Longrightarrow> csi_step api w w'"
| delete: "DeleteVolume api v w = (r, w') \<Longrightarrow> csi_step api w w'"
| validate: "ValidateVolumeCapabilities api v caps w = (r, w') \<Longrightarrow> csi_step api w w'"
| capacity: "GetCapacity api topo w = (r, w') \<Longrightarrow> csi_step api w w'"

inductive csi_steps :: "'e raw_api \<Rightarrow> 'e world \<Rightarrow> 'e world \<Rightarrow> bool" for api where
  refl: "csi_steps api w w"
| step: "csi_steps api w w' \<Longrightarrow> csi_step api w' w'' \<Longrightarrow> csi_steps api w w''"

text \<open>The abstract service: a set of ids in use, an id enters it fresh and leaves it when deleted.\<close>

inductive pool_step :: "string set \<Rightarrow> string set \<Rightarrow> bool" where
  stay: "pool_step H H"
| take_id: "v \<notin> H \<Longrightarrow> v \<noteq> [] \<Longrightarrow> pool_step H (insert v H)"
| release_id: "v \<in> H \<Longrightarrow> pool_step H (H - {v})"

inductive_simps pool_step_empty: "pool_step {} H"

context raw_store
begin

lemma getVolume_view:
  assumes "getVolume api v w = (r, w1)"
  shows "w1 = w \<and> (\<forall>p. r \<noteq> Panic p)"
proof -
  obtain l w0 where l: "list_all_devices api w = (l, w0)" by fastforce
  from list_all_devices_view [OF l] assms l show ?thesis
    by (cases l) (auto simp: getVolume_def bindM_eqs ret_def failM_def split: option.splits)
qed

lemma Validate_view: "ValidateVolumeCapabilities api v caps w = (r, w1) \<Longrightarrow> w1 = w"
proof -
  assume a: "ValidateVolumeCapabilities api v caps w = (r, w1)"
  obtain g w0 where g: "getVolume api v w = (g, w0)" by fastforce
  from getVolume_view [OF g] a g show ?thesis
    by (cases g) (auto simp: ValidateVolumeCapabilities_def attempt_eqs bindM_eqs ret_def failM_def
        split: if_splits)
qed

lemma getCapacity_view:
  assumes "getCapacityByTopologyLabel api node w = (r, w1)"
  shows "w1 = w \<and> (\<forall>p. r \<noteq> Panic p)
    \<and> (\<forall>x. r = Ok x \<longrightarrow> x = capacity_loop 0 (filter (on_node node) (view (w_env w))) (0, 0, 0))"
proof -
  obtain l w0 where l: "list_node_devices api node w = (l, w0)" by fastforce
  from list_node_devices_view [OF l] assms l show ?thesis
    by (cases l) (auto simp: getCapacityByTopologyLabel_def bindM_eqs ret_def)
qed

lemma GetCapacity_view: "GetCapacity api topo w = (r, w1) \<Longrightarrow> w1 = w"
proof -
  assume a: "GetCapacity api topo w = (r, w1)"
  show ?thesis
  proof (cases "\<exists>segs node. topo = Some segs \<and> map_of segs TopologyNodeKey = Some node")
    case False
    with a show ?thesis by (auto simp: GetCapacity_def ret_def failM_def split: option.splits)
  next
    case True
    then obtain segs node where t: "topo = Some segs" "map_of segs TopologyNodeKey = Some node" by blast
    obtain g w0 where g: "getCapacityByTopologyLabel api node w = (g, w0)" by fastforce
    from getCapacity_view [OF g] a g t show ?thesis
      by (cases g) (auto simp: GetCapacity_def attempt_eqs bindM_eqs ret_def failM_def split: prod.splits)
  qed
qed

lemma step_refines:
  assumes step: "csi_step api w w'" and ok: "volumes_ok (view (w_env w))"
  shows "volumes_ok (view (w_env w')) \<and> pool_step (held_ids (view (w_env w))) (held_ids (view (w_env w')))"
  using step
proof (cases rule: csi_step.cases)
  case (create req r)
  from CreateVolume_view [OF create] show ?thesis
  proof
    assume "\<exists>e. r = Fail e \<and> view (w_env w') = view (w_env w)"
    with ok show ?thesis by (auto intro: pool_step.stay)
  next
    assume "\<exists>resp gb d. r = Ok resp \<and> convertRequestCapacity (cv_required_bytes req) (cv_limit_bytes req) = Inr gb
       \<and> cr_capacity_bytes resp = from_gb gb \<and> cr_volume_id resp = rd_name d
       \<and> took_device view w w' (cr_node resp) gb d"
    then obtain d where d: "d \<in> set (view (w_env w))" "is_free d"
      and v: "view (w_env w') = set_status (d\<lparr>rd_status_name := rd_name d\<rparr>) (view (w_env w))"
      by (auto simp: took_device_def fits_def)
    from d have "rd_status_name d = []" by (simp add: is_free_def)
    with free_not_held [OF ok d(1)] ok d(1)
    have "rd_name d \<notin> held_ids (view (w_env w))" "rd_name d \<noteq> []" by (auto simp: volumes_ok_def)
    with ok d(1) show ?thesis
      by (simp add: v held_ids_take volumes_ok_set_status pool_step.take_id)
  qed
next
  case (delete v r)
  from DeleteVolume_view [OF delete] show ?thesis
  proof
    assume "\<exists>e. r = Fail e \<and> view (w_env w') = view (w_env w)"
    with ok show ?thesis by (auto intro: pool_step.stay)
  next
    assume "\<exists>d. v \<noteq> [] \<and> r = Ok () \<and> last_match v (view (w_env w)) None = Some d
       \<and> w_trace w' = w_trace w @ [RawUpdateStatus (d\<lparr>rd_status_name := []\<rparr>)]
       \<and> view (w_env w') = set_status (d\<lparr>rd_status_name := []\<rparr>) (view (w_env w))"
    then obtain d where v: "v \<noteq> []" and m: "last_match v (view (w_env w)) None = Some d"
      and e: "view (w_env w') = set_status (d\<lparr>rd_status_name := []\<rparr>) (view (w_env w))" by blast
    from last_match_Some [OF m] v have d: "d \<in> set (view (w_env w))" "rd_status_name d \<noteq> []" by auto
    with held_own [OF ok] have "rd_name d \<in> held_ids (view (w_env w))" by (force simp: held_ids_def)
    with ok d(1) show ?thesis
      by (simp add: e held_ids_release volumes_ok_set_status pool_step.release_id)
  qed
next
  case (validate v caps r)
  from Validate_view [OF validate] ok show ?thesis by (simp add: pool_step.stay)
next
  case (capacity topo r)
  from GetCapacity_view [OF capacity] ok show ?thesis by (simp add: pool_step.stay)
qed

lemma steps_ok: "csi_steps api w w' \<Longrightarrow> volumes_ok (view (w_env w)) \<Longrightarrow> volumes_ok (view (w_env w'))"
  by (induction rule: csi_steps.induct) (auto dest: step_refines)

end

section \<open>A store for the witnesses\<close>

definition sample_device :: "string \<Rightarrow> string \<Rightarrow> 64 word \<Rightarrow> string \<Rightarrow> raw_device" where
  "sample_device name node bytes status =
     \<lparr>rd_name = name, rd_labels = [(''node'', node)], rd_node_name = node, rd_size = bytes, rd_type = ''disk'',
      rd_real_path = ''/dev/'' @ name, rd_major = 8, rd_minor = 16, rd_uuid = ''uuid'', rd_available = True,
      rd_status_name = status\<rparr>"

definition sample_store :: "raw_device list world" where
  "sample_store =
     \<lparr>w_env = [sample_device ''n1-sdb'' ''n1'' 8589934592 [], sample_device ''n1-sdc'' ''n1'' 4294967296 [],
               sample_device ''n1-sdd'' ''n1'' 2147483648 ''n1-sdd''], w_trace = []\<rparr>"

definition sample_request :: create_volume_request where
  "sample_request =
     \<lparr>cv_name = ''PVC-1'', cv_required_bytes = 3221225472, cv_limit_bytes = 0, cv_has_content_source = False,
      cv_capabilities = Some [\<lparr>vc_access = AccessBlock, vc_mode = Some 1\<rparr>], cv_requirements = None\<rparr>"

lemma volumes_ok_sample: "volumes_ok (w_env sample_store)"
  by (simp add: volumes_ok_def sample_store_def sample_device_def)

definition sample_response :: create_volume_response where
  "sample_response = \<lparr>cr_capacity_bytes = 3221225472, cr_volume_id = ''n1-sdc'', cr_node = ''n1''\<rparr>"

definition sample_after :: "raw_device list world" where
  "sample_after =
     \<lparr>w_env = [sample_device ''n1-sdb'' ''n1'' 8589934592 [], sample_device ''n1-sdc'' ''n1'' 4294967296 ''n1-sdc'',
               sample_device ''n1-sdd'' ''n1'' 2147483648 ''n1-sdd''],
      w_trace = [RawUpdateStatus (sample_device ''n1-sdc'' ''n1'' 4294967296 ''n1-sdc'')]\<rparr>"

lemma sample_create: "CreateVolume mem_api sample_request sample_store = (Ok sample_response, sample_after)"
  by code_simp

section \<open>Properties\<close>

text \<open>
  Rounding of a requested capacity.  When \<open>convertRequestCapacity\<close> accepts a request, the
  request is non-negative, and the result is the least positive number of GiB that holds it; it
  lies between 1 and 2^33.
\<close>

theorem request_capacity_least_gib:
  assumes "convertRequestCapacity req lim = Inr gb"
  shows "0 \<le> sint req \<and> 1 \<le> sint gb \<and> sint gb \<le> 2 ^ 33
    \<and> sint req \<le> sint gb * 2 ^ 30 \<and> (sint gb - 1) * 2 ^ 30 < max 1 (sint req)"
  using convertRequestCapacity_Inr [OF assms] by auto

theorem request_capacity_least_gib_witness:
  "1 \<le> sint (2 :: int64) \<and> sint (1073741825 :: int64) \<le> sint (2 :: int64) * 2 ^ 30"
proof -
  have "convertRequestCapacity 1073741825 0 = Inr 2" by code_simp
  from request_capacity_least_gib [OF this] show ?thesis by blast
qed

text \<open>The rounded size is not compared with the limit: one byte with a limit of one byte gets 1 GiB.\<close>

lemma rounded_capacity_exceeds_limit: "convertRequestCapacity 1 1 = Inr 1 \<and> sint (1 :: int64) < sint (from_gb 1)"
  by code_simp



text \<open>
  Invariant of the device store.  Over every sequence of controller calls, successful or not,
  the names of the devices stay distinct and every device's status stays empty or holds the device's
  own name, so a volume id never designates two devices.
\<close>

theorem csi_volumes_consistent:
  assumes "raw_store api view" and "csi_steps api w w'" and "volumes_ok (view (w_env w))"
  shows "volumes_ok (view (w_env w'))"
  by (rule raw_store.steps_ok [OF assms])

theorem csi_volumes_consistent_witness: "volumes_ok (w_env sample_after)"
proof -
  have "csi_steps mem_api sample_store sample_after"
    by (rule csi_steps.step [OF csi_steps.refl csi_step.create [OF sample_create]])
  from csi_volumes_consistent [OF mem.raw_store_axioms this volumes_ok_sample] show ?thesis .
qed

text \<open>
  Refinement.  Seen through the set of volume ids in use, every call of the controller service is
  a step of the abstract pool: it changes nothing, adds one id that was not in use, or removes one
  that was.
\<close>

theorem csi_refines_pool:
  assumes "raw_store api view" and "csi_step api w w'" and "volumes_ok (view (w_env w))"
  shows "pool_step (held_ids (view (w_env w))) (held_ids (view (w_env w')))"
  using raw_store.step_refines [OF assms] by simp

theorem csi_refines_pool_witness:
  "pool_step (held_ids (w_env sample_store)) (held_ids (w_env sample_after))"
  by (rule csi_refines_pool [OF mem.raw_store_axioms csi_step.create [OF sample_create] volumes_ok_sample])


lemma sample_delete:
  "DeleteVolume mem_api (cr_volume_id sample_response) sample_after =
     (Ok (), sample_store\<lparr>w_trace := [RawUpdateStatus (sample_device ''n1-sdc'' ''n1'' 4294967296 ''n1-sdc''),
        RawUpdateStatus (sample_device ''n1-sdc'' ''n1'' 4294967296 [])]\<rparr>)"
  by code_simp


text \<open>
  Two creations never share a device, and so a repeated request is not idempotent: two successful
  calls, also with the same name and parameters, return different volume ids.
\<close>

theorem create_volume_never_shares:
  assumes "raw_store api view" and "volumes_ok (view (w_env w))"
    and "CreateVolume api req w = (Ok resp, w')" and "CreateVolume api req' w' = (Ok resp', w'')"
  shows "cr_volume_id resp \<noteq> cr_volume_id resp'"
proof -
  let ?ds = "view (w_env w)"
  from raw_store.CreateVolume_view [OF assms(1,3)] obtain gb d
    where id: "cr_volume_id resp = rd_name d" and took: "took_device view w w' (cr_node resp) gb d" by auto
  from took have d: "d \<in> set ?ds"
    and v': "view (w_env w') = set_status (d\<lparr>rd_status_name := rd_name d\<rparr>) ?ds"
    by (auto simp: took_device_def)
  from raw_store.CreateVolume_view [OF assms(1,4)] obtain gb' d'
    where id': "cr_volume_id resp' = rd_name d'" and took': "took_device view w' w'' (cr_node resp') gb' d'" by auto
  from took' have d': "d' \<in> set (view (w_env w'))" "rd_status_name d' = []"
    by (auto simp: took_device_def fits_def is_free_def)
  from d assms(2) have ok': "volumes_ok (view (w_env w'))" by (simp add: v' volumes_ok_set_status)
  from held_ids_take [OF assms(2) d] have "rd_name d \<in> held_ids (view (w_env w'))" by (simp add: v')
  with free_not_held [OF ok' d'] show ?thesis by (auto simp: id id')
qed

theorem create_volume_never_shares_witness:
  "\<exists>resp' w''. CreateVolume mem_api sample_request sample_after = (Ok resp', w'')
     \<and> cr_volume_id sample_response \<noteq> cr_volume_id resp'"
proof -
  have "case fst (CreateVolume mem_api sample_request sample_after) of Ok x \<Rightarrow> True | _ \<Rightarrow> False"
    by code_simp
  then obtain resp' w'' where r: "CreateVolume mem_api sample_request sample_after = (Ok resp', w'')"
    by (cases "CreateVolume mem_api sample_request sample_after") (auto split: outcome.splits)
  from create_volume_never_shares [OF mem.raw_store_axioms volumes_ok_sample sample_create r] r
  show ?thesis by blast
qed



definition open_api :: "raw_device list raw_api" where
  "open_api = mem_api\<lparr>ra_update_status := (\<lambda>d ds. (Inr (), set_status d ds))\<rparr>"

interpretation open_store: raw_store open_api "\<lambda>ds. ds"
  by unfold_locales (auto simp: open_api_def mem_api_def)



section \<open>Capacity figures\<close>

lemma capacity_loop_free:
  "capacity_loop i (d # ds) (av, mx, mn) =
     (if \<not> is_free d then capacity_loop (Suc i) ds (av, mx, mn)
      else capacity_loop (Suc i) ds (av + rd_size d, (if sint (rd_size d) > sint mx then rd_size d else mx),
             (if i = 0 \<or> sint (rd_size d) < sint mn then rd_size d else mn)))"
  by (simp add: is_free_def Let_def)

lemma capacity_loop_spec:
  "capacity_loop i ds (av, mx, mn) = (av', mx', mn') \<Longrightarrow>
     av' = av + sum_list (map rd_size (filter is_free ds))
     \<and> sint mx \<le> sint mx' \<and> (\<forall>d \<in> set ds. is_free d \<longrightarrow> sint (rd_size d) \<le> sint mx')
     \<and> (mx' = mx \<or> (\<exists>d \<in> set ds. is_free d \<and> rd_size d = mx'))
     \<and> (i \<noteq> 0 \<longrightarrow> sint mn' \<le> sint mn \<and> (mn' = mn \<or> (\<exists>d \<in> set ds. is_free d \<and> rd_size d = mn')))"
proof (induction ds arbitrary: i av mx mn)
  case Nil
  then show ?case by simp
next
  case (Cons d ds)
  show ?case
  proof (cases "is_free d")
    case False
    with Cons.prems have "capacity_loop (Suc i) ds (av, mx, mn) = (av', mx', mn')"
      by (simp only: capacity_loop_free if_True not_False_eq_True)
    from Cons.IH [OF this] False show ?thesis by auto
  next
    case True
    with Cons.prems have "capacity_loop (Suc i) ds (av + rd_size d,
        (if sint (rd_size d) > sint mx then rd_size d else mx),
        (if i = 0 \<or> sint (rd_size d) < sint mn then rd_size d else mn)) = (av', mx', mn')"
      by (simp only: capacity_loop_free if_False not_True_eq_False)
    from Cons.IH [OF this] True show ?thesis by (auto simp: add.assoc split: if_splits)
  qed
qed

text \<open>
  C30: \<open>GetCapacity\<close> for a node reports the sum of the sizes of its free devices (in 64-bit arithmetic)
  as the available capacity, and as the maximum volume size the size of the largest of them, 0 when
  there is none; the store is left alone.
\<close>

theorem get_capacity_figures:
  assumes "raw_store api view" and "GetCapacity api (Some segs) w = (Ok resp, w')"
    and "map_of segs TopologyNodeKey = Some node"
  shows "w' = w \<and> gc_available resp =
       sum_list (map rd_size (filter is_free (filter (on_node node) (view (w_env w)))))
    \<and> (\<exists>mx. gc_maximum resp = Some mx
         \<and> (mx = 0 \<or> mx \<in> rd_size ` {d \<in> set (view (w_env w)). on_node node d \<and> is_free d})
         \<and> (\<forall>d \<in> set (view (w_env w)). on_node node d \<and> is_free d \<longrightarrow> sint (rd_size d) \<le> sint mx))"
proof -
  obtain g w0 where g: "getCapacityByTopologyLabel api node w = (g, w0)" by fastforce
  obtain av mx mn where c: "capacity_loop 0 (filter (on_node node) (view (w_env w))) (0, 0, 0) = (av, mx, mn)"
    using prod_cases3 by blast
  from raw_store.getCapacity_view [OF assms(1) g] g c assms(2,3)
  have "w' = w \<and> resp = \<lparr>gc_available = av, gc_maximum = Some mx, gc_minimum = Some mn\<rparr>"
    by (cases g) (auto simp: GetCapacity_def attempt_eqs bindM_eqs ret_def failM_def)
  with capacity_loop_spec [OF c] show ?thesis by auto
qed

theorem get_capacity_figures_witness:
  "gc_available (case fst (GetCapacity mem_api (Some [(TopologyNodeKey, ''n1'')]) sample_store) of Ok r \<Rightarrow> r)
     = 12884901888"
proof -
  have "\<exists>r w'. GetCapacity mem_api (Some [(TopologyNodeKey, ''n1'')]) sample_store = (Ok r, w')"
    by (simp add: GetCapacity_def getCapacityByTopologyLabel_def list_node_devices_def list_all_devices_def
        external_def mem_api_def bindM_def attempt_def ret_def split: prod.splits)
  then obtain r w' where r: "GetCapacity mem_api (Some [(TopologyNodeKey, ''n1'')]) sample_store = (Ok r, w')" by blast
  from get_capacity_figures [OF mem.raw_store_axioms r] have "gc_available r =
      sum_list (map rd_size (filter is_free (filter (on_node ''n1'') (w_env sample_store))))" by simp
  also have "\<dots> = 12884901888" by code_simp
  finally show ?thesis by (simp add: r)
qed

text \<open>
  The minimum volume size of \<open>GetCapacity\<close> is 0, whatever the free devices are, when the first
  device listed for the node is not free: the loop initialises the minimum at index 0 only.
\<close>

theorem get_capacity_minimum_lost:
  assumes "raw_store api view" and "GetCapacity api (Some segs) w = (Ok resp, w')"
    and "map_of segs TopologyNodeKey = Some node"
    and "filter (on_node node) (view (w_env w)) = d # ds" and "\<not> is_free d"
    and "\<forall>x \<in> set ds. 0 \<le> sint (rd_size x)"
  shows "gc_minimum resp = Some 0"
proof -
  obtain g w0 where g: "getCapacityByTopologyLabel api node w = (g, w0)" by fastforce
  obtain av mx mn where c: "capacity_loop 0 (d # ds) (0, 0, 0) = (av, mx, mn)"
    using prod_cases3 by blast
  from c assms(5) have c': "capacity_loop 1 ds (0, 0, 0) = (av, mx, mn)"
    by (simp only: capacity_loop_free if_True not_False_eq_True One_nat_def)
  from capacity_loop_spec [OF c'] assms(6) have "sint mn = 0" by fastforce
  then have "mn = 0" using signed_word_eqI [of mn 0] by simp
  moreover from raw_store.getCapacity_view [OF assms(1) g] g c assms(2-4)
  have "gc_minimum resp = Some mn"
    by (cases g) (auto simp: GetCapacity_def attempt_eqs bindM_eqs ret_def failM_def)
  ultimately show ?thesis by simp
qed

definition taken_first :: "raw_device list world" where
  "taken_first =
     \<lparr>w_env = [sample_device ''n1-sdb'' ''n1'' 2147483648 ''n1-sdb'', sample_device ''n1-sdc'' ''n1'' 4294967296 []],
      w_trace = []\<rparr>"

theorem get_capacity_minimum_lost_witness:
  "(case fst (GetCapacity mem_api (Some [(TopologyNodeKey, ''n1'')]) taken_first) of
      Ok resp \<Rightarrow> gc_minimum resp = Some 0 | _ \<Rightarrow> False)"
proof -
  have r: "GetCapacity mem_api (Some [(TopologyNodeKey, ''n1'')]) taken_first =
      (Ok \<lparr>gc_available = 4294967296, gc_maximum = Some 4294967296, gc_minimum = Some 0\<rparr>, taken_first)"
    by code_simp
  have f: "filter (on_node ''n1'') (w_env taken_first) =
      sample_device ''n1-sdb'' ''n1'' 2147483648 ''n1-sdb'' # [sample_device ''n1-sdc'' ''n1'' 4294967296 []]"
    by code_simp
  show ?thesis
    using get_capacity_minimum_lost [OF mem.raw_store_axioms r _ f]
    by (simp add: r is_free_def sample_device_def)
qed

section \<open>The node service\<close>

text \<open>
  Publishing.  A successful \<open>NodePublishVolume\<close> was for a block volume with an id, a target path
  and a device object of that name, and it made the parent directory of the target and then a device
  node at the target with the object's major and minor numbers, and nothing else.
\<close>

theorem node_publish_makes_node:
  assumes "NodePublishVolume fs api mkdev req w = (Ok (), w')"
  shows "\<exists>vc d e e'. np_capability req = Some vc \<and> vc_access vc = AccessBlock
    \<and> np_volume_id req \<noteq> [] \<and> np_target_path req \<noteq> []
    \<and> ra_get api (np_volume_id req) e = (Inr d, e')
    \<and> w_trace w' = w_trace w @ [FsMkdirAll (path_dir (np_target_path req)),
                                 FsMknod (np_target_path req) (mkdev (rd_major d) (rd_minor d))]"
  using assms
  by (auto simp: NodePublishVolume_def nodePublishBlockVolume_def external_def bindM_def attempt_def failM_def
      ret_def Let_def split: if_splits option.splits prod.splits sum.splits outcome.splits) blast

definition null_fs :: "raw_device list fs_api" where
  "null_fs = \<lparr>fs_mkdir_all = (\<lambda>p e. (Inr (), e)), fs_mknod = (\<lambda>p d e. (Inr (), e)), fs_remove = (\<lambda>p e. (Inr (), e))\<rparr>"

theorem node_publish_makes_node_witness:
  "\<exists>d. w_trace (snd (NodePublishVolume null_fs mem_api (\<lambda>a b. uint a * 256 + uint b)
      \<lparr>np_volume_id = ''n1-sdc'', np_target_path = ''/mnt/t'',
       np_capability = Some \<lparr>vc_access = AccessBlock, vc_mode = Some 1\<rparr>\<rparr> sample_store)) =
     [FsMkdirAll ''/mnt'', FsMknod ''/mnt/t'' d]"
proof -
  let ?req = "\<lparr>np_volume_id = ''n1-sdc'', np_target_path = ''/mnt/t'',
       np_capability = Some \<lparr>vc_access = AccessBlock, vc_mode = Some 1\<rparr>\<rparr>"
  let ?run = "NodePublishVolume null_fs mem_api (\<lambda>a b. uint a * 256 + uint b) ?req sample_store"
  have ok: "fst ?run = Ok ()" by code_simp
  have dir: "path_dir ''/mnt/t'' = ''/mnt''" by code_simp
  from ok have "?run = (Ok (), snd ?run)" by (metis prod.collapse)
  from node_publish_makes_node [OF this] show ?thesis by (auto simp: sample_store_def dir)
qed

end
