(* ===== verification/Discover_Props.thy ===== *)
theory Discover_Props
  imports Discover CmStore RawCsi_Props Device_Props
begin

text \<open>
  What is proved of the discovery agent: which \<open>RawDevice\<close> objects it deletes, what the config map holds
  after a report, that a report runs no LVM command, how the state of a class follows the physical
  volumes, and how udev events are collapsed.
\<close>

section \<open>Deletion of the objects of lost devices\<close>

lemma delete_loop_trace:
  "for_each (delete_step m devices) raws err w = (r, w') \<Longrightarrow>
     (\<exists>e. r = Ok e) \<and> w_trace w' = w_trace w @ map (\<lambda>d. RawDelete (rd_name d))
       (filter (\<lambda>d. \<not> still_there m devices d \<and> rd_status_name d = []) raws)"
proof (induction raws arbitrary: err w)
  case Nil
  then show ?case by (auto simp: ret_def)
next
  case (Cons d raws)
  obtain e1 w1 where step: "delete_step m devices d err w = (Ok e1, w1)"
    and tr: "w_trace w1 = w_trace w @
      (if \<not> still_there m devices d \<and> rd_status_name d = [] then [RawDelete (rd_name d)] else [])"
    by (cases "\<not> still_there m devices d \<and> rd_status_name d = []")
      (auto simp: delete_step_def attempt_external bindM_eqs(1) [OF attempt_external] ret_def)
  with Cons.prems have "for_each (delete_step m devices) raws e1 w1 = (r, w')" by (simp add: bindM_eqs)
  from Cons.IH [OF this] tr show ?case by auto
qed


definition test_codec :: codec where
  "test_codec = \<lparr>co_devices = (\<lambda>ds. show_int (int (length ds))), co_status = (\<lambda>s. nss_node s),
     co_status_parse = (\<lambda>s. Inr (zero_node_storage_state\<lparr>nss_node := s\<rparr>)), co_lvmd = (\<lambda>_. ''lvmd''),
     co_lvmd_parse = (\<lambda>_. Inl (Msg ''yaml'')), co_class = (\<lambda>_. []), co_class_parse = (\<lambda>_. Inl (Msg ''yaml''))\<rparr>"

definition raw_manager :: "raw_device list manager" where
  "raw_manager =
     \<lparr>dm_os = (\<lambda>cmd args e. (bad_result, e)), dm_device_env = no_sgdisk, dm_raw = mem_api,
      dm_cm = \<lparr>ca_get = (\<lambda>ns n e. Inl (ApiNotFound n)), ca_list = (\<lambda>ns e. Inr []),
               ca_create = (\<lambda>c e. (Inr (), e)), ca_update = (\<lambda>c e. (Inr (), e)),
               ca_patch = (\<lambda>ns a b e. (Inr (), e)), ca_delete = (\<lambda>ns n e. (Inr (), e))\<rparr>,
      dm_codec = test_codec, dm_hash = (\<lambda>s. s), dm_node_name = ''n1'', dm_namespace = ''ns'', dm_use_loop = False\<rparr>"


text \<open>
  \<open>CreateOrUpdateRawDevice\<close> reports a failure after an update that succeeded.  When the object
  exists and the update of its specification goes through (name, labels and status kept), the
  function still returns the \<open>AlreadyExists\<close> error of the creation, which the inner \<open>err\<close> shadows.
\<close>

theorem raw_device_update_reported_as_failure:
  assumes "ra_create api d (w_env w) = (Inl err, e1)" and "is_already_exists err"
    and "ra_get api (rd_name d) e1 = (Inr old, e2)"
    and "ra_update api (with_spec_of d old) e2 = (Inr (), e3)"
  shows "CreateOrUpdateRawDevice api d w =
    (Fail err, w\<lparr>w_env := e3, w_trace := w_trace w @ [RawCreate d, RawUpdate (with_spec_of d old)]\<rparr>)"
  using assms
  by (simp add: CreateOrUpdateRawDevice_def CreateRawDevice_def external_def attempt_def bindM_def failM_def)

theorem raw_device_update_reported_as_failure_witness:
  "fst (CreateOrUpdateRawDevice mem_api (sample_device ''n1-sdb'' ''n1'' 1073741824 []) sample_store) =
     Fail (ApiAlreadyExists ''n1-sdb'')"
proof -
  let ?d = "sample_device ''n1-sdb'' ''n1'' 1073741824 []"
  have c: "ra_create mem_api ?d (w_env sample_store) = (Inl (ApiAlreadyExists ''n1-sdb''), w_env sample_store)"
    and g: "ra_get mem_api (rd_name ?d) (w_env sample_store) =
      (Inr (sample_device ''n1-sdb'' ''n1'' 8589934592 []), w_env sample_store)"
    by (simp_all add: mem_api_def sample_store_def sample_device_def)
  obtain e3 where u: "ra_update mem_api (with_spec_of ?d (sample_device ''n1-sdb'' ''n1'' 8589934592 []))
      (w_env sample_store) = (Inr (), e3)"
    by (simp add: mem_api_def sample_store_def sample_device_def with_spec_of_def)
  from raw_device_update_reported_as_failure [OF c _ g u] show ?thesis by simp
qed

section \<open>The report\<close>

context cm_store
begin

lemma publish_devices_stores:
  assumes "dm_cm m = api" and "publish_devices m str w = (Ok u, w')"
  shows "\<exists>cm. view (w_env w') (dm_namespace m, cmName m) = Some cm \<and> cm_get cm LocalDiskCMData = str
    \<and> (\<forall>old k. view (w_env w) (dm_namespace m, cmName m) = Some old \<and> k \<noteq> LocalDiskCMData \<longrightarrow>
          cm_lookup cm k = cm_lookup old k)"
proof -
  obtain g w1 where g: "get_cm api (dm_namespace m) (cmName m) w = (g, w1)" by fastforce
  note g' = get_cm_cases [OF g]
  show ?thesis
  proof (cases g)
    case (Ok cm)
    with g' have v: "view (w_env w) (dm_namespace m, cmName m) = Some cm"
      and nm: "cm_name cm = cmName m" "cm_namespace cm = dm_namespace m" and w1: "w1 = w" by auto
    show ?thesis
    proof (cases "cm_get cm LocalDiskCMData = str")
      case True
      with assms g Ok w1 v show ?thesis
        by (auto simp: publish_devices_def attempt_eqs bindM_eqs ret_def)
    next
      case False
      with assms g Ok w1 obtain newcm where n: "cm_set LocalDiskCMData str cm = Ok newcm"
        and p: "PatchConfigMap api (cm_namespace newcm) cm newcm w = (Ok u, w')"
        by (auto simp: publish_devices_def attempt_eqs bindM_eqs lift_outcome_def elim!: bindM_OkE)
      from cm_set_meta [OF n] nm have "cm_namespace newcm = dm_namespace m" by simp
      with patch_cm_cases(1) [OF p] v nm
      have "view (w_env w') (dm_namespace m, cmName m) = Some newcm" by simp
      with cm_lookup_set [OF n] v show ?thesis by (simp add: cm_get_def)
    qed
  next
    case (Fail err)
    show ?thesis
    proof (cases "is_not_found err")
      case True
      obtain c w2 where c: "create_cm api (new_device_cm m str) w = (c, w2)" by fastforce
      have "c = Ok () \<and> w2 = w'"
        using assms g Fail g'(1) True c create_cm_cases(3) [OF c]
        by (cases c) (auto simp: publish_devices_def attempt_eqs bindM_eqs ret_def failM_def)
      with create_cm_cases(1) [OF c] g'(3) Fail True show ?thesis
        by (simp add: new_device_cm_def cm_get_def cm_lookup_def)
    next
      case False
      with assms g Fail g'(1) show ?thesis
        by (simp add: publish_devices_def attempt_eqs bindM_eqs failM_def)
    qed
  qed (use g'(4) in auto)
qed

end

text \<open>
  The report of the devices.  When \<open>updateDeviceCM\<close>'s last stage succeeds, the config map of the
  node holds the encoded list under \<open>devices\<close>, and every other entry of an existing map, in
  particular the state of the classes and lvmd's configuration, is kept.
\<close>

theorem device_report_stored:
  assumes "cm_store (dm_cm m) view" and "publish_devices m str w = (Ok u, w')"
  shows "\<exists>cm. view (w_env w') (dm_namespace m, cmName m) = Some cm \<and> cm_get cm LocalDiskCMData = str
    \<and> (\<forall>old k. view (w_env w) (dm_namespace m, cmName m) = Some old \<and> k \<noteq> LocalDiskCMData \<longrightarrow>
          cm_lookup cm k = cm_lookup old k)"
  using cm_store.publish_devices_stores [OF assms(1) _ assms(2)] by simp

definition cm_manager :: "cm_table manager" where
  "cm_manager =
     \<lparr>dm_os = (\<lambda>cmd args e. (bad_result, e)), dm_device_env = no_sgdisk,
      dm_raw = \<lparr>ra_list = (\<lambda>e. Inr []), ra_get = (\<lambda>n e. (Inl (ApiNotFound n), e)),
                ra_create = (\<lambda>d e. (Inr (), e)), ra_update = (\<lambda>d e. (Inr (), e)),
                ra_update_status = (\<lambda>d e. (Inr (), e)), ra_delete = (\<lambda>n e. (Inr (), e))\<rparr>,
      dm_cm = mem_cms, dm_codec = test_codec, dm_hash = (\<lambda>s. s), dm_node_name = ''n1'', dm_namespace = ''ns'',
      dm_use_loop = False\<rparr>"

theorem device_report_stored_witness:
  "\<exists>w' cm. publish_devices cm_manager ''[]'' \<lparr>w_env = [], w_trace = []\<rparr> = (Ok (), w')
     \<and> table_view (w_env w') (''ns'', ''lvmdconfig-n1'') = Some cm \<and> cm_get cm LocalDiskCMData = ''[]''"
proof -
  have "case fst (publish_devices cm_manager ''[]'' \<lparr>w_env = [], w_trace = []\<rparr>) of Ok x \<Rightarrow> True | _ \<Rightarrow> False"
    by code_simp
  then obtain u w' where r: "publish_devices cm_manager ''[]'' \<lparr>w_env = [], w_trace = []\<rparr> = (Ok u, w')"
    by (rule run_Ok)
  have s: "cm_store (dm_cm cm_manager) table_view" by (simp add: cm_manager_def mem_cm.cm_store_axioms)
  have n: "cmName cm_manager = ''lvmdconfig-n1''" "dm_namespace cm_manager = ''ns''" by code_simp+
  from device_report_stored [OF s r] r show ?thesis unfolding n by auto
qed

section \<open>No LVM command\<close>

lemma publish_no_change: "emits (\<lambda>ev. \<not> lvm_change ev) (publish_devices m str)"
  unfolding publish_devices_def get_cm_def create_cm_def PatchConfigMap_def
  by (intro emits_intros; simp add: lvm_change_def lvm_event_def)

lemma raw_no_change: "emits (\<lambda>ev. \<not> lvm_change ev) (createOrUpdateRawDevice m devices)"
  unfolding createOrUpdateRawDevice_def CreateOrUpdateRawDevice_def CreateRawDevice_def
    checkRawDeviceDeleted_def delete_step_def list_node_devices_def list_all_devices_def
  by (intro emits_intros; simp add: lvm_change_def lvm_event_def)

lemma update_no_change: "emits (\<lambda>ev. \<not> lvm_change ev) (updateDeviceCM m)"
  unfolding updateDeviceCM_def
  by (intro emits_intros publish_no_change raw_no_change emits_mono [OF emits_GetAllDevices] inspects_not_change)

lemma class_no_change: "emits (\<lambda>ev. \<not> lvm_change ev) (checkDeviceClass m)"
  unfolding checkDeviceClass_def class_step_def get_cm_def PatchConfigMap_def Let_def
  by (intro emits_intros queries_change_nothing; simp add: lvm_change_def lvm_event_def)

text \<open>
  Between its start and its end, no turn of the agent's loop runs an LVM command that changes the
  node: probing, reporting and checking the classes only look.
\<close>

theorem agent_turn_changes_nothing:
  "\<exists>es. w_trace (snd (Run_turn m i w)) = w_trace w @ es \<and> list_all (\<lambda>ev. \<not> lvm_change ev) es"
proof -
  have "emits (\<lambda>ev. \<not> lvm_change ev) (Run_turn m i)"
    unfolding Run_turn_def
    by (cases i) (simp_all, (intro emits_intros update_no_change class_no_change)+)
  then show ?thesis by (simp add: emits_def)
qed

section \<open>The state of the classes\<close>

text \<open>
  A class is ready after a check exactly when every one of its devices is among the physical
  volumes of its group; a device found missing is offline from then on: a later check that finds
  every device again makes the class ready but leaves that device offline.
\<close>

theorem class_state_follows_pvs:
  "(cs_state (check_class pvs c) = ClassReady) = list_all (\<lambda>d. has_key pvs (ds_name d)) (cs_device_states c)
    \<and> map ds_name (cs_device_states (check_class pvs c)) = map ds_name (cs_device_states c)
    \<and> cs_device_states (check_class pvs' (check_class pvs c)) =
        map (\<lambda>d. if has_key pvs (ds_name d) \<and> has_key pvs' (ds_name d) then d else d\<lparr>ds_state := DeviceOffline\<rparr>)
          (cs_device_states c)"
proof -
  have n: "ds_name (check_device p d) = ds_name d" for p d by (simp add: check_device_def)
  have "check_device pvs' (check_device pvs d) =
      (if has_key pvs (ds_name d) \<and> has_key pvs' (ds_name d) then d else d\<lparr>ds_state := DeviceOffline\<rparr>)" for d
    by (simp add: check_device_def)
  then show ?thesis by (simp add: check_class_def ClassReady_def ClassUnReady_def n)
qed

section \<open>Collapsing udev events\<close>

fun input_event :: "udev_input \<Rightarrow> string list" where
  "input_event (Event e) = [e]"
| "input_event i = []"

lemma monitor_bound:
  "length (udevBlockMonitor s ins) \<le> count_list ins TimerFires
   \<and> set (udevBlockMonitor s ins) \<subseteq>
       (case s of Collapsing e \<Rightarrow> {e} | _ \<Rightarrow> {}) \<union> set (concat (map input_event ins))"
proof (induction ins arbitrary: s)
  case Nil
  then show ?case by simp
next
  case (Cons i ins)
  show ?case
    using Cons [of "fst (udev_step s i)"]
    by (cases s; cases i) auto
qed

text \<open>
  udev events are collapsed.  The monitor sends at most one event per firing of its timer, and
  only events it received.
\<close>

theorem udev_events_collapsed:
  "length (udevBlockMonitor Waiting inputs) \<le> count_list inputs TimerFires
    \<and> set (udevBlockMonitor Waiting inputs) \<subseteq> set (concat (map input_event inputs))"
  using monitor_bound [of Waiting inputs] by simp

end
