(* ===== verification/BestFit.thy ===== *)
theory BestFit
  imports RawCsi_Props
begin

text \<open>
  The choice of the device for a volume (\<open>createVolume\<close> of the raw-device controller) against a
  reference: of the devices that are free and large enough, the first of those of the smallest size.
  The code finds it in one pass, with the size found so far as its only memory.
\<close>

definition fitting :: "int64 \<Rightarrow> nat \<Rightarrow> raw_device list \<Rightarrow> (nat \<times> int64) list" where
  "fitting requestGb n ds = map (\<lambda>(i, d). (i, rd_size d))
     (filter (\<lambda>(i, d). fits requestGb d) (enumerate n ds))"

definition best_fit :: "int64 \<Rightarrow> raw_device list \<Rightarrow> (nat \<times> int64) option" where
  "best_fit requestGb ds =
     (case fitting requestGb 0 ds of [] \<Rightarrow> None | cs \<Rightarrow> Some (arg_min_list (\<lambda>(i, s). sint s) cs))"

lemma fitting_simps [simp]:
  "fitting gb n [] = []"
  "fitting gb n (d # ds) =
     (if fits gb d then (n, rd_size d) # fitting gb (Suc n) ds
      else fitting gb (Suc n) ds)"
  by (simp_all add: fitting_def)

text \<open>A least element of a list can be found from the left as well.\<close>

lemma arg_min_list_left:
  fixes f :: "'a \<Rightarrow> int"
  shows "arg_min_list f (x # y # zs) = arg_min_list f ((if f y < f x then y else x) # zs)"
  by (induction zs arbitrary: x y) (auto simp: Let_def)

lemma match_device_from:
  assumes "0 < sint gb" and "s \<noteq> 0"
  shows "match_device gb n ds (Some i, s) = map_prod Some id (arg_min_list (\<lambda>(i, s). sint s) ((i, s) # fitting gb n ds))"
  using assms(2)
proof (induction ds arbitrary: n i s)
  case (Cons d ds)
  show ?case
  proof (cases "fits gb d")
    case True
    have "to_gb 0 = 0" by (simp add: to_gb_def)
    with True assms(1) have "rd_size d \<noteq> 0" by (auto simp: fits_def)
    with Cons.prems True show ?thesis
      by (simp only: match_device.simps fitting_simps if_True simp_thms arg_min_list_left)
        (simp add: Cons.IH fits_def)
  qed (use Cons in \<open>auto simp: fits_def\<close>)
qed simp

text \<open>
  C21: The one pass of \<open>createVolume\<close> over the devices is the best fit.  For a request of at least one GiB,
  the device it chooses is the first of the smallest among the free devices of at least that size,
  and it chooses none exactly when there is no such device.
\<close>

theorem match_device_best_fit:
  assumes "0 < sint requestGb"
  shows "match_device requestGb 0 ds (None, 0) =
    (case best_fit requestGb ds of None \<Rightarrow> (None, 0) | Some (i, sz) \<Rightarrow> (Some i, sz))"
proof -
  have "match_device requestGb n ds (None, 0) = (case fitting requestGb n ds of [] \<Rightarrow> (None, 0)
      | cs \<Rightarrow> map_prod Some id (arg_min_list (\<lambda>(i, s). sint s) cs))" for n
  proof (induction ds arbitrary: n)
    case (Cons d ds)
    show ?case
    proof (cases "fits requestGb d")
      case True
      have "to_gb 0 = 0" by (simp add: to_gb_def)
      with True assms have "rd_size d \<noteq> 0" by (auto simp: fits_def)
      with True show ?thesis by (simp add: match_device_from [OF assms] fits_def)
    qed (use Cons in \<open>auto simp: fits_def\<close>)
  qed simp
  then show ?thesis by (simp add: best_fit_def split: list.split prod.split)
qed

theorem match_device_best_fit_witness:
  "match_device 4 0 [sample_device ''a'' ''n'' 8589934592 [], sample_device ''b'' ''n'' 5368709120 [],
     sample_device ''c'' ''n'' 5368709120 [], sample_device ''d'' ''n'' 1073741824 []] (None, 0) = (Some 1, 5368709120)"
proof -
  have "0 < sint (4 :: int64)" by simp
  moreover have "fitting 4 0 [sample_device ''a'' ''n'' 8589934592 [], sample_device ''b'' ''n'' 5368709120 [],
     sample_device ''c'' ''n'' 5368709120 [], sample_device ''d'' ''n'' 1073741824 []] =
     [(0, 8589934592), (1, 5368709120), (2, 5368709120)]"
    by (simp add: sample_device_def fits_def is_free_def sint_to_gb)
  ultimately show ?thesis using match_device_best_fit by (simp add: best_fit_def del: match_device.simps)
qed

end
