(* ===== verification/PrepareVg.thy ===== *)
theory PrepareVg
  imports Device K8sApi
begin

text \<open>
  \<open>pkg/operator/topolvm/volumegroup/preparevg.go\<close>: the job that brings the volume groups of a node in
  line with the cluster's specification.  It reads the state of the last run from the node's config
  map, creates, retries, expands, shrinks and removes volume groups, and writes the new state and
  lvmd's configuration back with one patch.  The classes that succeeded and those that failed are two
  Go maps keyed by the name of the volume group; a pointer into one of them is the entry of its key.

  The order of every \<open>range\<close> over a map is the argument \<open>pe_ord\<close>.  \<open>createVg\<close> and \<open>createVgRetry\<close>
  replace the logical names of automatic loop devices in the slice of the class they are given; they
  return that class here, and nothing else reads the slice afterwards.
\<close>

definition ClassExpandWaring :: string where "ClassExpandWaring = ''expand warning''"
definition ClassExpandError :: string where "ClassExpandError = ''expand error''"
definition ClassShrinkError :: string where "ClassShrinkError = ''shrink error''"
definition ClassDeleteError :: string where "ClassDeleteError = ''delete error''"
definition ClassCreateSuccessful :: string where "ClassCreateSuccessful = ''create successful''"
definition ClassCreateFail :: string where "ClassCreateFail = ''create failed''"
definition DeviceStateError :: string where "DeviceStateError = ''error''"
definition LoopCreateFailed :: string where "LoopCreateFailed = ''failed''"
definition Loop :: string where "Loop = ''loop''"

definition not_raw_disk :: string where
  "not_raw_disk = ''disk may has filesystem or is not raw disk please check''"

record 'e prepare_env =
  pe_os :: "'e os"
  pe_device_env :: device_env
  pe_cm :: "'e cm_api"
  pe_codec :: codec
  pe_hash :: "string \<Rightarrow> string"
  pe_uuid :: "('e, string) call"
  pe_ord :: range_ord
  pe_node_name :: string
  pe_namespace :: string
  pe_get_cluster :: "'e \<Rightarrow> go_error + topolvm_cluster"

type_synonym classes = "class_state gomap"

section \<open>Loop devices\<close>

type_synonym loops = "loop_state list \<times> loop_state gomap"

definition getAbsoluteFileName :: "string \<Rightarrow> string \<Rightarrow> string" where
  "getAbsoluteFileName path file = (if has_suffix ''/'' path then path @ file else path @ ''/'' @ file)"

text \<open>The first entry of that name: its index and itself.\<close>

fun find_loop :: "string \<Rightarrow> nat \<Rightarrow> loop_state list \<Rightarrow> (nat \<times> loop_state) option" where
  "find_loop name i [] = None"
| "find_loop name i (l # ls) = (if ls_name l = name then Some (i, l) else find_loop name (Suc i) ls)"

text \<open>The status of a loop device whose creation failed is overwritten with the successful one.\<close>

definition create_loop_state :: "'e prepare_env \<Rightarrow> disk \<Rightarrow> ('e, loop_state) prog" where
  "create_loop_state env ele =
     bindM (external [] (pe_uuid env)) (\<lambda>file.
       let path = getAbsoluteFileName (disk_path ele) file in
       bindM (attempt (CreateLoop (pe_os env) path (disk_size ele))) (\<lambda>r.
         let s = zero_loop_state\<lparr>ls_name := disk_name ele, ls_file := path\<rparr>;
             s = (case r of Inl err \<Rightarrow> s\<lparr>ls_status := LoopCreateFailed, ls_message := err_text err\<rparr> | Inr _ \<Rightarrow> s)
         in ret (s\<lparr>ls_status := LoopCreateSuccessful,
                   ls_device_name := (case r of Inl _ \<Rightarrow> [] | Inr loopName \<Rightarrow> loopName)\<rparr>)))"

definition back_file_state :: "'e prepare_env \<Rightarrow> disk \<Rightarrow> ('e, loop_state) prog" where
  "back_file_state env ele =
     bindM (attempt (GetLoopBackFile (pe_os env) (disk_name ele))) (\<lambda>r.
       let s = zero_loop_state\<lparr>ls_name := disk_name ele, ls_status := LoopCreateSuccessful,
                               ls_device_name := disk_name ele\<rparr>
       in ret (case r of Inl err \<Rightarrow> s\<lparr>ls_message := err_text err\<rparr> | Inr file \<Rightarrow> s\<lparr>ls_file := file\<rparr>))"

definition loop_step :: "'e prepare_env \<Rightarrow> disk \<Rightarrow> loops \<Rightarrow> ('e, loops) prog" where
  "loop_step env ele st =
     (case st of (ls, loopMap) \<Rightarrow>
        if disk_type ele \<noteq> Loop then ret (ls, loopMap)
        else
          let hit = find_loop (disk_name ele) 0 ls;
              created = (case hit of Some (i, l) \<Rightarrow> ls_status l = LoopCreateSuccessful | None \<Rightarrow> False);
              loopMap = (case hit of
                  Some (i, l) \<Rightarrow> if ls_status l = LoopCreateSuccessful
                                 then AList.update (ls_name l) l loopMap else loopMap
                | None \<Rightarrow> loopMap)
          in if created then ret (ls, loopMap)
             else if disk_auto ele then
               bindM (create_loop_state env ele) (\<lambda>s.
                 ret ((case hit of Some (i, l) \<Rightarrow> ls[i := s] | None \<Rightarrow> ls @ [s]),
                      AList.update (disk_name ele) s loopMap))
             else bindM (back_file_state env ele) (\<lambda>s. ret (ls @ [s], loopMap)))"

definition checkLoopDevice :: "'e prepare_env \<Rightarrow> disk list \<Rightarrow> loops \<Rightarrow> ('e, loops) prog" where
  "checkLoopDevice env disks st = for_each (loop_step env) disks st"

definition getDeviceName :: "loop_state gomap \<Rightarrow> string \<Rightarrow> string" where
  "getDeviceName loopMap name = (case map_of loopMap name of Some l \<Rightarrow> ls_device_name l | None \<Rightarrow> [])"

text \<open>
  The name a device of a class is used under: \<open>None\<close> for an automatic loop device without a name,
  which the loops of the source skip.
\<close>

definition resolve_name :: "loop_state gomap \<Rightarrow> disk \<Rightarrow> string option" where
  "resolve_name loopMap d =
     (if disk_type d = Loop \<and> disk_auto d then
        (let name = getDeviceName loopMap (disk_name d) in if name = [] then None else Some name)
      else Some (disk_name d))"

definition resolve_disk :: "loop_state gomap \<Rightarrow> disk \<Rightarrow> disk" where
  "resolve_disk loopMap d = (case resolve_name loopMap d of Some n \<Rightarrow> d\<lparr>disk_name := n\<rparr> | None \<Rightarrow> d)"

definition resolve_class :: "loop_state gomap \<Rightarrow> device_class \<Rightarrow> device_class" where
  "resolve_class loopMap c = c\<lparr>dc_device := map (resolve_disk loopMap) (dc_device c)\<rparr>"

section \<open>Creating a volume group\<close>

definition unavailable_names :: "loop_state gomap \<Rightarrow> local_disk gomap \<Rightarrow> device_class \<Rightarrow> string list" where
  "unavailable_names loopMap disks c =
     filter (\<lambda>n. \<not> has_key disks n) (List.map_filter (resolve_name loopMap) (dc_device c))"

definition device_state_of :: "string \<Rightarrow> string \<Rightarrow> string \<Rightarrow> device_state" where
  "device_state_of n st msg = \<lparr>ds_name = n, ds_state = st, ds_message = msg\<rparr>"

definition createVg ::
  "'e prepare_env \<Rightarrow> loop_state gomap \<Rightarrow> local_disk gomap \<Rightarrow> device_class \<Rightarrow> classes \<times> classes
     \<Rightarrow> ('e, bool \<times> device_class \<times> classes \<times> classes) prog" where
  "createVg env loopMap availaDisks class st =
     (case st of (sucClass, failClass) \<Rightarrow>
        let vg = dc_vg_name class;
            class' = resolve_class loopMap class;
            missing = unavailable_names loopMap availaDisks class;
            classState = zero_class_state\<lparr>cs_name := dc_class_name class, cs_vg_name := vg,
              cs_device_states := map (\<lambda>n. device_state_of n DeviceOffline not_raw_disk) missing\<rparr>
        in if missing = [] then
             bindM (attempt (CreateVolumeGroup (pe_os env) (dc_device class') vg)) (\<lambda>r.
               case r of
                 Inl err \<Rightarrow>
                   ret (False, class', sucClass,
                        AList.update vg (classState\<lparr>cs_message := ClassCreateFail, cs_state := ClassUnReady\<rparr>) failClass)
               | Inr _ \<Rightarrow>
                   ret (True, class',
                        AList.update vg (classState\<lparr>cs_state := ClassReady, cs_message := ClassCreateSuccessful,
                            cs_device_states := map (\<lambda>d. device_state_of (disk_name d) DeviceOnline []) (dc_device class')\<rparr>)
                          sucClass,
                        failClass))
           else ret (False, class', sucClass, AList.update vg classState failClass))"

text \<open>\<open>checkDeviceStatusIsExisting\<close>: the index of the first state of that device.\<close>

fun checkDeviceStatusIsExisting :: "device_state list \<Rightarrow> string \<Rightarrow> nat option" where
  "checkDeviceStatusIsExisting [] disk = None"
| "checkDeviceStatusIsExisting (d # ds) disk =
     (if ds_name d = disk then Some 0
      else case checkDeviceStatusIsExisting ds disk of Some i \<Rightarrow> Some (Suc i) | None \<Rightarrow> None)"

definition record_unavailable :: "string \<Rightarrow> device_state list \<Rightarrow> device_state list" where
  "record_unavailable n ds =
     (let devStatus = device_state_of n [] not_raw_disk in
      case checkDeviceStatusIsExisting ds n of
        Some i \<Rightarrow> ds[i := devStatus]
      | None \<Rightarrow> ds @ [devStatus])"

definition createVgRetry ::
  "'e prepare_env \<Rightarrow> loop_state gomap \<Rightarrow> local_disk gomap \<Rightarrow> device_class \<Rightarrow> classes \<times> classes
     \<Rightarrow> ('e, bool \<times> device_class \<times> classes \<times> classes) prog" where
  "createVgRetry env loopMap availaDisks class st =
     (case st of (sucClass, failClass) \<Rightarrow>
        let vg = dc_vg_name class;
            class' = resolve_class loopMap class;
            missing = unavailable_names loopMap availaDisks class;
            failClass' = AList.map_entry vg (\<lambda>c. c\<lparr>cs_device_states :=
                           fold record_unavailable missing (cs_device_states c)\<rparr>) failClass
        in if missing = [] then
             bindM (attempt (CreateVolumeGroup (pe_os env) (dc_device class') vg)) (\<lambda>r.
               case r of
                 Inl err \<Rightarrow> ret (False, class', sucClass, failClass')
               | Inr _ \<Rightarrow>
                   ret (True, class',
                        AList.update vg (zero_class_state\<lparr>cs_name := dc_class_name class, cs_vg_name := vg,
                          cs_state := ClassReady, cs_message := ClassCreateSuccessful\<rparr>) sucClass,
                        AList.delete vg failClass'))
           else ret (False, class', sucClass, failClass'))"

section \<open>Expanding, shrinking and removing\<close>

definition set_message :: "string \<Rightarrow> string \<Rightarrow> classes \<Rightarrow> classes" where
  "set_message vg msg cs = AList.map_entry vg (\<lambda>c. c\<lparr>cs_message := msg\<rparr>) cs"

definition add_device_state :: "string \<Rightarrow> device_state \<Rightarrow> classes \<Rightarrow> classes" where
  "add_device_state vg d cs =
     AList.map_entry vg (\<lambda>c. c\<lparr>cs_device_states := cs_device_states c @ [d]\<rparr>) cs"

type_synonym expand_state = "classes \<times> string list \<times> go_error option"

definition expand_step ::
  "'e prepare_env \<Rightarrow> loop_state gomap \<Rightarrow> string gomap \<Rightarrow> string \<Rightarrow> disk \<Rightarrow> expand_state
     \<Rightarrow> ('e, expand_state) prog" where
  "expand_step env loopMap pv vg d st =
     (case st of (sucClass, newPvs, err) \<Rightarrow>
        case resolve_name loopMap d of
          None \<Rightarrow> ret (sucClass, newPvs, err)
        | Some name \<Rightarrow>
            if has_key pv name then ret (sucClass, newPvs, err)
            else
              bindM (attempt (CreatePhysicalVolume (pe_os env) name)) (\<lambda>r.
                case r of
                  Inl e \<Rightarrow>
                    ret (add_device_state vg (device_state_of name DeviceStateError (err_text e))
                           (set_message vg ClassExpandWaring sucClass), newPvs, Some e)
                | Inr _ \<Rightarrow> ret (sucClass, newPvs @ [name], None)))"

definition checkVgIfExpand ::
  "'e prepare_env \<Rightarrow> loop_state gomap \<Rightarrow> device_class \<Rightarrow> classes \<Rightarrow> ('e, classes \<times> go_error option) prog" where
  "checkVgIfExpand env loopMap class sucClass =
     (let vg = dc_vg_name class in
      bindM (attempt (GetPhysicalVolume (pe_os env) vg)) (\<lambda>r.
        case r of
          Inl err \<Rightarrow> ret (sucClass, Some err)
        | Inr pv \<Rightarrow>
            bindM (for_each (expand_step env loopMap pv vg) (dc_device class) (sucClass, [], None))
              (\<lambda>(sucClass, newPvs, err).
                if newPvs = [] then ret (sucClass, err)
                else
                  bindM (attempt (ExpandVolumeGroup (pe_os env) vg newPvs)) (\<lambda>r.
                    case r of
                      Inl e \<Rightarrow> ret (set_message vg ClassExpandError sucClass, Some e)
                    | Inr _ \<Rightarrow>
                        ret (fold (\<lambda>n. add_device_state vg (device_state_of n DeviceOnline [])) newPvs sucClass,
                             err)))))"

definition drop_device_states :: "string \<Rightarrow> string list \<Rightarrow> classes \<Rightarrow> classes" where
  "drop_device_states vg ns cs =
     AList.map_entry vg (\<lambda>c. c\<lparr>cs_device_states :=
       filter (\<lambda>d. ds_name d \<notin> set ns) (cs_device_states c)\<rparr>) cs"

definition checkVgIfShrink ::
  "'e prepare_env \<Rightarrow> device_class \<Rightarrow> classes \<Rightarrow> ('e, classes \<times> go_error option) prog" where
  "checkVgIfShrink env class sucClass =
     (let vg = dc_vg_name class in
      bindM (attempt (GetPhysicalVolume (pe_os env) vg)) (\<lambda>r.
        case r of
          Inl err \<Rightarrow> ret (sucClass, Some err)
        | Inr pvs \<Rightarrow>
            let deletePvs = filter (\<lambda>pv. pv \<notin> disk_name ` set (dc_device class)) (range_keys (pe_ord env) pvs)
            in if length deletePvs = length pvs \<and> length pvs > 0 then
                 bindM (attempt (RemoveVolumeGroup (pe_os env) (pe_ord env) vg)) (\<lambda>r.
                   case r of
                     Inl err \<Rightarrow> ret (set_message vg ClassDeleteError sucClass, Some err)
                   | Inr _ \<Rightarrow> ret (AList.delete vg sucClass, None))
               else if length deletePvs > 0 then
                 bindM (attempt (ShrinkVolumeGroup (pe_os env) vg deletePvs)) (\<lambda>r.
                   case r of
                     Inl err \<Rightarrow> ret (set_message vg ClassShrinkError sucClass, Some err)
                   | Inr _ \<Rightarrow> ret (drop_device_states vg deletePvs sucClass, None))
               else ret (sucClass, None)))"

definition wanted :: "node_devices \<Rightarrow> string \<Rightarrow> bool" where
  "wanted nd vg = (\<exists>d \<in> set (nd_device_classes nd). dc_vg_name d = vg)"

text \<open>
  The message of a group that could not be removed is set on an entry that is deleted right after.
\<close>

definition delete_vg_step ::
  "'e prepare_env \<Rightarrow> node_devices \<Rightarrow> string \<Rightarrow> classes \<Rightarrow> ('e, classes) prog" where
  "delete_vg_step env nd key sucClass =
     (if wanted nd key then ret sucClass
      else
        bindM (attempt (RemoveVolumeGroup (pe_os env) (pe_ord env) key)) (\<lambda>r.
          ret (AList.delete key
            (case r of Inl _ \<Rightarrow> set_message key ClassDeleteError sucClass | Inr _ \<Rightarrow> sucClass))))"

definition checkVgIfDelete ::
  "'e prepare_env \<Rightarrow> node_devices \<Rightarrow> classes \<times> classes \<Rightarrow> ('e, classes \<times> classes) prog" where
  "checkVgIfDelete env nd st =
     (case st of (sucClass, failClass) \<Rightarrow>
        bindM (for_each (delete_vg_step env nd) (range_keys (pe_ord env) sucClass) sucClass) (\<lambda>sucClass.
          ret (sucClass,
               fold (\<lambda>key m. if wanted nd key then m else AList.delete key m)
                 (range_keys (pe_ord env) failClass) failClass)))"

section \<open>lvmd's configuration and the state of the node\<close>

definition convertConfig :: "codec \<Rightarrow> device_class \<Rightarrow> go_error + lvmd_device_class" where
  "convertConfig co dev = co_class_parse co (co_class co dev)"

fun convert_all :: "codec \<Rightarrow> device_class list \<Rightarrow> go_error + lvmd_device_class list" where
  "convert_all co [] = Inr []"
| "convert_all co (d # ds) =
     (case convertConfig co d of
        Inl err \<Rightarrow> Inl err
      | Inr c \<Rightarrow> (case convert_all co ds of Inl err \<Rightarrow> Inl err | Inr cs \<Rightarrow> Inr (c # cs)))"

definition createLvmdConf :: "codec \<Rightarrow> device_class list \<Rightarrow> config_map \<Rightarrow> ('e, config_map) prog" where
  "createLvmdConf co newVgs cm =
     (if newVgs = [] then ret cm
      else
        bindM (lift_sum (convert_all co newVgs)) (\<lambda>cs.
          lift_outcome (cm_set LvmdConfigMapKey
            (co_lvmd co \<lparr>lc_socket_name = LvmdSocketPath, lc_device_classes = cs\<rparr>) cm)))"

definition set_defaults :: "device_class \<Rightarrow> lvmd_device_class list \<Rightarrow> lvmd_device_class list" where
  "set_defaults dev = map (\<lambda>ele. if ldc_name ele = dc_class_name dev \<and> ldc_default ele \<noteq> dc_default dev
     then ele\<lparr>ldc_default := dc_default dev\<rparr> else ele)"

text \<open>The classes of lvmd's configuration after an update.\<close>

definition lvmd_classes_after ::
  "node_devices \<Rightarrow> lvmd_device_class list \<Rightarrow> classes \<Rightarrow> lvmd_device_class list \<Rightarrow> lvmd_device_class list" where
  "lvmd_classes_after nd added sucClass old =
     filter (\<lambda>l. \<exists>c \<in> snd ` set sucClass. ldc_name l = cs_name c)
       (fold set_defaults (nd_device_classes nd) old @ added)"

definition updateLvmdConf ::
  "'e prepare_env \<Rightarrow> node_devices \<Rightarrow> config_map \<Rightarrow> device_class list \<Rightarrow> classes \<Rightarrow> ('e, config_map) prog" where
  "updateLvmdConf env nd cm newVgs sucClass =
     (let co = pe_codec env in
      case cm_lookup cm LvmdConfigMapKey of
        None \<Rightarrow> createLvmdConf co newVgs cm
      | Some dataLvmd \<Rightarrow>
          bindM (lift_sum (co_lvmd_parse co dataLvmd)) (\<lambda>lvmdConf.
          bindM (lift_sum (convert_all co newVgs)) (\<lambda>added.
            lift_outcome (cm_set LvmdConfigMapKey
              (co_lvmd co (lvmdConf\<lparr>lc_device_classes :=
                 lvmd_classes_after nd added sucClass (lc_device_classes lvmdConf)\<rparr>)) cm))))"

definition updateVgStatus ::
  "'e prepare_env \<Rightarrow> node_storage_state \<Rightarrow> classes \<times> classes \<Rightarrow> loop_state list \<Rightarrow> config_map \<Rightarrow> config_map outcome" where
  "updateVgStatus env state st loopsState cm =
     (case st of (sucClass, failClass) \<Rightarrow>
        cm_set VgStatusConfigMapKey
          (co_status (pe_codec env)
             (state\<lparr>nss_fail_classes := range_values (pe_ord env) failClass,
                    nss_success_classes := range_values (pe_ord env) sucClass,
                    nss_loops := loopsState\<rparr>)) cm)"

section \<open>Provisioning\<close>

text \<open>What the passes over the classes carry: the two maps and the classes created in this run.\<close>

type_synonym pass_state = "(classes \<times> classes) \<times> device_class list"

definition first_step ::
  "'e prepare_env \<Rightarrow> loop_state gomap \<Rightarrow> local_disk gomap \<Rightarrow> string gomap \<Rightarrow> device_class \<Rightarrow> pass_state
     \<Rightarrow> ('e, pass_state) prog" where
  "first_step env loopMap disks vgs dev st =
     (case st of ((suc, fail), sucVgs) \<Rightarrow>
        if has_key vgs (dc_vg_name dev) then
          ret ((suc, AList.update (dc_vg_name dev)
                  (zero_class_state\<lparr>cs_name := dc_class_name dev, cs_state := ClassUnReady,
                                    cs_message := ClassCreateFail @ '' vg existing''\<rparr>) fail), sucVgs)
        else
          bindM (createVg env loopMap disks dev (suc, fail)) (\<lambda>(ok, dev', suc', fail').
            ret ((suc', fail'), if ok then sucVgs @ [dev'] else sucVgs)))"

definition new_node_cm :: "'e prepare_env \<Rightarrow> node_devices \<Rightarrow> config_map" where
  "new_node_cm env nd =
     \<lparr>cm_name = TruncateNodeName (pe_hash env) LvmdConfigMapFmt (nd_node_name nd),
      cm_namespace = pe_namespace env,
      cm_labels = [(LvmdConfigMapLabelKey, LvmdConfigMapLabelValue)],
      cm_annotations = [(LvmdAnnotationsNodeKey, pe_node_name env)], cm_data = Some []\<rparr>"

definition provisionFirst ::
  "'e prepare_env \<Rightarrow> node_devices \<Rightarrow> loops \<Rightarrow> local_disk gomap \<Rightarrow> config_map option \<Rightarrow> ('e, unit) prog" where
  "provisionFirst env nd st disks cm =
     (case st of (loopsState, loopMap) \<Rightarrow>
        bindM (GetVolumeGroups (pe_os env)) (\<lambda>vgs.
        bindM (for_each (first_step env loopMap disks vgs) (nd_device_classes nd) (([], []), []))
          (\<lambda>(maps, sucVgs).
          let cmNew = (case cm of None \<Rightarrow> new_node_cm env nd | Some c \<Rightarrow> c) in
          bindM (lift_outcome (updateVgStatus env (zero_node_storage_state\<lparr>nss_node := pe_node_name env\<rparr>)
                   maps loopsState cmNew)) (\<lambda>cmNew.
          bindM (wrapM ''create lvmd conf failed'' (createLvmdConf (pe_codec env) sucVgs cmNew)) (\<lambda>cmNew.
            case cm of
              None \<Rightarrow> CreateOrPatchConfigmap (pe_cm env) cmNew
            | Some c \<Rightarrow> wrapM ''patch configmap failed''
                          (PatchConfigMap (pe_cm env) (pe_namespace env) c cmNew))))))"

definition getVgNameMap :: "class_state list \<Rightarrow> classes" where
  "getVgNameMap cs = fold (\<lambda>c. AList.update (cs_vg_name c) c) cs []"

definition status_step ::
  "'e prepare_env \<Rightarrow> loop_state gomap \<Rightarrow> local_disk gomap \<Rightarrow> device_class \<Rightarrow> pass_state
     \<Rightarrow> ('e, pass_state) prog" where
  "status_step env loopMap disks dev st =
     (case st of ((suc, fail), sucVgs) \<Rightarrow>
        if has_key suc (dc_vg_name dev) then
          bindM (checkVgIfExpand env loopMap dev suc) (\<lambda>(suc, _).
          bindM (checkVgIfShrink env dev suc) (\<lambda>(suc, _). ret ((suc, fail), sucVgs)))
        else
          bindM (if has_key fail (dc_vg_name dev) then createVgRetry env loopMap disks dev (suc, fail)
                 else createVg env loopMap disks dev (suc, fail)) (\<lambda>(ok, dev', suc', fail').
            ret ((suc', fail'), if ok then sucVgs @ [dev'] else sucVgs)))"

definition provisionWithNodeStatus ::
  "'e prepare_env \<Rightarrow> node_devices \<Rightarrow> loops \<Rightarrow> config_map \<Rightarrow> string \<Rightarrow> local_disk gomap \<Rightarrow> ('e, unit) prog" where
  "provisionWithNodeStatus env nd st cm vgStatus disks =
     (case st of (loopsState, loopMap) \<Rightarrow>
        bindM (lift_sum (co_status_parse (pe_codec env) vgStatus)) (\<lambda>nodeStatus.
        bindM (for_each (status_step env loopMap disks) (nd_device_classes nd)
                 ((getVgNameMap (nss_success_classes nodeStatus), getVgNameMap (nss_fail_classes nodeStatus)), []))
          (\<lambda>(maps, sucVgs).
        bindM (checkVgIfDelete env nd maps) (\<lambda>maps.
        bindM (wrapM ''update lvmd conf failed'' (updateLvmdConf env nd cm sucVgs (fst maps))) (\<lambda>newCm.
        bindM (lift_outcome (updateVgStatus env nodeStatus maps loopsState newCm)) (\<lambda>newCm.
          wrapM ''patch configmap failed'' (PatchConfigMap (pe_cm env) (pe_namespace env) cm newCm)))))))"

text \<open>The loop states of the last status, for this node.\<close>

definition recorded_loops :: "'e prepare_env \<Rightarrow> topolvm_cluster \<Rightarrow> loop_state list" where
  "recorded_loops env c =
     fold (\<lambda>dev ls. if nss_node dev = pe_node_name env then nss_loops dev else ls)
       (cst_node_storage (tc_status c)) []"

definition storage_class :: "storage \<Rightarrow> disk list \<Rightarrow> device_class" where
  "storage_class s ds = zero_device_class\<lparr>dc_class_name := st_class_name s,
     dc_vg_name := st_volume_group_name s, dc_default := True, dc_device := ds\<rparr>"

text \<open>
  The devices wanted on this node, by the three forms of the specification, with the loop devices
  they need; the list of usable devices is read again after loop devices were set up.
\<close>

definition node_plan ::
  "'e prepare_env \<Rightarrow> topolvm_cluster \<Rightarrow> local_disk gomap \<Rightarrow> ('e, node_devices \<times> loops \<times> local_disk gomap) prog" where
  "node_plan env c disks =
     (let s = sp_storage (tc_spec c); loops0 = (recorded_loops env c, []);
          again = (\<lambda>nd st. bindM (GetAvailableDevices (pe_os env) (pe_device_env env)) (\<lambda>disks. ret (nd, st, disks)))
      in if st_use_all_devices s then
           let devs = List.map_filter (\<lambda>key. case map_of disks key of
                        Some d \<Rightarrow> Some (zero_disk\<lparr>disk_name := key, disk_type := ld_type d\<rparr>) | None \<Rightarrow> None)
                        (range_keys (pe_ord env) disks);
               nd = \<lparr>nd_node_name = pe_node_name env, nd_device_classes = [storage_class s devs]\<rparr>
           in if st_use_loop s then bindM (checkLoopDevice env devs loops0) (\<lambda>st. again nd st)
              else ret (nd, loops0, disks)
         else case st_devices s of
           Some ds \<Rightarrow>
             let nd = \<lparr>nd_node_name = pe_node_name env, nd_device_classes = [storage_class s ds]\<rparr>
             in if st_use_loop s then bindM (checkLoopDevice env ds loops0) (\<lambda>st. again nd st)
                else ret (nd, loops0, disks)
         | None \<Rightarrow>
             (case st_device_classes s of
                Some nds \<Rightarrow>
                  let nd = fold (\<lambda>dev nd. if nd_node_name dev = pe_node_name env then dev else nd) nds
                             \<lparr>nd_node_name = [], nd_device_classes = []\<rparr>
                  in if st_use_loop s
                     then bindM (for_each (\<lambda>ele. checkLoopDevice env (dc_device ele)) (nd_device_classes nd) loops0)
                            (\<lambda>st. again nd st)
                     else ret (nd, loops0, disks)
              | None \<Rightarrow> ret (\<lparr>nd_node_name = [], nd_device_classes = []\<rparr>, loops0, disks)))"

definition provision :: "'e prepare_env \<Rightarrow> topolvm_cluster \<Rightarrow> ('e, unit) prog" where
  "provision env topolvmCluster =
     bindM (GetAvailableDevices (pe_os env) (pe_device_env env)) (\<lambda>disks.
     bindM (node_plan env topolvmCluster disks) (\<lambda>(nd, st, disks).
     bindM (attempt (get_cm (pe_cm env) (pe_namespace env)
              (TruncateNodeName (pe_hash env) LvmdConfigMapFmt (nd_node_name nd)))) (\<lambda>r.
       case r of
         Inl err \<Rightarrow> if \<not> is_not_found err then failM err else provisionFirst env nd st disks None
       | Inr cm \<Rightarrow>
           (case cm_lookup cm VgStatusConfigMapKey of
              Some vgStatus \<Rightarrow> provisionWithNodeStatus env nd st cm vgStatus disks
            | None \<Rightarrow> provisionFirst env nd st disks (Some cm)))))"

definition Start :: "'e prepare_env \<Rightarrow> ('e, unit) prog" where
  "Start env = bindM (external [] (\<lambda>e. (pe_get_cluster env e, e))) (provision env)"

end
