(* ===== verification/PrepareVg_Inv.thy ===== *)
theory PrepareVg_Inv
  imports PrepareVg CmStore
begin

text \<open>
  The bookkeeping of the provisioning job: the maps of successful and failed classes stay keyed by
  the name of the volume group and disjoint through every step of a pass, and after the pass hold
  only groups the specification asks for.
\<close>

section \<open>The invariant\<close>

definition keyed :: "classes \<Rightarrow> bool" where
  "keyed m = (well_keyed m \<and> (\<forall>k c. map_of m k = Some c \<longrightarrow> cs_vg_name c = k))"

definition classes_ok :: "classes \<times> classes \<Rightarrow> bool" where
  "classes_ok st = (keyed (fst st) \<and> keyed (snd st) \<and> gomap.held (fst st) \<inter> gomap.held (snd st) = {})"

lemma keyed_Nil [simp]: "keyed []"
  by (simp add: keyed_def)

lemma keyed_update [simp]: "keyed m \<Longrightarrow> cs_vg_name c = k \<Longrightarrow> keyed (AList.update k c m)"
  by (auto simp: keyed_def update_conv' split: if_splits)

lemma keyed_delete [simp]: "keyed m \<Longrightarrow> keyed (AList.delete k m)"
  by (auto simp: keyed_def delete_conv' split: if_splits)

lemma keyed_map_entry [simp]:
  "keyed m \<Longrightarrow> (\<And>c. cs_vg_name (f c) = cs_vg_name c) \<Longrightarrow> keyed (AList.map_entry k f m)"
  by (auto simp: keyed_def map_of_map_entry split: if_splits)

lemma held_map_entry [simp]: "gomap.held (AList.map_entry k f (m :: 'v gomap)) = gomap.held m"
  by (simp add: gomap_held)

lemma held_getVgNameMap:
  "gomap.held (fold (\<lambda>c. AList.update (cs_vg_name c) c) cs m) = cs_vg_name ` set cs \<union> gomap.held m"
  by (induction cs arbitrary: m) (auto simp: gomap.held_put)

lemma held_name_map: "gomap.held (getVgNameMap cs) = cs_vg_name ` set cs"
  using held_getVgNameMap [of cs "[]"] by (simp add: getVgNameMap_def gomap_held)

lemma keyed_getVgNameMap: "keyed (getVgNameMap cs)"
proof -
  have "keyed m \<Longrightarrow> keyed (fold (\<lambda>c. AList.update (cs_vg_name c) c) cs m)" for m
    by (induction cs arbitrary: m) auto
  then show ?thesis by (simp add: getVgNameMap_def)
qed

section \<open>Steps keep it\<close>

lemma bindM_attempt_OkE:
  assumes "bindM (attempt m) f w = (Ok y, w')"
  obtains r w1 where "attempt m w = (Ok r, w1)" and "f r w1 = (Ok y, w')"
  using assms by (rule bindM_OkE)

lemma attempt_Inr: "attempt m w = (Ok (Inr x), w') \<Longrightarrow> m w = (Ok x, w')"
  by (auto simp: attempt_def split: prod.splits outcome.splits)

lemma put_suc_ok:
  "classes_ok (suc, fail) \<Longrightarrow> \<not> has_key fail vg \<Longrightarrow> cs_vg_name c = vg \<Longrightarrow> classes_ok (AList.update vg c suc, fail)"
  by (auto simp: classes_ok_def gomap.held_put) (auto simp: gomap_held)

lemma put_fail_ok:
  "classes_ok (suc, fail) \<Longrightarrow> \<not> has_key suc vg \<Longrightarrow> cs_vg_name c = vg \<Longrightarrow> classes_ok (suc, AList.update vg c fail)"
  by (auto simp: classes_ok_def gomap.held_put) (auto simp: gomap_held)

lemma rewrite_fail_ok:
  "classes_ok (suc, fail) \<Longrightarrow> (\<And>c. cs_vg_name (f c) = cs_vg_name c) \<Longrightarrow> classes_ok (suc, AList.map_entry vg f fail)"
  by (simp add: classes_ok_def)

lemma move_ok:
  assumes "classes_ok (suc, fail)" and "cs_vg_name c = vg"
  shows "classes_ok (AList.update vg c suc, AList.delete vg fail)"
  using assms gomap.move_disjoint [of suc fail vg c] by (simp add: classes_ok_def)

lemma createVg_ok:
  assumes "createVg env lm disks class (suc, fail) w = (Ok (b, class', suc', fail'), w')"
    and "classes_ok (suc, fail)" and "\<not> has_key suc (dc_vg_name class)" and "\<not> has_key fail (dc_vg_name class)"
  shows "classes_ok (suc', fail')"
  using assms(1) put_suc_ok [OF assms(2,4)] put_fail_ok [OF assms(2,3)]
  unfolding createVg_def Let_def split_conv
  by (auto elim!: bindM_attempt_OkE simp: ret_def zero_class_state_def split: if_splits sum.splits)

lemma createVgRetry_ok:
  assumes "createVgRetry env lm disks class (suc, fail) w = (Ok (b, class', suc', fail'), w')"
    and "classes_ok (suc, fail)"
  shows "classes_ok (suc', fail')"
proof -
  let ?f = "\<lambda>c. c\<lparr>cs_device_states := fold record_unavailable (unavailable_names lm disks class) (cs_device_states c)\<rparr>"
  have f: "classes_ok (suc, AList.map_entry (dc_vg_name class) ?f fail)"
    by (rule rewrite_fail_ok [OF assms(2)]) simp
  from assms(1) f show ?thesis
    unfolding createVgRetry_def Let_def split_conv
    by (auto elim!: bindM_attempt_OkE intro!: move_ok simp: ret_def zero_class_state_def
        split: if_splits sum.splits)
qed

text \<open>Expanding only rewrites the entry of its group, shrinking may remove it too.\<close>

definition alters :: "classes \<Rightarrow> classes \<Rightarrow> bool" where
  "alters m m' = (gomap.held m' = gomap.held m \<and> (keyed m \<longrightarrow> keyed m'))"

definition touches :: "classes \<Rightarrow> classes \<Rightarrow> bool" where
  "touches m m' = (keyed m \<longrightarrow> keyed m' \<and> gomap.held m' \<subseteq> gomap.held m)"

lemma alters_refl [simp]: "alters m m"
  by (simp add: alters_def)

lemma alters_trans: "alters a b \<Longrightarrow> alters b c \<Longrightarrow> alters a c"
  by (simp add: alters_def)

lemma alters_basic [simp]:
  "alters m (set_message k msg m)" "alters m (add_device_state k d m)" "alters m (drop_device_states k ns m)"
  by (simp_all add: set_message_def add_device_state_def drop_device_states_def alters_def)

lemma alters_touches: "alters m m' \<Longrightarrow> touches m m'"
  by (simp add: alters_def touches_def)

lemma touches_trans: "touches a b \<Longrightarrow> touches b c \<Longrightarrow> touches a c"
  by (auto simp: touches_def)

lemma touches_delete [simp]: "touches m (AList.delete k m)"
  by (auto simp: touches_def gomap.held_del)

lemma alters_fold: "alters m (fold (\<lambda>n. add_device_state k (g n)) ns m)"
proof (induction ns arbitrary: m)
  case (Cons n ns)
  show ?case by (simp, rule alters_trans [OF _ Cons]) simp
qed simp

lemma expand_step_alters:
  assumes "expand_step env lm pv vg d (suc, newPvs, err) w = (Ok (suc', newPvs', err'), w')"
  shows "alters suc suc'"
  using assms unfolding expand_step_def split_conv
  by (auto elim!: bindM_attempt_OkE simp: ret_def split: option.splits if_splits sum.splits
      intro: alters_trans [OF alters_basic(1) alters_basic(2)])

lemma expand_loop_alters:
  "for_each (expand_step env lm pv vg) ds (suc, newPvs, err) w = (Ok (suc', newPvs', err'), w') \<Longrightarrow>
     alters suc suc'"
proof (induction ds arbitrary: suc newPvs err w)
  case Nil
  then show ?case by (simp add: ret_def)
next
  case (Cons d ds)
  then obtain s1 n1 e1 w1 where s: "expand_step env lm pv vg d (suc, newPvs, err) w = (Ok (s1, n1, e1), w1)"
    and l: "for_each (expand_step env lm pv vg) ds (s1, n1, e1) w1 = (Ok (suc', newPvs', err'), w')"
    by (auto elim!: bindM_OkE)
  from expand_step_alters [OF s] Cons.IH [OF l] show ?case by (rule alters_trans)
qed

lemma checkVgIfExpand_alters:
  assumes "checkVgIfExpand env lm class suc w = (Ok (suc', e), w')"
  shows "alters suc suc'"
proof -
  from assms obtain r w1 where rest: "(case r of
          Inl err \<Rightarrow> ret (suc, Some err)
        | Inr pv \<Rightarrow>
            bindM (for_each (expand_step env lm pv (dc_vg_name class)) (dc_device class) (suc, [], None))
              (\<lambda>(sucClass, newPvs, err).
                if newPvs = [] then ret (sucClass, err)
                else
                  bindM (attempt (ExpandVolumeGroup (pe_os env) (dc_vg_name class) newPvs)) (\<lambda>r.
                    case r of
                      Inl e \<Rightarrow> ret (set_message (dc_vg_name class) ClassExpandError sucClass, Some e)
                    | Inr _ \<Rightarrow>
                        ret (fold (\<lambda>n. add_device_state (dc_vg_name class) (device_state_of n DeviceOnline []))
                               newPvs sucClass, err)))) w1 = (Ok (suc', e), w')"
    unfolding checkVgIfExpand_def Let_def by (elim bindM_attempt_OkE)
  show ?thesis
  proof (cases r)
    case (Inl err)
    with rest show ?thesis by (simp add: ret_def)
  next
    case (Inr pv)
    with rest obtain s1 n1 e1 w2 where
      l: "for_each (expand_step env lm pv (dc_vg_name class)) (dc_device class) (suc, [], None) w1 = (Ok (s1, n1, e1), w2)"
      and k: "(if n1 = [] then ret (s1, e1)
                else
                  bindM (attempt (ExpandVolumeGroup (pe_os env) (dc_vg_name class) n1)) (\<lambda>r.
                    case r of
                      Inl e \<Rightarrow> ret (set_message (dc_vg_name class) ClassExpandError s1, Some e)
                    | Inr _ \<Rightarrow>
                        ret (fold (\<lambda>n. add_device_state (dc_vg_name class) (device_state_of n DeviceOnline []))
                               n1 s1, e1))) w2 = (Ok (suc', e), w')"
      by (auto elim!: bindM_OkE)
    from k have "alters s1 suc'"
      by (auto elim!: bindM_attempt_OkE simp: ret_def alters_fold split: if_splits sum.splits)
    with expand_loop_alters [OF l] show ?thesis by (rule alters_trans)
  qed
qed

text \<open>Only a group that \<open>RemoveVolumeGroup\<close> has removed loses its entry.\<close>

lemma checkVgIfShrink_cases:
  assumes "checkVgIfShrink env class suc w = (Ok (suc', e), w')"
  obtains (kept) "alters suc suc'"
    | (removed) pvs w1 where "suc' = AList.delete (dc_vg_name class) suc"
        "attempt (GetPhysicalVolume (pe_os env) (dc_vg_name class)) w = (Ok (Inr pvs), w1)"
        "RemoveVolumeGroup (pe_os env) (pe_ord env) (dc_vg_name class) w1 = (Ok (), w')"
  using assms unfolding checkVgIfShrink_def Let_def
  by (auto elim!: bindM_attempt_OkE dest!: attempt_Inr simp: ret_def split: sum.splits if_splits)

lemma checkVgIfShrink_touches:
  assumes "checkVgIfShrink env class suc w = (Ok (suc', e), w')"
  shows "touches suc suc'"
  using assms by (rule checkVgIfShrink_cases) (simp_all add: alters_touches)

lemma touches_ok: "touches suc suc' \<Longrightarrow> classes_ok (suc, fail) \<Longrightarrow> classes_ok (suc', fail)"
  by (auto simp: touches_def classes_ok_def)

lemma status_step_ok:
  assumes "status_step env lm disks dev (maps, vgs) w = (Ok (maps', vgs'), w')" and "classes_ok maps"
  shows "classes_ok maps'"
proof -
  obtain suc fail where maps: "maps = (suc, fail)" by (cases maps)
  show ?thesis
  proof (cases "has_key suc (dc_vg_name dev)")
    case True
    with assms(1) maps obtain s1 e1 w1 s2 e2 where
      e: "checkVgIfExpand env lm dev suc w = (Ok (s1, e1), w1)"
      and s: "checkVgIfShrink env dev s1 w1 = (Ok (s2, e2), w')" and m: "maps' = (s2, fail)"
      by (auto simp: status_step_def ret_def elim!: bindM_OkE)
    from touches_trans [OF alters_touches [OF checkVgIfExpand_alters [OF e]] checkVgIfShrink_touches [OF s]] assms(2) maps m
    show ?thesis by (simp add: touches_ok)
  next
    case False
    show ?thesis
    proof (cases "has_key fail (dc_vg_name dev)")
      case True
      with False assms(1) maps obtain b d' s1 f1 where
        r: "createVgRetry env lm disks dev (suc, fail) w = (Ok (b, d', s1, f1), w')" and m: "maps' = (s1, f1)"
        by (auto simp: status_step_def ret_def elim!: bindM_OkE)
      from createVgRetry_ok [OF r] assms(2) maps m show ?thesis by simp
    next
      case nf: False
      with False assms(1) maps obtain b d' s1 f1 where
        r: "createVg env lm disks dev (suc, fail) w = (Ok (b, d', s1, f1), w')" and m: "maps' = (s1, f1)"
        by (auto simp: status_step_def ret_def elim!: bindM_OkE)
      from createVg_ok [OF r] assms(2) maps False nf m show ?thesis by simp
    qed
  qed
qed

lemma status_pass_ok:
  assumes "for_each (status_step env lm disks) devs (maps, vgs) w = (Ok (maps', vgs'), w')" and "classes_ok maps"
  shows "classes_ok maps'"
proof -
  have "classes_ok (fst (maps', vgs'))"
    using assms(1)
  proof (rule for_each_invariant [where I = "\<lambda>st. classes_ok (fst st)"])
    show "classes_ok (fst (maps, vgs))" using assms(2) by simp
    show "classes_ok (fst s1)" if "classes_ok (fst s)" "status_step env lm disks x s w = (Ok s1, w1)" for x s w s1 w1
      using status_step_ok [of env lm disks x "fst s" "snd s" w "fst s1" "snd s1" w1] that by simp
  qed
  then show ?thesis by simp
qed

section \<open>Removal of unwanted groups\<close>

lemma delete_vg_loop:
  "for_each (delete_vg_step env nd) keys suc w = (Ok suc', w') \<Longrightarrow> keyed suc \<Longrightarrow>
     keyed suc' \<and> gomap.held suc' = gomap.held suc - {k \<in> set keys. \<not> wanted nd k}"
proof (induction keys arbitrary: suc w)
  case Nil
  then show ?case by (simp add: ret_def)
next
  case (Cons k keys)
  from Cons.prems(1) obtain s1 w1 where s: "delete_vg_step env nd k suc w = (Ok s1, w1)"
    and rest: "for_each (delete_vg_step env nd) keys s1 w1 = (Ok suc', w')" by (auto elim: bindM_OkE)
  have "keyed s1 \<and> gomap.held s1 = (if wanted nd k then gomap.held suc else gomap.held suc - {k})"
    using s Cons.prems(2)
    by (auto simp: delete_vg_step_def ret_def set_message_def gomap.held_del elim!: bindM_attempt_OkE
        split: if_splits sum.splits)
  with Cons.IH [OF rest] show ?case by auto
qed

lemma delete_fail_loop:
  "keyed m \<Longrightarrow> keyed (fold (\<lambda>key m. if wanted nd key then m else AList.delete key m) keys m)
    \<and> gomap.held (fold (\<lambda>key m. if wanted nd key then m else AList.delete key m) keys m)
        = gomap.held m - {k \<in> set keys. \<not> wanted nd k}"
  by (induction keys arbitrary: m) (auto simp: gomap.held_del)

lemma checkVgIfDelete_ok:
  assumes "checkVgIfDelete env nd (suc, fail) w = (Ok (suc', fail'), w')" and "classes_ok (suc, fail)"
    and "range_order (pe_ord env)"
  shows "classes_ok (suc', fail')"
    and "gomap.held suc' = gomap.held suc \<inter> Collect (wanted nd)"
    and "gomap.held fail' = gomap.held fail \<inter> Collect (wanted nd)"
proof -
  from assms(1) obtain w1 where
    s: "for_each (delete_vg_step env nd) (range_keys (pe_ord env) suc) suc w = (Ok suc', w1)"
    and f: "fail' = fold (\<lambda>key m. if wanted nd key then m else AList.delete key m)
              (range_keys (pe_ord env) fail) fail"
    by (auto simp: checkVgIfDelete_def ret_def elim!: bindM_OkE)
  have k: "keyed suc" "keyed fail" "gomap.held suc \<inter> gomap.held fail = {}"
    using assms(2) by (auto simp: classes_ok_def)
  note s' = delete_vg_loop [OF s k(1)] and f' = delete_fail_loop [OF k(2), of nd "range_keys (pe_ord env) fail"]
  show hs: "gomap.held suc' = gomap.held suc \<inter> Collect (wanted nd)"
    using s' assms(3) by (auto simp: set_range_keys gomap_held)
  show hf: "gomap.held fail' = gomap.held fail \<inter> Collect (wanted nd)"
    using f' f assms(3) by (auto simp: set_range_keys gomap_held)
  show "classes_ok (suc', fail')"
    using s' f' f k hs hf by (auto simp: classes_ok_def)
qed

section \<open>The written status\<close>

text \<open>What a status says of the volume groups: the names in its two lists.\<close>

definition suc_vgs :: "node_storage_state \<Rightarrow> string list" where
  "suc_vgs s = map cs_vg_name (nss_success_classes s)"

definition fail_vgs :: "node_storage_state \<Rightarrow> string list" where
  "fail_vgs s = map cs_vg_name (nss_fail_classes s)"

lemma written_vgs:
  assumes "classes_ok (suc, fail)" and "range_order ord"
  shows "distinct (map cs_vg_name (range_values ord suc))" and "set (map cs_vg_name (range_values ord suc)) = gomap.held suc"
    and "distinct (map cs_vg_name (range_values ord fail))" and "set (map cs_vg_name (range_values ord fail)) = gomap.held fail"
proof -
  have s: "map cs_vg_name (range_values ord suc) = range_keys ord suc"
    and f: "map cs_vg_name (range_values ord fail) = range_keys ord fail"
    using assms by (auto intro!: map_range_values simp: classes_ok_def keyed_def)
  show "distinct (map cs_vg_name (range_values ord suc))" "distinct (map cs_vg_name (range_values ord fail))"
    unfolding s f using assms by (auto intro: distinct_range_keys simp: classes_ok_def keyed_def)
  show "set (map cs_vg_name (range_values ord suc)) = gomap.held suc"
    "set (map cs_vg_name (range_values ord fail)) = gomap.held fail"
    unfolding s f using assms(2) by (simp_all add: set_range_keys gomap_held)
qed

lemma updateLvmdConf_other_keys:
  assumes "updateLvmdConf env nd cm newVgs suc w = (Ok cm', w')" and "k \<noteq> LvmdConfigMapKey"
  shows "cm_lookup cm' k = cm_lookup cm k"
  using assms unfolding updateLvmdConf_def createLvmdConf_def Let_def
  by (auto elim!: bindM_OkE simp: ret_def lift_outcome_def cm_lookup_set
      split: option.splits if_splits)

end
