(* ===== verification/Coder.thy ===== *)
theory Coder
  imports Types
begin

text \<open>
  A reference encoding, an executable stand-in for the JSON and YAML packages: the codec with which the
  witnesses of theorems about stored states are evaluated.  A list of strings is written with a mark
  before every character and a terminator after every string, so it is read back whatever it holds.
\<close>

definition enc_str :: "string \<Rightarrow> string" where
  "enc_str s = concat (map (\<lambda>c. [CHR ''x'', c]) s) @ '';''"

definition enc_strs :: "string list \<Rightarrow> string" where
  "enc_strs xs = concat (map enc_str xs)"

fun dec_strs :: "string \<Rightarrow> string \<Rightarrow> string list" where
  "dec_strs acc [] = []"
| "dec_strs acc [x] = (if x = CHR '';'' then [rev acc] else [])"
| "dec_strs acc (x # c # r) =
     (if x = CHR '';'' then rev acc # dec_strs [] (c # r) else dec_strs (c # acc) r)"

lemma dec_strs_end: "dec_strs acc (CHR '';'' # r) = rev acc # dec_strs [] r"
  by (cases r) simp_all

lemma dec_strs_str: "dec_strs acc (enc_str s @ r) = (rev acc @ s) # dec_strs [] r"
  by (induction s arbitrary: acc) (simp_all add: enc_str_def dec_strs_end)

lemma dec_enc_strs [simp]: "dec_strs [] (enc_strs xs) = xs"
  by (induction xs) (simp_all add: enc_strs_def dec_strs_str)

definition enc_bool :: "bool \<Rightarrow> string" where "enc_bool b = (if b then ''1'' else [])"
definition dec_bool :: "string \<Rightarrow> bool" where "dec_bool s = (s \<noteq> [])"
definition enc_word :: "64 word \<Rightarrow> string" where "enc_word w = show_int (uint w)"
definition dec_word :: "string \<Rightarrow> 64 word" where
  "dec_word s = (case parse_uint 64 s of Some n \<Rightarrow> word_of_int n | None \<Rightarrow> 0)"

lemma dec_enc_basic [simp]: "dec_bool (enc_bool b) = b" "dec_word (enc_word w) = w"
  using uint_bounded [of w] by (simp_all add: dec_bool_def enc_bool_def dec_word_def enc_word_def parse_uint_show)

text \<open>Records as lists of strings.\<close>

definition enc_dev :: "device_state \<Rightarrow> string" where
  "enc_dev d = enc_strs [ds_name d, ds_state d, ds_message d]"
definition dec_dev :: "string \<Rightarrow> device_state" where
  "dec_dev s = (let f = dec_strs [] s in \<lparr>ds_name = f ! 0, ds_state = f ! 1, ds_message = f ! 2\<rparr>)"

definition enc_class :: "class_state \<Rightarrow> string" where
  "enc_class c = enc_strs [cs_name c, cs_vg_name c, cs_state c, cs_message c,
     enc_strs (map enc_dev (cs_device_states c))]"
definition dec_class :: "string \<Rightarrow> class_state" where
  "dec_class s = (let f = dec_strs [] s in
     \<lparr>cs_name = f ! 0, cs_vg_name = f ! 1, cs_state = f ! 2, cs_message = f ! 3,
      cs_device_states = map dec_dev (dec_strs [] (f ! 4))\<rparr>)"

definition enc_loop :: "loop_state \<Rightarrow> string" where
  "enc_loop l = enc_strs [ls_name l, ls_file l, ls_device_name l, ls_status l, ls_message l]"
definition dec_loop :: "string \<Rightarrow> loop_state" where
  "dec_loop s = (let f = dec_strs [] s in
     \<lparr>ls_name = f ! 0, ls_file = f ! 1, ls_device_name = f ! 2, ls_status = f ! 3, ls_message = f ! 4\<rparr>)"

definition enc_status :: "node_storage_state \<Rightarrow> string" where
  "enc_status n = enc_strs [nss_node n, nss_phase n, enc_strs (map enc_class (nss_fail_classes n)),
     enc_strs (map enc_class (nss_success_classes n)), enc_strs (map enc_loop (nss_loops n))]"
definition dec_status :: "string \<Rightarrow> node_storage_state" where
  "dec_status s = (let f = dec_strs [] s in
     \<lparr>nss_node = f ! 0, nss_phase = f ! 1, nss_fail_classes = map dec_class (dec_strs [] (f ! 2)),
      nss_success_classes = map dec_class (dec_strs [] (f ! 3)), nss_loops = map dec_loop (dec_strs [] (f ! 4))\<rparr>)"

definition enc_lvmd_class :: "lvmd_device_class \<Rightarrow> string" where
  "enc_lvmd_class c = enc_strs [ldc_name c, ldc_volume_group c, enc_word (ldc_spare_gb c),
     enc_bool (ldc_default c), enc_word (ldc_stripe c), ldc_stripe_size c]"
definition dec_lvmd_class :: "string \<Rightarrow> lvmd_device_class" where
  "dec_lvmd_class s = (let f = dec_strs [] s in
     \<lparr>ldc_name = f ! 0, ldc_volume_group = f ! 1, ldc_spare_gb = dec_word (f ! 2), ldc_default = dec_bool (f ! 3),
      ldc_stripe = dec_word (f ! 4), ldc_stripe_size = f ! 5\<rparr>)"

definition enc_lvmd :: "lvmd_conf \<Rightarrow> string" where
  "enc_lvmd c = enc_strs [lc_socket_name c, enc_strs (map enc_lvmd_class (lc_device_classes c))]"
definition dec_lvmd :: "string \<Rightarrow> lvmd_conf" where
  "dec_lvmd s = (let f = dec_strs [] s in
     \<lparr>lc_socket_name = f ! 0, lc_device_classes = map dec_lvmd_class (dec_strs [] (f ! 1))\<rparr>)"

lemma dec_enc_records [simp]:
  "dec_dev (enc_dev d) = d" "dec_loop (enc_loop l) = l" "dec_lvmd_class (enc_lvmd_class x) = x"
  by (simp_all add: enc_dev_def dec_dev_def enc_loop_def dec_loop_def enc_lvmd_class_def dec_lvmd_class_def Let_def)

lemma dec_enc_nested [simp]: "dec_class (enc_class c) = c" "dec_lvmd (enc_lvmd x) = x"
  by (simp_all add: enc_class_def dec_class_def enc_lvmd_def dec_lvmd_def Let_def comp_def)

lemma dec_enc_status [simp]: "dec_status (enc_status s) = s"
  by (simp add: enc_status_def dec_status_def Let_def comp_def)

definition ref_codec :: codec where
  "ref_codec = \<lparr>co_devices = (\<lambda>ds. enc_strs (map (\<lambda>i. ld_name (di_disk i)) ds)), co_status = enc_status,
     co_status_parse = (\<lambda>s. Inr (dec_status s)), co_lvmd = enc_lvmd, co_lvmd_parse = (\<lambda>s. Inr (dec_lvmd s)),
     co_class = (\<lambda>d. enc_lvmd_class (lvmd_class_of d)), co_class_parse = (\<lambda>s. Inr (dec_lvmd_class s))\<rparr>"

lemma ref_codec_ok: "codec_ok ref_codec"
  by (simp add: codec_ok_def ref_codec_def)

end
