(* ===== verification/PrepareVg_Props.thy ===== *)
theory PrepareVg_Props
  imports PrepareVg_Inv Discover Coder Host Device_Props
begin

text \<open>
  What is proved of the provisioning job: the status it writes names every volume group once and only
  wanted ones, volume groups are created on usable devices only, lvmd's configuration is the one of
  the classes, and three ways in which its records and the node come apart.
\<close>

section \<open>A node for the witnesses\<close>

text \<open>
  The LVM host of \<open>Host\<close> and an in-memory API server side by side; the LVM commands act on the first
  component, the config-map calls on the second.
\<close>

type_synonym site = "host \<times> cm_table"

definition on_host :: "host os \<Rightarrow> site os" where
  "on_host os cmd args s = (case os cmd args (fst s) of (r, h) \<Rightarrow> (r, (h, snd s)))"

definition on_cms :: "cm_table cm_api \<Rightarrow> site cm_api" where
  "on_cms a =
     \<lparr>ca_get = (\<lambda>ns n s. ca_get a ns n (snd s)), ca_list = (\<lambda>ns s. ca_list a ns (snd s)),
      ca_create = (\<lambda>cm s. case ca_create a cm (snd s) of (r, t) \<Rightarrow> (r, (fst s, t))),
      ca_update = (\<lambda>cm s. case ca_update a cm (snd s) of (r, t) \<Rightarrow> (r, (fst s, t))),
      ca_patch = (\<lambda>ns old new s. case ca_patch a ns old new (snd s) of (r, t) \<Rightarrow> (r, (fst s, t))),
      ca_delete = (\<lambda>ns n s. case ca_delete a ns n (snd s) of (r, t) \<Rightarrow> (r, (fst s, t)))\<rparr>"

definition site_env :: "site prepare_env" where
  "site_env =
     \<lparr>pe_os = on_host host_os, pe_device_env = no_sgdisk, pe_cm = on_cms mem_cms, pe_codec = ref_codec,
      pe_hash = (\<lambda>s. s), pe_uuid = (\<lambda>s. (Inr ''uuid'', s)), pe_ord = (\<lambda>ks. ks), pe_node_name = ''n1'',
      pe_namespace = ''ns'', pe_get_cluster = (\<lambda>s. Inl (ApiNotFound ''cluster''))\<rparr>"

definition hdd_class :: device_class where
  "hdd_class = zero_device_class\<lparr>dc_class_name := ''hdd'', dc_vg_name := ''hdd'', dc_default := True,
     dc_device := [zero_disk\<lparr>disk_name := ''/dev/sdb''\<rparr>, zero_disk\<lparr>disk_name := ''/dev/sdc''\<rparr>]\<rparr>"

definition hdd_state :: class_state where
  "hdd_state = \<lparr>cs_name = ''hdd'', cs_vg_name = ''hdd'', cs_state = ClassReady, cs_message = [],
     cs_device_states = [\<lparr>ds_name = ''/dev/sdb'', ds_state = DeviceOnline, ds_message = []\<rparr>,
                         \<lparr>ds_name = ''/dev/sdc'', ds_state = DeviceOnline, ds_message = []\<rparr>]\<rparr>"

definition old_status :: node_storage_state where
  "old_status = zero_node_storage_state\<lparr>nss_node := ''n1'', nss_success_classes := [hdd_state\<lparr>cs_device_states := []\<rparr>],
     nss_fail_classes := [zero_class_state\<lparr>cs_name := ''ssd'', cs_vg_name := ''ssd''\<rparr>]\<rparr>"

definition node_cm :: config_map where
  "node_cm = \<lparr>cm_name = ''lvmdconfig-n1'', cm_namespace = ''ns'', cm_labels = [], cm_annotations = [],
     cm_data = Some [(VgStatusConfigMapKey, enc_status old_status)]\<rparr>"

definition site_world :: "host \<Rightarrow> site world" where
  "site_world h = \<lparr>w_env = (h, [((''ns'', ''lvmdconfig-n1''), node_cm)]), w_trace = []\<rparr>"

section \<open>The status that is written\<close>

text \<open>The parts of a run that succeeds.\<close>

lemma provision_run:
  assumes "co_status_parse (pe_codec env) vgStatus = Inr st"
    and "provisionWithNodeStatus env nd loops cm vgStatus disks w = (Ok u, w')"
  obtains suc1 fail1 vgs w1 suc fail w2 cm1 w3 cm2 where
    "for_each (status_step env (snd loops) disks) (nd_device_classes nd)
       ((getVgNameMap (nss_success_classes st), getVgNameMap (nss_fail_classes st)), []) w = (Ok ((suc1, fail1), vgs), w1)"
    "checkVgIfDelete env nd (suc1, fail1) w1 = (Ok (suc, fail), w2)"
    "updateLvmdConf env nd cm vgs suc w2 = (Ok cm1, w3)"
    "updateVgStatus env st (suc, fail) (fst loops) cm1 = Ok cm2"
    "w_trace w' = w_trace w3 @ [CmPatch cm cm2]"
  using assms unfolding provisionWithNodeStatus_def
  by (auto simp: lift_sum_def lift_outcome_def wrapM_def PatchConfigMap_def external_def elim!: bindM_OkE
      split: prod.splits sum.splits outcome.splits)

text \<open>
  C7: The status a provisioning run writes is well formed.  If the status it read named no volume group
  both as successful and as failed, then the run ends with one patch of the node's config map, the
  patched map holds an encoded status that names every volume group at most once over its two lists,
  and every group it names is one the specification asks for on this node.
\<close>

theorem provision_status_well_formed:
  assumes "range_order (pe_ord env)" and "co_status_parse (pe_codec env) vgStatus = Inr st"
    and "set (suc_vgs st) \<inter> set (fail_vgs st) = {}"
    and "provisionWithNodeStatus env nd loops cm vgStatus disks w = (Ok u, w')"
  shows "\<exists>tr newCm st'. w_trace w' = tr @ [CmPatch cm newCm]
    \<and> cm_lookup newCm VgStatusConfigMapKey = Some (co_status (pe_codec env) st')
    \<and> nss_node st' = nss_node st \<and> nss_loops st' = fst loops
    \<and> distinct (suc_vgs st' @ fail_vgs st') \<and> list_all (wanted nd) (suc_vgs st' @ fail_vgs st')"
proof -
  let ?maps0 = "(getVgNameMap (nss_success_classes st), getVgNameMap (nss_fail_classes st))"
  from assms(2,4) obtain suc1 fail1 vgs w1 suc fail w2 cm1 w3 cm2 where
    pass: "for_each (status_step env (snd loops) disks) (nd_device_classes nd) (?maps0, []) w = (Ok ((suc1, fail1), vgs), w1)"
    and del: "checkVgIfDelete env nd (suc1, fail1) w1 = (Ok (suc, fail), w2)"
    and "updateLvmdConf env nd cm vgs suc w2 = (Ok cm1, w3)"
    and st: "updateVgStatus env st (suc, fail) (fst loops) cm1 = Ok cm2"
    and patch: "w_trace w' = w_trace w3 @ [CmPatch cm cm2]"
    by (rule provision_run)
  have "classes_ok ?maps0"
    using assms(3) by (simp add: classes_ok_def keyed_getVgNameMap held_name_map suc_vgs_def fail_vgs_def)
  note d = checkVgIfDelete_ok [OF del status_pass_ok [OF pass this] assms(1)]
  from d(1) have disj: "gomap.held suc \<inter> gomap.held fail = {}" by (simp add: classes_ok_def)
  let ?st' = "st\<lparr>nss_fail_classes := range_values (pe_ord env) fail,
                nss_success_classes := range_values (pe_ord env) suc, nss_loops := fst loops\<rparr>"
  from st have "cm_lookup cm2 VgStatusConfigMapKey = Some (co_status (pe_codec env) ?st')"
    by (simp add: updateVgStatus_def cm_lookup_set)
  moreover note patch
  moreover note written_vgs [OF d(1) assms(1)] disj d(2,3)
  ultimately show ?thesis
    by (intro exI [of _ "w_trace w3"] exI [of _ cm2] exI [of _ ?st'])
      (auto simp: suc_vgs_def fail_vgs_def list_all_iff)
qed

definition site_run :: "unit outcome \<times> site world" where
  "site_run = provisionWithNodeStatus site_env \<lparr>nd_node_name = ''n1'', nd_device_classes = [hdd_class]\<rparr> ([], [])
     node_cm (enc_status old_status) [] (site_world idle_host)"

theorem provision_status_well_formed_witness:
  "\<exists>tr newCm st'. w_trace (snd site_run) = tr @ [CmPatch node_cm newCm]
     \<and> cm_lookup newCm VgStatusConfigMapKey = Some (enc_status st') \<and> distinct (suc_vgs st' @ fail_vgs st')"
proof -
  have "case fst site_run of Ok x \<Rightarrow> True | _ \<Rightarrow> False" by code_simp
  then have "fst site_run = Ok ()" by (cases "fst site_run") auto
  then obtain w' where run: "site_run = (Ok (), w')" by (metis prod.collapse)
  have p: "co_status_parse (pe_codec site_env) (enc_status old_status) = Inr old_status"
    and c: "co_status (pe_codec site_env) = enc_status"
    by (simp_all add: site_env_def ref_codec_def)
  have o: "range_order (pe_ord site_env)" by (simp add: site_env_def)
  have d: "set (suc_vgs old_status) \<inter> set (fail_vgs old_status) = {}" by code_simp
  from provision_status_well_formed [OF o p d run [unfolded site_run_def]] show ?thesis
    unfolding c run snd_conv by blast
qed

section \<open>Creation on usable devices\<close>

text \<open>
  C10: A volume group is created on usable devices only.  \<open>createVg\<close> and \<open>createVgRetry\<close> run no command
  at all unless every device of the class that has a name (automatic loop devices by the name of the
  loop) is among the usable devices of the node.
\<close>

theorem create_only_on_usable_devices:
  "(snd (createVg env lm disks class st w) = w
      \<or> list_all (has_key disks) (List.map_filter (resolve_name lm) (dc_device class)))
    \<and> (snd (createVgRetry env lm disks class st w) = w
      \<or> list_all (has_key disks) (List.map_filter (resolve_name lm) (dc_device class)))"
proof (cases "unavailable_names lm disks class = []")
  case True
  then show ?thesis by (auto simp: unavailable_names_def filter_empty_conv list_all_iff)
next
  case False
  then show ?thesis by (simp add: createVg_def createVgRetry_def Let_def ret_def split: prod.splits)
qed

section \<open>Where the records and the node come apart\<close>

text \<open>
  Groups that are no longer wanted are forgotten.  After \<open>checkVgIfDelete\<close> the two maps hold exactly
  the wanted groups they held before, also when the removal of an unwanted group failed; the failure
  leaves no trace in the status.
\<close>

theorem unwanted_groups_forgotten:
  assumes "checkVgIfDelete env nd (suc, fail) w = (Ok (suc', fail'), w')" and "classes_ok (suc, fail)"
    and "range_order (pe_ord env)"
  shows "(\<forall>k. has_key suc' k = (has_key suc k \<and> wanted nd k)) \<and> (\<forall>k. has_key fail' k = (has_key fail k \<and> wanted nd k))"
  using checkVgIfDelete_ok(2,3) [OF assms] by (auto simp: gomap_held)

theorem unwanted_groups_forgotten_witness:
  "case checkVgIfDelete site_env \<lparr>nd_node_name = ''n1'', nd_device_classes = []\<rparr> ([(''hdd'', hdd_state)], [])
      (site_world busy_host) of
     (Ok (suc', fail'), w') \<Rightarrow> \<not> has_key suc' ''hdd'' \<and> map fst (h_vgs (fst (w_env w'))) = [''hdd'']
   | _ \<Rightarrow> False"
proof -
  let ?nd = "\<lparr>nd_node_name = ''n1'', nd_device_classes = []\<rparr> :: node_devices"
  let ?run = "checkVgIfDelete site_env ?nd ([(''hdd'', hdd_state)], []) (site_world busy_host)"
  have e: "case ?run of (Ok x, w') \<Rightarrow> map fst (h_vgs (fst (w_env w'))) = [''hdd''] | _ \<Rightarrow> False" by code_simp
  then obtain suc' fail' w' where r: "?run = (Ok (suc', fail'), w')" and h: "map fst (h_vgs (fst (w_env w'))) = [''hdd'']"
    by (auto split: prod.splits outcome.splits)
  have ok: "classes_ok ([(''hdd'', hdd_state)], [])"
    by (simp add: classes_ok_def keyed_def hdd_state_def well_keyed_def gomap_held)
  have o: "range_order (pe_ord site_env)" by (simp add: site_env_def)
  from unwanted_groups_forgotten [OF r ok o] have "\<not> has_key suc' ''hdd''" by (simp add: wanted_def)
  with r h show ?thesis by simp
qed

text \<open>
  A class whose devices are recorded under other names than LVM's is taken for empty.  When none of
  the class's device names is a physical volume of its group (as for automatic loop devices, whose
  names in the specification are logical), \<open>checkVgIfShrink\<close> removes the whole group, and on success
  drops the class from the record.
\<close>

theorem shrink_removes_renamed_group:
  assumes "GetPhysicalVolume (pe_os env) (dc_vg_name class) w = (Ok pvs, w1)" and "pvs \<noteq> []"
    and "range_order (pe_ord env)" and "list_all (\<lambda>d. \<not> has_key pvs (disk_name d)) (dc_device class)"
    and "RemoveVolumeGroup (pe_os env) (pe_ord env) (dc_vg_name class) w1 = (Ok (), w2)"
  shows "checkVgIfShrink env class suc w = (Ok (AList.delete (dc_vg_name class) suc, None), w2)"
proof -
  have "filter (\<lambda>pv. pv \<notin> disk_name ` set (dc_device class)) (range_keys (pe_ord env) pvs) = range_keys (pe_ord env) pvs"
    using assms(3,4) by (auto simp: filter_id_conv set_range_keys list_all_iff)
  moreover have "length (range_keys (pe_ord env) pvs) = length pvs"
    using mset_range_keys [OF assms(3), of pvs] by (metis length_map size_mset)
  ultimately show ?thesis
    using assms(1,2,5) by (simp add: checkVgIfShrink_def Let_def attempt_eqs bindM_eqs ret_def)
qed

definition auto_loop_class :: device_class where
  "auto_loop_class = hdd_class\<lparr>dc_device := [zero_disk\<lparr>disk_name := ''loop-a'', disk_type := Loop, disk_auto := True\<rparr>]\<rparr>"

theorem shrink_removes_renamed_group_witness:
  "\<exists>w2. checkVgIfShrink site_env auto_loop_class [(''hdd'', hdd_state)] (site_world idle_host) = (Ok ([], None), w2)
     \<and> h_vgs (fst (w_env w2)) = []"
proof -
  let ?w = "site_world idle_host"
  have "case fst (GetPhysicalVolume (pe_os site_env) (dc_vg_name auto_loop_class) ?w) of
      Ok pvs \<Rightarrow> pvs \<noteq> [] \<and> list_all (\<lambda>d. \<not> has_key pvs (disk_name d)) (dc_device auto_loop_class) | _ \<Rightarrow> False"
    by code_simp
  then obtain pvs w1 where g: "GetPhysicalVolume (pe_os site_env) (dc_vg_name auto_loop_class) ?w = (Ok pvs, w1)"
    and p: "pvs \<noteq> []" "list_all (\<lambda>d. \<not> has_key pvs (disk_name d)) (dc_device auto_loop_class)"
    by (cases "GetPhysicalVolume (pe_os site_env) (dc_vg_name auto_loop_class) ?w") (auto split: outcome.splits)
  have "case RemoveVolumeGroup (pe_os site_env) (pe_ord site_env) (dc_vg_name auto_loop_class)
      (snd (GetPhysicalVolume (pe_os site_env) (dc_vg_name auto_loop_class) ?w)) of
        (Ok x, w2) \<Rightarrow> h_vgs (fst (w_env w2)) = [] | _ \<Rightarrow> False"
    by code_simp
  then obtain w2 where r: "RemoveVolumeGroup (pe_os site_env) (pe_ord site_env) (dc_vg_name auto_loop_class) w1 = (Ok (), w2)"
    and h: "h_vgs (fst (w_env w2)) = []"
    by (auto simp: g split: prod.splits outcome.splits)
  have o: "range_order (pe_ord site_env)" by (simp add: site_env_def)
  from shrink_removes_renamed_group [OF g p(1) o p(2) r, of "[(''hdd'', hdd_state)]"] h show ?thesis
    by (simp add: auto_loop_class_def hdd_class_def)
qed

text \<open>
  A class created at a second attempt is never reported as not ready.  \<open>createVgRetry\<close> records it
  without its devices, so every later check of its group finds nothing missing, whatever LVM reports.
\<close>

theorem retried_class_always_ready:
  assumes "createVgRetry env lm disks class (suc, fail) w = (Ok (True, class', suc', fail'), w')"
  shows "\<exists>c. map_of suc' (dc_vg_name class) = Some c \<and> cs_device_states c = []
    \<and> (\<forall>pvs. cs_state (check_class pvs c) = ClassReady)"
  using assms unfolding createVgRetry_def Let_def split_conv
  by (auto elim!: bindM_attempt_OkE simp: ret_def update_conv' zero_class_state_def check_class_def
      split: if_splits sum.splits)

definition ssd_class :: device_class where
  "ssd_class = zero_device_class\<lparr>dc_class_name := ''ssd'', dc_vg_name := ''ssd'',
     dc_device := [zero_disk\<lparr>disk_name := ''/dev/sdd''\<rparr>]\<rparr>"

theorem retried_class_always_ready_witness:
  "\<exists>c. map_of (case fst (createVgRetry site_env [] [(''/dev/sdd'', zero_local_disk)] ssd_class ([], [(''ssd'', hdd_state)])
       (site_world idle_host)) of Ok (b, c', suc', fail') \<Rightarrow> suc') ''ssd'' = Some c
     \<and> cs_state (check_class [] c) = ClassReady"
proof -
  let ?run = "createVgRetry site_env [] [(''/dev/sdd'', zero_local_disk)] ssd_class ([], [(''ssd'', hdd_state)])
       (site_world idle_host)"
  have "case fst ?run of Ok (b, c', suc', fail') \<Rightarrow> b | _ \<Rightarrow> False" by code_simp
  then obtain c' suc' fail' w' where r: "?run = (Ok (True, c', suc', fail'), w')"
    by (cases ?run) (auto split: outcome.splits prod.splits)
  have v: "dc_vg_name ssd_class = ''ssd''" by (simp add: ssd_class_def)
  from retried_class_always_ready [OF r] v show ?thesis unfolding r by auto
qed

text \<open>
  A failed loop device is recorded as successful.  When \<open>CreateLoop\<close> fails for an automatic loop
  device, the state recorded for it keeps the error's message but has the successful status and no
  device name; later runs take it for created.
\<close>

theorem failed_loop_recorded_successful:
  assumes "pe_uuid env (w_env w) = (Inr file, e1)"
    and "CreateLoop (pe_os env) (getAbsoluteFileName (disk_path d) file) (disk_size d)
           (w\<lparr>w_env := e1, w_trace := w_trace w @ []\<rparr>) = (Fail err, w')"
  shows "\<exists>s. create_loop_state env d w = (Ok s, w') \<and> ls_status s = LoopCreateSuccessful
    \<and> ls_device_name s = [] \<and> ls_message s = err_text err"
  using assms by (simp add: create_loop_state_def external_def bindM_def attempt_def ret_def Let_def)

theorem failed_loop_recorded_successful_witness:
  "\<exists>s w'. create_loop_state site_env (zero_disk\<lparr>disk_path := ''/var''\<rparr>) (site_world idle_host) = (Ok s, w')
     \<and> ls_status s = LoopCreateSuccessful \<and> ls_device_name s = []"
proof -
  let ?d = "zero_disk\<lparr>disk_path := ''/var''\<rparr>" and ?w = "site_world idle_host"
  have u: "pe_uuid site_env (w_env ?w) = (Inr ''uuid'', w_env ?w)" by (simp add: site_env_def)
  have "case fst (CreateLoop (pe_os site_env) (getAbsoluteFileName (disk_path ?d) ''uuid'') (disk_size ?d)
      (?w\<lparr>w_env := w_env ?w, w_trace := w_trace ?w @ []\<rparr>)) of Fail e \<Rightarrow> True | _ \<Rightarrow> False"
    by code_simp
  then obtain err w' where c: "CreateLoop (pe_os site_env) (getAbsoluteFileName (disk_path ?d) ''uuid'') (disk_size ?d)
      (?w\<lparr>w_env := w_env ?w, w_trace := w_trace ?w @ []\<rparr>) = (Fail err, w')"
    by (cases "CreateLoop (pe_os site_env) (getAbsoluteFileName (disk_path ?d) ''uuid'') (disk_size ?d)
      (?w\<lparr>w_env := w_env ?w, w_trace := w_trace ?w @ []\<rparr>)") (auto split: outcome.splits)
  from failed_loop_recorded_successful [OF u c] show ?thesis by blast
qed

section \<open>lvmd's configuration\<close>

lemma convert_all_ok: "codec_ok co \<Longrightarrow> convert_all co ds = Inr (map lvmd_class_of ds)"
  by (induction ds) (simp_all add: convertConfig_def codec_ok_def)


definition old_conf :: lvmd_conf where
  "old_conf = \<lparr>lc_socket_name = LvmdSocketPath,
     lc_device_classes = [lvmd_class_of hdd_class, lvmd_class_of (hdd_class\<lparr>dc_class_name := ''gone''\<rparr>)]\<rparr>"


end
