(* ===== verification/Settled.thy ===== *)
theory Settled
  imports PrepareVg_Props
begin

text \<open>
  The fixed point of the volume-group provisioning (\<open>topolvm/volumegroup/preparevg.go\<close>): on a node that is as
  the specification and the recorded status say, a run of the job changes nothing.
\<close>

section \<open>A node that is as it should be\<close>

text \<open>
  What LVM reports for a group while nothing changes, and a class whose group holds exactly the devices
  the specification names (automatic loop devices, which go by another name, apart).
\<close>

definition reports :: "'e os \<Rightarrow> 'e \<Rightarrow> string \<Rightarrow> string gomap \<Rightarrow> bool" where
  "reports os e vg pv = (\<forall>tr. GetPhysicalVolume os vg \<lparr>w_env = e, w_trace = tr\<rparr> =
     (Ok pv, \<lparr>w_env = e, w_trace = tr @ [lvm_event (report_args ''vgs'' ''pv_name'' [vg])]\<rparr>))"

definition settled_class :: "'e os \<Rightarrow> 'e \<Rightarrow> device_class \<Rightarrow> bool" where
  "settled_class os e d = (\<exists>pv. reports os e (dc_vg_name d) pv \<and> fst ` set pv = disk_name ` set (dc_device d)
     \<and> list_all (\<lambda>x. \<not> (disk_type x = Loop \<and> disk_auto x)) (dc_device d))"

text \<open>The two queries a pass makes of a settled class.\<close>

definition class_queries :: "device_class \<Rightarrow> event list" where
  "class_queries d = replicate 2 (lvm_event (report_args ''vgs'' ''pv_name'' [dc_vg_name d]))"

lemma reports_at:
  "reports os (w_env w) vg pv \<Longrightarrow> GetPhysicalVolume os vg w =
     (Ok pv, w\<lparr>w_trace := w_trace w @ [lvm_event (report_args ''vgs'' ''pv_name'' [vg])]\<rparr>)"
  unfolding reports_def by (cases w) simp

lemma reportsI:
  assumes "os ''nsenter'' (nsenter_args ''lvm'' (report_args ''vgs'' ''pv_name'' [vg])) e = (r, e)" and "pr_err r = None"
    and "parseLines (trim_space (pr_stdout r)) = Ok infos"
  shows "reports os e vg (collect_field ''pv_name'' infos)"
  using assms
  by (simp add: reports_def GetPhysicalVolume_def parseOutput_def output_or_fail_def wrapExecCommandWithOutput_def
      ExecuteCommandWithOutput_def run_process_def runCommandWithOutput_def lvm_event_def prog_defs)

lemma attempt_reports:
  "reports os (w_env w) vg pv \<Longrightarrow> attempt (GetPhysicalVolume os vg) w =
     (Ok (Inr pv), w\<lparr>w_trace := w_trace w @ [lvm_event (report_args ''vgs'' ''pv_name'' [vg])]\<rparr>)"
  by (simp add: attempt_def reports_at)

lemma expand_nothing:
  assumes "fst ` set pv = disk_name ` set (dc_device d)"
    and "list_all (\<lambda>x. \<not> (disk_type x = Loop \<and> disk_auto x)) (dc_device d)"
  shows "for_each (expand_step env loopMap pv vg) (dc_device d) (suc, [], None) = ret (suc, [], None)"
proof -
  have "for_each (expand_step env loopMap pv vg) xs (suc, [], None) = ret (suc, [], None)"
    if "disk_name ` set xs \<subseteq> fst ` set pv" "list_all (\<lambda>x. \<not> (disk_type x = Loop \<and> disk_auto x)) xs" for xs
    using that by (induction xs) (auto simp: expand_step_def resolve_name_def has_key_iff)
  with assms show ?thesis by simp
qed

lemma settled_step:
  assumes "settled_class (pe_os env) (w_env w) d" and "has_key suc (dc_vg_name d)" and "range_order (pe_ord env)"
  shows "status_step env loopMap disks d ((suc, fail), vgs) w =
    (Ok ((suc, fail), vgs), w\<lparr>w_trace := w_trace w @ class_queries d\<rparr>)"
proof -
  from assms(1) obtain pv where r: "reports (pe_os env) (w_env w) (dc_vg_name d) pv"
    and pv: "fst ` set pv = disk_name ` set (dc_device d)"
    and nl: "list_all (\<lambda>x. \<not> (disk_type x = Loop \<and> disk_auto x)) (dc_device d)" by (auto simp: settled_class_def)
  let ?q = "lvm_event (report_args ''vgs'' ''pv_name'' [dc_vg_name d])"
  let ?w1 = "w\<lparr>w_trace := w_trace w @ [?q]\<rparr>"
  have "checkVgIfExpand env loopMap d suc w = (Ok (suc, None), ?w1)"
    by (simp add: checkVgIfExpand_def Let_def bindM_def attempt_reports [OF r]
        expand_nothing [OF pv nl] ret_def)
  moreover have "filter (\<lambda>p. p \<notin> disk_name ` set (dc_device d)) (range_keys (pe_ord env) pv) = []"
    using assms(3) pv by (simp add: set_range_keys has_key_iff)
  then have "checkVgIfShrink env d suc ?w1 = (Ok (suc, None), ?w1\<lparr>w_trace := w_trace ?w1 @ [?q]\<rparr>)"
    using r by (simp add: checkVgIfShrink_def Let_def bindM_def attempt_reports ret_def)
  ultimately show ?thesis using assms(2)
    by (simp add: status_step_def bindM_eqs ret_def class_queries_def numeral_2_eq_2)
qed

lemma settled_pass:
  assumes "\<forall>d \<in> set ds. settled_class (pe_os env) (w_env w) d \<and> has_key suc (dc_vg_name d)"
    and "range_order (pe_ord env)"
  shows "for_each (status_step env loopMap disks) ds ((suc, fail), vgs) w =
    (Ok ((suc, fail), vgs), w\<lparr>w_trace := w_trace w @ concat (map class_queries ds)\<rparr>)"
  using assms(1)
proof (induction ds arbitrary: w)
  case (Cons d ds)
  then have "status_step env loopMap disks d ((suc, fail), vgs) w =
      (Ok ((suc, fail), vgs), w\<lparr>w_trace := w_trace w @ class_queries d\<rparr>)"
    by (intro settled_step [OF _ _ assms(2)]) auto
  with Cons show ?case by (simp add: bindM_eqs)
qed (simp add: ret_def)

lemma wanted_kept:
  assumes "range_order (pe_ord env)" and "\<And>k. has_key suc k \<Longrightarrow> wanted nd k"
  shows "checkVgIfDelete env nd (suc, []) w = (Ok (suc, []), w)"
proof -
  have "for_each (delete_vg_step env nd) ks suc = ret suc" if "\<forall>k \<in> set ks. wanted nd k" for ks
    using that by (induction ks) (simp_all add: delete_vg_step_def)
  moreover have "\<forall>k \<in> set (range_keys (pe_ord env) suc). wanted nd k"
    using assms by (simp add: set_range_keys)
  moreover have "fold (\<lambda>key m. if wanted nd key then m else AList.delete key m) ks [] = []" for ks :: "string list"
    by (induction ks) auto
  ultimately show ?thesis by (simp add: checkVgIfDelete_def) (simp add: ret_def)
qed

lemma update_absent: "k \<notin> fst ` set m \<Longrightarrow> AList.update k v m = m @ [(k, v)]"
  by (induction m) auto

lemma map_filter_back: "(\<And>x. x \<in> set xs \<Longrightarrow> g (h x) = Some x) \<Longrightarrow> List.map_filter g (map h xs) = xs"
  by (induction xs) (auto simp: List.map_filter_simps)

text \<open>Written and read again, the list of the classes is the same up to its order.\<close>

lemma name_map_values:
  assumes "distinct (map cs_vg_name cs)" and "range_order ord"
  shows "mset (range_values ord (getVgNameMap cs)) = mset cs"
proof -
  have "fold (\<lambda>c. AList.update (cs_vg_name c) c) cs m = m @ map (\<lambda>c. (cs_vg_name c, c)) cs"
    if "distinct (map fst m @ map cs_vg_name cs)" for m
    using that assms(1)
  proof (induction cs arbitrary: m)
    case (Cons c cs)
    then have "AList.update (cs_vg_name c) c m = m @ [(cs_vg_name c, c)]" using update_absent by force
    with Cons.prems Cons.IH [of "m @ [(cs_vg_name c, c)]"] show ?case by simp
  qed simp
  with assms(1) have m: "getVgNameMap cs = map (\<lambda>c. (cs_vg_name c, c)) cs" by (simp add: getVgNameMap_def)
  have "mset (List.map_filter (map_of (getVgNameMap cs)) ks) = mset (List.map_filter (map_of (getVgNameMap cs)) js)"
    if "mset ks = mset js" for ks js
    using that by (simp add: List.map_filter_def mset_filter)
  then have "mset (range_values ord (getVgNameMap cs)) =
      mset (List.map_filter (map_of (getVgNameMap cs)) (map cs_vg_name cs))"
    using mset_range_keys [OF assms(2), of "getVgNameMap cs"] by (simp add: range_values_def m comp_def)
  also have "List.map_filter (map_of (getVgNameMap cs)) (map cs_vg_name cs) = cs"
    using assms(1) by (intro map_filter_back) (auto simp: m comp_def intro!: map_of_is_SomeI)
  finally show ?thesis .
qed

section \<open>The property\<close>

text \<open>
  C18: Provisioning has a fixed point.  If the recorded status holds exactly the groups the specification asks
  for, none of them failed, and every group holds exactly the devices named for it, then a run asks LVM
  twice for the volumes of each group, runs no other command, and ends with a patch whose status holds the same
  classes as before, unchanged up to their order, and no failed one.
\<close>

theorem settled_run_changes_nothing:
  assumes "range_order (pe_ord env)" and "co_status_parse (pe_codec env) vgStatus = Inr st"
    and "nss_fail_classes st = []" and "distinct (suc_vgs st)"
    and "set (suc_vgs st) = dc_vg_name ` set (nd_device_classes nd)"
    and "\<forall>d \<in> set (nd_device_classes nd). settled_class (pe_os env) (w_env w) d"
    and "provisionWithNodeStatus env nd loops cm vgStatus disks w = (Ok u, w')"
  shows "\<exists>newCm st'. w_trace w' = w_trace w @ concat (map class_queries (nd_device_classes nd)) @ [CmPatch cm newCm]
    \<and> cm_lookup newCm VgStatusConfigMapKey = Some (co_status (pe_codec env) st')
    \<and> mset (nss_success_classes st') = mset (nss_success_classes st) \<and> nss_fail_classes st' = []
    \<and> nss_node st' = nss_node st \<and> nss_phase st' = nss_phase st"
proof -
  obtain loopsState loopMap where loops: "loops = (loopsState, loopMap)" by (cases loops)
  let ?suc = "getVgNameMap (nss_success_classes st)"
  let ?w1 = "w\<lparr>w_trace := w_trace w @ concat (map class_queries (nd_device_classes nd))\<rparr>"
  have held: "has_key ?suc k \<longleftrightarrow> k \<in> dc_vg_name ` set (nd_device_classes nd)" for k
    using held_name_map [of "nss_success_classes st"] assms(5) by (auto simp: gomap_held suc_vgs_def)
  have pass: "for_each (status_step env loopMap disks) (nd_device_classes nd) ((?suc, []), []) w = (Ok ((?suc, []), []), ?w1)"
    using assms(6) held by (intro settled_pass [OF _ assms(1)]) auto
  have del: "checkVgIfDelete env nd (?suc, []) ?w1 = (Ok (?suc, []), ?w1)"
    using held by (intro wanted_kept [OF assms(1)]) (auto simp: wanted_def)
  have "getVgNameMap (nss_fail_classes st) = []" using assms(3) by (simp add: getVgNameMap_def)
  with assms(2,7) loops pass del obtain cm1 w3 cm2 where
    conf: "wrapM ''update lvmd conf failed'' (updateLvmdConf env nd cm [] ?suc) ?w1 = (Ok cm1, w3)"
    and st: "updateVgStatus env st (?suc, []) loopsState cm1 = Ok cm2"
    and patch: "wrapM ''patch configmap failed'' (PatchConfigMap (pe_cm env) (pe_namespace env) cm cm2) w3 = (Ok u, w')"
    unfolding provisionWithNodeStatus_def
    by (auto simp: lift_sum_def lift_outcome_def bindM_eqs elim!: bindM_OkE [where m = "wrapM _ _"] bindM_OkE [where m = "\<lambda>w. (_, w)"])
  have "emits (\<lambda>_. False) (wrapM ''update lvmd conf failed'' (updateLvmdConf env nd cm [] ?suc))"
    unfolding updateLvmdConf_def createLvmdConf_def Let_def by (intro emits_intros)
  from emits_at [OF this conf] have w3: "w_trace w3 = w_trace ?w1" by (auto simp: list_all_iff)
  from patch w3 have "w_trace w' = w_trace ?w1 @ [CmPatch cm cm2]"
    by (auto simp: wrapM_def PatchConfigMap_def external_def split: prod.splits sum.splits)
  moreover from st have "cm_lookup cm2 VgStatusConfigMapKey = Some (co_status (pe_codec env)
      (st\<lparr>nss_fail_classes := range_values (pe_ord env) ([] :: classes),
        nss_success_classes := range_values (pe_ord env) ?suc, nss_loops := loopsState\<rparr>))"
    by (simp add: updateVgStatus_def cm_lookup_set)
  moreover have "range_values (pe_ord env) ([] :: classes) = []"
    using map_range_values [of "[] :: classes" cs_vg_name "pe_ord env"] mset_range_keys [OF assms(1), of "[] :: classes"] assms(1)
    by simp
  ultimately show ?thesis
    using name_map_values [OF assms(4) [unfolded suc_vgs_def] assms(1)]
    by (intro exI [of _ cm2] exI conjI) (assumption | simp)+
qed

definition settled_status :: node_storage_state where
  "settled_status = old_status\<lparr>nss_fail_classes := [], nss_success_classes := [hdd_state\<lparr>cs_device_states := []\<rparr>]\<rparr>"

definition settled_run :: "unit outcome \<times> site world" where
  "settled_run = provisionWithNodeStatus site_env \<lparr>nd_node_name = ''n1'', nd_device_classes = [hdd_class]\<rparr> ([], [])
     node_cm (enc_status settled_status) [] (site_world idle_host)"

lemma settled_site: "settled_class (pe_os site_env) (w_env (site_world idle_host)) hdd_class"
proof -
  have h: "host_os ''nsenter'' (nsenter_args ''lvm'' (report_args ''vgs'' ''pv_name'' [''hdd''])) idle_host =
      (ok_result (rows_of ''PV_NAME'' [''/dev/sdb'', ''/dev/sdc'']), idle_host)" by code_simp
  have "parseLines (trim_space (rows_of ''PV_NAME'' [''/dev/sdb'', ''/dev/sdc''])) =
      Ok [[(''pv_name'', ''/dev/sdb'')], [(''pv_name'', ''/dev/sdc'')]]" by code_simp
  then have "reports (on_host host_os) (w_env (site_world idle_host)) ''hdd''
      (collect_field ''pv_name'' [[(''pv_name'', ''/dev/sdb'')], [(''pv_name'', ''/dev/sdc'')]])"
    using h by (intro reportsI [of _ _ _ "ok_result (rows_of ''PV_NAME'' [''/dev/sdb'', ''/dev/sdc''])"])
      (simp_all add: site_world_def on_host_def, simp_all add: ok_result_def)
  moreover have "collect_field ''pv_name'' [[(''pv_name'', ''/dev/sdb'')], [(''pv_name'', ''/dev/sdc'')]] =
      [(''/dev/sdb'', ''/dev/sdb''), (''/dev/sdc'', ''/dev/sdc'')]" by code_simp
  moreover have "dc_vg_name hdd_class = ''hdd''" "disk_name ` set (dc_device hdd_class) = {''/dev/sdb'', ''/dev/sdc''}"
    "list_all (\<lambda>x. \<not> (disk_type x = Loop \<and> disk_auto x)) (dc_device hdd_class)"
    by (simp_all add: hdd_class_def zero_device_class_def zero_disk_def)
  moreover have "pe_os site_env = on_host host_os" by (simp add: site_env_def)
  ultimately show ?thesis unfolding settled_class_def
    by (intro exI [of _ "[(''/dev/sdb'', ''/dev/sdb''), (''/dev/sdc'', ''/dev/sdc'')]"]) simp
qed

theorem settled_run_changes_nothing_witness:
  "\<exists>newCm st'. w_trace (snd settled_run) = class_queries hdd_class @ [CmPatch node_cm newCm]
     \<and> cm_lookup newCm VgStatusConfigMapKey = Some (enc_status st') \<and> nss_success_classes st' = [hdd_state\<lparr>cs_device_states := []\<rparr>]"
proof -
  have "case fst settled_run of Ok x \<Rightarrow> True | _ \<Rightarrow> False" by code_simp
  then have "fst settled_run = Ok ()" by (cases "fst settled_run") auto
  then obtain w' where run: "settled_run = (Ok (), w')" by (metis prod.collapse)
  have p: "co_status_parse (pe_codec site_env) (enc_status settled_status) = Inr settled_status"
    and c: "co_status (pe_codec site_env) = enc_status" and o: "range_order (pe_ord site_env)"
    by (simp_all add: site_env_def ref_codec_def)
  have f: "nss_fail_classes settled_status = []" and s: "nss_success_classes settled_status = [hdd_state\<lparr>cs_device_states := []\<rparr>]"
    and d: "distinct (suc_vgs settled_status)"
    and g: "set (suc_vgs settled_status) = dc_vg_name ` set (nd_device_classes \<lparr>nd_node_name = ''n1'', nd_device_classes = [hdd_class]\<rparr>)"
    by (simp_all add: settled_status_def suc_vgs_def hdd_class_def hdd_state_def)
  have c1: "\<forall>d \<in> set (nd_device_classes \<lparr>nd_node_name = ''n1'', nd_device_classes = [hdd_class]\<rparr>).
      settled_class (pe_os site_env) (w_env (site_world idle_host)) d" using settled_site by simp
  have t: "w_trace (site_world idle_host) = []" by (simp add: site_world_def)
  from settled_run_changes_nothing [OF o p f d g c1 run [unfolded settled_run_def]]
  show ?thesis unfolding c run snd_conv s t by auto
qed

end
