(* ===== verification/Monitor.thy ===== *)
theory Monitor
  imports K8sApi
begin

text \<open>
  \<open>pkg/operator/topolvm/monitor/status.go\<close>: the periodic check of the cluster.  From the pods of the
  node plugin, the conditions of the nodes and the classes each node has reported, it computes the
  phase of every node, the phase of the cluster and the exported metrics, and updates the status of
  the cluster object when it changed.  The lock it holds makes the computation and the update one
  step.
\<close>

record pod_info =
  pi_node_name :: string
  pi_phase :: string
  pi_containers_ready :: "bool list"

record 'e monitor_env =
  me_pods :: "'e \<Rightarrow> go_error + pod_info list"
  me_lvmd_cms :: "'e \<Rightarrow> go_error + config_map list"
  me_get_cluster :: "'e \<Rightarrow> go_error + topolvm_cluster"
  me_node_conditions :: "string \<Rightarrow> 'e \<Rightarrow> go_error + (string \<times> string) list"
  me_status_update :: "topolvm_cluster \<Rightarrow> ('e, unit) call"
  me_update :: "topolvm_cluster \<Rightarrow> ('e, unit) call"
  me_ord :: range_ord

type_synonym node_map = "node_storage_state gomap"

section \<open>The phase of a node\<close>

definition phase_of_pod :: "string \<Rightarrow> string \<times> 8 word" where
  "phase_of_pod phase =
     (if phase = ''Running'' then (ConditionReady, 0)
      else if phase = ''Unknown'' then (ConditionUnknown, 1)
      else if phase = ''Failed'' then (ConditionFailure, 1)
      else if phase = ''Pending'' then (ConditionPending, 1)
      else (ConditionUnknown, 1))"

definition node_phase :: "pod_info \<Rightarrow> string \<times> 8 word" where
  "node_phase item =
     (if list_all (\<lambda>ready. ready) (pi_containers_ready item) then phase_of_pod (pi_phase item)
      else (ConditionUnknown, 1))"

definition node_state :: "string \<Rightarrow> string \<Rightarrow> node_storage_state" where
  "node_state node phase = zero_node_storage_state\<lparr>nss_node := node, nss_phase := phase\<rparr>"

definition pod_step ::
  "pod_info \<Rightarrow> node_map \<times> node_status_metrics list \<Rightarrow> node_map \<times> node_status_metrics list" where
  "pod_step item st =
     (case (node_phase item, st) of ((phase, bad), (m, ms)) \<Rightarrow>
        (AList.update (pi_node_name item) (node_state (pi_node_name item) phase) m,
         ms @ [\<lparr>nsm_node = pi_node_name item, nsm_status = bad\<rparr>]))"

definition node_step ::
  "pod_info list \<Rightarrow> string \<Rightarrow> node_map \<times> node_status_metrics list \<Rightarrow> node_map \<times> node_status_metrics list" where
  "node_step pods node st =
     (let mine = filter (\<lambda>item. pi_node_name item = node) pods in
      if mine = [] then
        (AList.update node (node_state node ConditionUnknown) (fst st),
         snd st @ [\<lparr>nsm_node = node, nsm_status = 1\<rparr>])
      else fold pod_step mine st)"

text \<open>A node whose \<open>Ready\<close> condition is \<open>Unknown\<close> is unknown, and its metric is bad.\<close>

definition mark_bad :: "string \<Rightarrow> node_status_metrics list \<Rightarrow> node_status_metrics list" where
  "mark_bad node ms = map (\<lambda>n. if nsm_node n = node then n\<lparr>nsm_status := 1\<rparr> else n) ms"

definition unreachable :: "(string \<times> string) list \<Rightarrow> bool" where
  "unreachable conds = (\<exists>c \<in> set conds. c = (''Ready'', ''Unknown''))"

definition reachable_step ::
  "'e monitor_env \<Rightarrow> string \<Rightarrow> node_map \<times> node_status_metrics list
     \<Rightarrow> ('e, node_map \<times> node_status_metrics list) prog" where
  "reachable_step env key st =
     bindM (attempt (external [] (\<lambda>e. (me_node_conditions env key e, e)))) (\<lambda>r.
       ret (case r of
              Inl _ \<Rightarrow> st
            | Inr conds \<Rightarrow>
                if unreachable conds
                then (AList.map_entry key (\<lambda>n. n\<lparr>nss_phase := ConditionUnknown\<rparr>) (fst st), mark_bad key (snd st))
                else st))"

section \<open>The status of the cluster\<close>

text \<open>The computed phases go into the entries of the status; a node without an entry is added.\<close>

definition merge_node :: "string \<times> node_storage_state \<Rightarrow> node_storage_state list \<Rightarrow> node_storage_state list" where
  "merge_node kv items =
     (case kv of (key, val) \<Rightarrow>
        if \<exists>item \<in> set items. nss_node item = key
        then map (\<lambda>item. if nss_node item = key then item\<lparr>nss_phase := nss_phase val\<rparr> else item) items
        else items @ [val])"

definition merge_nodes :: "range_ord \<Rightarrow> node_map \<Rightarrow> node_storage_state list \<Rightarrow> node_storage_state list" where
  "merge_nodes ord m items =
     fold merge_node (List.map_filter (\<lambda>k. map_option (\<lambda>v. (k, v)) (map_of m k)) (range_keys ord m)) items"

definition has_ready_class :: "node_storage_state \<Rightarrow> bool" where
  "has_ready_class n = (\<exists>c \<in> set (nss_success_classes n). cs_state c = ClassReady)"

text \<open>
  The last loop reads \<open>n.Phase\<close> from the copy that \<open>range\<close> made before the entry was set to unknown:
  a node without a ready class still makes the cluster ready.
\<close>

definition settle ::
  "node_storage_state list \<Rightarrow> node_status_metrics list \<Rightarrow> cluster_status \<times> node_status_metrics list \<times> 8 word" where
  "settle items ms =
     (let items' = map (\<lambda>n. if \<not> has_ready_class n then n\<lparr>nss_phase := ConditionUnknown\<rparr> else n) items;
          ms' = fold (\<lambda>n ms. if \<not> has_ready_class n then mark_bad (nss_node n) ms else ms) items ms;
          clusterReady = (\<exists>n \<in> set items. nss_phase n = ConditionReady)
      in if clusterReady then (\<lparr>cst_phase = ConditionReady, cst_node_storage = items'\<rparr>, ms', 0)
         else (\<lparr>cst_phase = ConditionFailure, cst_node_storage = items'\<rparr>, ms', 1))"

definition monitored_nodes :: "'e monitor_env \<Rightarrow> topolvm_cluster \<Rightarrow> ('e, string list) prog" where
  "monitored_nodes env c =
     (let s = sp_storage (tc_spec c) in
      if st_use_all_nodes s then
        bindM (attempt (external [] (\<lambda>e. (me_lvmd_cms env e, e)))) (\<lambda>r.
          ret (case r of Inl _ \<Rightarrow> []
               | Inr cms \<Rightarrow> map (\<lambda>cm. map_get (cm_annotations cm) LvmdAnnotationsNodeKey) cms))
      else ret (case st_device_classes s of None \<Rightarrow> [] | Some nds \<Rightarrow> map nd_node_name nds))"

text \<open>A status that did not change is not written; the metrics go with a status that is.\<close>

definition send_status :: "'e monitor_env \<Rightarrow> topolvm_cluster \<Rightarrow> cluster_status \<Rightarrow> ('e, unit) prog" where
  "send_status env c cs =
     UpdateStatus (external [ClusterUpdateStatus (c\<lparr>tc_status := cs\<rparr>)] (me_status_update env (c\<lparr>tc_status := cs\<rparr>)))
       (external [ClusterUpdate (c\<lparr>tc_status := cs\<rparr>)] (me_update env (c\<lparr>tc_status := cs\<rparr>))) (tc_name c)"

definition write_status ::
  "'e monitor_env \<Rightarrow> topolvm_cluster \<Rightarrow> cluster_status \<Rightarrow> 8 word \<Rightarrow> node_status_metrics list \<Rightarrow> ('e, unit) prog" where
  "write_status env c cs clusterBad ms =
     (if tc_status c = cs then ret ()
      else
        bindM (emit (SendMetric \<lparr>mt_cluster = tc_name c, mt_cluster_status = clusterBad, mt_node_status = ms\<rparr>)) (\<lambda>_.
        bindM (attempt (send_status env c cs)) (\<lambda>_. ret ())))"

definition checkStatus :: "'e monitor_env \<Rightarrow> ('e, unit) prog" where
  "checkStatus env =
     bindM (attempt (external [] (\<lambda>e. (me_pods env e, e)))) (\<lambda>rp.
     bindM (attempt (external [] (\<lambda>e. (me_get_cluster env e, e)))) (\<lambda>rc.
       case rc of
         Inl _ \<Rightarrow> ret ()
       | Inr topolvmCluster \<Rightarrow>
           let pods = (case rp of Inl _ \<Rightarrow> [] | Inr ps \<Rightarrow> ps) in
           bindM (monitored_nodes env topolvmCluster) (\<lambda>nodes.
           let st = fold (node_step pods) nodes ([], []) in
           bindM (for_each (reachable_step env) (range_keys (me_ord env) (fst st)) st) (\<lambda>(m, ms).
           case settle (merge_nodes (me_ord env) m (cst_node_storage (tc_status topolvmCluster))) ms of
             (clusterStatus, ms', clusterBad) \<Rightarrow>
               write_status env topolvmCluster clusterStatus clusterBad ms'))))"

section \<open>Facts\<close>

lemma map_nodes_merge: "map nss_node (map (\<lambda>i. if P i then i\<lparr>nss_phase := p\<rparr> else i) xs) = map nss_node xs"
  by simp

lemma merge_node_names:
  "nss_node v = k \<Longrightarrow> map nss_node (merge_node (k, v) items) =
     map nss_node items @ (if k \<in> nss_node ` set items then [] else [k])"
  by (auto simp: merge_node_def intro: rev_image_eqI)

lemma merge_fold_names:
  "\<forall>kv \<in> set kvs. nss_node (snd kv) = fst kv \<Longrightarrow> distinct (map nss_node items) \<Longrightarrow>
     distinct (map nss_node (fold merge_node kvs items))
     \<and> nss_node ` set (fold merge_node kvs items) = nss_node ` set items \<union> fst ` set kvs"
proof (induction kvs arbitrary: items)
  case (Cons kv kvs)
  obtain k v where kv: "kv = (k, v)" by (cases kv)
  with Cons.prems have v: "nss_node v = k" by simp
  note names = merge_node_names [OF v, of items]
  have "distinct (map nss_node (merge_node kv items))" using Cons.prems(2) kv names by auto
  moreover have "nss_node ` set (merge_node kv items) = insert k (nss_node ` set items)"
    using arg_cong [OF names, of set] kv by auto
  ultimately show ?case using Cons.IH [of "merge_node kv items"] Cons.prems(1) kv by auto
qed simp

lemma settle_names: "map nss_node (cst_node_storage (fst (settle items ms))) = map nss_node items"
  by (simp add: settle_def Let_def)


text \<open>The map of the monitored nodes is keyed by the nodes' names, and its phases are declared ones.\<close>

definition declared_phases :: "string set" where
  "declared_phases = {ConditionReady, ConditionFailure, ConditionUnknown, ConditionPending}"

definition node_keyed :: "node_map \<Rightarrow> bool" where
  "node_keyed m = (well_keyed m \<and> (\<forall>k v. map_of m k = Some v \<longrightarrow> nss_node v = k \<and> nss_phase v \<in> declared_phases))"

lemma declared_simps [simp]: "ConditionUnknown \<in> declared_phases" "fst (node_phase item) \<in> declared_phases"
  by (simp_all add: declared_phases_def node_phase_def phase_of_pod_def)

lemma node_keyed_update:
  "node_keyed m \<Longrightarrow> p \<in> declared_phases \<Longrightarrow> node_keyed (AList.update k (node_state k p) m)"
  by (auto simp: node_keyed_def update_conv' node_state_def split: if_splits)

lemma pod_step_keyed: "node_keyed (fst st) \<Longrightarrow> node_keyed (fst (pod_step item st))"
  using node_keyed_update [of "fst st" "fst (node_phase item)"] declared_simps(2) [of item]
  by (cases st; cases "node_phase item") (simp add: pod_step_def del: declared_simps)

lemma pod_fold_keyed: "node_keyed (fst st) \<Longrightarrow> node_keyed (fst (fold pod_step items st))"
  by (induction items arbitrary: st) (auto simp: pod_step_keyed)

lemma node_fold_keyed: "node_keyed (fst st) \<Longrightarrow> node_keyed (fst (fold (node_step pods) nodes st))"
  by (induction nodes arbitrary: st) (auto simp: node_step_def Let_def node_keyed_update pod_fold_keyed)

lemma reachable_loop:
  "node_keyed (fst st) \<Longrightarrow> \<exists>st'. for_each (reachable_step env) keys st w = (Ok st', w) \<and> node_keyed (fst st')"
proof (induction keys arbitrary: st)
  case Nil
  then show ?case by (simp add: ret_def)
next
  case (Cons k keys)
  obtain st1 where s: "reachable_step env k st w = (Ok st1, w)" and k1: "node_keyed (fst st1)"
  proof (cases "me_node_conditions env k (w_env w)")
    case (Inl e)
    then show ?thesis using that [of st] Cons.prems
      by (simp add: reachable_step_def bindM_eqs(1) [OF attempt_external] ret_def)
  next
    case (Inr conds)
    have "node_keyed (AList.map_entry k (\<lambda>n. n\<lparr>nss_phase := ConditionUnknown\<rparr>) (fst st))"
      using Cons.prems by (auto simp: node_keyed_def map_of_map_entry split: if_splits)
    with Inr Cons.prems show ?thesis
      using that by (cases "unreachable conds")
        (auto simp: reachable_step_def bindM_eqs(1) [OF attempt_external] ret_def)
  qed
  from Cons.IH [OF k1] show ?case by (simp add: bindM_def s)
qed

lemma merge_nodes_names:
  assumes "node_keyed m" and "range_order ord" and "distinct (map nss_node items)"
  shows "distinct (map nss_node (merge_nodes ord m items))
    \<and> set (map nss_node (merge_nodes ord m items)) = nss_node ` set items \<union> {k. has_key m k}"
proof -
  let ?kvs = "List.map_filter (\<lambda>k. map_option (\<lambda>v. (k, v)) (map_of m k)) (range_keys ord m)"
  have "\<forall>kv \<in> set ?kvs. nss_node (snd kv) = fst kv"
    using assms(1) by (auto simp: List.map_filter_def node_keyed_def)
  moreover have "fst ` set ?kvs = {k. has_key m k}"
    using assms(2) by (force simp: List.map_filter_def set_range_keys has_key_def)
  ultimately show ?thesis using merge_fold_names [of ?kvs items] assms(3) by (simp add: merge_nodes_def)
qed

end
