(* ===== verification/Monitor_Props.thy ===== *)
theory Monitor_Props
  imports Monitor
begin

text \<open>
  What is proved of the cluster check: the status it writes names every node once and covers the nodes
  of the status it read, and the phase of the cluster does not take the classes into account.
\<close>

definition status_nodes :: "topolvm_cluster \<Rightarrow> string list" where
  "status_nodes c = map nss_node (cst_node_storage (tc_status c))"

lemma update_status_trace:
  "\<exists>evs. w_trace (snd (UpdateStatus (external [ev] f) (external [ev'] g) n w)) = w_trace w @ ev # evs
    \<and> set evs \<subseteq> {ev, ev'}"
proof -
  obtain r e1 where f: "f (w_env w) = (r, e1)" by fastforce
  obtain r2 e2 where g: "g e1 = (r2, e2)" by fastforce
  have guard: "\<not> is_conflict e \<or> \<not> is_invalid e" for e by (induction e) auto
  show ?thesis
    using f g guard
    by (cases r; cases r2)
      (auto simp: UpdateStatus_def status_or_update_def attempt_def bindM_def external_def ret_def failM_def)
qed

text \<open>A check of a cluster that is there: the status it computes, and what it does with it.\<close>

lemma checkStatus_run:
  assumes "me_get_cluster env (w_env w) = Inr c"
  obtains m ms cs ms' bad where "node_keyed m"
    and "settle (merge_nodes (me_ord env) m (cst_node_storage (tc_status c))) ms = (cs, ms', bad)"
    and "checkStatus env w =
      (if tc_status c = cs then ret ()
       else bindM (emit (SendMetric \<lparr>mt_cluster = tc_name c, mt_cluster_status = bad, mt_node_status = ms'\<rparr>)) (\<lambda>_.
            bindM (attempt (send_status env c cs)) (\<lambda>_. ret ()))) w"
proof -
  let ?pods = "case me_pods env (w_env w) of Inl _ \<Rightarrow> [] | Inr ps \<Rightarrow> ps"
  have "\<exists>nodes. monitored_nodes env c w = (Ok nodes, w)"
    by (cases "st_use_all_nodes (sp_storage (tc_spec c))")
      (simp_all add: monitored_nodes_def Let_def attempt_external bindM_def ret_def)
  then obtain nodes where nodes: "monitored_nodes env c w = (Ok nodes, w)" by blast
  let ?st = "fold (node_step ?pods) nodes ([], [])"
  have "node_keyed (fst ?st)" by (rule node_fold_keyed) (simp add: node_keyed_def)
  from reachable_loop [OF this, of env "range_keys (me_ord env) (fst ?st)" w] obtain m ms where
    l: "for_each (reachable_step env) (range_keys (me_ord env) (fst ?st)) ?st w = (Ok (m, ms), w)"
    and k: "node_keyed m" by auto
  obtain cs ms' bad where s: "settle (merge_nodes (me_ord env) m (cst_node_storage (tc_status c))) ms = (cs, ms', bad)"
    using prod_cases3 by blast
  have "checkStatus env w =
      (if tc_status c = cs then ret ()
       else bindM (emit (SendMetric \<lparr>mt_cluster = tc_name c, mt_cluster_status = bad, mt_node_status = ms'\<rparr>)) (\<lambda>_.
            bindM (attempt (send_status env c cs)) (\<lambda>_. ret ()))) w"
    unfolding checkStatus_def
    by (simp add: bindM_def attempt_external assms nodes l s Let_def write_status_def)
  with k s that show thesis by blast
qed

text \<open>
  C25: A check of the cluster writes at most one status, and only a changed one.  If the status it read
  names every node once, the check either emits nothing, or sends one metric and then updates the
  status; the status written names every node once, keeps all nodes of the old one, and differs from it.
\<close>

theorem check_status_writes:
  assumes "range_order (me_ord env)" and "me_get_cluster env (w_env w) = Inr c" and "distinct (status_nodes c)"
  shows "w_trace (snd (checkStatus env w)) = w_trace w
    \<or> (\<exists>ms c' evs. w_trace (snd (checkStatus env w)) = w_trace w @ SendMetric ms # ClusterUpdateStatus c' # evs
         \<and> set evs \<subseteq> {ClusterUpdateStatus c', ClusterUpdate c'}
         \<and> distinct (status_nodes c') \<and> set (status_nodes c) \<subseteq> set (status_nodes c') \<and> tc_status c' \<noteq> tc_status c)"
proof -
  obtain m ms cs ms' bad where k: "node_keyed m"
    and s: "settle (merge_nodes (me_ord env) m (cst_node_storage (tc_status c))) ms = (cs, ms', bad)"
    and run: "checkStatus env w =
      (if tc_status c = cs then ret ()
       else bindM (emit (SendMetric \<lparr>mt_cluster = tc_name c, mt_cluster_status = bad, mt_node_status = ms'\<rparr>)) (\<lambda>_.
            bindM (attempt (send_status env c cs)) (\<lambda>_. ret ()))) w"
    using checkStatus_run [where env = env and w = w and c = c, OF assms(2)] by metis
  let ?items = "merge_nodes (me_ord env) m (cst_node_storage (tc_status c))"
  note names = merge_nodes_names [OF k assms(1) assms(3) [unfolded status_nodes_def]]
  from settle_names [of ?items ms] s have cs: "map nss_node (cst_node_storage cs) = map nss_node ?items" by simp
  let ?c' = "c\<lparr>tc_status := cs\<rparr>"
  let ?mt = "\<lparr>mt_cluster = tc_name c, mt_cluster_status = bad, mt_node_status = ms'\<rparr>"
  show ?thesis
  proof (cases "tc_status c = cs")
    case True
    with run show ?thesis by (simp add: ret_def)
  next
    case False
    let ?w1 = "w\<lparr>w_trace := w_trace w @ [SendMetric ?mt]\<rparr>"
    from False run have "w_trace (snd (checkStatus env w)) = w_trace (snd (send_status env c cs ?w1))"
      by (auto simp: emit_def attempt_def bindM_def ret_def split: prod.splits outcome.splits)
    moreover obtain evs where "w_trace (snd (send_status env c cs ?w1)) = w_trace ?w1 @ ClusterUpdateStatus ?c' # evs"
      "set evs \<subseteq> {ClusterUpdateStatus ?c', ClusterUpdate ?c'}"
      using update_status_trace unfolding send_status_def by blast
    moreover have "distinct (status_nodes ?c')" "set (status_nodes c) \<subseteq> set (status_nodes ?c')"
      using names cs by (auto simp: status_nodes_def)
    ultimately show ?thesis using False
      by (intro disjI2 exI [of _ ?mt] exI [of _ ?c'] exI [of _ evs]) auto
  qed
qed

definition idle_cluster :: topolvm_cluster where
  "idle_cluster = \<lparr>tc_name = ''c'', tc_namespace = ''ns'', tc_finalizers = [], tc_deleted = False, tc_created = 0,
     tc_spec = \<lparr>sp_topolvm_version = [], sp_certs_secret = [],
       sp_storage = \<lparr>st_device_classes = Some [\<lparr>nd_node_name = ''n1'', nd_device_classes = []\<rparr>],
         st_use_all_nodes = False, st_use_all_devices = False, st_devices = None, st_volume_group_name = [],
         st_class_name = [], st_use_loop = False\<rparr>, sp_clean_up = False\<rparr>,
     tc_status = \<lparr>cst_phase = [], cst_node_storage = []\<rparr>\<rparr>"

definition idle_monitor :: "unit monitor_env" where
  "idle_monitor = \<lparr>me_pods = (\<lambda>e. Inr [\<lparr>pi_node_name = ''n1'', pi_phase = ''Running'', pi_containers_ready = [True]\<rparr>]),
     me_lvmd_cms = (\<lambda>e. Inr []), me_get_cluster = (\<lambda>e. Inr idle_cluster),
     me_node_conditions = (\<lambda>n e. Inr [(''Ready'', ''True'')]), me_status_update = (\<lambda>c e. (Inr (), e)),
     me_update = (\<lambda>c e. (Inr (), e)), me_ord = (\<lambda>ks. ks)\<rparr>"

definition quiet_world :: "unit world" where
  "quiet_world = \<lparr>w_env = (), w_trace = []\<rparr>"

theorem check_status_writes_witness:
  "\<exists>ms c' evs. w_trace (snd (checkStatus idle_monitor quiet_world)) = SendMetric ms # ClusterUpdateStatus c' # evs
     \<and> distinct (status_nodes c')"
proof -
  have o: "range_order (me_ord idle_monitor)" and g: "me_get_cluster idle_monitor (w_env quiet_world) = Inr idle_cluster"
    and d: "distinct (status_nodes idle_cluster)"
    by (simp_all add: idle_monitor_def status_nodes_def idle_cluster_def)
  have "length (w_trace (snd (checkStatus idle_monitor quiet_world))) = 2" by code_simp
  with check_status_writes [OF o g d] show ?thesis by (auto simp: quiet_world_def)
qed

text \<open>
  The phase of the cluster ignores the classes.  If some node's pods make its phase ready, the
  cluster is written as ready also when no node has a ready class, although every node is then
  written as unknown: the loop tests the phase on a copy taken before it was changed.
\<close>

theorem cluster_ready_without_ready_class:
  assumes "\<forall>n \<in> set items. \<not> has_ready_class n" and "\<exists>n \<in> set items. nss_phase n = ConditionReady"
  shows "cst_phase (fst (settle items ms)) = ConditionReady
    \<and> (\<forall>n \<in> set (cst_node_storage (fst (settle items ms))). nss_phase n = ConditionUnknown)"
  using assms by (auto simp: settle_def Let_def)

theorem cluster_ready_without_ready_class_witness:
  "cst_phase (fst (settle [node_state ''n1'' ConditionReady] [])) = ConditionReady
     \<and> \<not> has_ready_class (node_state ''n1'' ConditionReady)"
  using cluster_ready_without_ready_class [of "[node_state ''n1'' ConditionReady]" "[]"]
  by (simp add: node_state_def zero_node_storage_state_def has_ready_class_def)

end
