(* ===== verification/K8sPure.thy ===== *)
theory K8sPure
  imports World
begin

text \<open>
  The parts of \<open>pkg/operator\<close> that compute on Kubernetes objects: finalizers
  (\<open>controller/finalizer.go\<close>), owner references (\<open>controller/owner.go\<close>, \<open>k8sutil/resources.go\<close>),
  resource requirements, node selection (\<open>k8sutil/node.go\<close>, \<open>taints.go\<close>) and containers
  (\<open>k8sutil/pod.go\<close>).
\<close>

section \<open>Finalizers\<close>

fun contains :: "string list \<Rightarrow> string \<Rightarrow> bool" where
  "contains [] s = False"
| "contains (v # vs) s = (if v = s then True else contains vs s)"

text \<open>
  \<open>remove\<close> ranges over the slice it shortens.  The range keeps the original length and reads the
  backing array, which every \<open>append(list[:i], list[i+1:]...)\<close> shifts in place; \<open>list[i+1:]\<close> panics
  when \<open>i+1\<close> is beyond the shortened list.  The arguments are the backing array, the length of the
  list, and the index the range has reached.
\<close>

definition shift_out :: "nat \<Rightarrow> nat \<Rightarrow> string list \<Rightarrow> string list" where
  "shift_out i len arr = take i arr @ take (len - Suc i) (drop (Suc i) arr) @ drop (len - 1) arr"

function remove_from :: "string \<Rightarrow> nat \<Rightarrow> nat \<Rightarrow> string list \<Rightarrow> string list outcome" where
  "remove_from s i len arr =
     (if i \<ge> length arr then Ok (take len arr)
      else if arr ! i = s then
        (if Suc i > len then Panic ''slice bounds out of range''
         else if length (shift_out i len arr) = length arr
         then remove_from s (Suc i) (len - 1) (shift_out i len arr)
         else Panic ''unreachable'')
      else remove_from s (Suc i) len arr)"
  by pat_completeness auto
termination by (relation "measure (\<lambda>(s, i, len, arr). length arr - i)") auto

declare remove_from.simps [simp del]

definition remove :: "string list \<Rightarrow> string \<Rightarrow> string list outcome" where
  "remove list s = remove_from s 0 (length list) list"

definition CustomResourceGroup :: string where "CustomResourceGroup = ''topolvm.cybozu.com''"

definition buildFinalizerName :: "string \<Rightarrow> string" where
  "buildFinalizerName kind = to_lower kind @ ''.'' @ CustomResourceGroup"

lemma length_shift_out: "i < len \<Longrightarrow> len \<le> length arr \<Longrightarrow> length (shift_out i len arr) = length arr"
  by (simp add: shift_out_def)

lemma remove_from_absent:
  "\<forall>j. i \<le> j \<and> j < length arr \<longrightarrow> arr ! j \<noteq> s \<Longrightarrow> remove_from s i len arr = Ok (take len arr)"
proof (induction "length arr - i" arbitrary: i)
  case 0
  then show ?case by (subst remove_from.simps) simp
next
  case (Suc n)
  then have "i < length arr" by simp
  then have "remove_from s i len arr = remove_from s (Suc i) len arr"
    using Suc.prems by (subst remove_from.simps) auto
  moreover have "remove_from s (Suc i) len arr = Ok (take len arr)"
    using Suc.prems Suc.hyps(2) by (intro Suc.hyps(1)) auto
  ultimately show ?case by simp
qed

lemma remove_from_prefix:
  "s \<notin> set pre \<Longrightarrow> remove_from s i (length (done @ pre @ rest)) (done @ pre @ rest) =
     remove_from s (i + length pre) (length (done @ pre @ rest)) (done @ pre @ rest)"
  if "i = length done"
  using that
proof (induction pre arbitrary: i "done")
  case Nil
  then show ?case by simp
next
  case (Cons p pre)
  have at: "(done @ (p # pre) @ rest) ! i = p" using Cons.prems(2) by (simp add: nth_append)
  have "remove_from s i (length (done @ (p # pre) @ rest)) (done @ (p # pre) @ rest) =
      remove_from s (Suc i) (length (done @ (p # pre) @ rest)) (done @ (p # pre) @ rest)"
    using Cons.prems at by (subst remove_from.simps) auto
  also have "\<dots> = remove_from s (Suc i + length pre) (length (done @ (p # pre) @ rest)) (done @ (p # pre) @ rest)"
    using Cons.IH [of "Suc i" "done @ [p]"] Cons.prems by simp
  finally show ?case by simp
qed

text \<open>A list that holds the finalizer once loses exactly it.\<close>

lemma remove_once:
  assumes "s \<notin> set pre" and "s \<notin> set post"
  shows "remove (pre @ s # post) s = Ok (pre @ post)"
proof -
  let ?l = "pre @ s # post"
  have at: "?l ! length pre = s" by simp
  have sh: "shift_out (length pre) (length ?l) ?l = pre @ post @ drop (length ?l - 1) ?l"
    by (simp add: shift_out_def)
  have tail: "drop (length ?l - 1) ?l = (if post = [] then [s] else [last post])"
  proof (cases post rule: rev_cases)
    case (snoc ys y)
    then show ?thesis by simp
  qed simp
  have len: "length (pre @ post @ drop (length ?l - 1) ?l) = length ?l" by (simp add: tail)
  have "remove ?l s = remove_from s (length pre) (length ?l) ?l"
    using remove_from_prefix [of 0 "[]" s pre "s # post"] assms(1) by (simp add: remove_def)
  also have "\<dots> = remove_from s (Suc (length pre)) (length ?l - 1) (pre @ post @ drop (length ?l - 1) ?l)"
    using at sh len by (subst remove_from.simps) simp
  also have "\<dots> = Ok (take (length ?l - 1) (pre @ post @ drop (length ?l - 1) ?l))"
  proof (rule remove_from_absent, intro allI impI, elim conjE)
    fix j
    assume j: "Suc (length pre) \<le> j" "j < length (pre @ post @ drop (length ?l - 1) ?l)"
    show "(pre @ post @ drop (length ?l - 1) ?l) ! j \<noteq> s"
    proof (cases "post = []")
      case True
      with j show ?thesis by (simp add: tail)
    next
      case False
      with j len have "j - length pre < Suc (length post)" by (simp add: tail)
      then have "(post @ [last post]) ! (j - length pre) \<in> set post"
        using False by (cases "j - length pre = length post") (auto simp: nth_append)
      with assms(2) j False show ?thesis unfolding tail by (auto simp: nth_append)
    qed
  qed
  finally show ?thesis by simp
qed

lemma remove_twice_panics: "remove [s, s] s = Panic ''slice bounds out of range''"
  by (simp add: remove_def remove_from.simps shift_out_def)

section \<open>Owner references\<close>

text \<open>\<open>schema.ParseGroupVersion\<close> is an argument: the group of an API version, or an error.\<close>

type_synonym parse_group = "string \<Rightarrow> go_error + string"

record owner_matcher =
  om_uid :: string
  om_group :: string
  om_kind :: string

text \<open>\<open>metav1.GetControllerOf\<close>: the first reference whose \<open>Controller\<close> is set to true.\<close>

definition controller_of :: "owner_ref list \<Rightarrow> owner_ref option" where
  "controller_of refs = find (\<lambda>r. or_controller r = Some True) refs"

definition getOwnersReferences :: "owner_ref list \<Rightarrow> owner_ref list" where
  "getOwnersReferences refs = (case controller_of refs of Some r \<Rightarrow> [r] | None \<Rightarrow> [])"

fun match_owner :: "parse_group \<Rightarrow> owner_matcher \<Rightarrow> owner_ref list \<Rightarrow> go_error + bool" where
  "match_owner pg m [] = Inr False"
| "match_owner pg m (r # rs) =
     (case pg (or_api_version r) of
        Inl err \<Rightarrow> Inl (Wrapped (''could not parse api version '' @ or_api_version r) err)
      | Inr grp \<Rightarrow>
          if (om_uid m = [] \<or> (om_uid m \<noteq> [] \<and> or_uid r = om_uid m)) \<and> or_kind r = om_kind m \<and> grp = om_group m
          then Inr True else match_owner pg m rs)"

definition Match :: "parse_group \<Rightarrow> owner_matcher \<Rightarrow> owner_ref list \<Rightarrow> go_error + bool" where
  "Match pg m refs = match_owner pg m (getOwnersReferences refs)"

text \<open>
  The kind of an object: \<open>Scheme.ObjectKinds\<close> and \<open>apiutil.GVKForObject\<close> look it up in a table of the library, their
  results are arguments.  \<open>errors.Wrapf\<close> of no error is no error, so an owner without a kind is not refused.
\<close>

record gvk =
  gk_group :: string
  gk_version :: string
  gk_kind :: string

definition setOwnerTypeGroupKind :: "gvk list \<times> go_error option \<Rightarrow> owner_matcher \<Rightarrow> owner_matcher \<times> go_error option" where
  "setOwnerTypeGroupKind looked_up m =
     (case looked_up of (kinds, err) \<Rightarrow>
        if err \<noteq> None \<or> length kinds < 1 then (m, map_option (Wrapped ''could not get object kinds'') err)
        else (m\<lparr>om_group := gk_group (hd kinds), om_kind := gk_kind (hd kinds)\<rparr>, None))"

definition NewOwnerReferenceMatcher :: "gvk list \<times> go_error option \<Rightarrow> string \<Rightarrow> owner_matcher \<times> go_error option" where
  "NewOwnerReferenceMatcher looked_up uid =
     (case setOwnerTypeGroupKind looked_up \<lparr>om_uid = uid, om_group = [], om_kind = []\<rparr> of
        (m, Some err) \<Rightarrow> (m, Some (Wrapped ''failed to set ownerType %v'' err))
      | (m, None) \<Rightarrow> (m, None))"

text \<open>\<open>GroupVersion.String\<close> and \<open>metav1.NewControllerRef\<close> of the API machinery.\<close>

definition group_version :: "gvk \<Rightarrow> string" where
  "group_version k = (if gk_group k = [] then gk_version k else gk_group k @ ''/'' @ gk_version k)"

definition NewControllerRef :: "string \<Rightarrow> string \<Rightarrow> gvk \<Rightarrow> owner_ref" where
  "NewControllerRef name uid k =
     \<lparr>or_api_version = group_version k, or_kind = gk_kind k, or_name = name, or_uid = uid,
      or_controller = Some True, or_block_owner_deletion = Some True\<rparr>"

definition GetControllerObjectOwnerReference :: "go_error + gvk \<Rightarrow> string \<Rightarrow> string \<Rightarrow> go_error + owner_ref option" where
  "GetControllerObjectOwnerReference looked_up name uid =
     (case looked_up of Inl err \<Rightarrow> Inl err | Inr k \<Rightarrow> Inr (Some (NewControllerRef name uid k)))"

text \<open>
  What the reference of an owner makes a child of it, its matcher finds, and it finds nothing of another owner's.
\<close>

lemma own_children_match:
  assumes "GetControllerObjectOwnerReference (Inr k) name uid = Inr (Some r)" and "pg (group_version k) = Inr (gk_group k)"
    and "NewOwnerReferenceMatcher (k # ks, None) uid' = (m, None)" and "uid \<noteq> []" and "uid' \<noteq> []"
    and "controller_of refs = None"
  shows "Match pg m (refs @ [r]) = Inr (uid' = uid)"
proof -
  have "find (\<lambda>r. or_controller r = Some True) (refs @ [r]) = Some r"
    using assms(1,6) by (induction refs) (auto simp: controller_of_def GetControllerObjectOwnerReference_def NewControllerRef_def split: if_splits)
  moreover have "r = NewControllerRef name uid k" and "m = \<lparr>om_uid = uid', om_group = gk_group k, om_kind = gk_kind k\<rparr>"
    using assms(1,3) by (simp_all add: GetControllerObjectOwnerReference_def NewOwnerReferenceMatcher_def setOwnerTypeGroupKind_def)
  ultimately show ?thesis using assms(2,4,5)
    by (auto simp: Match_def getOwnersReferences_def controller_of_def NewControllerRef_def)
qed

lemma kindless_owner_accepted: "NewOwnerReferenceMatcher ([], None) uid = (\<lparr>om_uid = uid, om_group = [], om_kind = []\<rparr>, None)"
  by (simp add: NewOwnerReferenceMatcher_def setOwnerTypeGroupKind_def)

text \<open>
  \<open>OwnerInfo\<close> made by \<open>NewOwnerInfoWithOwnerRef\<close> (\<open>owner\<close> is nil): the reference to set and the namespace
  it is in.  The object is its name, its namespace and its references.
\<close>

record owner_info =
  oi_ref :: "owner_ref option"
  oi_ref_namespace :: string

definition NewOwnerInfoWithOwnerRef :: "owner_ref option \<Rightarrow> string \<Rightarrow> owner_info" where
  "NewOwnerInfoWithOwnerRef ownerRef namespace = \<lparr>oi_ref = ownerRef, oi_ref_namespace = namespace\<rparr>"

record owned =
  ow_name :: string
  ow_namespace :: string
  ow_refs :: "owner_ref list"

definition validateOwner :: "owner_info \<Rightarrow> owner_ref \<Rightarrow> owned \<Rightarrow> go_error option" where
  "validateOwner info r object =
     (if oi_ref_namespace info = [] then None
      else if ow_namespace object = []
      then Some (Msg (''cluster-scoped resource '' @ ow_name object @ '' must not have a namespaced resource ''
             @ or_name r @ '' in namespace '' @ oi_ref_namespace info))
      else if oi_ref_namespace info \<noteq> ow_namespace object
      then Some (Msg (''cross-namespaced owner references are disallowed. resource '' @ ow_name object
             @ '' is in namespace '' @ ow_namespace object @ '', owner '' @ or_name r @ '' is in ''
             @ oi_ref_namespace info))
      else None)"

definition validateController :: "owner_ref \<Rightarrow> owned \<Rightarrow> go_error option" where
  "validateController r object =
     (case controller_of (ow_refs object) of
        Some existing \<Rightarrow>
          if or_uid existing \<noteq> or_uid r
          then Some (Msg (ow_name object @ '' already set its controller '' @ or_name r)) else None
      | None \<Rightarrow> None)"

definition referSameObject :: "parse_group \<Rightarrow> owner_ref \<Rightarrow> owner_ref \<Rightarrow> bool" where
  "referSameObject pg a b =
     (case (pg (or_api_version a), pg (or_api_version b)) of
        (Inr ga, Inr gb) \<Rightarrow> ga = gb \<and> or_kind a = or_kind b \<and> or_name a = or_name b
      | _ \<Rightarrow> False)"

definition SetOwnerReference :: "parse_group \<Rightarrow> owner_info \<Rightarrow> owned \<Rightarrow> go_error + owned" where
  "SetOwnerReference pg info object =
     (case oi_ref info of
        None \<Rightarrow> Inr object
      | Some r \<Rightarrow>
         (case validateOwner info r object of
            Some err \<Rightarrow> Inl err
          | None \<Rightarrow>
              if \<exists>v \<in> set (ow_refs object). referSameObject pg v r then Inr object
              else Inr (object\<lparr>ow_refs := ow_refs object @ [r]\<rparr>)))"

text \<open>The reference itself is changed too (it is a pointer), so it is returned.\<close>

definition SetControllerReference :: "owner_info \<Rightarrow> owned \<Rightarrow> go_error + (owner_info \<times> owned)" where
  "SetControllerReference info object =
     (case oi_ref info of
        None \<Rightarrow> Inr (info, object)
      | Some r \<Rightarrow>
         (case validateOwner info r object of
            Some err \<Rightarrow> Inl err
          | None \<Rightarrow>
             (case validateController r object of
                Some err \<Rightarrow> Inl err
              | None \<Rightarrow>
                  let r' = r\<lparr>or_block_owner_deletion :=
                                (case or_block_owner_deletion r of None \<Rightarrow> Some True | Some b \<Rightarrow> Some b),
                             or_controller := Some True\<rparr>
                  in Inr (info\<lparr>oi_ref := Some r'\<rparr>, object\<lparr>ow_refs := ow_refs object @ [r']\<rparr>))))"

definition SetOwnerRefsWithoutBlockOwner :: "owned \<Rightarrow> owner_ref list option \<Rightarrow> owned" where
  "SetOwnerRefsWithoutBlockOwner object refs =
     (case refs of
        None \<Rightarrow> object
      | Some rs \<Rightarrow> object\<lparr>ow_refs := map (\<lambda>r. r\<lparr>or_controller := None, or_block_owner_deletion := None\<rparr>) rs\<rparr>)"

section \<open>Resource requirements\<close>

text \<open>A resource list is a map that can be nil; \<open>'q\<close> is a quantity.\<close>

record 'q requirements =
  rq_limits :: "'q gomap option"
  rq_requests :: "'q gomap option"

definition res_get :: "'q gomap option \<Rightarrow> string \<Rightarrow> 'q option" where
  "res_get m k = (case m of None \<Rightarrow> None | Some d \<Rightarrow> map_of d k)"

definition fill :: "string \<Rightarrow> 'q gomap option \<Rightarrow> 'q gomap option \<Rightarrow> 'q gomap option" where
  "fill k second first =
     (case res_get first k of
        Some _ \<Rightarrow> first
      | None \<Rightarrow>
         (case res_get second k of
            None \<Rightarrow> first
          | Some q \<Rightarrow> Some (AList.update k q (case first of None \<Rightarrow> [] | Some d \<Rightarrow> d))))"

definition MergeResourceRequirements :: "'q requirements \<Rightarrow> 'q requirements \<Rightarrow> 'q requirements" where
  "MergeResourceRequirements first second =
     first\<lparr>rq_limits := fill ''memory'' (rq_limits second) (fill ''cpu'' (rq_limits second) (rq_limits first)),
           rq_requests := fill ''memory'' (rq_requests second) (fill ''cpu'' (rq_requests second) (rq_requests first))\<rparr>"

section \<open>Nodes\<close>

record taint =
  ta_key :: string
  ta_value :: string
  ta_effect :: string

record k8s_node =
  kn_name :: string
  kn_labels :: "string gomap"
  kn_annotations :: "string gomap"
  kn_unschedulable :: bool
  kn_taints :: "taint list"
  kn_conditions :: "(string \<times> string) list"

definition LabelHostname :: string where "LabelHostname = ''kubernetes.io/hostname''"

definition WellKnownTaints :: "string list" where
  "WellKnownTaints =
     [''node.kubernetes.io/not-ready'', ''node.kubernetes.io/unreachable'', ''node.kubernetes.io/unschedulable'',
      ''node.kubernetes.io/memory-pressure'', ''node.kubernetes.io/disk-pressure'',
      ''node.kubernetes.io/network-unavailable'', ''node.kubernetes.io/pid-pressure'',
      ''node.cloudprovider.kubernetes.io/uninitialized'', ''node.cloudprovider.kubernetes.io/shutdown'']"

definition TaintIsWellKnown :: "taint \<Rightarrow> bool" where
  "TaintIsWellKnown t = (\<exists>w \<in> set WellKnownTaints. ta_key t = w)"

text \<open>\<open>Toleration.ToleratesTaint\<close> is an argument; \<open>'t\<close> is a toleration.\<close>

definition NodeIsTolerable :: "('t \<Rightarrow> taint \<Rightarrow> bool) \<Rightarrow> k8s_node \<Rightarrow> 't list \<Rightarrow> bool \<Rightarrow> bool" where
  "NodeIsTolerable tolerates node tolerations ignoreWellKnownTaints =
     list_all (\<lambda>taint. ignoreWellKnownTaints \<and> TaintIsWellKnown taint \<or> list_ex (\<lambda>t. tolerates t taint) tolerations)
       (kn_taints node)"

definition NodeIsReady :: "k8s_node \<Rightarrow> bool" where
  "NodeIsReady node = list_ex (\<lambda>c. fst c = ''Ready'' \<and> snd c = ''True'') (kn_conditions node)"

definition GetNodeSchedulable :: "k8s_node \<Rightarrow> bool" where
  "GetNodeSchedulable node = (\<not> kn_unschedulable node)"

definition GetNodeHostNameLabel :: "k8s_node \<Rightarrow> go_error + string" where
  "GetNodeHostNameLabel node =
     (case map_of (kn_labels node) LabelHostname of
        Some hostname \<Rightarrow> Inr hostname
      | None \<Rightarrow> Inl (Msg ''hostname not found on the node''))"

definition normalizeHostname :: "k8s_node \<Rightarrow> string" where
  "normalizeHostname node =
     (let hostname = map_get (kn_labels node) LabelHostname in if hostname = [] then kn_name node else hostname)"

text \<open>The node calls of the API server; the selector of a list is its text.\<close>

record 'e node_api =
  na_list :: "string \<Rightarrow> 'e \<Rightarrow> go_error + k8s_node list"
  na_get :: "string \<Rightarrow> 'e \<Rightarrow> go_error + k8s_node"
  na_patch :: "k8s_node \<Rightarrow> k8s_node \<Rightarrow> ('e, unit) call"

definition list_nodes :: "'e node_api \<Rightarrow> string \<Rightarrow> ('e, k8s_node list) prog" where
  "list_nodes api sel = external [] (\<lambda>e. (na_list api sel e, e))"

definition GetNodeNameFromHostname :: "'e node_api \<Rightarrow> string \<Rightarrow> ('e, string \<times> go_error option) prog" where
  "GetNodeNameFromHostname api hostName =
     bindM (attempt (list_nodes api (LabelHostname @ ''='' @ hostName))) (\<lambda>r.
       ret (case r of
              Inl err \<Rightarrow> (hostName, Some err)
            | Inr [] \<Rightarrow> (hostName, Some (Msg ''node not found''))
            | Inr (node # _) \<Rightarrow> (kn_name node, None)))"

definition GetNodeHostName :: "'e node_api \<Rightarrow> string \<Rightarrow> ('e, string) prog" where
  "GetNodeHostName api nodeName =
     bindM (external [] (\<lambda>e. (na_get api nodeName e, e))) (\<lambda>node. lift_sum (GetNodeHostNameLabel node))"

definition GetNodeHostNames :: "'e node_api \<Rightarrow> ('e, string gomap) prog" where
  "GetNodeHostNames api =
     bindM (list_nodes api []) (\<lambda>nodes.
       ret (fold (\<lambda>n. AList.update (kn_name n) (map_get (kn_labels n) LabelHostname)) nodes []))"

definition GetNotReadyKubernetesNodes :: "'e node_api \<Rightarrow> ('e, k8s_node list) prog" where
  "GetNotReadyKubernetesNodes api =
     bindM (attempt (list_nodes api [])) (\<lambda>r.
       case r of
         Inl err \<Rightarrow> failM (Msg (''failed to list kubernetes nodes. '' @ err_text err))
       | Inr nodes \<Rightarrow> ret (filter (\<lambda>n. \<not> NodeIsReady n) nodes))"

section \<open>Node affinity\<close>

record match_expression =
  mx_key :: string
  mx_operator :: string
  mx_values :: "string list"

text \<open>
  \<open>labels.NewRequirement\<close> and the match of a requirement are arguments (\<open>'r\<close> is a requirement); a
  selector is the conjunction of its requirements, and \<open>labels.Nothing()\<close> matches nothing.
\<close>

datatype 'r selector = SelectNothing | Requirements "'r list"

definition selector_matches :: "('r \<Rightarrow> string gomap \<Rightarrow> bool) \<Rightarrow> 'r selector \<Rightarrow> string gomap \<Rightarrow> bool" where
  "selector_matches matches s labels =
     (case s of SelectNothing \<Rightarrow> False | Requirements rs \<Rightarrow> list_all (\<lambda>r. matches r labels) rs)"

definition node_operators :: "string list" where
  "node_operators = [''In'', ''NotIn'', ''Exists'', ''DoesNotExist'', ''Gt'', ''Lt'']"

fun add_requirements ::
  "(match_expression \<Rightarrow> go_error + 'r) \<Rightarrow> match_expression list \<Rightarrow> 'r list \<Rightarrow> go_error + 'r list" where
  "add_requirements new_req [] rs = Inr rs"
| "add_requirements new_req (expr # es) rs =
     (if mx_operator expr \<notin> set node_operators
      then Inl (Msg (mx_operator expr @ '' is not a valid node selector operator''))
      else case new_req expr of
             Inl err \<Rightarrow> Inl err
           | Inr r \<Rightarrow> add_requirements new_req es (rs @ [r]))"

definition nodeSelectorRequirementsAsSelector ::
  "(match_expression \<Rightarrow> go_error + 'r) \<Rightarrow> match_expression list \<Rightarrow> go_error + 'r selector" where
  "nodeSelectorRequirementsAsSelector new_req nsm =
     (if nsm = [] then Inr SelectNothing
      else case add_requirements new_req nsm [] of Inl err \<Rightarrow> Inl err | Inr rs \<Rightarrow> Inr (Requirements rs))"

fun meets_terms ::
  "(match_expression \<Rightarrow> go_error + 'r) \<Rightarrow> ('r \<Rightarrow> string gomap \<Rightarrow> bool) \<Rightarrow> string gomap
     \<Rightarrow> match_expression list list \<Rightarrow> go_error + bool" where
  "meets_terms new_req matches labels [] = Inr False"
| "meets_terms new_req matches labels (req # reqs) =
     (case nodeSelectorRequirementsAsSelector new_req req of
        Inl err \<Rightarrow> Inl (Msg (''failed to parse affinity MatchExpressions, regarding as not match. '' @ err_text err))
      | Inr sel \<Rightarrow>
          if selector_matches matches sel labels then Inr True else meets_terms new_req matches labels reqs)"

definition NodeMeetsAffinityTerms ::
  "(match_expression \<Rightarrow> go_error + 'r) \<Rightarrow> ('r \<Rightarrow> string gomap \<Rightarrow> bool) \<Rightarrow> k8s_node
     \<Rightarrow> match_expression list list option \<Rightarrow> go_error + bool" where
  "NodeMeetsAffinityTerms new_req matches node affinity =
     (case affinity of None \<Rightarrow> Inr True | Some terms \<Rightarrow> meets_terms new_req matches (kn_labels node) terms)"

text \<open>
  \<open>IsQualifiedName\<close> and \<open>IsValidLabelValue\<close> (apimachinery's validation) are arguments.  The values
  are validated without their surrounding spaces but kept with them.
\<close>

record label_rules =
  lr_qualified :: "string \<Rightarrow> bool"
  lr_valid_value :: "string \<Rightarrow> bool"

definition label_expression :: "label_rules \<Rightarrow> string \<Rightarrow> go_error + match_expression option" where
  "label_expression rules nodeLabel =
     (case split_on (CHR ''='') nodeLabel of
        k # v # _ \<Rightarrow>
          let key = trim_char (CHR '' '') k; vals = split_on (CHR '','') v in
          if key = [] then Inr None
          else if \<not> lr_qualified rules key then Inl (Msg (''invalid label key: '' @ key))
          else (case find (\<lambda>x. \<not> lr_valid_value rules x) (map (trim_char (CHR '' '')) vals) of
                  Some bad \<Rightarrow> Inl (Msg (''invalid label value: '' @ bad))
                | None \<Rightarrow> Inr (Some \<lparr>mx_key = key, mx_operator = ''In'', mx_values = vals\<rparr>))
      | ks \<Rightarrow>
          let key = trim_char (CHR '' '') (concat ks) in
          if key = [] then Inr None
          else if \<not> lr_qualified rules key then Inl (Msg (''invalid label key: '' @ key))
          else Inr (Some \<lparr>mx_key = key, mx_operator = ''Exists'', mx_values = []\<rparr>))"

fun label_expressions :: "label_rules \<Rightarrow> string list \<Rightarrow> go_error + match_expression list" where
  "label_expressions rules [] = Inr []"
| "label_expressions rules (l # ls) =
     (case label_expression rules l of
        Inl err \<Rightarrow> Inl err
      | Inr e \<Rightarrow>
         (case label_expressions rules ls of
            Inl err \<Rightarrow> Inl err
          | Inr es \<Rightarrow> Inr ((case e of None \<Rightarrow> [] | Some x \<Rightarrow> [x]) @ es)))"

text \<open>The one term of the affinity that is generated.\<close>

definition GenerateNodeAffinity :: "label_rules \<Rightarrow> string \<Rightarrow> go_error + match_expression list list" where
  "GenerateNodeAffinity rules nodeAffinity =
     (case label_expressions rules (split_on (CHR '';'') nodeAffinity) of
        Inl err \<Rightarrow> Inl err | Inr es \<Rightarrow> Inr [es])"

section \<open>Containers\<close>

record container_image =
  ci_name :: string
  ci_image :: string

definition GetMatchingContainer :: "container_image list \<Rightarrow> string \<Rightarrow> go_error + container_image" where
  "GetMatchingContainer containers name =
     (case (case containers of [c] \<Rightarrow> Some c | _ \<Rightarrow> find (\<lambda>c. ci_name c = name) containers) of
        Some c \<Rightarrow> Inr c
      | None \<Rightarrow> Inl (Msg (''failed to find image for container '' @ name)))"

definition GetSpecContainerImage ::
  "container_image list \<Rightarrow> container_image list \<Rightarrow> string \<Rightarrow> bool \<Rightarrow> go_error + string" where
  "GetSpecContainerImage containers initContainers name initContainer =
     (case GetMatchingContainer (if initContainer then initContainers else containers) name of
        Inl err \<Rightarrow> Inl err | Inr c \<Rightarrow> Inr (ci_image c))"

definition GetContainerImage :: "container_image list \<Rightarrow> container_image list \<Rightarrow> string \<Rightarrow> go_error + string" where
  "GetContainerImage containers initContainers name = GetSpecContainerImage containers initContainers name False"

text \<open>
  \<open>GetRunningPod\<close>: the second test repeats the first variable, so an unset namespace is not detected.
\<close>

definition GetRunningPod ::
  "(string \<Rightarrow> string) \<Rightarrow> (string \<Rightarrow> string \<Rightarrow> ('e, 'p) prog) \<Rightarrow> ('e, 'p) prog" where
  "GetRunningPod getenv get_pod =
     (let podName = getenv ''POD_NAME''; podNamespace = getenv ''POD_NAMESPACE'' in
      if podName = []
      then failM (Msg ''cannot detect the pod name. Please provide it using the downward API in the manifest file'')
      else if podName = []
      then failM (Msg ''cannot detect the pod namespace. Please provide it using the downward API in the manifest file'')
      else get_pod podNamespace podName)"

end
