(* ===== verification/CsiUtil.thy ===== *)
theory CsiUtil
  imports K8sApi K8sPure
begin

text \<open>
  \<open>pkg/operator/csi\<close> (the parameters of the CSI drivers' templates and what the operator's settings
  change in the pods they describe) and the parsers of settings in \<open>k8sutil/tolerations.go\<close> and
  \<open>k8sutil/resources.go\<close>.  Templates (\<open>text/template\<close>) and YAML are arguments.
\<close>

section \<open>Pods, deployments and the parameters of a template\<close>

record toleration =
  tl_key :: string
  tl_operator :: string
  tl_value :: string
  tl_effect :: string

datatype env_value = EnvValue string | EnvField string

record volume_mount =
  vm_name :: string
  vm_path :: string
  vm_read_only :: bool

record pod_container =
  pc_name :: string
  pc_image :: string
  pc_command :: "string list"
  pc_resources :: "string requirements"
  pc_mounts :: "volume_mount list"
  pc_env :: "(string \<times> env_value) list"
  pc_privileged :: bool

datatype volume_source = FromConfigMap string | FromSecret string | EmptyDir | FromHostPath string

text \<open>A node affinity is its required terms, if it has any; \<open>&v1.NodeAffinity{}\<close> has none.\<close>

type_synonym node_affinity = "match_expression list list option"

record anti_affinity =
  aa_key :: string
  aa_operator :: string
  aa_values :: "string list"
  aa_topology_key :: string

record pod_spec =
  ps_containers :: "pod_container list"
  ps_init_containers :: "pod_container list"
  ps_volumes :: "(string \<times> volume_source) list"
  ps_tolerations :: "toleration list"
  ps_node_affinity :: "node_affinity option"
  ps_anti_affinity :: "anti_affinity option"
  ps_node_selector :: "string gomap"
  ps_service_account :: string
  ps_host_pid :: bool

text \<open>A deployment or a daemon set; \<open>wl_labels\<close> are the labels of its pods, which it selects.\<close>

record workload =
  wl_name :: string
  wl_namespace :: string
  wl_annotations :: "string gomap"
  wl_labels :: "string gomap"
  wl_owners :: "owner_ref list"
  wl_strategy :: string
  wl_pod :: pod_spec

record csi_driver =
  cd_name :: string
  cd_attach_required :: bool
  cd_pod_info_on_mount :: bool
  cd_storage_capacity :: bool
  cd_modes :: "string list"

record csi_param =
  cp_raw_device_image :: string
  cp_registrar_image :: string
  cp_provisioner_image :: string
  cp_attacher_image :: string
  cp_snapshotter_image :: string
  cp_liveness_image :: string
  cp_resizer_image :: string
  cp_driver_name_prefix :: string
  cp_kubelet_dir :: string
  cp_log_level :: "8 word"
  cp_plugin_priority :: string
  cp_provisioner_priority :: string
  cp_replicas :: "32 word"
  cp_topolvm_image :: string

record template_param =
  tp_param :: csi_param
  tp_namespace :: string

definition zero_param :: csi_param where
  "zero_param = \<lparr>cp_raw_device_image = [], cp_registrar_image = [], cp_provisioner_image = [],
     cp_attacher_image = [], cp_snapshotter_image = [], cp_liveness_image = [], cp_resizer_image = [],
     cp_driver_name_prefix = [], cp_kubelet_dir = [], cp_log_level = 0, cp_plugin_priority = [],
     cp_provisioner_priority = [], cp_replicas = 0, cp_topolvm_image = []\<rparr>"

definition DefaultRegistrarImage :: string where
  "DefaultRegistrarImage = ''k8s.gcr.io/sig-storage/csi-node-driver-registrar:v2.3.0''"
definition DefaultProvisionerImage :: string where
  "DefaultProvisionerImage = ''k8s.gcr.io/sig-storage/csi-provisioner:v3.0.0''"
definition DefaultLivenessImage :: string where
  "DefaultLivenessImage = ''k8s.gcr.io/sig-storage/livenessprobe:v2.4.0''"
definition DefaultResizerImage :: string where
  "DefaultResizerImage = ''k8s.gcr.io/sig-storage/csi-resizer:v1.3.0''"
definition DefaultSnapshotterImage :: string where
  "DefaultSnapshotterImage = ''k8s.gcr.io/sig-storage/csi-snapshotter:v4.2.0''"
definition DefaultKubeletDir :: string where
  "DefaultKubeletDir = ''/var/lib/kubelet''"

section \<open>What is not the program: templates, YAML, label rules and the environment\<close>

record container_resource =
  cr_name :: string
  cr_resource :: "string requirements"

record csi_lib =
  cl_env :: "string \<Rightarrow> string option"
  cl_template :: "string \<Rightarrow> template_param \<Rightarrow> go_error + string"
  cl_workload :: "string \<Rightarrow> go_error + workload"
  cl_driver :: "string \<Rightarrow> go_error + csi_driver"
  cl_yaml_json :: "string \<Rightarrow> go_error + string"
  cl_tolerations :: "string \<Rightarrow> go_error + toleration list"
  cl_resources :: "string \<Rightarrow> container_resource list \<times> go_error option"
  cl_rules :: label_rules

definition loadTemplate :: "csi_lib \<Rightarrow> string \<Rightarrow> template_param \<Rightarrow> go_error + string" where
  "loadTemplate lib name p = cl_template lib name p"

text \<open>The four \<open>TemplateTo...\<close> functions: the text is rendered, then read as an object of that kind.\<close>

definition template_to ::
  "csi_lib \<Rightarrow> (string \<Rightarrow> go_error + 'o) \<Rightarrow> string \<Rightarrow> string \<Rightarrow> template_param \<Rightarrow> go_error + 'o" where
  "template_to lib unmarshal kind name p =
     (case loadTemplate lib name p of
        Inl err \<Rightarrow> Inl (Wrapped (''failed to load '' @ kind @ '' template'') err)
      | Inr t \<Rightarrow>
         (case unmarshal t of
            Inl err \<Rightarrow> Inl (Wrapped (''failed to unmarshal '' @ kind @ '' template'') err)
          | Inr obj \<Rightarrow> Inr obj))"

definition TemplateToDeployment :: "csi_lib \<Rightarrow> string \<Rightarrow> template_param \<Rightarrow> go_error + workload" where
  "TemplateToDeployment lib = template_to lib (cl_workload lib) ''deployment''"

definition TemplateToDaemonSet :: "csi_lib \<Rightarrow> string \<Rightarrow> template_param \<Rightarrow> go_error + workload" where
  "TemplateToDaemonSet lib = template_to lib (cl_workload lib) ''daemonset''"

definition TemplateToCSIDriver :: "csi_lib \<Rightarrow> string \<Rightarrow> template_param \<Rightarrow> go_error + csi_driver" where
  "TemplateToCSIDriver lib = template_to lib (cl_driver lib) ''csi driver''"

section \<open>Settings\<close>

text \<open>\<open>yaml.ToJSON\<close> and \<open>json.Unmarshal\<close> are arguments; the second can leave a partial list behind.\<close>

definition YamlToTolerations :: "csi_lib \<Rightarrow> string \<Rightarrow> go_error + toleration list" where
  "YamlToTolerations lib raw =
     (if raw = [] then Inr []
      else case cl_yaml_json lib raw of
             Inl err \<Rightarrow> Inl err
           | Inr rawJSON \<Rightarrow> cl_tolerations lib rawJSON)"

definition YamlToContainerResource :: "csi_lib \<Rightarrow> string \<Rightarrow> container_resource list \<times> go_error option" where
  "YamlToContainerResource lib raw =
     (if raw = [] then ([], None)
      else case cl_yaml_json lib raw of
             Inl err \<Rightarrow> ([], Some err)
           | Inr rawJSON \<Rightarrow> cl_resources lib rawJSON)"

type_synonym op_data = "string gomap option"

definition getComputeResource :: "csi_lib \<Rightarrow> op_data \<Rightarrow> string \<Rightarrow> container_resource list" where
  "getComputeResource lib opConfig key =
     (let resourceRaw = GetValue (cl_env lib) opConfig key [] in
      if resourceRaw \<noteq> [] then fst (YamlToContainerResource lib resourceRaw) else [])"

text \<open>Every matching entry is applied in turn, so the last one of a name wins.\<close>

definition ApplyResourcesToContainers :: "csi_lib \<Rightarrow> op_data \<Rightarrow> string \<Rightarrow> pod_spec \<Rightarrow> pod_spec" where
  "ApplyResourcesToContainers lib opConfig key podspec =
     (let rs = getComputeResource lib opConfig key in
      if rs = [] then podspec
      else podspec\<lparr>ps_containers :=
             map (\<lambda>c. fold (\<lambda>r c. if pc_name c = cr_name r then c\<lparr>pc_resources := cr_resource r\<rparr> else c) rs c)
               (ps_containers podspec)\<rparr>)"

definition fix_toleration :: "toleration \<Rightarrow> toleration" where
  "fix_toleration t =
     (let t1 = (if tl_key t = [] then t\<lparr>tl_operator := ''Exists''\<rparr> else t) in
      if tl_operator t1 = ''Exists'' then t1\<lparr>tl_value := []\<rparr> else t1)"

definition GetToleration :: "csi_lib \<Rightarrow> op_data \<Rightarrow> string \<Rightarrow> toleration list \<Rightarrow> toleration list" where
  "GetToleration lib opConfig tolerationsName defaultTolerations =
     (let tolerationsRaw = GetValue (cl_env lib) opConfig tolerationsName [] in
      if tolerationsRaw = [] then defaultTolerations
      else case YamlToTolerations lib tolerationsRaw of
             Inl _ \<Rightarrow> defaultTolerations
           | Inr ts \<Rightarrow> map fix_toleration ts)"

definition GetNodeAffinity :: "csi_lib \<Rightarrow> op_data \<Rightarrow> string \<Rightarrow> node_affinity \<Rightarrow> node_affinity" where
  "GetNodeAffinity lib opConfig nodeAffinityName defaultNodeAffinity =
     (let nodeAffinity = GetValue (cl_env lib) opConfig nodeAffinityName [] in
      if nodeAffinity = [] then defaultNodeAffinity
      else case GenerateNodeAffinity (cl_rules lib) nodeAffinity of
             Inl _ \<Rightarrow> defaultNodeAffinity
           | Inr terms \<Rightarrow> Some terms)"

text \<open>The whole affinity is replaced, an anti-affinity of the template with it.\<close>

definition ApplyToPodSpec :: "pod_spec \<Rightarrow> node_affinity \<Rightarrow> toleration list \<Rightarrow> pod_spec" where
  "ApplyToPodSpec pod n t = pod\<lparr>ps_tolerations := t, ps_node_affinity := Some n, ps_anti_affinity := None\<rparr>"

definition GetPortFromConfig :: "csi_lib \<Rightarrow> op_data \<Rightarrow> string \<Rightarrow> 16 word \<Rightarrow> 16 word \<times> go_error option" where
  "GetPortFromConfig lib data env defaultPort =
     (let port = GetValue (cl_env lib) data env (show_int (uint defaultPort)) in
      if trim_space port = [] then (defaultPort, None)
      else case parse_uint 64 port of
             None \<Rightarrow> (defaultPort, Some (Wrapped (''failed to parse port value for '' @ env) (Msg ''strconv.ParseUint'')))
           | Some p \<Rightarrow>
               if p > 65535
               then (defaultPort, Some (Msg (port @ '' port value is greater than 65535 for '' @ env)))
               else (word_of_int p, None))"

definition GetPodAntiAffinity :: "string \<Rightarrow> string \<Rightarrow> anti_affinity" where
  "GetPodAntiAffinity key val =
     \<lparr>aa_key = key, aa_operator = ''In'', aa_values = [val], aa_topology_key = LabelHostname\<rparr>"

text \<open>
  Reading the operator's config map into \<open>opConfig.Parameters\<close>, as the four controllers that use it do:
  a missing one is an empty map.
\<close>

definition OperatorSettingConfigMapName :: string where
  "OperatorSettingConfigMapName = ''nativestor-setting''"

definition read_parameters :: "'e cm_api \<Rightarrow> string \<Rightarrow> ('e, op_data) prog" where
  "read_parameters api ns =
     bindM (attempt (get_cm api ns OperatorSettingConfigMapName)) (\<lambda>r.
       case r of
         Inl err \<Rightarrow>
           if is_not_found err then ret (Some [])
           else failM (Wrapped ''failed to get operator's configmap'' err)
       | Inr cm \<Rightarrow> ret (cm_data cm))"

section \<open>Predicates\<close>

text \<open>
  \<open>predicateController\<close> of the three controllers that watch the operator's config map.  The text of the
  difference (\<open>cmp.Diff\<close>) is an argument, as is the regular expression's match.
\<close>

definition create_predicate :: "config_map \<Rightarrow> bool" where
  "create_predicate cm = (cm_name cm = OperatorSettingConfigMapName)"

definition update_predicate ::
  "(string gomap option \<Rightarrow> string gomap option \<Rightarrow> string) \<Rightarrow> (string \<Rightarrow> bool) \<Rightarrow> config_map \<Rightarrow> config_map \<Rightarrow> bool" where
  "update_predicate diff findCSIChange old new =
     (cm_name old = OperatorSettingConfigMapName \<and> cm_name new = OperatorSettingConfigMapName
      \<and> findCSIChange (diff (cm_data old) (cm_data new)))"

text \<open>The three regular expressions are alternatives of a prefix; a trailing dot needs one more character.\<close>

fun has_match :: "(string \<times> bool) list \<Rightarrow> string \<Rightarrow> bool" where
  "has_match alts [] = False"
| "has_match alts (c # cs) =
     ((\<exists>(p, dot) \<in> set alts. has_prefix p (c # cs)
         \<and> (dot \<longrightarrow> (case drop (length p) (c # cs) of [] \<Rightarrow> False | x # _ \<Rightarrow> x \<noteq> newline)))
      \<or> has_match alts cs)"

definition dquote :: char where "dquote = CHR 0x22"

definition findCSIChange_topolvm :: "string \<Rightarrow> bool" where
  "findCSIChange_topolvm s =
     has_match [(dquote # ''TOPOLVM_'', False), (dquote # ''CSI_'', False), (dquote # ''KUBELET_'', True)] s"

definition findCSIChange_raw :: "string \<Rightarrow> bool" where
  "findCSIChange_raw s =
     has_match [(dquote # ''RAW_DEVICE_'', False), (dquote # ''CSI_'', False), (dquote # ''KUBELET_'', True)] s"

definition findCSIChange_discover :: "string \<Rightarrow> bool" where
  "findCSIChange_discover s = has_match [(dquote # ''DISCOVER_'', True)] s"

end
