(* ===== verification/VgManager.thy ===== *)
theory VgManager
  imports K8sApi K8sPure Lvm
begin

text \<open>
  The jobs the operator starts on the nodes: the one that prepares the volume groups
  (\<open>pkg/operator/topolvm/volumegroup/vgmanager.go\<close>), the one that cleans a node when the cluster goes
  away (\<open>pkg/operator/topolvm/controller/cleanup.go\<close>), and what the cleaning job itself does
  (\<open>pkg/operator/topolvm/clean/clean.go\<close>).
\<close>

section \<open>The operator's settings and the API server\<close>

text \<open>The package variables of \<open>pkg/cluster/topolvm/common.go\<close> and the \<open>OperatorConfig\<close>.\<close>

record op_settings =
  os_namespace :: string
  os_cluster_name :: string
  os_operator_namespace :: string
  os_image :: string

record server_version =
  sv_major :: string
  sv_minor :: string

record 'e job_env =
  je_settings :: op_settings
  je_hash :: "string \<Rightarrow> string"
  je_version :: "'e \<Rightarrow> go_error + server_version"
  je_poll :: "'e poll"
  je_jobs :: "'e job_api"
  je_nodes :: "'e node_api"

definition AppAttr :: string where "AppAttr = ''app.kubernetes.io/name''"
definition ClusterAttr :: string where "ClusterAttr = ''topolvm_cluster''"
definition PrePareVgAppName :: string where "PrePareVgAppName = ''prepare-volume-group''"

text \<open>Go compares strings byte by byte.\<close>

fun go_le :: "string \<Rightarrow> string \<Rightarrow> bool" where
  "go_le [] t = True"
| "go_le (x # xs) [] = False"
| "go_le (x # xs) (y # ys) = (if x = y then go_le xs ys else (of_char x :: nat) < of_char y)"

definition indexJobMajorNumber :: string where "indexJobMajorNumber = ''1''"
definition indexJobMinorNumber :: string where "indexJobMinorNumber = ''22''"

text \<open>The condition of both \<open>makeJob\<close> functions; the comparison is that of the texts.\<close>

definition indexed_jobs :: "server_version \<Rightarrow> bool" where
  "indexed_jobs v = (go_le indexJobMajorNumber (sv_major v) \<and> go_le indexJobMinorNumber (sv_minor v))"

definition truncateNodeNameForIndexJob :: "(string \<Rightarrow> string) \<Rightarrow> format1 \<Rightarrow> string \<Rightarrow> string" where
  "truncateNodeNameForIndexJob hash f nodeName = sprintf1 f (hash nodeName)"

section \<open>The job that prepares the volume groups\<close>

definition provisionPodTemplateSpec :: "op_settings \<Rightarrow> string \<Rightarrow> string \<Rightarrow> string \<Rightarrow> job_template" where
  "provisionPodTemplateSpec st nodeName img restart =
     \<lparr>jt_name = PrePareVgAppName,
      jt_labels = [(AppAttr, PrePareVgAppName), (ClusterAttr, os_namespace st)],
      jt_service_account = ''nativestor-preparevg'',
      jt_containers =
        [\<lparr>jc_name = ''preparevg'', jc_image = img, jc_command = [''/topolvm'', ''prepareVg''],
          jc_limits = [(''cpu'', ''100m''), (''memory'', ''100Mi'')],
          jc_requests = [(''cpu'', ''50m''), (''memory'', ''50Mi'')],
          jc_privileged = True, jc_run_as_user = 0,
          jc_mounts = [(''devices'', ''/dev''), (''udev'', ''/run/udev'')],
          jc_env = [(''NODE_NAME'', nodeName), (''POD_NAMESPACE'', os_namespace st),
                    (''TOPOLVM_LOG_LEVEL'', ''DEBUG''), (''CLUSTER_NAME'', os_cluster_name st)]\<rparr>],
      jt_tolerates_all = True,
      jt_node_selector = [(LabelHostname, nodeName)],
      jt_restart_policy = restart,
      jt_host_paths = [(''devices'', ''/dev''), (''udev'', ''/run/udev'')],
      jt_host_ipc = True, jt_host_pid = True\<rparr>"

definition complete_job :: "server_version \<Rightarrow> batch_job \<Rightarrow> batch_job" where
  "complete_job v job =
     (if indexed_jobs v
      then job\<lparr>jb_completion_mode := Some ''Indexed'', jb_completions := Some 1, jb_parallelism := Some 1\<rparr>
      else job)"

text \<open>\<open>*reference\<close> of a nil pointer panics.\<close>

definition makeJob :: "'e job_env \<Rightarrow> string \<Rightarrow> string \<Rightarrow> owner_ref option \<Rightarrow> ('e, batch_job) prog" where
  "makeJob env nodeName img reference =
     (let st = je_settings env; podSpec = provisionPodTemplateSpec st nodeName img ''Never'' in
      bindM (external [] (\<lambda>e. (je_version env e, e))) (\<lambda>version.
        case reference of
          None \<Rightarrow> panicM ''invalid memory address or nil pointer dereference''
        | Some r \<Rightarrow>
            ret (complete_job version
              \<lparr>jb_name = truncateNodeNameForIndexJob (je_hash env) PrepareVgJobFmt nodeName,
               jb_namespace = os_namespace st,
               jb_labels = [(AppAttr, PrePareVgAppName), (ClusterAttr, os_namespace st)],
               jb_owners = [r], jb_template = podSpec,
               jb_completion_mode = None, jb_completions = None, jb_parallelism = None\<rparr>)))"

definition runJob :: "'e job_env \<Rightarrow> batch_job \<Rightarrow> ('e, unit) prog" where
  "runJob env job = RunReplaceableJob (je_poll env) (je_jobs env) job False"

definition MakeAndRunJob :: "'e job_env \<Rightarrow> string \<Rightarrow> string \<Rightarrow> owner_ref option \<Rightarrow> ('e, unit) prog" where
  "MakeAndRunJob env nodeName img reference =
     bindM (makeJob env nodeName img reference) (\<lambda>job.
     bindM (attempt (runJob env job)) (\<lambda>r.
       case r of
         Inl _ \<Rightarrow> failM (Msg (''run job for node:'' @ nodeName @ '' failed''))
       | Inr _ \<Rightarrow> ret ()))"

section \<open>The job that cleans a node\<close>

definition provisionPodTemplateSpec_clean :: "op_settings \<Rightarrow> string \<Rightarrow> string \<Rightarrow> string \<Rightarrow> job_template" where
  "provisionPodTemplateSpec_clean st nodeName img restart =
     \<lparr>jt_name = ''clean'', jt_labels = [],
      jt_service_account = ''nativestor-cleanup'',
      jt_containers =
        [\<lparr>jc_name = ''clean'', jc_image = img, jc_command = [''/topolvm'', ''clean''],
          jc_limits = [], jc_requests = [], jc_privileged = True, jc_run_as_user = 0,
          jc_mounts = [(''devices'', ''/dev''), (''udev'', ''/run/udev'')],
          jc_env = [(''NODE_NAME'', nodeName), (''POD_NAMESPACE'', os_namespace st),
                    (''TOPOLVM_LOG_LEVEL'', ''DEBUG''), (''CLUSTER_NAME'', os_cluster_name st)]\<rparr>],
      jt_tolerates_all = True,
      jt_node_selector = [(LabelHostname, nodeName)],
      jt_restart_policy = restart,
      jt_host_paths = [(''devices'', ''/dev''), (''udev'', ''/run/udev'')],
      jt_host_ipc = True, jt_host_pid = True\<rparr>"

definition makeJob_clean :: "'e job_env \<Rightarrow> string \<Rightarrow> string \<Rightarrow> ('e, batch_job) prog" where
  "makeJob_clean env nodeName img =
     (let st = je_settings env; podSpec = provisionPodTemplateSpec_clean st nodeName img ''Never'' in
      bindM (external [] (\<lambda>e. (je_version env e, e))) (\<lambda>version.
        ret (complete_job version
          \<lparr>jb_name = truncateNodeNameForIndexJob (je_hash env) CleanDeviceJobFmt nodeName,
           jb_namespace = os_namespace st, jb_labels = [], jb_owners = [], jb_template = podSpec,
           jb_completion_mode = None, jb_completions = None, jb_parallelism = None\<rparr>)))"

text \<open>\<open>ownerInfo.SetOwnerReference(job)\<close>; its error is dropped.\<close>

definition own_job :: "parse_group \<Rightarrow> owner_info \<Rightarrow> batch_job \<Rightarrow> batch_job" where
  "own_job pg info job =
     (case SetOwnerReference pg info
             \<lparr>ow_name = jb_name job, ow_namespace = jb_namespace job, ow_refs = jb_owners job\<rparr> of
        Inl _ \<Rightarrow> job
      | Inr o' \<Rightarrow> job\<lparr>jb_owners := ow_refs o'\<rparr>)"

text \<open>
  The error of \<open>makeJob\<close> is only logged, and the nil job is then dereferenced.
\<close>

definition clean_node ::
  "'e job_env \<Rightarrow> parse_group \<Rightarrow> owner_info \<Rightarrow> string \<Rightarrow> batch_job list \<Rightarrow> ('e, batch_job list) prog" where
  "clean_node env pg info nodeName cleanjobs =
     bindM (attempt (makeJob_clean env nodeName (os_image (je_settings env)))) (\<lambda>r.
       case r of
         Inl _ \<Rightarrow> panicM ''invalid memory address or nil pointer dereference''
       | Inr job \<Rightarrow>
           let job' = own_job pg info job in
           bindM (attempt (RunReplaceableJob (je_poll env) (je_jobs env) job' True)) (\<lambda>r.
             ret (case r of Inl _ \<Rightarrow> cleanjobs | Inr _ \<Rightarrow> cleanjobs @ [job'])))"

text \<open>
  \<open>GetDeploymentOwnerReference\<close> of \<open>k8sutil/deployment.go\<close>: from the operator's pod to the replica set
  that owns it, and from there to the deployment.  The two reads of owner references are arguments.
\<close>

record 'e owners_api =
  oa_pod :: "string \<Rightarrow> 'e \<Rightarrow> go_error + owner_ref list"
  oa_replicaset :: "string \<Rightarrow> 'e \<Rightarrow> go_error + owner_ref list"

definition GetDeploymentOwnerReference :: "'e owners_api \<Rightarrow> string \<Rightarrow> string \<Rightarrow> ('e, owner_ref) prog" where
  "GetDeploymentOwnerReference api podName ns =
     bindM (wrapM (''could not find pod '' @ podName @ '' in namespace '' @ ns
                    @ '' to find deployment owner reference'')
             (external [] (\<lambda>e. (oa_pod api podName e, e)))) (\<lambda>owners.
     bindM (for_each (\<lambda>podOwner deploymentRef.
              if or_kind podOwner = ''ReplicaSet'' then
                bindM (wrapM (''could not find replicaset '' @ or_name podOwner @ '' in namespace '' @ ns
                               @ '' to find deployment owner reference'')
                        (external [] (\<lambda>e. (oa_replicaset api (or_name podOwner) e, e)))) (\<lambda>rsOwners.
                  ret (fold (\<lambda>r d. if or_kind r = ''Deployment'' then Some r else d) rsOwners deploymentRef))
              else ret deploymentRef) owners None) (\<lambda>deploymentRef.
       case deploymentRef of
         None \<Rightarrow> failM (Msg ''could not find owner reference for deployment'')
       | Some r \<Rightarrow> ret r))"

text \<open>A list of the nodes that fails is logged and is an empty list.\<close>

definition all_nodes :: "'e job_env \<Rightarrow> ('e, string list) prog" where
  "all_nodes env =
     bindM (attempt (list_nodes (je_nodes env) [])) (\<lambda>r.
       ret (case r of Inl _ \<Rightarrow> [] | Inr ns \<Rightarrow> map kn_name ns))"

definition startCleanUpJobs ::
  "'e job_env \<Rightarrow> 'e owners_api \<Rightarrow> parse_group \<Rightarrow> string \<Rightarrow> topolvm_cluster \<Rightarrow> ('e, unit) prog" where
  "startCleanUpJobs env owners pg podName c =
     (let ns = os_operator_namespace (je_settings env); s = sp_storage (tc_spec c) in
      bindM (attempt (GetDeploymentOwnerReference owners podName ns)) (\<lambda>r.
      let ownerRef = (case r of Inl _ \<Rightarrow> None | Inr ref \<Rightarrow> Some (ref\<lparr>or_block_owner_deletion := Some False\<rparr>));
          ownerInfo = NewOwnerInfoWithOwnerRef ownerRef ns in
      bindM (if st_use_all_nodes s
             then bindM (all_nodes env) (\<lambda>nodes. for_each (clean_node env pg ownerInfo) nodes [])
             else ret []) (\<lambda>jobs.
      bindM (case st_device_classes s of
               None \<Rightarrow> ret jobs
             | Some nds \<Rightarrow> for_each (clean_node env pg ownerInfo) (map nd_node_name nds) jobs) (\<lambda>cleanjobs.
      for_each (\<lambda>j _. bindM (attempt (WaitForJobCompletion (je_poll env) (je_jobs env) (jb_name j) (15 * 60)))
                        (\<lambda>_. ret ())) cleanjobs ()))))"

section \<open>What the cleaning job does on its node\<close>

definition getVgInfo :: "topolvm_cluster \<Rightarrow> string \<Rightarrow> string gomap \<times> string gomap" where
  "getVgInfo c node =
     (let s = sp_storage (tc_spec c);
          vgs = (if st_volume_group_name s \<noteq> []
                 then AList.update (st_volume_group_name s) (st_volume_group_name s) [] else []) in
      case st_device_classes s of
        None \<Rightarrow> (vgs, [])
      | Some nds \<Rightarrow>
          fold (\<lambda>ele acc.
                  if nd_node_name ele = node then
                    fold (\<lambda>v (vgs, pvs).
                            (AList.update (dc_vg_name v) (dc_vg_name v) vgs,
                             fold (\<lambda>d pvs. AList.update (disk_name d) (disk_name d) pvs) (dc_device v) pvs))
                         (nd_device_classes ele) acc
                  else acc) nds (vgs, []))"

definition clean_vg :: "'e os \<Rightarrow> range_ord \<Rightarrow> string \<Rightarrow> string gomap \<Rightarrow> ('e, string gomap) prog" where
  "clean_vg os ord vg pvs =
     bindM (attempt (GetPhysicalVolume os vg)) (\<lambda>r.
     let pvs' = (case r of Inl _ \<Rightarrow> pvs | Inr res \<Rightarrow> fold AList.delete (range_keys ord res) pvs) in
     bindM (attempt (RemoveVolumeGroup os ord vg)) (\<lambda>_. ret pvs'))"

definition cleanVgs :: "'e os \<Rightarrow> range_ord \<Rightarrow> string gomap \<Rightarrow> string gomap \<Rightarrow> ('e, unit) prog" where
  "cleanVgs os ord vgs pvs =
     bindM (for_each (clean_vg os ord) (range_values ord vgs) pvs) (\<lambda>pvs'.
       for_each (\<lambda>pv _. bindM (attempt (RemovePhysicalVolume os pv)) (\<lambda>_. ret ())) (range_values ord pvs') ())"

definition CleanUp_Start ::
  "'e os \<Rightarrow> range_ord \<Rightarrow> ('e \<Rightarrow> go_error + topolvm_cluster) \<Rightarrow> string \<Rightarrow> ('e, unit) prog" where
  "CleanUp_Start os ord get_cluster nodeName =
     bindM (external [] (\<lambda>e. (get_cluster e, e))) (\<lambda>c.
       case getVgInfo c nodeName of (vgs, pvs) \<Rightarrow> cleanVgs os ord vgs pvs)"

end
