(* ===== verification/CsiDrivers.thy ===== *)
theory CsiDrivers
  imports CsiUtil VgManager
begin

text \<open>
  The controllers that deploy the two CSI drivers, \<open>pkg/operator/topolvm/csi\<close> and
  \<open>pkg/operator/raw_device/csi\<close> (\<open>controller.go\<close> and \<open>spec.go\<close> of each), and the daemon set of the
  discovery agent, \<open>pkg/operator/discover/daemon.go\<close>.  Every error of a \<open>reconcile\<close> comes with
  \<open>ImmediateRetryResult\<close>, so a failure stands for both.  The package variables \<open>CSIParam\<close> and
  \<open>Enable...\<close> and the \<open>Parameters\<close> are set anew by every reconciliation before they are read; the
  values they had are an argument.
\<close>

record 'e drv_env =
  dv_lib :: csi_lib
  dv_settings :: op_settings
  dv_certs_secret :: string
  dv_pod_name :: string
  dv_hash :: "string \<Rightarrow> string"
  dv_cms :: "'e cm_api"
  dv_owners :: "'e owners_api"
  dv_version :: "'e \<Rightarrow> go_error + server_version"
  dv_nodes :: "'e node_api"
  dv_deployments :: "('e, workload) kind_api"
  dv_daemonsets :: "('e, workload) kind_api"
  dv_drivers :: "('e, csi_driver) kind_api"
  dv_plugins :: "'e \<Rightarrow> go_error + workload list"
  dv_secret :: "string \<Rightarrow> 'e \<Rightarrow> go_error + unit"
  dv_annotate :: "workload \<Rightarrow> go_error + workload"

definition env_of :: "'e drv_env \<Rightarrow> op_data \<Rightarrow> string \<Rightarrow> string \<Rightarrow> string" where
  "env_of env data key d = GetValue (cl_env (dv_lib env)) data key d"

definition DefaultTopolvmImage :: string where
  "DefaultTopolvmImage = ''quay.io/topolvm/topolvm-with-sidecar:0.10''"
definition DefaultRawDevicePluginImage :: string where
  "DefaultRawDevicePluginImage = ''docker.io/alaudapublic/raw-device:v1.0.0''"
definition defaultProvisionerReplicas :: "32 word" where "defaultProvisionerReplicas = 2"
definition csiTopolvmProvisioner :: string where "csiTopolvmProvisioner = ''topolvm-controller''"
definition csiRawDevicePlugin :: string where "csiRawDevicePlugin = ''raw-device-plugin''"
definition csiRawDeviceProvisioner :: string where "csiRawDeviceProvisioner = ''raw-device-provisioner''"

section \<open>What the two controllers share\<close>

text \<open>
  The owner of what is deployed, in all three: the operator's own deployment, if it is found, without
  blocking its deletion.
\<close>

definition deployment_owner :: "'e drv_env \<Rightarrow> ('e, owner_info) prog" where
  "deployment_owner env =
     (let ns = os_operator_namespace (dv_settings env) in
      bindM (attempt (GetDeploymentOwnerReference (dv_owners env) (dv_pod_name env) ns)) (\<lambda>r.
        ret (NewOwnerInfoWithOwnerRef
          (case r of Inl _ \<Rightarrow> None | Inr ref \<Rightarrow> Some (ref\<lparr>or_block_owner_deletion := Some False\<rparr>)) ns)))"

text \<open>
  The reference that \<open>SetControllerReference\<close> changes in place gets the same value each time, so only
  the object is kept.
\<close>

definition own_workload :: "owner_info \<Rightarrow> workload \<Rightarrow> go_error + workload" where
  "own_workload info wl =
     (case SetControllerReference info
             \<lparr>ow_name = wl_name wl, ow_namespace = wl_namespace wl, ow_refs = wl_owners wl\<rparr> of
        Inl err \<Rightarrow> Inl err
      | Inr (_, o') \<Rightarrow> Inr (wl\<lparr>wl_owners := ow_refs o'\<rparr>))"

text \<open>The first part of both \<open>startDrivers\<close>: priorities, log level and replicas of the provisioner.\<close>

definition log_level :: "'e drv_env \<Rightarrow> op_data \<Rightarrow> 8 word" where
  "log_level env data =
     (let logLevel = env_of env data ''CSI_LOG_LEVEL'' [] in
      if logLevel \<noteq> [] then (case parse_uint 8 logLevel of None \<Rightarrow> 0 | Some l \<Rightarrow> word_of_int l) else 0)"

definition provisioner_replicas :: "'e drv_env \<Rightarrow> op_data \<Rightarrow> go_error + k8s_node list \<Rightarrow> 32 word" where
  "provisioner_replicas env data nodes =
     (case nodes of
        Inl _ \<Rightarrow> defaultProvisionerReplicas
      | Inr ns \<Rightarrow>
          if length ns = 1 then 1
          else (case parse_int 32 (env_of env data ''CSI_PROVISIONER_REPLICAS'' ''2'') of
                  None \<Rightarrow> defaultProvisionerReplicas
                | Some r \<Rightarrow> word_of_int r))"

definition driver_template_param ::
  "'e drv_env \<Rightarrow> op_data \<Rightarrow> csi_param \<Rightarrow> go_error + k8s_node list \<Rightarrow> template_param" where
  "driver_template_param env data param nodes =
     \<lparr>tp_param = param
        \<lparr>cp_plugin_priority := env_of env data ''CSI_PLUGIN_PRIORITY_CLASSNAME'' [],
         cp_provisioner_priority := env_of env data ''CSI_PROVISIONER_PRIORITY_CLASSNAME'' [],
         cp_log_level := log_level env data,
         cp_replicas := provisioner_replicas env data nodes\<rparr>,
      tp_namespace = os_operator_namespace (dv_settings env)\<rparr>"

definition dress_pod ::
  "'e drv_env \<Rightarrow> op_data \<Rightarrow> string \<Rightarrow> string \<Rightarrow> string \<Rightarrow> toleration list \<Rightarrow> node_affinity \<Rightarrow> workload \<Rightarrow> workload" where
  "dress_pod env data tolerationsEnv nodeAffinityEnv resourceEnv tolerations nodeAffinity wl =
     (let lib = dv_lib env;
          t = GetToleration lib data tolerationsEnv tolerations;
          n = GetNodeAffinity lib data nodeAffinityEnv nodeAffinity
      in wl\<lparr>wl_pod := ApplyResourcesToContainers lib data resourceEnv (ApplyToPodSpec (wl_pod wl) n t)\<rparr>)"

text \<open>
  \<open>for i := 0; i < maxRetries; i++\<close> with \<open>maxRetries\<close> 3: the error of the last attempt is returned.
\<close>

fun start_retry :: "nat \<Rightarrow> ('e, unit) prog \<Rightarrow> ('e, unit) prog" where
  "start_retry 0 start = ret ()"
| "start_retry (Suc n) start =
     bindM (attempt start) (\<lambda>r.
       case r of
         Inr _ \<Rightarrow> ret ()
       | Inl err \<Rightarrow> if n = 0 then failM err else start_retry n start)"

text \<open>Two or three deletions, each tried whatever became of the others; were they all successful?\<close>

definition succeeded :: "('e, unit) prog list \<Rightarrow> ('e, bool) prog" where
  "succeeded ms =
     for_each (\<lambda>m ok. bindM (attempt m) (\<lambda>r. ret (case r of Inl _ \<Rightarrow> False | Inr _ \<Rightarrow> ok))) ms True"

section \<open>The TopoLVM driver\<close>

definition single_quoted :: "string \<Rightarrow> string" where
  "single_quoted s = [CHR 0x27] @ s @ [CHR 0x27]"

definition setParams_topolvm :: "'e drv_env \<Rightarrow> op_data \<Rightarrow> csi_param \<Rightarrow> go_error + bool \<times> csi_param" where
  "setParams_topolvm env data param =
     (case parse_bool (env_of env data ''TOPOLVM_ENABLE'' ''false'') of
        None \<Rightarrow> Inl (Wrapped (''unable to parse value for '' @ single_quoted ''OPERATOR_CSI_TOPOLVM_ENABLE'') (Msg ''strconv.ParseBool''))
      | Some enable \<Rightarrow>
          Inr (enable, param
            \<lparr>cp_topolvm_image := env_of env data ''TOPOLVM_IMAGE'' DefaultTopolvmImage,
             cp_registrar_image := env_of env data ''CSI_REGISTRAR_IMAGE'' DefaultRegistrarImage,
             cp_provisioner_image := env_of env data ''CSI_PROVISIONER_IMAGE'' DefaultProvisionerImage,
             cp_liveness_image := env_of env data ''CSI_LIVENESS_IMAGE'' DefaultLivenessImage,
             cp_resizer_image := env_of env data ''CSI_RESIZER_IMAGE'' DefaultResizerImage,
             cp_snapshotter_image := env_of env data ''CSI_SNAPSHOTTER_IMAGE'' DefaultSnapshotterImage,
             cp_kubelet_dir := env_of env data ''KUBELET_ROOT_DIR'' DefaultKubeletDir\<rparr>))"

definition validateCSIParam_topolvm :: "csi_param \<Rightarrow> go_error option" where
  "validateCSIParam_topolvm param =
     (if cp_topolvm_image param = [] then Some (Msg ''missing csi topolvm image'') else None)"

definition no_requirements :: "string requirements" where
  "no_requirements = \<lparr>rq_limits = None, rq_requests = None\<rparr>"

definition getInitContainer :: pod_container where
  "getInitContainer =
     \<lparr>pc_name = ''self-signed-cert-generator'', pc_image = ''alpine/openssl'',
      pc_command = [''sh'', ''-c'',
        ''openssl req -nodes -x509 -newkey rsa:4096 -subj '' @ [CHR 0x27] @ ''/DC=self_signed_certificate'' @ [CHR 0x27]
          @ '' -keyout /certs/tls.key -out /certs/tls.crt -days 365''],
      pc_resources = no_requirements,
      pc_mounts = [\<lparr>vm_name = ''certs'', vm_path = ''/certs'', vm_read_only = False\<rparr>],
      pc_env = [], pc_privileged = False\<rparr>"

definition mount_certs :: "pod_container \<Rightarrow> pod_container" where
  "mount_certs c =
     (if pc_name c = ''csi-topolvm-plugin''
      then c\<lparr>pc_mounts := pc_mounts c @ [\<lparr>vm_name = ''certs'', vm_path = ''/certs'', vm_read_only = False\<rparr>]\<rparr>
      else c)"

definition addCertForProvisioner :: "'e drv_env \<Rightarrow> workload \<Rightarrow> ('e, workload) prog" where
  "addCertForProvisioner env wl =
     (let secret = dv_certs_secret env; pod = wl_pod wl in
      bindM (if secret \<noteq> [] then bindM (external [] (\<lambda>e. (dv_secret env secret e, e))) (\<lambda>_. ret True)
             else ret False) (\<lambda>certsFound.
        ret (wl\<lparr>wl_pod := pod
               \<lparr>ps_volumes := ps_volumes pod @ [(''certs'', if certsFound then FromSecret secret else EmptyDir)],
                ps_init_containers := (if certsFound then [] else [getInitContainer]),
                ps_containers := map mount_certs (ps_containers pod)\<rparr>\<rparr>)))"

text \<open>
  The plugin of every node that has one: the template with the node's selector, its own configuration
  and the owners of the deployment found.
\<close>

definition plugin_for :: "'e drv_env \<Rightarrow> op_data \<Rightarrow> workload \<Rightarrow> workload \<Rightarrow> workload" where
  "plugin_for env data deployment dep =
     (let lib = dv_lib env;
          selector = ps_node_selector (wl_pod dep);
          lvmdName = TruncateNodeName (dv_hash env) LvmdConfigMapFmt (map_get selector LabelHostname);
          pod = (wl_pod deployment)\<lparr>ps_node_selector := selector,
                  ps_volumes := ps_volumes (wl_pod deployment) @ [(''lvmd-config-dir'', FromConfigMap lvmdName)]\<rparr>
      in dress_pod env data ''CSI_TOPOLVM_PLUGIN_TOLERATIONS'' ''CSI_TOPOLVM_PLUGIN_NODE_AFFINITY''
           ''CSI_TOPOLVM_PLUGIN_RESOURCE''
           (GetToleration lib data ''CSI_PROVISIONER_TOLERATIONS'' [])
           (GetNodeAffinity lib data ''CSI_PROVISIONER_NODE_AFFINITY'' None)
           (deployment\<lparr>wl_name := wl_name dep, wl_owners := wl_owners dep, wl_pod := pod\<rparr>))"

definition updateTopolvmPlugin :: "'e drv_env \<Rightarrow> op_data \<Rightarrow> workload \<Rightarrow> ('e, unit) prog" where
  "updateTopolvmPlugin env data deployment =
     bindM (external [] (\<lambda>e. (dv_plugins env e, e))) (\<lambda>pluginDeps.
       for_each (\<lambda>dep _.
         let plugin = plugin_for env data deployment dep in
         bindM (wrapM (''failed to update topolvm provisioner deployment '' @ wl_name plugin)
                  (CreateOrUpdateDeployment (dv_deployments env) wl_name (dv_annotate env) plugin)) (\<lambda>_. ret ()))
         pluginDeps ())"

definition deploy_provisioner ::
  "'e drv_env \<Rightarrow> owner_info \<Rightarrow> string \<Rightarrow> string \<Rightarrow> (workload \<Rightarrow> ('e, workload) prog) \<Rightarrow> workload \<Rightarrow> ('e, unit) prog" where
  "deploy_provisioner env info what app add_certs wl =
     bindM (wrapM (''failed to set owner reference to '' @ what @ '' provisioner deployment '' @ wl_name wl)
              (lift_sum (own_workload info wl))) (\<lambda>wl1.
     let wl2 = wl1\<lparr>wl_strategy := ''Recreate'',
                   wl_pod := (wl_pod wl1)\<lparr>ps_anti_affinity := Some (GetPodAntiAffinity ''app'' app)\<rparr>\<rparr> in
     bindM (add_certs wl2) (\<lambda>wl3.
     bindM (wrapM (''failed to start '' @ what @ '' provisioner deployment '' @ wl_name wl3)
              (CreateOrUpdateDeployment (dv_deployments env) wl_name (dv_annotate env) wl3)) (\<lambda>_. ret ())))"

definition startDrivers_topolvm ::
  "'e drv_env \<Rightarrow> op_data \<Rightarrow> bool \<Rightarrow> csi_param \<Rightarrow> owner_info \<Rightarrow> ('e, unit) prog" where
  "startDrivers_topolvm env data enable param info =
     bindM (attempt (list_nodes (dv_nodes env) [])) (\<lambda>nodes.
     let lib = dv_lib env; tp = driver_template_param env data param nodes in
     if \<not> enable then ret ()
     else
       bindM (wrapM ''failed to load topolvm provisioner deployment template''
                (lift_sum (TemplateToDeployment lib ''template/csi-topolvm-provisioner.yaml'' tp))) (\<lambda>topolvmProvisioner.
       bindM (wrapM ''failed to load topolvm provisioner deployment template''
                (lift_sum (TemplateToDeployment lib ''template/csi-topolvm-plugin.yaml'' tp))) (\<lambda>topolvmPlugin.
       bindM (wrapM ''failed to load topolvm csi driver template''
                (lift_sum (TemplateToCSIDriver lib ''template/topolvm-csi-driver.yaml'' tp))) (\<lambda>topolvmCSIDriver.
       let provisioner = dress_pod env data ''CSI_TOPOLVM_PROVISIONER_TOLERATIONS''
             ''CSI_TOPOLVM_PROVISIONER_NODE_AFFINITY'' ''CSI_TOPOLVM_PROVISIONER_RESOURCE''
             (GetToleration lib data ''CSI_PROVISIONER_TOLERATIONS'' [])
             (GetNodeAffinity lib data ''CSI_PROVISIONER_NODE_AFFINITY'' None) topolvmProvisioner in
       bindM (deploy_provisioner env info ''topolvm'' csiTopolvmProvisioner
                (\<lambda>wl. wrapM ''failed to add init continer that generats cert'' (addCertForProvisioner env wl))
                provisioner) (\<lambda>_.
       bindM (wrapM (''failed to start topolvm plugin driver '' @ wl_name topolvmPlugin)
                (updateTopolvmPlugin env data topolvmPlugin)) (\<lambda>_.
       wrapM (''failed to start topolvm driver '' @ cd_name topolvmCSIDriver)
         (CreateCSIDriver (dv_drivers env) cd_name topolvmCSIDriver)))))))"

definition deleteCSIDriverResources_topolvm :: "'e drv_env \<Rightarrow> string \<Rightarrow> string \<Rightarrow> ('e, bool) prog" where
  "deleteCSIDriverResources_topolvm env deployment driverName =
     succeeded [DeleteDeployment (dv_deployments env) deployment, DeleteCSIDriver (dv_drivers env) driverName]"

definition stopDrivers_topolvm :: "'e drv_env \<Rightarrow> bool \<Rightarrow> ('e, unit) prog" where
  "stopDrivers_topolvm env enable =
     (if \<not> enable
      then bindM (deleteCSIDriverResources_topolvm env csiTopolvmProvisioner ''topolvm.cybozu.com'') (\<lambda>_. ret ())
      else ret ())"

definition validateAndConfigureDrivers_topolvm ::
  "'e drv_env \<Rightarrow> op_data \<Rightarrow> csi_param \<Rightarrow> owner_info \<Rightarrow> ('e, unit) prog" where
  "validateAndConfigureDrivers_topolvm env data param info =
     bindM (wrapM ''failed to configure CSI parameters'' (lift_sum (setParams_topolvm env data param)))
       (\<lambda>(enable, param').
     case validateCSIParam_topolvm param' of
       Some err \<Rightarrow> failM (Wrapped ''failed to validate CSI parameters'' err)
     | None \<Rightarrow>
         if enable then
           wrapM ''failed to start raw device csi drivers''
             (start_retry 3 (startDrivers_topolvm env data enable param' info))
         else stopDrivers_topolvm env enable)"

text \<open>The frame of both \<open>reconcile\<close> functions.\<close>

definition reconcile_driver ::
  "'e drv_env \<Rightarrow> string \<Rightarrow> (op_data \<Rightarrow> owner_info \<Rightarrow> ('e, unit) prog) \<Rightarrow> ('e, unit) prog" where
  "reconcile_driver env what configure =
     bindM (read_parameters (dv_cms env) (os_operator_namespace (dv_settings env))) (\<lambda>data.
     bindM (deployment_owner env) (\<lambda>ownerInfo.
     bindM (wrapM ''failed to get server version'' (external [] (\<lambda>e. (dv_version env e, e)))) (\<lambda>_.
     wrapM (''failed configure '' @ what) (configure data ownerInfo))))"

definition reconcile_topolvm_csi :: "'e drv_env \<Rightarrow> csi_param \<Rightarrow> ('e, unit) prog" where
  "reconcile_topolvm_csi env param =
     reconcile_driver env ''topolvm csi'' (\<lambda>data. validateAndConfigureDrivers_topolvm env data param)"

section \<open>The raw-device driver\<close>

definition setParams_raw :: "'e drv_env \<Rightarrow> op_data \<Rightarrow> csi_param \<Rightarrow> go_error + bool \<times> csi_param" where
  "setParams_raw env data param =
     (case parse_bool (env_of env data ''RAW_DEVICE_ENABLE'' ''false'') of
        None \<Rightarrow> Inl (Wrapped (''unable to parse value for '' @ single_quoted ''OPERATOR_CSI_RAW_DEVICE_ENABLE'') (Msg ''strconv.ParseBool''))
      | Some enable \<Rightarrow>
          Inr (enable, param
            \<lparr>cp_raw_device_image := env_of env data ''RAW_DEVICE_IMAGE'' DefaultRawDevicePluginImage,
             cp_registrar_image := env_of env data ''CSI_REGISTRAR_IMAGE'' DefaultRegistrarImage,
             cp_provisioner_image := env_of env data ''CSI_PROVISIONER_IMAGE'' DefaultProvisionerImage,
             cp_liveness_image := env_of env data ''CSI_LIVENESS_IMAGE'' DefaultLivenessImage,
             cp_kubelet_dir := env_of env data ''KUBELET_ROOT_DIR'' DefaultKubeletDir\<rparr>))"

definition validateCSIParam_raw :: "csi_param \<Rightarrow> go_error option" where
  "validateCSIParam_raw param =
     (if cp_raw_device_image param = [] then Some (Msg ''missing csi raw device plugin image'')
      else if cp_registrar_image param = [] then Some (Msg ''missing csi registrar image'')
      else if cp_provisioner_image param = [] then Some (Msg ''missing csi provisioner image'')
      else if cp_liveness_image param = [] then Some (Msg ''missing csi liveness image'')
      else None)"

definition startDrivers_raw ::
  "'e drv_env \<Rightarrow> op_data \<Rightarrow> bool \<Rightarrow> csi_param \<Rightarrow> owner_info \<Rightarrow> ('e, unit) prog" where
  "startDrivers_raw env data enable param info =
     bindM (attempt (list_nodes (dv_nodes env) [])) (\<lambda>nodes.
     let lib = dv_lib env; tp = driver_template_param env data param nodes in
     if \<not> enable then ret ()
     else
       bindM (wrapM ''failed to load raw device plugin daemonset template''
                (lift_sum (TemplateToDaemonSet lib ''template/csi-rawdevice-plugin.yaml'' tp))) (\<lambda>rawDevicePlugin.
       bindM (wrapM ''failed to load raw device provisioner deployment template''
                (lift_sum (TemplateToDeployment lib ''template/csi-rawdevice-provisioner.yaml'' tp))) (\<lambda>rawDeviceProvisioner.
       bindM (wrapM ''failed to load raw device csi driver template''
                (lift_sum (TemplateToCSIDriver lib ''template/raw-device-csi-driver.yaml'' tp))) (\<lambda>rawDeviceCSIDriver.
       let plugin = dress_pod env data ''CSI_RAW_DEVICE_PLUGIN_TOLERATIONS''
             ''CSI_RAW_DEVICE_PLUGIN_NODE_AFFINITY'' ''CSI_RAW_DEVICE_PLUGIN_RESOURCE''
             (GetToleration lib data ''CSI_PLUGIN_TOLERATIONS'' [])
             (GetNodeAffinity lib data ''CSI_PLUGIN_NODE_AFFINITY'' None) rawDevicePlugin;
           provisioner = dress_pod env data ''CSI_RAW_DEVICE_PROVISIONER_TOLERATIONS''
             ''CSI_RAW_DEVICE_PROVISIONER_NODE_AFFINITY'' ''CSI_RAW_DEVICE_PROVISIONER_RESOURCE''
             (GetToleration lib data ''CSI_PROVISIONER_TOLERATIONS'' [])
             (GetNodeAffinity lib data ''CSI_PROVISIONER_NODE_AFFINITY'' None) rawDeviceProvisioner in
       bindM (wrapM (''failed to set owner reference to raw device plugin daemonset '' @ wl_name plugin)
                (lift_sum (own_workload info plugin))) (\<lambda>plugin1.
       bindM (wrapM (''failed to start raw device daemonset '' @ wl_name plugin1)
                (CreateDaemonSet (dv_daemonsets env) wl_name csiRawDevicePlugin plugin1)) (\<lambda>_.
       bindM (deploy_provisioner env info ''raw device'' csiRawDeviceProvisioner ret provisioner) (\<lambda>_.
       wrapM (''failed to start raw device driver '' @ wl_name rawDeviceProvisioner)
         (CreateCSIDriver (dv_drivers env) cd_name rawDeviceCSIDriver))))))))"

definition deleteCSIDriverResources_raw :: "'e drv_env \<Rightarrow> string \<Rightarrow> string \<Rightarrow> string \<Rightarrow> ('e, bool) prog" where
  "deleteCSIDriverResources_raw env daemonset deployment driverName =
     succeeded [DeleteDaemonset (dv_daemonsets env) daemonset, DeleteDeployment (dv_deployments env) deployment,
                DeleteCSIDriver (dv_drivers env) driverName]"

definition stopDrivers_raw :: "'e drv_env \<Rightarrow> bool \<Rightarrow> ('e, unit) prog" where
  "stopDrivers_raw env enable =
     (if \<not> enable
      then bindM (deleteCSIDriverResources_raw env csiRawDevicePlugin csiRawDeviceProvisioner ''nativestor.alauda.io'')
             (\<lambda>_. ret ())
      else ret ())"

definition validateAndConfigureDrivers_raw ::
  "'e drv_env \<Rightarrow> op_data \<Rightarrow> csi_param \<Rightarrow> owner_info \<Rightarrow> ('e, unit) prog" where
  "validateAndConfigureDrivers_raw env data param info =
     bindM (wrapM ''failed to configure CSI parameters'' (lift_sum (setParams_raw env data param)))
       (\<lambda>(enable, param').
     case validateCSIParam_raw param' of
       Some err \<Rightarrow> failM (Wrapped ''failed to validate CSI parameters'' err)
     | None \<Rightarrow>
         if enable then
           wrapM ''failed to start raw device csi drivers''
             (start_retry 3 (startDrivers_raw env data enable param' info))
         else stopDrivers_raw env enable)"

definition reconcile_raw_csi :: "'e drv_env \<Rightarrow> csi_param \<Rightarrow> ('e, unit) prog" where
  "reconcile_raw_csi env param =
     reconcile_driver env ''raw device csi'' (\<lambda>data. validateAndConfigureDrivers_raw env data param)"

section \<open>The discovery agent's daemon set\<close>

definition host_mount :: "string \<Rightarrow> string \<Rightarrow> bool \<Rightarrow> volume_mount" where
  "host_mount n p ro = \<lparr>vm_name = n, vm_path = p, vm_read_only = ro\<rparr>"

definition getDaemonset :: "op_settings \<Rightarrow> string \<Rightarrow> string \<Rightarrow> bool \<Rightarrow> bool \<Rightarrow> workload" where
  "getDaemonset st appName img useLoop enableRawDevice =
     \<lparr>wl_name = appName, wl_namespace = os_namespace st,
      wl_annotations = (if useLoop then [(''loop'', ''true'')] else []),
      wl_labels = [(AppAttr, appName)], wl_owners = [], wl_strategy = ''RollingUpdate'',
      wl_pod =
        \<lparr>ps_containers =
           [\<lparr>pc_name = ''discover'', pc_image = img, pc_command = [''/topolvm'', ''discover''],
             pc_resources = \<lparr>rq_limits = Some [(''cpu'', ''50m''), (''memory'', ''50Mi'')],
                             rq_requests = Some [(''cpu'', ''50m''), (''memory'', ''50Mi'')]\<rparr>,
             pc_mounts = [host_mount ''devices'' ''/dev'' False, host_mount ''udev'' ''/run/udev'' True,
                          host_mount ''sys'' ''/sys'' True],
             pc_env = [(''POD_NAMESPACE'', EnvField ''metadata.namespace''), (''NODE_NAME'', EnvField ''spec.nodeName''),
                       (''POD_NAME'', EnvField ''metadata.name'')]
                @ (if useLoop then [(''USE_LOOP'', EnvValue ''true'')] else [])
                @ (if enableRawDevice then [(''RAW_DEVICE_ENABLE'', EnvValue ''true'')] else []),
             pc_privileged = True\<rparr>],
         ps_init_containers = [],
         ps_volumes = [(''devices'', FromHostPath ''/dev''), (''udev'', FromHostPath ''/run/udev''),
                       (''sys'', FromHostPath ''/sys'')],
         ps_tolerations = [\<lparr>tl_key = [], tl_operator = ''Exists'', tl_value = [], tl_effect = []\<rparr>],
         ps_node_affinity = None, ps_anti_affinity = None, ps_node_selector = [],
         ps_service_account = ''nativestor-discover'', ps_host_pid = True\<rparr>\<rparr>"

definition startDiscoverDeviceDaemonset :: "'e drv_env \<Rightarrow> ('e, unit) prog" where
  "startDiscoverDeviceDaemonset env =
     bindM (read_parameters (dv_cms env) (os_operator_namespace (dv_settings env))) (\<lambda>data.
     bindM (deployment_owner env) (\<lambda>ownerInfo.
     let daemon = dress_pod env data ''DISCOVER_DEVICE_TOLERATIONS'' ''DISCOVER_DEVICE_NODE_AFFINITY''
           ''DISCOVER_DEVICE_RESOURCE'' [] None
           (getDaemonset (dv_settings env) ''discover-device'' (os_image (dv_settings env)) False True) in
     bindM (wrapM (''failed to set owner reference to raw device plugin daemonset '' @ wl_name daemon)
              (lift_sum (own_workload ownerInfo daemon))) (\<lambda>daemon1.
     wrapM (''failed to start discover device daemonset '' @ wl_name daemon1)
       (CreateDaemonSet (dv_daemonsets env) wl_name (wl_name daemon1) daemon1))))"

definition reconcile_discover :: "'e drv_env \<Rightarrow> ('e, unit) prog" where
  "reconcile_discover env =
     wrapM ''failed configure discover device daemonset'' (startDiscoverDeviceDaemonset env)"

end
