(* ===== verification/Controller.thy ===== *)
theory Controller
  imports CsiDrivers
begin

text \<open>
  The cluster controller: \<open>pkg/operator/topolvm/controller\<close> (\<open>topolvmcluster_controller.go\<close>, which
  reconciles the cluster object, and \<open>lvmdconfig_controller.go\<close>, which follows the config maps the nodes
  write), with \<open>csidriver.go\<close>, \<open>psp.go\<close> and the finalizers of \<open>pkg/operator/controller\<close>.

  The reconciler's fields and the package variables it sets are a state that every handler returns,
  on errors too.  A goroutine is recorded as a task when it is started; \<open>run_task\<close> is its body.
\<close>

section \<open>State, environment and handlers\<close>

datatype task =
    RecreateFailed topolvm_cluster "owner_ref option"
  | PrepareAll topolvm_cluster "owner_ref option"
  | LvmdInformer
  | StatusMonitor "string \<times> string"

record ctl_state =
  ct_cluster :: "topolvm_cluster option"
  ct_ref :: "owner_ref option"
  ct_key :: "string \<times> string"
  ct_monitoring :: bool
  ct_cluster_name :: string
  ct_image :: string
  ct_certs_secret :: string
  ct_tasks :: "task list"

record pod_security_policy =
  psp_name :: string
  psp_host_paths :: "string list"
  psp_volumes :: "string list"
  psp_host_ipc :: bool

record 'e ctl_env =
  ce_jobs :: "'e job_env"
  ce_drv :: "'e drv_env"
  ce_operator_hub :: bool
  ce_list :: "'e \<Rightarrow> go_error + topolvm_cluster list option"
  ce_get :: "string \<times> string \<Rightarrow> 'e \<Rightarrow> go_error + topolvm_cluster"
  ce_update :: "topolvm_cluster \<Rightarrow> ('e, topolvm_cluster) call"
  ce_status_update :: "topolvm_cluster \<Rightarrow> ('e, unit) call"
  ce_kind :: string
  ce_gvk :: "topolvm_cluster \<Rightarrow> go_error + gvk"
  ce_uid :: "topolvm_cluster \<Rightarrow> string"
  ce_psps :: "('e, pod_security_policy) kind_api"
  ce_pods :: "string \<Rightarrow> 'e \<Rightarrow> go_error + string list"
  ce_delete_pod :: "string \<Rightarrow> ('e, unit) call"
  ce_parse_group :: parse_group
  ce_stopped :: "'e \<Rightarrow> bool"
  ce_ord :: range_ord
  ce_codec :: codec

type_synonym ('e, 'a) handler = "ctl_state \<Rightarrow> ('e, (go_error + 'a) \<times> ctl_state) prog"

definition retS :: "'a \<Rightarrow> ('e, 'a) handler" where
  "retS x = (\<lambda>s. ret (Inr x, s))"

definition failS :: "go_error \<Rightarrow> ('e, 'a) handler" where
  "failS err = (\<lambda>s. ret (Inl err, s))"

definition bindS :: "('e, 'a) handler \<Rightarrow> ('a \<Rightarrow> ('e, 'b) handler) \<Rightarrow> ('e, 'b) handler" where
  "bindS m f = (\<lambda>s. bindM (m s) (\<lambda>(r, s'). case r of Inl err \<Rightarrow> ret (Inl err, s') | Inr x \<Rightarrow> f x s'))"

definition liftS :: "('e, 'a) prog \<Rightarrow> ('e, 'a) handler" where
  "liftS m = (\<lambda>s. bindM (attempt m) (\<lambda>r. ret (r, s)))"

definition updS :: "(ctl_state \<Rightarrow> ctl_state) \<Rightarrow> ('e, unit) handler" where
  "updS f = (\<lambda>s. ret (Inr (), f s))"

definition getS :: "('e, ctl_state) handler" where
  "getS = (\<lambda>s. ret (Inr s, s))"

definition wrapS :: "string \<Rightarrow> ('e, 'a) handler \<Rightarrow> ('e, 'a) handler" where
  "wrapS msg m = (\<lambda>s. bindM (m s) (\<lambda>(r, s').
     ret (case r of Inl err \<Rightarrow> Inl (Wrapped msg err) | Inr x \<Rightarrow> Inr x, s')))"

definition attemptS :: "('e, 'a) handler \<Rightarrow> ('e, go_error + 'a) handler" where
  "attemptS m = (\<lambda>s. bindM (m s) (\<lambda>(r, s'). ret (Inr r, s')))"

lemmas handler_defs = retS_def failS_def bindS_def liftS_def updS_def getS_def wrapS_def attemptS_def

section \<open>Finalizers\<close>

definition update_cluster :: "'e ctl_env \<Rightarrow> topolvm_cluster \<Rightarrow> ('e, topolvm_cluster) prog" where
  "update_cluster env c = external [ClusterUpdate c] (ce_update env c)"

text \<open>\<open>client.Update\<close> refreshes the object in place; the object is returned.\<close>

definition AddFinalizerIfNotPresent :: "'e ctl_env \<Rightarrow> topolvm_cluster \<Rightarrow> ('e, topolvm_cluster) prog" where
  "AddFinalizerIfNotPresent env c =
     (let objectFinalizer = buildFinalizerName (ce_kind env) in
      if \<not> contains (tc_finalizers c) objectFinalizer then
        wrapM (''failed to add finalizer '' @ objectFinalizer @ '' on '' @ tc_name c)
          (update_cluster env (c\<lparr>tc_finalizers := tc_finalizers c @ [objectFinalizer]\<rparr>))
      else ret c)"

definition RemoveFinalizer :: "'e ctl_env \<Rightarrow> topolvm_cluster \<Rightarrow> ('e, unit) prog" where
  "RemoveFinalizer env c =
     (let objectFinalizer = buildFinalizerName (ce_kind env) in
      if contains (tc_finalizers c) objectFinalizer then
        bindM (lift_outcome (remove (tc_finalizers c) objectFinalizer)) (\<lambda>fs.
        bindM (wrapM (''failed to remove finalizer '' @ objectFinalizer @ '' on '' @ tc_name c)
                 (update_cluster env (c\<lparr>tc_finalizers := fs\<rparr>))) (\<lambda>_. ret ()))
      else ret ())"

definition get_cluster :: "'e ctl_env \<Rightarrow> string \<times> string \<Rightarrow> ('e, topolvm_cluster) prog" where
  "get_cluster env key = external [] (\<lambda>e. (ce_get env key e, e))"

definition removeFinalizer :: "'e ctl_env \<Rightarrow> string \<times> string \<Rightarrow> ('e, unit) prog" where
  "removeFinalizer env key =
     bindM (attempt (get_cluster env key)) (\<lambda>r.
       case r of
         Inl err \<Rightarrow>
           if is_not_found err then ret ()
           else failM (Wrapped (''failed to retrieve topolvm cluster '' @ snd key @ '' to remove finalizer'') err)
       | Inr c \<Rightarrow> wrapM ''failed to remove finalizer'' (RemoveFinalizer env c))"

section \<open>Cleaning the cluster\<close>

definition TopolvmCSIDriverName :: string where "TopolvmCSIDriverName = ''topolvm.cybozu.com''"

definition DeleteTopolvmCsiDriver :: "'e ctl_env \<Rightarrow> ('e, unit) prog" where
  "DeleteTopolvmCsiDriver env =
     (let api = dv_drivers (ce_drv env) in
      bindM (attempt (get_obj api TopolvmCSIDriverName)) (\<lambda>r.
        if (case r of Inl err \<Rightarrow> is_not_found err | Inr _ \<Rightarrow> False) then ret ()
        else delete_obj api TopolvmCSIDriverName))"

text \<open>
  \<open>RemoveNodeCapacityAnnotations\<close>: every capacity annotation of a node is removed by a patch of its
  own, from the node as it was listed to the node without the annotations removed so far; a patch that
  fails is logged.  The error returned is that of the list, whose result is then empty.
\<close>

definition strip_step :: "'e ctl_env \<Rightarrow> k8s_node \<Rightarrow> string \<Rightarrow> k8s_node \<Rightarrow> ('e, k8s_node) prog" where
  "strip_step env old key node =
     (if has_prefix CapacityKeyPrefix key then
        let node' = node\<lparr>kn_annotations := AList.delete key (kn_annotations node)\<rparr> in
        bindM (attempt (external [NodePatch (kn_name node')] (na_patch (je_nodes (ce_jobs env)) old node')))
          (\<lambda>_. ret node')
      else ret node)"

definition strip_node :: "'e ctl_env \<Rightarrow> k8s_node \<Rightarrow> ('e, k8s_node) prog" where
  "strip_node env n = for_each (strip_step env n) (range_keys (ce_ord env) (kn_annotations n)) n"

definition RemoveNodeCapacityAnnotations :: "'e ctl_env \<Rightarrow> ('e, unit) prog" where
  "RemoveNodeCapacityAnnotations env =
     bindM (list_nodes (je_nodes (ce_jobs env)) []) (\<lambda>nodes.
       for_each (\<lambda>n _. bindM (strip_node env n) (\<lambda>_. ret ())) nodes ())"

text \<open>The config maps with the label of lvmd's configuration lose the configuration and the status.\<close>

definition clean_cm :: "config_map \<Rightarrow> config_map" where
  "clean_cm cm = cm_delete VgStatusConfigMapKey (cm_delete LvmdConfigMapKey cm)"

definition cleanLvmdConfigmap :: "'e ctl_env \<Rightarrow> string \<Rightarrow> ('e, unit) prog" where
  "cleanLvmdConfigmap env ns =
     (let api = dv_cms (ce_drv env) in
      bindM (external [] (\<lambda>e. (ca_list api ns e, e))) (\<lambda>cms.
        for_each (\<lambda>cm _. external [CmUpdate (clean_cm cm)] (ca_update api (clean_cm cm))) cms ()))"

definition cleanCluster :: "'e ctl_env \<Rightarrow> string \<times> string \<Rightarrow> ('e, unit) prog" where
  "cleanCluster env key =
     bindM (cleanLvmdConfigmap env (fst key)) (\<lambda>_.
     bindM (wrapM ''failed to remove node capacity annotations'' (RemoveNodeCapacityAnnotations env)) (\<lambda>_.
     DeleteTopolvmCsiDriver env))"

section \<open>The reconciler's own steps\<close>

text \<open>The jobs are made with the name of the cluster last reconciled (\<open>topolvm.ClusterName\<close>).\<close>

definition jobs_of :: "'e ctl_env \<Rightarrow> ctl_state \<Rightarrow> 'e job_env" where
  "jobs_of env s = (ce_jobs env)
     \<lparr>je_settings := (je_settings (ce_jobs env))\<lparr>os_cluster_name := ct_cluster_name s\<rparr>\<rparr>"

definition stopCheckClusterStatus :: "'e ctl_env \<Rightarrow> ('e, unit) handler" where
  "stopCheckClusterStatus env =
     (\<lambda>s. bindM (external [] (\<lambda>e. (Inr (ce_stopped env e), e))) (\<lambda>stopped.
        ret (Inr (), if ct_monitoring s \<and> \<not> stopped then s\<lparr>ct_monitoring := False\<rparr> else s)))"

definition startClusterMonitor :: "('e, unit) handler" where
  "startClusterMonitor = updS (\<lambda>s. if \<not> ct_monitoring s
     then s\<lparr>ct_monitoring := True, ct_tasks := ct_tasks s @ [StatusMonitor (ct_key s)]\<rparr> else s)"

definition updateCluster :: "topolvm_cluster option \<Rightarrow> ('e, unit) handler" where
  "updateCluster c = updS (\<lambda>s. s\<lparr>ct_cluster := c\<rparr>)"

text \<open>The oldest of the clusters; of two of the same age the earlier in the list.\<close>

fun oldest_of :: "topolvm_cluster \<Rightarrow> topolvm_cluster list \<Rightarrow> topolvm_cluster" where
  "oldest_of old [] = old"
| "oldest_of old (c # cs) = oldest_of (if tc_created c < tc_created old then c else old) cs"

definition verifyTopolvmCluster :: "'e ctl_env \<Rightarrow> string \<times> string \<Rightarrow> ('e, unit) prog" where
  "verifyTopolvmCluster env request =
     (let st = je_settings (ce_jobs env) in
      if fst request \<noteq> os_operator_namespace st
      then failM (Msg (''namespace '' @ fst request @ '' of topovlm cluster:'' @ snd request
             @ '' is not equal to operator namespace:'' @ os_namespace st))
      else
        bindM (wrapM ''failed to list topolvm cluster'' (external [] (\<lambda>e. (ce_list env e, e)))) (\<lambda>items.
          case items of
            None \<Rightarrow> failM (Msg ''no topolvm cluster instance existing'')
          | Some (c # c2 # cs) \<Rightarrow>
              if snd request \<noteq> tc_name (oldest_of c (c # c2 # cs))
              then failM (Msg ''only support one cluster instance'') else ret ()
          | Some _ \<Rightarrow> ret ()))"

definition checkStorageConfig :: "topolvm_cluster \<Rightarrow> go_error option" where
  "checkStorageConfig c =
     (let s = sp_storage (tc_spec c) in
      if st_use_all_nodes s \<and> st_device_classes s \<noteq> None
      then Some (Msg ''should not both config use all node and deviceclasses '')
      else if \<not> st_use_all_nodes s \<and> st_use_all_devices s
      then Some (Msg ''should not config useAllNodes false but useAllDevice true'')
      else if st_use_all_devices s \<and> st_devices s \<noteq> None
      then Some (Msg ''should not config useAllNodes true but config storage.devices'')
      else if st_use_all_nodes s \<and> (st_volume_group_name s = [] \<or> st_class_name s = [])
      then Some (Msg ''if use all nodes ,volumeGroupName and className must be define'')
      else None)"

text \<open>The entry of the node in the status is replaced where it is, or added at the end.\<close>

fun put_node_state :: "node_storage_state \<Rightarrow> node_storage_state list \<Rightarrow> node_storage_state list" where
  "put_node_state state [] = [state]"
| "put_node_state state (n # ns) =
     (if nss_node n = nss_node state then state # ns else n # put_node_state state ns)"

definition UpdateStatus_node :: "'e ctl_env \<Rightarrow> string \<times> string \<Rightarrow> node_storage_state \<Rightarrow> ('e, unit) prog" where
  "UpdateStatus_node env key state =
     bindM (attempt (get_cluster env key)) (\<lambda>r.
       case r of
         Inl err \<Rightarrow>
           if is_not_found err then ret ()
           else failM (Wrapped (''failed to retrieve topolvm cluster '' @ snd key
                  @ '' to update topolvm cluster status '') err)
       | Inr c \<Rightarrow>
           let c' = c\<lparr>tc_status := (tc_status c)
                       \<lparr>cst_node_storage := put_node_state state (cst_node_storage (tc_status c))\<rparr>\<rparr> in
           wrapM (''failed to update cluster '' @ snd key @ '' status'')
             (UpdateStatus (external [ClusterUpdateStatus c'] (ce_status_update env c'))
               (bindM (update_cluster env c') (\<lambda>_. ret ())) (tc_name c')))"

text \<open>The name promises more: only \<open>UseAllNodes\<close> is looked at.\<close>

definition UseAllNodeAndDevices :: "ctl_state \<Rightarrow> bool" where
  "UseAllNodeAndDevices s =
     (case ct_cluster s of Some c \<Rightarrow> st_use_all_nodes (sp_storage (tc_spec c)) | None \<Rightarrow> False)"

text \<open>
  \<open>startPrepareVolumeGroupJob\<close>: a storage section that did not change only runs the jobs of the nodes
  that have a failed class, or none that succeeded.  \<open>reflect.DeepEqual\<close> tells a nil list of disks or
  classes inside a node's entry from an empty one; the equality here does not.
\<close>

definition startPrepareVolumeGroupJob :: "topolvm_cluster \<Rightarrow> owner_ref option \<Rightarrow> ('e, unit) handler" where
  "startPrepareVolumeGroupJob c ref = updS (\<lambda>s.
     s\<lparr>ct_tasks := ct_tasks s @
        [if map_option (\<lambda>old. sp_storage (tc_spec old)) (ct_cluster s) = Some (sp_storage (tc_spec c))
         then RecreateFailed c ref else PrepareAll c ref]\<rparr>)"

definition start_job :: "'e job_env \<Rightarrow> owner_ref option \<Rightarrow> string \<Rightarrow> ('e, unit) prog" where
  "start_job jobs ref node =
     bindM (attempt (MakeAndRunJob jobs node (os_image (je_settings jobs)) ref)) (\<lambda>_. ret ())"

text \<open>The check of the cluster and the informer are the theory Monitor and the handlers below.\<close>

fun run_task :: "'e job_env \<Rightarrow> task \<Rightarrow> ('e, unit) prog" where
  "run_task jobs (RecreateFailed c ref) =
     for_each (\<lambda>ele _. if nss_fail_classes ele \<noteq> [] \<or> nss_success_classes ele = []
                       then start_job jobs ref (nss_node ele) else ret ())
       (cst_node_storage (tc_status c)) ()"
| "run_task jobs (PrepareAll c ref) =
     bindM (if st_use_all_nodes (sp_storage (tc_spec c))
            then bindM (all_nodes jobs) (\<lambda>nodes. for_each (\<lambda>node _. start_job jobs ref node) nodes ())
            else ret ()) (\<lambda>_.
       case st_device_classes (sp_storage (tc_spec c)) of
         None \<Rightarrow> ret ()
       | Some nds \<Rightarrow> for_each (\<lambda>nd _. start_job jobs ref (nd_node_name nd)) nds ())"
| "run_task jobs LvmdInformer = ret ()"
| "run_task jobs (StatusMonitor key) = ret ()"

definition RestartJob :: "'e ctl_env \<Rightarrow> ctl_state \<Rightarrow> string \<Rightarrow> owner_ref option \<Rightarrow> ('e, unit) prog" where
  "RestartJob env s node ref =
     MakeAndRunJob (jobs_of env s) node (os_image (je_settings (jobs_of env s))) ref"

section \<open>Objects made for OperatorHub\<close>

definition CheckTopolvmCsiDriverExisting :: "'e ctl_env \<Rightarrow> ('e, unit) prog" where
  "CheckTopolvmCsiDriverExisting env =
     (let api = dv_drivers (ce_drv env) in
      bindM (attempt (get_obj api TopolvmCSIDriverName)) (\<lambda>r.
        case r of
          Inl err \<Rightarrow>
            if \<not> is_not_found err
            then failM (Wrapped (''failed to detect CsiDriver '' @ TopolvmCSIDriverName) err)
            else bindM (create_obj api cd_name
                   \<lparr>cd_name = TopolvmCSIDriverName, cd_attach_required = False, cd_pod_info_on_mount = True,
                    cd_storage_capacity = True, cd_modes = [''Persistent'', ''Ephemeral'']\<rparr>) (\<lambda>_. ret ())
        | Inr _ \<Rightarrow> ret ()))"

definition psp_of :: "string \<Rightarrow> string list \<Rightarrow> bool \<Rightarrow> pod_security_policy" where
  "psp_of name paths ipc =
     \<lparr>psp_name = name, psp_host_paths = paths,
      psp_volumes = [''configMap'', ''emptyDir'', ''secret'', ''hostPath''], psp_host_ipc = ipc\<rparr>"

definition CreateTopolvmNodePsp :: "'e ctl_env \<Rightarrow> ('e, unit) prog" where
  "CreateTopolvmNodePsp env = bindM (create_obj (ce_psps env) psp_name
     (psp_of ''topolvm-node'' [''/var/lib/kubelet'', ''/run/topolvm'', ''/etc/topolvm''] False)) (\<lambda>_. ret ())"

definition CreateTopolvmPrepareVgPsp :: "'e ctl_env \<Rightarrow> ('e, unit) prog" where
  "CreateTopolvmPrepareVgPsp env = bindM (create_obj (ce_psps env) psp_name
     (psp_of ''nativestor-preparevg'' [''/dev'', ''/run/udev'', ''/sys''] True)) (\<lambda>_. ret ())"

definition CheckPspExisting :: "'e ctl_env \<Rightarrow> string \<Rightarrow> ('e, bool) prog" where
  "CheckPspExisting env name =
     bindM (attempt (get_obj (ce_psps env) name)) (\<lambda>r.
       case r of
         Inl err \<Rightarrow>
           if \<not> is_not_found err
           then failM (Wrapped (''failed to detect PodSecurityPolicies '' @ name) err) else ret False
       | Inr _ \<Rightarrow> ret True)"

definition check_psp :: "'e ctl_env \<Rightarrow> string \<Rightarrow> ('e, unit) prog \<Rightarrow> ('e, unit) prog" where
  "check_psp env name create =
     bindM (wrapM (''check psp '' @ name @ '' failed'') (CheckPspExisting env name)) (\<lambda>existing.
       if \<not> existing then wrapM (''create psp '' @ name @ '' failed'') create else ret ())"

definition checkAndCreatePsp :: "'e ctl_env \<Rightarrow> ('e, unit) prog" where
  "checkAndCreatePsp env =
     bindM (check_psp env ''topolvm-node'' (CreateTopolvmNodePsp env)) (\<lambda>_.
       check_psp env ''nativestor-preparevg'' (CreateTopolvmPrepareVgPsp env))"

section \<open>Reconciling the cluster\<close>

definition onAdd :: "'e ctl_env \<Rightarrow> topolvm_cluster \<Rightarrow> owner_ref option \<Rightarrow> ('e, unit) handler" where
  "onAdd env c ref =
     bindS (liftS (if ce_operator_hub env
                   then bindM (CheckTopolvmCsiDriverExisting env) (\<lambda>_. checkAndCreatePsp env)
                   else ret ())) (\<lambda>_.
     bindS (wrapS ''start prepare volume group failed'' (startPrepareVolumeGroupJob c ref)) (\<lambda>_.
     bindS getS (\<lambda>s.
     bindS (if ct_cluster s = None then
              bindS (updateCluster (Some c)) (\<lambda>_.
              bindS (updS (\<lambda>s. s\<lparr>ct_tasks := ct_tasks s @ [LvmdInformer]\<rparr>)) (\<lambda>_.
              wrapS ''start cluster monitor failed'' startClusterMonitor))
            else retS ()) (\<lambda>_.
     updateCluster (Some c)))))"

definition reconcileDelete :: "'e ctl_env \<Rightarrow> topolvm_cluster \<Rightarrow> ('e, unit) handler" where
  "reconcileDelete env c =
     bindS getS (\<lambda>s0. let nsName = ct_key s0 in
     bindS (stopCheckClusterStatus env) (\<lambda>_.
     bindS (updateCluster None) (\<lambda>_.
     bindS (wrapS ''clean cluster failed'' (liftS (cleanCluster env nsName))) (\<lambda>_.
     bindS (liftS (if sp_clean_up (tc_spec c)
                   then startCleanUpJobs (jobs_of env s0) (dv_owners (ce_drv env)) (ce_parse_group env)
                          (dv_pod_name (ce_drv env)) c
                   else ret ())) (\<lambda>_.
     wrapS ''failed to remove finalize'' (liftS (removeFinalizer env nsName)))))))"

datatype reconcile_result = NoRequeue | ImmediateRetryResultNoBackoff

definition set_globals :: "string \<times> string \<Rightarrow> topolvm_cluster \<Rightarrow> ctl_state \<Rightarrow> ctl_state" where
  "set_globals request c s =
     s\<lparr>ct_cluster_name := snd request, ct_image := sp_topolvm_version (tc_spec c),
       ct_certs_secret := sp_certs_secret (tc_spec c)\<rparr>"

definition reconcile_add :: "'e ctl_env \<Rightarrow> topolvm_cluster \<Rightarrow> ('e, unit) handler" where
  "reconcile_add env c =
     (case GetControllerObjectOwnerReference (ce_gvk env c) (tc_name c) (ce_uid env c) of
        Inl err \<Rightarrow> failS (Wrapped (''failed to get controller '' @ tc_name c @ '' owner reference'') err)
      | Inr None \<Rightarrow> retS ()
      | Inr (Some ref) \<Rightarrow>
          bindS (updS (\<lambda>s. s\<lparr>ct_ref := Some ref\<rparr>)) (\<lambda>_.
          case checkStorageConfig c of
            Some err \<Rightarrow> failS (Wrapped ''check storage config failed'' err)
          | None \<Rightarrow> wrapS (''failed to reconcile cluster '' @ tc_name c) (onAdd env c (Some ref))))"

definition reconcile_existing ::
  "'e ctl_env \<Rightarrow> string \<times> string \<Rightarrow> topolvm_cluster \<Rightarrow> ('e, reconcile_result \<times> go_error option) handler" where
  "reconcile_existing env request c0 =
     bindS (updS (set_globals request c0)) (\<lambda>_.
     bindS (wrapS ''failed to add finalizer'' (liftS (AddFinalizerIfNotPresent env c0))) (\<lambda>c.
     bindS (updS (\<lambda>s. s\<lparr>ct_key := request\<rparr>)) (\<lambda>_.
     if tc_deleted c then
       bindS (attemptS (reconcileDelete env c)) (\<lambda>r.
         retS (case r of
                 Inl err \<Rightarrow> (ImmediateRetryResultNoBackoff, Some (Wrapped ''failed to clean cluster'' err))
               | Inr _ \<Rightarrow> (NoRequeue, None)))
     else bindS (reconcile_add env c) (\<lambda>_. retS (NoRequeue, None)))))"

definition reconcile_body ::
  "'e ctl_env \<Rightarrow> string \<times> string \<Rightarrow> ('e, reconcile_result \<times> go_error option) handler" where
  "reconcile_body env request =
     bindS (liftS (verifyTopolvmCluster env request)) (\<lambda>_.
     bindS (liftS (attempt (get_cluster env request))) (\<lambda>r.
       case r of
         Inl err \<Rightarrow>
           if is_not_found err then retS (NoRequeue, None)
           else failS (Wrapped ''failed to get topolvm cluster'' err)
       | Inr c \<Rightarrow> reconcile_existing env request c))"

text \<open>\<open>reconcile\<close>: the result and the error it returns, and the state it leaves.\<close>

definition reconcile ::
  "'e ctl_env \<Rightarrow> string \<times> string \<Rightarrow> ctl_state \<Rightarrow> ('e, (reconcile_result \<times> go_error option) \<times> ctl_state) prog" where
  "reconcile env request s =
     bindM (reconcile_body env request s) (\<lambda>(r, s').
       ret (case r of Inl err \<Rightarrow> (NoRequeue, Some err) | Inr p \<Rightarrow> p, s'))"

section \<open>The config maps of the nodes\<close>

definition getNodeName :: "config_map \<Rightarrow> string" where
  "getNodeName cm = map_get (cm_annotations cm) LvmdAnnotationsNodeKey"

definition report_status :: "'e ctl_env \<Rightarrow> ctl_state \<Rightarrow> string \<Rightarrow> ('e, unit) prog" where
  "report_status env s status =
     bindM (lift_sum (co_status_parse (ce_codec env) status)) (\<lambda>nodeStatus.
     wrapM (''update node '' @ nss_node nodeStatus @ '' status failed'')
       (UpdateStatus_node env (ct_key s) nodeStatus))"

definition updateClusterStatus :: "'e ctl_env \<Rightarrow> ctl_state \<Rightarrow> config_map \<Rightarrow> ('e, unit) prog" where
  "updateClusterStatus env s cm =
     (let status = cm_get cm VgStatusConfigMapKey in
      if status = [] then ret () else bindM (attempt (report_status env s status)) (\<lambda>_. ret ()))"

definition checkUpdateClusterStatus :: "'e ctl_env \<Rightarrow> ctl_state \<Rightarrow> config_map \<Rightarrow> config_map \<Rightarrow> ('e, unit) prog" where
  "checkUpdateClusterStatus env s old new =
     (if cm_get new VgStatusConfigMapKey = [] then ret ()
      else if cm_get old VgStatusConfigMapKey \<noteq> cm_get new VgStatusConfigMapKey
      then report_status env s (cm_get new VgStatusConfigMapKey)
      else ret ())"

definition checkingTopolvmNodePluginDeploymentExisting :: "'e ctl_env \<Rightarrow> string \<Rightarrow> ('e, bool) prog" where
  "checkingTopolvmNodePluginDeploymentExisting env nodeName =
     (let drv = ce_drv env; deploymentName = TruncateNodeName (dv_hash drv) TopolvmNodeDeploymentFmt nodeName in
      bindM (attempt (CheckDeploymentIsExisting (dv_deployments drv) deploymentName)) (\<lambda>r.
        ret (case r of Inl _ \<Rightarrow> False | Inr existing \<Rightarrow> existing)))"

text \<open>The plugin of a node: the template, with the images of the settings, tied to the node.\<close>

definition plugin_param :: "'e drv_env \<Rightarrow> op_data \<Rightarrow> template_param" where
  "plugin_param drv data =
     \<lparr>tp_param = zero_param
        \<lparr>cp_topolvm_image := env_of drv data ''TOPOLVM_IMAGE'' DefaultTopolvmImage,
         cp_registrar_image := env_of drv data ''CSI_REGISTRAR_IMAGE'' DefaultRegistrarImage,
         cp_liveness_image := env_of drv data ''CSI_LIVENESS_IMAGE'' DefaultLivenessImage,
         cp_kubelet_dir := env_of drv data ''KUBELET_ROOT_DIR'' DefaultKubeletDir\<rparr>,
      tp_namespace = os_operator_namespace (dv_settings drv)\<rparr>"

definition node_plugin :: "'e drv_env \<Rightarrow> op_data \<Rightarrow> string \<Rightarrow> owner_ref \<Rightarrow> workload \<Rightarrow> workload" where
  "node_plugin drv data node ref tmpl =
     (let wl = dress_pod drv data ''CSI_TOPOLVM_PLUGIN_TOLERATIONS'' ''CSI_TOPOLVM_PLUGIN_NODE_AFFINITY''
                 ''CSI_TOPOLVM_PLUGIN_RESOURCE'' [] None tmpl;
          lvmdName = TruncateNodeName (dv_hash drv) LvmdConfigMapFmt node
      in wl\<lparr>wl_name := TruncateNodeName (dv_hash drv) TopolvmNodeDeploymentFmt node,
            wl_owners := [ref],
            wl_pod := (wl_pod wl)\<lparr>ps_node_selector := [(LabelHostname, node)],
              ps_volumes := ps_volumes (wl_pod wl) @ [(''lvmd-config-dir'', FromConfigMap lvmdName)]\<rparr>\<rparr>)"

definition createTopolvmPluginNodeDeployment :: "'e ctl_env \<Rightarrow> ctl_state \<Rightarrow> string \<Rightarrow> ('e, unit) prog" where
  "createTopolvmPluginNodeDeployment env s node =
     (let drv = ce_drv env in
      bindM (read_parameters (dv_cms drv) (os_operator_namespace (dv_settings drv))) (\<lambda>data.
      bindM (wrapM ''failed to load topolvm provisioner deployment template''
               (lift_sum (TemplateToDeployment (dv_lib drv) ''template/csi-topolvm-plugin.yaml'' (plugin_param drv data))))
        (\<lambda>tmpl.
      case ct_ref s of
        None \<Rightarrow> panicM ''invalid memory address or nil pointer dereference''
      | Some ref \<Rightarrow>
          let plugin = node_plugin drv data node ref tmpl in
          bindM (wrapM (''failed to update topolvm provisioner deployment '' @ wl_name plugin)
                   (CreateOrUpdateDeployment (dv_deployments drv) wl_name (dv_annotate drv) plugin)) (\<lambda>_. ret ()))))"

definition startTopolvmNodePlugin :: "'e ctl_env \<Rightarrow> ctl_state \<Rightarrow> config_map \<Rightarrow> ('e, unit) prog" where
  "startTopolvmNodePlugin env s cm =
     (if cm_lookup cm LvmdConfigMapKey = None then ret ()
      else let nodeName = getNodeName cm in
           if nodeName = [] then ret ()
           else bindM (checkingTopolvmNodePluginDeploymentExisting env nodeName) (\<lambda>existing.
                  if existing then ret () else createTopolvmPluginNodeDeployment env s nodeName))"

definition lvmd_onAdd :: "'e ctl_env \<Rightarrow> ctl_state \<Rightarrow> config_map \<Rightarrow> ('e, unit) prog" where
  "lvmd_onAdd env s cm =
     bindM (updateClusterStatus env s cm) (\<lambda>_.
     bindM (attempt (startTopolvmNodePlugin env s cm)) (\<lambda>_. ret ()))"

text \<open>The pods of the plugin are deleted, so that its deployment makes new ones.\<close>

definition replaceNodePod :: "'e ctl_env \<Rightarrow> string \<Rightarrow> ('e, unit) prog" where
  "replaceNodePod env nodeName =
     (let deploymentName = TruncateNodeName (dv_hash (ce_drv env)) TopolvmNodeDeploymentFmt nodeName in
      bindM (attempt (external [] (\<lambda>e. (ce_pods env deploymentName e, e)))) (\<lambda>r.
        for_each (\<lambda>pod _. bindM (attempt (external [ResourceDelete pod] (ce_delete_pod env pod))) (\<lambda>_. ret ()))
          (case r of Inl _ \<Rightarrow> [] | Inr pods \<Rightarrow> pods) ()))"

text \<open>The three parts of \<open>onUpdate\<close>: the status, the job and the plugin.\<close>

definition rerun_job :: "'e ctl_env \<Rightarrow> ctl_state \<Rightarrow> string \<Rightarrow> config_map \<Rightarrow> config_map \<Rightarrow> ('e, unit) prog" where
  "rerun_job env s nodeName oldCm newCm =
     (if cm_lookup oldCm LocalDiskCMData \<noteq> None
         \<and> cm_get oldCm LocalDiskCMData \<noteq> cm_get newCm LocalDiskCMData \<and> UseAllNodeAndDevices s
      then bindM (attempt (RestartJob env s nodeName (ct_ref s))) (\<lambda>_. ret ())
      else ret ())"

definition refresh_plugin :: "'e ctl_env \<Rightarrow> ctl_state \<Rightarrow> string \<Rightarrow> config_map \<Rightarrow> config_map \<Rightarrow> ('e, unit) prog" where
  "refresh_plugin env s nodeName oldCm newCm =
     (if cm_lookup newCm LvmdConfigMapKey = None then ret ()
      else bindM (checkingTopolvmNodePluginDeploymentExisting env nodeName) (\<lambda>existing.
             if existing then
               if cm_get oldCm LvmdConfigMapKey = cm_get newCm LvmdConfigMapKey then ret ()
               else replaceNodePod env nodeName
             else bindM (attempt (createTopolvmPluginNodeDeployment env s nodeName)) (\<lambda>_. ret ())))"

definition lvmd_onUpdate :: "'e ctl_env \<Rightarrow> ctl_state \<Rightarrow> config_map \<Rightarrow> config_map \<Rightarrow> ('e, unit) prog" where
  "lvmd_onUpdate env s oldCm newCm =
     bindM (attempt (checkUpdateClusterStatus env s oldCm newCm)) (\<lambda>_.
     let nodeName = getNodeName newCm in
     if nodeName = [] then ret ()
     else bindM (rerun_job env s nodeName oldCm newCm) (\<lambda>_. refresh_plugin env s nodeName oldCm newCm))"

section \<open>The informer of the config maps\<close>

text \<open>
  \<open>newLvmdController\<close> watches the config maps of the operator's namespace that carry the label, and hands every event
  to its handler; an object that is no config map (the last state of one whose deletion was missed) is dropped.
\<close>

definition lvmd_watched :: "op_settings \<Rightarrow> config_map \<Rightarrow> bool" where
  "lvmd_watched st cm = (cm_namespace cm = os_operator_namespace st
     \<and> map_of (cm_labels cm) LvmdConfigMapLabelKey = Some LvmdConfigMapLabelValue)"

datatype client_object = ConfigMapObject config_map | OtherObject string

definition getClientObject :: "client_object \<Rightarrow> go_error + config_map" where
  "getClientObject obj =
     (case obj of ConfigMapObject cm \<Rightarrow> Inr cm | OtherObject shown \<Rightarrow> Inl (Msg (''not a known configmap: '' @ shown)))"

datatype informer_event = Added client_object | Updated client_object client_object | Deleted client_object

definition newLvmdController :: "'e ctl_env \<Rightarrow> ctl_state \<Rightarrow> informer_event \<Rightarrow> ('e, unit) prog" where
  "newLvmdController env s ev =
     (case ev of
        Added obj \<Rightarrow> (case getClientObject obj of Inl _ \<Rightarrow> ret () | Inr cm \<Rightarrow> lvmd_onAdd env s cm)
      | Updated oldObj newObj \<Rightarrow>
          (case getClientObject oldObj of
             Inl _ \<Rightarrow> ret ()
           | Inr oldCm \<Rightarrow> (case getClientObject newObj of Inl _ \<Rightarrow> ret () | Inr newCm \<Rightarrow> lvmd_onUpdate env s oldCm newCm))
      | Deleted obj \<Rightarrow> ret ())"

end
