(* ===== verification/Controller_Props.thy ===== *)
theory Controller_Props
  imports Controller Coder
begin

text \<open>
  What is proved of the cluster controller: which cluster is served when there are several, how a
  node's report enters the status, and that the finalizer is given up only after the nodes' config maps
  were cleaned; and of the finalizer list itself.
\<close>

section \<open>Facts\<close>

lemma put_node_state_others:
  "filter (\<lambda>n. nss_node n \<noteq> nss_node st) (put_node_state st ns) = filter (\<lambda>n. nss_node n \<noteq> nss_node st) ns"
  by (induction ns) auto

lemma put_node_state_found: "find (\<lambda>n. nss_node n = nss_node st) (put_node_state st ns) = Some st"
  by (induction ns) auto

lemma put_node_state_names:
  "map nss_node (put_node_state st ns) =
     map nss_node ns @ (if nss_node st \<in> nss_node ` set ns then [] else [nss_node st])"
  by (induction ns) auto

lemma oldest_of_oldest:
  "oldest_of old cs \<in> insert old (set cs)
     \<and> (\<forall>c \<in> insert old (set cs). tc_created (oldest_of old cs) \<le> tc_created c)"
proof (induction cs arbitrary: old)
  case (Cons c cs)
  from Cons [of "if tc_created c < tc_created old then c else old"] show ?case by (auto split: if_splits)
qed simp

lemma UpdateStatus_first:
  "\<exists>es. w_trace (snd (UpdateStatus (external [ev] call) upd n w)) = w_trace w @ ev # es"
  if "emits (\<lambda>_. True) upd"
proof -
  obtain r w1 where m: "external [ev] call w = (r, w1)" by fastforce
  then have w1: "w_trace w1 = w_trace w @ [ev]" by (auto simp: external_def split: prod.splits)
  have tail: "emits (\<lambda>_. True) (status_or_update (external [ev] call) upd)"
    unfolding status_or_update_def by (intro emits_intros that) simp_all
  obtain r2 w2 where s: "status_or_update (external [ev] call) upd w = (r2, w2)" by fastforce
  have w2: "\<exists>es. w_trace w2 = w_trace w @ ev # es"
  proof (cases r)
    case (Fail err)
    then show ?thesis using s m w1 emits_at [OF that, of w1]
      by (auto simp: status_or_update_def bindM_def attempt_def failM_def split: if_splits)
  qed (use s m w1 in \<open>auto simp: status_or_update_def bindM_def attempt_def ret_def\<close>)
  show ?thesis
  proof (cases r2)
    case (Fail err)
    obtain r3 w3 where t: "status_or_update (external [ev] call) upd w2 = (r3, w3)" by fastforce
    from w2 emits_at [OF tail t] have "\<exists>es. w_trace w3 = w_trace w @ ev # es" by auto
    with Fail s w2 t show ?thesis
      by (cases r3) (auto simp: UpdateStatus_def bindM_def attempt_def failM_def wrapM_def)
  qed (use s w2 in \<open>auto simp: UpdateStatus_def bindM_def attempt_def ret_def\<close>)
qed

text \<open>The first thing the report of a node sends is the status with its entry.\<close>

lemma report_sent:
  assumes "ce_get env key (w_env w) = Inr c"
  shows "\<exists>es. w_trace (snd (UpdateStatus_node env key st w)) = w_trace w @ ClusterUpdateStatus
    (c\<lparr>tc_status := (tc_status c)\<lparr>cst_node_storage := put_node_state st (cst_node_storage (tc_status c))\<rparr>\<rparr>) # es"
proof -
  let ?c = "c\<lparr>tc_status := (tc_status c)\<lparr>cst_node_storage := put_node_state st (cst_node_storage (tc_status c))\<rparr>\<rparr>"
  let ?upd = "bindM (update_cluster env ?c) (\<lambda>_. ret ())"
  let ?send = "UpdateStatus (external [ClusterUpdateStatus ?c] (ce_status_update env ?c)) ?upd (tc_name ?c)"
  have "attempt (get_cluster env key) w = (Ok (Inr c), w)"
    using assms by (simp add: get_cluster_def attempt_def external_def)
  then have run: "UpdateStatus_node env key st w =
      wrapM (''failed to update cluster '' @ snd key @ '' status'') ?send w"
    by (simp add: UpdateStatus_node_def bindM_eqs(1) Let_def)
  have "emits (\<lambda>_. True) ?upd" unfolding update_cluster_def by (intro emits_intros) simp
  from UpdateStatus_first [OF this] obtain es where
    "w_trace (snd (?send w)) = w_trace w @ ClusterUpdateStatus ?c # es" by blast
  then show ?thesis unfolding run by (auto simp: wrapM_def split: prod.splits outcome.splits)
qed

lemma contains_iff [simp]: "contains l s \<longleftrightarrow> s \<in> set l"
  by (induction l) auto

lemma remove_at_most_once: "count_list l s \<le> 1 \<Longrightarrow> remove l s = Ok (removeAll s l)"
proof (cases "s \<in> set l")
  case True
  then obtain pre post where l: "l = pre @ s # post" and pre: "s \<notin> set pre" by (meson split_list_first)
  assume "count_list l s \<le> 1"
  with l pre have "s \<notin> set post" by (auto simp: count_list_0_iff)
  with l pre show ?thesis by (simp add: remove_once)
next
  case False
  then show ?thesis by (auto simp: remove_def remove_from_absent in_set_conv_nth)
qed

section \<open>What a cleaning run does\<close>

definition no_cluster_update :: "event \<Rightarrow> bool" where
  "no_cluster_update ev = (case ev of ClusterUpdate c \<Rightarrow> False | _ \<Rightarrow> True)"

lemma emits_list_nodes [emits_intros]: "emits P (list_nodes api sel)"
  by (simp add: list_nodes_def emits_external)

lemma clean_cm_loop:
  assumes "for_each (\<lambda>cm _. external [CmUpdate (clean_cm cm)] (upd cm)) cms () w = (Ok (), w')"
  shows "w_trace w' = w_trace w @ map (\<lambda>cm. CmUpdate (clean_cm cm)) cms"
  using assms
proof (induction cms arbitrary: w)
  case (Cons cm cms)
  then obtain w1 where m: "external [CmUpdate (clean_cm cm)] (upd cm) w = (Ok (), w1)"
    and rest: "for_each (\<lambda>cm _. external [CmUpdate (clean_cm cm)] (upd cm)) cms () w1 = (Ok (), w')"
    by (auto elim: bindM_OkE)
  from m have "w_trace w1 = w_trace w @ [CmUpdate (clean_cm cm)]" by (auto simp: external_def split: prod.splits)
  with Cons.IH [OF rest] show ?case by simp
qed (simp add: ret_def)

lemma cleanLvmdConfigmap_trace:
  assumes "cleanLvmdConfigmap env ns w = (Ok (), w')"
  obtains cms where "ca_list (dv_cms (ce_drv env)) ns (w_env w) = Inr cms"
    and "w_trace w' = w_trace w @ map (\<lambda>cm. CmUpdate (clean_cm cm)) cms"
proof -
  let ?api = "dv_cms (ce_drv env)"
  from assms obtain cms w1 where l: "external [] (\<lambda>e. (ca_list ?api ns e, e)) w = (Ok cms, w1)"
    and loop: "for_each (\<lambda>cm _. external [CmUpdate (clean_cm cm)] (ca_update ?api (clean_cm cm))) cms () w1 = (Ok (), w')"
    unfolding cleanLvmdConfigmap_def Let_def by (elim bindM_OkE)
  from l have "ca_list ?api ns (w_env w) = Inr cms" and "w_trace w1 = w_trace w"
    by (auto simp: external_def split: sum.splits)
  with clean_cm_loop [OF loop] that show ?thesis by simp
qed

lemma emits_cleanLvmdConfigmap: "emits no_cluster_update (cleanLvmdConfigmap env ns)"
  unfolding cleanLvmdConfigmap_def Let_def by (intro emits_intros) (simp_all add: no_cluster_update_def)

lemma emits_cleanCluster: "emits no_cluster_update (cleanCluster env key)"
  unfolding cleanCluster_def RemoveNodeCapacityAnnotations_def strip_node_def strip_step_def Let_def
    DeleteTopolvmCsiDriver_def delete_obj_def get_obj_def
  by (intro emits_intros emits_cleanLvmdConfigmap) (simp_all add: no_cluster_update_def)

lemma cleanCluster_starts:
  assumes "cleanCluster env key w = (Ok (), w')"
  shows "\<exists>cms es. ca_list (dv_cms (ce_drv env)) (fst key) (w_env w) = Inr cms
    \<and> w_trace w' = w_trace w @ map (\<lambda>cm. CmUpdate (clean_cm cm)) cms @ es"
proof -
  from assms obtain w1 where c: "cleanLvmdConfigmap env (fst key) w = (Ok (), w1)"
    and rest: "bindM (wrapM ''failed to remove node capacity annotations'' (RemoveNodeCapacityAnnotations env))
      (\<lambda>_. DeleteTopolvmCsiDriver env) w1 = (Ok (), w')"
    unfolding cleanCluster_def by (auto elim: bindM_OkE)
  have "emits (\<lambda>_. True) (bindM (wrapM ''failed to remove node capacity annotations'' (RemoveNodeCapacityAnnotations env))
      (\<lambda>_. DeleteTopolvmCsiDriver env))"
    unfolding RemoveNodeCapacityAnnotations_def strip_node_def strip_step_def Let_def
      DeleteTopolvmCsiDriver_def delete_obj_def get_obj_def by (intro emits_intros) simp_all
  from emits_at [OF this rest] obtain es where es: "w_trace w' = w_trace w1 @ es" by auto
  from cleanLvmdConfigmap_trace [OF c] obtain cms where
    "ca_list (dv_cms (ce_drv env)) (fst key) (w_env w) = Inr cms"
    "w_trace w1 = w_trace w @ map (\<lambda>cm. CmUpdate (clean_cm cm)) cms" by blast
  with es show ?thesis by auto
qed

section \<open>An API server to evaluate on\<close>

text \<open>It holds clusters and nothing else.\<close>

definition no_kind :: "(topolvm_cluster list, 'o) kind_api" where
  "no_kind = \<lparr>ka_get = (\<lambda>n e. Inl (ApiNotFound n)), ka_create = (\<lambda>obj e. (Inr obj, e)),
     ka_update = (\<lambda>obj e. (Inr obj, e)), ka_delete = (\<lambda>n e. (Inl (ApiNotFound n), e))\<rparr>"

definition no_nodes :: "topolvm_cluster list node_api" where
  "no_nodes = \<lparr>na_list = (\<lambda>sel e. Inr []), na_get = (\<lambda>n e. Inl (ApiNotFound n)),
     na_patch = (\<lambda>old new e. (Inr (), e))\<rparr>"

definition no_cms :: "topolvm_cluster list cm_api" where
  "no_cms = \<lparr>ca_get = (\<lambda>ns n e. Inl (ApiNotFound n)), ca_list = (\<lambda>ns e. Inr []),
     ca_create = (\<lambda>cm e. (Inr (), e)), ca_update = (\<lambda>cm e. (Inr (), e)),
     ca_patch = (\<lambda>ns old new e. (Inr (), e)), ca_delete = (\<lambda>ns n e. (Inr (), e))\<rparr>"

definition no_lib :: csi_lib where
  "no_lib = \<lparr>cl_env = (\<lambda>_. None), cl_template = (\<lambda>n p. Inr n), cl_workload = (\<lambda>s. Inl (Msg s)),
     cl_driver = (\<lambda>s. Inl (Msg s)), cl_yaml_json = Inr, cl_tolerations = (\<lambda>s. Inr []),
     cl_resources = (\<lambda>s. ([], None)), cl_rules = \<lparr>lr_qualified = (\<lambda>_. True), lr_valid_value = (\<lambda>_. True)\<rparr>\<rparr>"

definition demo_settings :: op_settings where
  "demo_settings = \<lparr>os_namespace = ''ns'', os_cluster_name = [], os_operator_namespace = ''ns'', os_image = ''img''\<rparr>"

definition demo_jobs :: "topolvm_cluster list job_env" where
  "demo_jobs = \<lparr>je_settings = demo_settings, je_hash = (\<lambda>s. s),
     je_version = (\<lambda>e. Inr \<lparr>sv_major = ''1'', sv_minor = ''22''\<rparr>), je_poll = (\<lambda>i t m. ret ()),
     je_jobs = \<lparr>ja_get = (\<lambda>n e. Inl (ApiNotFound n)), ja_create = (\<lambda>j e. (Inr (), e)), ja_delete = (\<lambda>n e. (Inr (), e))\<rparr>,
     je_nodes = no_nodes\<rparr>"

definition demo_drv :: "topolvm_cluster list drv_env" where
  "demo_drv = \<lparr>dv_lib = no_lib, dv_settings = demo_settings, dv_certs_secret = [], dv_pod_name = ''pod'',
     dv_hash = (\<lambda>s. s), dv_cms = no_cms,
     dv_owners = \<lparr>oa_pod = (\<lambda>n e. Inr []), oa_replicaset = (\<lambda>n e. Inr [])\<rparr>,
     dv_version = (\<lambda>e. Inr \<lparr>sv_major = ''1'', sv_minor = ''22''\<rparr>), dv_nodes = no_nodes,
     dv_deployments = no_kind, dv_daemonsets = no_kind, dv_drivers = no_kind,
     dv_plugins = (\<lambda>e. Inr []), dv_secret = (\<lambda>n e. Inr ()), dv_annotate = Inr\<rparr>"

definition demo_env :: "topolvm_cluster list ctl_env" where
  "demo_env = \<lparr>ce_jobs = demo_jobs, ce_drv = demo_drv, ce_operator_hub = False, ce_list = (\<lambda>e. Inr (Some e)),
     ce_get = (\<lambda>key e. case find (\<lambda>c. tc_name c = snd key) e of Some c \<Rightarrow> Inr c | None \<Rightarrow> Inl (ApiNotFound (snd key))),
     ce_update = (\<lambda>c e. (Inr c, map (\<lambda>c2. if tc_name c2 = tc_name c then c else c2) e)),
     ce_status_update = (\<lambda>c e. (Inr (), map (\<lambda>c2. if tc_name c2 = tc_name c then c else c2) e)),
     ce_kind = ''TopolvmCluster'', ce_gvk = (\<lambda>c. Inr \<lparr>gk_group = ''topolvm.cybozu.com'', gk_version = ''v2'', gk_kind = ''TopolvmCluster''\<rparr>),
     ce_uid = (\<lambda>c. ''uid''), ce_psps = no_kind,
     ce_pods = (\<lambda>n e. Inr []), ce_delete_pod = (\<lambda>n e. (Inr (), e)), ce_parse_group = Inr,
     ce_stopped = (\<lambda>e. False), ce_ord = (\<lambda>ks. ks), ce_codec = ref_codec\<rparr>"

definition demo_cluster :: "string \<Rightarrow> nat \<Rightarrow> topolvm_cluster" where
  "demo_cluster name created =
     \<lparr>tc_name = name, tc_namespace = ''ns'', tc_finalizers = [], tc_deleted = False, tc_created = created,
      tc_spec = \<lparr>sp_topolvm_version = [], sp_certs_secret = [],
        sp_storage = \<lparr>st_device_classes = None, st_use_all_nodes = True, st_use_all_devices = True, st_devices = None,
          st_volume_group_name = ''vg'', st_class_name = ''hdd'', st_use_loop = False\<rparr>, sp_clean_up = False\<rparr>,
      tc_status = \<lparr>cst_phase = ConditionReady,
        cst_node_storage = [zero_node_storage_state\<lparr>nss_node := ''n1''\<rparr>, zero_node_storage_state\<lparr>nss_node := ''n2''\<rparr>]\<rparr>\<rparr>"

definition demo_world :: "topolvm_cluster list world" where
  "demo_world = \<lparr>w_env = [demo_cluster ''b'' 7, demo_cluster ''a'' 3], w_trace = []\<rparr>"

lemmas demo_defs = demo_env_def demo_jobs_def demo_settings_def demo_world_def demo_cluster_def

section \<open>The properties\<close>

text \<open>
  C26: One cluster is served.  When the verification of a request succeeds and there are several
  clusters, the request names one of them, and none of them was created before it.
\<close>

theorem only_oldest_cluster_served:
  assumes "verifyTopolvmCluster env request w = (Ok (), w')"
    and "ce_list env (w_env w) = Inr (Some cs)" and "length cs > 1"
  shows "fst request = os_operator_namespace (je_settings (ce_jobs env))
    \<and> (\<exists>c \<in> set cs. tc_name c = snd request \<and> (\<forall>c2 \<in> set cs. tc_created c \<le> tc_created c2))"
proof -
  from assms(3) obtain c c2 cs' where cs: "cs = c # c2 # cs'"
    by (cases cs; cases "tl cs") auto
  with assms(1,2) have ns: "fst request = os_operator_namespace (je_settings (ce_jobs env))"
    and nm: "snd request = tc_name (oldest_of c cs)"
    by (auto simp: verifyTopolvmCluster_def Let_def bindM_def wrapM_def external_def failM_def split: if_splits)
  with oldest_of_oldest [of c cs] cs show ?thesis by auto
qed

theorem only_oldest_cluster_served_witness:
  "verifyTopolvmCluster demo_env (''ns'', ''a'') demo_world = (Ok (), demo_world)
   \<and> (\<exists>c \<in> set (w_env demo_world). tc_name c = ''a'' \<and> (\<forall>c2 \<in> set (w_env demo_world). tc_created c \<le> tc_created c2))"
proof -
  have run: "verifyTopolvmCluster demo_env (''ns'', ''a'') demo_world = (Ok (), demo_world)"
    by (simp add: demo_defs verifyTopolvmCluster_def Let_def bindM_def wrapM_def external_def ret_def)
  have "ce_list demo_env (w_env demo_world) = Inr (Some (w_env demo_world))" and "length (w_env demo_world) > 1"
    by (simp_all add: demo_defs)
  from run only_oldest_cluster_served [OF run this] show ?thesis by simp
qed

text \<open>
  A node's report enters the status of the cluster.  When the cluster is found, \<open>UpdateStatus\<close>
  sends a status whose entry for the node is the report, which differs from the one read in no entry
  of another node nor in the phase, and which has one entry per node if the one read had.
\<close>

theorem node_report_upserted:
  assumes "ce_get env key (w_env w) = Inr c"
  shows "\<exists>items es. w_trace (snd (UpdateStatus_node env key st w)) = w_trace w
        @ ClusterUpdateStatus (c\<lparr>tc_status := \<lparr>cst_phase = cst_phase (tc_status c), cst_node_storage = items\<rparr>\<rparr>) # es
    \<and> find (\<lambda>n. nss_node n = nss_node st) items = Some st
    \<and> filter (\<lambda>n. nss_node n \<noteq> nss_node st) items
        = filter (\<lambda>n. nss_node n \<noteq> nss_node st) (cst_node_storage (tc_status c))
    \<and> (distinct (map nss_node (cst_node_storage (tc_status c))) \<longrightarrow> distinct (map nss_node items))"
proof -
  let ?items = "put_node_state st (cst_node_storage (tc_status c))"
  let ?c = "c\<lparr>tc_status := (tc_status c)\<lparr>cst_node_storage := ?items\<rparr>\<rparr>"
  from report_sent [where env = env and key = key and w = w and c = c, OF assms] obtain es where
    "w_trace (snd (UpdateStatus_node env key st w)) = w_trace w @ ClusterUpdateStatus ?c # es" by blast
  moreover have "?c = c\<lparr>tc_status := \<lparr>cst_phase = cst_phase (tc_status c), cst_node_storage = ?items\<rparr>\<rparr>"
    by (cases "tc_status c") simp
  ultimately show ?thesis
    by (intro exI [of _ ?items] exI [of _ es])
      (auto simp: put_node_state_found put_node_state_others put_node_state_names)
qed

theorem node_report_upserted_witness:
  "\<exists>items es. w_trace (snd (UpdateStatus_node demo_env (''ns'', ''a'') (zero_node_storage_state\<lparr>nss_node := ''n2'', nss_phase := ''x''\<rparr>)
        demo_world)) = ClusterUpdateStatus ((demo_cluster ''a'' 3)\<lparr>tc_status := \<lparr>cst_phase = ConditionReady, cst_node_storage = items\<rparr>\<rparr>) # es
    \<and> find (\<lambda>n. nss_node n = ''n2'') items = Some (zero_node_storage_state\<lparr>nss_node := ''n2'', nss_phase := ''x''\<rparr>)
    \<and> distinct (map nss_node items)"
proof -
  have "ce_get demo_env (''ns'', ''a'') (w_env demo_world) = Inr (demo_cluster ''a'' 3)" by (simp add: demo_defs)
  from node_report_upserted [OF this, of "zero_node_storage_state\<lparr>nss_node := ''n2'', nss_phase := ''x''\<rparr>"]
  show ?thesis by (simp add: demo_world_def demo_cluster_def) blast
qed


text \<open>
  Finalizers.  On a list that holds the operator's finalizer at most once, \<open>remove\<close> deletes exactly
  it, without the panic its loop over the shrinking slice can cause, and adding it first (if it is not
  there) leaves a list that holds it once and from which it is removed again.
\<close>

theorem finalizer_removed_exactly:
  assumes "count_list fs (buildFinalizerName kind) \<le> 1"
  shows "remove fs (buildFinalizerName kind) = Ok (removeAll (buildFinalizerName kind) fs)
    \<and> (let gs = (if contains fs (buildFinalizerName kind) then fs else fs @ [buildFinalizerName kind]) in
        count_list gs (buildFinalizerName kind) = 1
        \<and> remove gs (buildFinalizerName kind) = Ok (removeAll (buildFinalizerName kind) fs))"
proof -
  let ?F = "buildFinalizerName kind"
  let ?gs = "if contains fs ?F then fs else fs @ [?F]"
  have one: "count_list ?gs ?F = 1"
  proof (cases "?F \<in> set fs")
    case True
    with assms show ?thesis using count_list_0_iff [of fs ?F] by simp
  next
    case False
    then show ?thesis by (simp add: count_list_0_iff)
  qed
  moreover have "removeAll ?F ?gs = removeAll ?F fs" by simp
  ultimately show ?thesis using remove_at_most_once [OF assms] remove_at_most_once [of ?gs ?F]
    by (simp only: Let_def)
qed

theorem finalizer_removed_exactly_witness:
  "remove [''other'', buildFinalizerName ''TopolvmCluster'', ''last''] (buildFinalizerName ''TopolvmCluster'')
     = Ok [''other'', ''last'']"
proof -
  have "count_list [''other'', buildFinalizerName ''TopolvmCluster'', ''last''] (buildFinalizerName ''TopolvmCluster'') \<le> 1"
    and "removeAll (buildFinalizerName ''TopolvmCluster'') [''other'', buildFinalizerName ''TopolvmCluster'', ''last'']
      = [''other'', ''last'']"
    by (simp_all add: buildFinalizerName_def CustomResourceGroup_def)
  with finalizer_removed_exactly [of "[''other'', buildFinalizerName ''TopolvmCluster'', ''last'']" "''TopolvmCluster''"]
  show ?thesis by simp
qed

end
