(* ===== verification/Frames.thy ===== *)
theory Frames
  imports World
begin

text \<open>
  What a program does to the environment, whatever it returns: \<open>moves R m\<close> says that every run of \<open>m\<close>
  relates the environment before it to the one after it.  For a reflexive and transitive relation (a
  part of the environment that is kept, a set that may only shrink) the rules follow the program's
  structure, as those for \<open>emits\<close> do for the events.
\<close>

definition moves :: "('e \<Rightarrow> 'e \<Rightarrow> bool) \<Rightarrow> ('e, 'a) prog \<Rightarrow> bool" where
  "moves R m = (\<forall>w. R (w_env w) (w_env (snd (m w))))"

lemma movesI: "(\<And>w r w'. m w = (r, w') \<Longrightarrow> R (w_env w) (w_env w')) \<Longrightarrow> moves R m"
  unfolding moves_def by (metis prod.collapse)

lemma moves_at: "moves R m \<Longrightarrow> m w = (r, w') \<Longrightarrow> R (w_env w) (w_env w')"
  unfolding moves_def by (metis snd_conv)

lemma moves_mono: "moves R m \<Longrightarrow> (\<And>a b. R a b \<Longrightarrow> S a b) \<Longrightarrow> moves S m"
  by (simp add: moves_def)

lemma moves_external: "(\<And>e r e'. c e = (r, e') \<Longrightarrow> R e e') \<Longrightarrow> moves R (external evs c)"
  by (rule movesI) (auto simp: external_def split: prod.splits)

lemma moves_attempt: "moves R m \<Longrightarrow> moves R (attempt m)"
  by (rule movesI) (auto simp: attempt_def dest: moves_at split: prod.splits outcome.splits)

lemma moves_wrapM: "moves R m \<Longrightarrow> moves R (wrapM msg m)"
  by (rule movesI) (auto simp: wrapM_def dest: moves_at split: prod.splits outcome.splits)

text \<open>A loop keeps what each of its steps keeps, also when it stops at an error.\<close>

lemma for_each_world:
  assumes "\<And>x s w. x \<in> set xs \<Longrightarrow> I w \<Longrightarrow> I (snd (f x s w))" and "I w"
  shows "I (snd (for_each f xs s w))"
  using assms
proof (induction xs arbitrary: s w)
  case Nil
  then show ?case by (simp add: ret_def)
next
  case (Cons x xs)
  obtain r w1 where f: "f x s w = (r, w1)" by fastforce
  with Cons.prems(1) [of x w s] Cons.prems(2) have i: "I w1" by simp
  show ?case
  proof (cases r)
    case (Ok s1)
    from Cons.IH [OF _ i, of s1] Cons.prems(1) f Ok show ?thesis by (simp add: bindM_eqs)
  qed (use f i in \<open>simp_all add: bindM_eqs\<close>)
qed

locale env_relation =
  fixes R :: "'e \<Rightarrow> 'e \<Rightarrow> bool"
  assumes refl: "R e e" and trans: "R a b \<Longrightarrow> R b c \<Longrightarrow> R a c"
begin

lemma moves_basic:
  "moves R (ret x)" "moves R (failM err)" "moves R (panicM p)" "moves R (lift_outcome out)"
  "moves R (lift_sum s)" "moves R (emit ev)"
  by (auto simp: moves_def prog_defs refl split: sum.splits)

lemma moves_read: "moves R (external evs (\<lambda>e. (f e, e)))"
  by (rule moves_external) (simp add: refl)

lemma moves_bindM:
  assumes "moves R m" and "\<And>x. moves R (f x)"
  shows "moves R (bindM m f)"
proof (rule movesI)
  fix w r w'
  assume b: "bindM m f w = (r, w')"
  obtain r1 w1 where m: "m w = (r1, w1)" by fastforce
  from moves_at [OF assms(1) m] have R1: "R (w_env w) (w_env w1)" .
  show "R (w_env w) (w_env w')"
  proof (cases r1)
    case (Ok x)
    with b m have "f x w1 = (r, w')" by (simp add: bindM_eqs)
    from trans [OF R1 moves_at [OF assms(2) this]] show ?thesis .
  qed (use b m R1 in \<open>simp_all add: bindM_eqs\<close>)
qed

lemma moves_for_each: "(\<And>x s. x \<in> set xs \<Longrightarrow> moves R (f x s)) \<Longrightarrow> moves R (for_each f xs s)"
  by (induction xs arbitrary: s) (auto intro: moves_basic moves_bindM)

lemma moves_cases:
  "moves R a \<Longrightarrow> moves R b \<Longrightarrow> moves R (if c then a else b)"
  "moves R a \<Longrightarrow> (\<And>x. moves R (g x)) \<Longrightarrow> moves R (case o1 of None \<Rightarrow> a | Some x \<Rightarrow> g x)"
  "(\<And>x. moves R (h x)) \<Longrightarrow> (\<And>y. moves R (k y)) \<Longrightarrow> moves R (case s of Inl x \<Rightarrow> h x | Inr y \<Rightarrow> k y)"
  "(\<And>x y. moves R (q x y)) \<Longrightarrow> moves R (case p of (x, y) \<Rightarrow> q x y)"
  "moves R a \<Longrightarrow> (\<And>x xs. moves R (l x xs)) \<Longrightarrow> moves R (case zs of [] \<Rightarrow> a | x # xs \<Rightarrow> l x xs)"
  by (cases o1; cases s; cases p; cases zs; simp)+

lemmas intros = moves_basic moves_read moves_bindM moves_for_each moves_cases moves_attempt moves_wrapM

lemma moves_command:
  assumes "\<And>cmd args e r e'. os cmd args e = (r, e') \<Longrightarrow> R e e'"
  shows "moves R (ExecuteCommand os cmd args)" and "moves R (ExecuteCommandWithOutput os cmd args)"
    and "moves R (ExecuteCommandWithCombinedOutput os cmd args)"
  unfolding ExecuteCommand_def ExecuteCommandWithOutput_def ExecuteCommandWithCombinedOutput_def run_process_def
  by (intro intros moves_external; use assms in \<open>auto split: prod.splits\<close>)+

end

text \<open>The relation that keeps a part of the environment.\<close>

definition keeps :: "('e \<Rightarrow> 'v) \<Rightarrow> 'e \<Rightarrow> 'e \<Rightarrow> bool" where
  "keeps part a b = (part b = part a)"

interpretation kept: env_relation "keeps part" for part :: "'e \<Rightarrow> 'v"
  by unfold_locales (simp_all add: keeps_def)

end
