(* ===== verification/ClusterStatus.thy ===== *)
theory ClusterStatus
  imports Monitor_Props Controller_Props Frames
begin

text \<open>
  The status of the cluster object has two writers: the check of the monitor
  (\<open>topolvm/monitor/status.go\<close>), which computes phases, and the reports of the nodes, which the controller
  enters (\<open>UpdateStatus\<close> of \<open>topolvm/controller/topolvmcluster_controller.go\<close>).  Both read the object and write the
  whole status back under the lock \<open>statusLock\<close>, so each is one step here.  The store of the object is
  known by the laws of \<open>status_store\<close>.
\<close>

section \<open>The store of the object\<close>

definition writes :: "('e \<Rightarrow> cluster_status option) \<Rightarrow> cluster_status \<Rightarrow> 'e \<Rightarrow> 'e \<Rightarrow> bool" where
  "writes sv cs a b = (sv b = sv a \<or> sv b = Some cs)"

interpretation written: env_relation "writes sv cs" for sv :: "'e \<Rightarrow> cluster_status option" and cs
  by unfold_locales (auto simp: writes_def)

locale status_store =
  fixes sv :: "'e \<Rightarrow> cluster_status option" and mon :: "'e monitor_env" and env :: "'e ctl_env"
    and key :: "string \<times> string"
  assumes read_monitor: "me_get_cluster mon e = Inr c \<Longrightarrow> sv e = Some (tc_status c) \<and> tc_name c = snd key"
    and read_controller: "ce_get env key e = Inr c \<Longrightarrow> sv e = Some (tc_status c) \<and> tc_name c = snd key"
    and write_monitor: "tc_name c = snd key \<Longrightarrow> me_status_update mon c e = (r, e') \<Longrightarrow> writes sv (tc_status c) e e'"
      "tc_name c = snd key \<Longrightarrow> me_update mon c e = (r, e') \<Longrightarrow> writes sv (tc_status c) e e'"
    and write_controller: "tc_name c = snd key \<Longrightarrow> ce_status_update env c e = (r, e') \<Longrightarrow> writes sv (tc_status c) e e'"
      "tc_name c = snd key \<Longrightarrow> ce_update env c e = (r2, e') \<Longrightarrow> writes sv (tc_status c) e e'"
    and order: "range_order (me_ord mon)"
begin

lemma moves_UpdateStatus:
  "moves (writes sv cs) p \<Longrightarrow> moves (writes sv cs) q \<Longrightarrow> moves (writes sv cs) (UpdateStatus p q n)"
  unfolding UpdateStatus_def status_or_update_def by (intro written.intros) assumption+

text \<open>What one check makes of the status, and one report.\<close>

lemma check_status:
  assumes "checkStatus mon w = (r, w')"
  shows "sv (w_env w') = sv (w_env w) \<or> (\<exists>cs0 m ms. sv (w_env w) = Some cs0 \<and> node_keyed m \<and>
    sv (w_env w') = Some (fst (settle (merge_nodes (me_ord mon) m (cst_node_storage cs0)) ms)))"
proof (cases "me_get_cluster mon (w_env w)")
  case (Inl err)
  with assms show ?thesis by (simp add: checkStatus_def bindM_eqs(1) [OF attempt_external] ret_def)
next
  case (Inr c)
  obtain m ms cs ms' bad where k: "node_keyed m"
    and s: "settle (merge_nodes (me_ord mon) m (cst_node_storage (tc_status c))) ms = (cs, ms', bad)"
    and run: "checkStatus mon w =
      (if tc_status c = cs then ret ()
       else bindM (emit (SendMetric \<lparr>mt_cluster = tc_name c, mt_cluster_status = bad, mt_node_status = ms'\<rparr>)) (\<lambda>_.
            bindM (attempt (send_status mon c cs)) (\<lambda>_. ret ()))) w"
    using checkStatus_run [where env = mon and w = w and c = c, OF Inr] by metis
  from read_monitor [OF Inr] have c: "sv (w_env w) = Some (tc_status c)" "tc_name c = snd key" by auto
  have "moves (writes sv cs) (send_status mon c cs)"
    using write_monitor [of "c\<lparr>tc_status := cs\<rparr>"] c(2) unfolding send_status_def
    by (intro moves_UpdateStatus moves_external) simp_all
  then have "moves (writes sv cs) (if tc_status c = cs then ret ()
       else bindM (emit (SendMetric \<lparr>mt_cluster = tc_name c, mt_cluster_status = bad, mt_node_status = ms'\<rparr>)) (\<lambda>_.
            bindM (attempt (send_status mon c cs)) (\<lambda>_. ret ())))" by (intro written.intros)
  from moves_at [OF this] run assms have "writes sv cs (w_env w) (w_env w')" by metis
  then show ?thesis
    using c(1) k s by (auto simp: writes_def intro!: exI [of _ m] exI [of _ ms])
qed

lemma report_status:
  assumes "UpdateStatus_node env key st w = (r, w')"
  shows "sv (w_env w') = sv (w_env w) \<or> (\<exists>cs0. sv (w_env w) = Some cs0 \<and>
    sv (w_env w') = Some (cs0\<lparr>cst_node_storage := put_node_state st (cst_node_storage cs0)\<rparr>))"
proof (cases "ce_get env key (w_env w)")
  case (Inl err)
  then show ?thesis using assms
    by (auto simp: UpdateStatus_node_def get_cluster_def bindM_eqs(1) [OF attempt_external] ret_def failM_def split: if_splits)
next
  case (Inr c)
  let ?cs = "(tc_status c)\<lparr>cst_node_storage := put_node_state st (cst_node_storage (tc_status c))\<rparr>"
  let ?m = "wrapM (''failed to update cluster '' @ snd key @ '' status'')
      (UpdateStatus (external [ClusterUpdateStatus (c\<lparr>tc_status := ?cs\<rparr>)] (ce_status_update env (c\<lparr>tc_status := ?cs\<rparr>)))
        (bindM (update_cluster env (c\<lparr>tc_status := ?cs\<rparr>)) (\<lambda>_. ret ())) (tc_name c))"
  from read_controller [OF Inr] have c: "sv (w_env w) = Some (tc_status c)" "tc_name c = snd key" by auto
  have "moves (writes sv ?cs) ?m" unfolding update_cluster_def
    using write_controller [of "c\<lparr>tc_status := ?cs\<rparr>"] c(2)
    by (intro moves_wrapM moves_UpdateStatus written.intros moves_external) simp_all
  moreover have "UpdateStatus_node env key st w = ?m w"
    using Inr by (simp add: UpdateStatus_node_def get_cluster_def bindM_eqs(1) [OF attempt_external] Let_def)
  ultimately have "writes sv ?cs (w_env w) (w_env w')" using assms moves_at by metis
  with c(1) show ?thesis by (auto simp: writes_def)
qed

end

section \<open>The steps of the two writers\<close>

inductive status_step ::
  "'e monitor_env \<Rightarrow> 'e ctl_env \<Rightarrow> string \<times> string \<Rightarrow> (node_storage_state \<Rightarrow> bool) \<Rightarrow> 'e world \<Rightarrow> 'e world \<Rightarrow> bool"
  for mon env key P where
  check: "checkStatus mon w = (r, w') \<Longrightarrow> status_step mon env key P w w'"
| report: "P st \<Longrightarrow> UpdateStatus_node env key st w = (r, w') \<Longrightarrow> status_step mon env key P w w'"

inductive status_steps ::
  "'e monitor_env \<Rightarrow> 'e ctl_env \<Rightarrow> string \<times> string \<Rightarrow> (node_storage_state \<Rightarrow> bool) \<Rightarrow> 'e world \<Rightarrow> 'e world \<Rightarrow> bool"
  for mon env key P where
  refl: "status_steps mon env key P w w"
| step: "status_steps mon env key P w w' \<Longrightarrow> status_step mon env key P w' w'' \<Longrightarrow> status_steps mon env key P w w''"

text \<open>The phases a status may show; an entry that no check has seen yet has the empty one.\<close>

definition status_typed :: "cluster_status \<Rightarrow> bool" where
  "status_typed cs \<longleftrightarrow> distinct (map nss_node (cst_node_storage cs))
     \<and> cst_phase cs \<in> {[], ConditionReady, ConditionFailure}
     \<and> nss_phase ` set (cst_node_storage cs) \<subseteq> insert [] declared_phases"

text \<open>What a node has reported, without its phase.\<close>

definition report_of :: "node_storage_state \<Rightarrow> class_state list \<times> class_state list \<times> loop_state list" where
  "report_of n = (nss_fail_classes n, nss_success_classes n, nss_loops n)"

definition node_report :: "string \<Rightarrow> cluster_status \<Rightarrow> (class_state list \<times> class_state list \<times> loop_state list) option" where
  "node_report node cs = map_option report_of (find (\<lambda>n. nss_node n = node) (cst_node_storage cs))"

lemma find_map_same:
  "(\<And>x. P (g x) = P x) \<Longrightarrow> (\<And>x. f (g x) = f x) \<Longrightarrow> map_option f (find P (map g xs)) = map_option f (find P xs)"
  by (induction xs) auto

lemma report_phase [simp]: "report_of (n\<lparr>nss_phase := p\<rparr>) = report_of n"
  by (simp add: report_of_def)

lemma find_append: "find P (xs @ ys) = (case find P xs of None \<Rightarrow> find P ys | Some x \<Rightarrow> Some x)"
  by (induction xs) auto

lemma merge_report:
  assumes "map_option report_of (find (\<lambda>n. nss_node n = node) items) = Some x"
  shows "map_option report_of (find (\<lambda>n. nss_node n = node) (fold merge_node kvs items)) = Some x"
  using assms
proof (induction kvs arbitrary: items)
  case (Cons kv kvs)
  obtain k v where kv: "kv = (k, v)" by (cases kv)
  have "map_option report_of (find (\<lambda>n. nss_node n = node) (merge_node kv items)) = Some x"
    using Cons.prems find_map_same [of "\<lambda>n. nss_node n = node" "\<lambda>i. if nss_node i = k then i\<lparr>nss_phase := nss_phase v\<rparr> else i"
        report_of items]
    by (simp add: kv merge_node_def) (auto simp: find_append split: option.splits)
  then show ?case by (simp add: Cons.IH)
qed simp

lemma settle_report:
  assumes "node_report node cs0 = Some x"
  shows "node_report node (fst (settle (merge_nodes ord m (cst_node_storage cs0)) ms)) = Some x"
proof -
  let ?items = "merge_nodes ord m (cst_node_storage cs0)"
  from merge_report [OF assms [unfolded node_report_def]] have
    "map_option report_of (find (\<lambda>n. nss_node n = node) ?items) = Some x" by (simp add: merge_nodes_def)
  with find_map_same [of "\<lambda>n. nss_node n = node" "\<lambda>n. if \<not> has_ready_class n then n\<lparr>nss_phase := ConditionUnknown\<rparr> else n"
      report_of ?items]
  show ?thesis by (simp add: node_report_def settle_def Let_def)
qed

lemma put_report: "node \<noteq> nss_node st \<Longrightarrow>
    find (\<lambda>n. nss_node n = node) (put_node_state st items) = find (\<lambda>n. nss_node n = node) items"
  by (induction items) auto

lemma merge_typed:
  assumes "\<forall>kv \<in> set kvs. nss_phase (snd kv) \<in> declared_phases"
    and "nss_phase ` set items \<subseteq> insert [] declared_phases"
  shows "nss_phase ` set (fold merge_node kvs items) \<subseteq> insert [] declared_phases"
  using assms
proof (induction kvs arbitrary: items)
  case (Cons kv kvs)
  have "nss_phase ` set (merge_node kv items) \<subseteq> insert (nss_phase (snd kv)) (nss_phase ` set items)"
    by (auto simp: merge_node_def split: prod.splits)
  also have "\<dots> \<subseteq> insert [] declared_phases" using Cons.prems by auto
  finally have "nss_phase ` set (merge_node kv items) \<subseteq> insert [] declared_phases" .
  with Cons show ?case by simp
qed simp

lemma put_typed:
  assumes "status_typed cs0" and "nss_phase st \<in> insert [] declared_phases"
  shows "status_typed (cs0\<lparr>cst_node_storage := put_node_state st (cst_node_storage cs0)\<rparr>)"
proof -
  have "set (put_node_state st ns) \<subseteq> insert st (set ns)" for ns by (induction ns) auto
  with assms show ?thesis by (auto simp: status_typed_def put_node_state_names)
qed

lemma settle_typed:
  assumes "status_typed cs0" and "node_keyed m" and "range_order ord"
  shows "status_typed (fst (settle (merge_nodes ord m (cst_node_storage cs0)) ms))"
proof -
  let ?items = "merge_nodes ord m (cst_node_storage cs0)"
  have "distinct (map nss_node ?items)"
    using merge_nodes_names [OF assms(2,3)] assms(1) by (simp add: status_typed_def)
  then have d: "distinct (map nss_node (cst_node_storage (fst (settle ?items ms))))" by (simp only: settle_names)
  have "nss_phase ` set ?items \<subseteq> insert [] declared_phases"
    unfolding merge_nodes_def using assms(1,2)
    by (intro merge_typed) (auto simp: List.map_filter_def node_keyed_def status_typed_def)
  then have "nss_phase ` set (cst_node_storage (fst (settle ?items ms))) \<subseteq> insert [] declared_phases"
    by (auto simp: settle_def Let_def)
  with d show ?thesis by (simp add: status_typed_def) (simp add: settle_def Let_def)
qed

section \<open>The properties\<close>



section \<open>A cluster with a monitor and a controller\<close>

definition demo_monitor :: "topolvm_cluster list monitor_env" where
  "demo_monitor =
     \<lparr>me_pods = (\<lambda>e. Inr [\<lparr>pi_node_name = ''n1'', pi_phase = ''Running'', pi_containers_ready = [True]\<rparr>]),
      me_lvmd_cms = (\<lambda>e. Inr [\<lparr>cm_name = ''lvmd-n1'', cm_namespace = ''ns'', cm_labels = [],
        cm_annotations = [(LvmdAnnotationsNodeKey, ''n1'')], cm_data = None\<rparr>]),
      me_get_cluster = ce_get demo_env (''ns'', ''a''), me_node_conditions = (\<lambda>n e. Inr [(''Ready'', ''True'')]),
      me_status_update = ce_status_update demo_env,
      me_update = (\<lambda>c e. (Inr (), snd (ce_update demo_env c e))), me_ord = (\<lambda>ks. ks)\<rparr>"

definition demo_status :: "topolvm_cluster list \<Rightarrow> cluster_status option" where
  "demo_status e = map_option tc_status (find (\<lambda>c. tc_name c = ''a'') e)"

lemma demo_write:
  assumes "tc_name c = ''a''"
  shows "writes demo_status (tc_status c) e (map (\<lambda>c2. if tc_name c2 = ''a'' then c else c2) e)"
  using assms by (induction e) (auto simp: writes_def demo_status_def)

interpretation demo: status_store demo_status demo_monitor demo_env "(''ns'', ''a'')"
  by unfold_locales
    (auto simp: demo_monitor_def demo_env_def demo_status_def demo_write find_Some_iff split: option.splits)


text \<open>A report with a class, then a check and another node's report.\<close>

definition n1_report :: node_storage_state where
  "n1_report = zero_node_storage_state\<lparr>nss_node := ''n1'', nss_success_classes :=
     [\<lparr>cs_name = ''hdd'', cs_vg_name = ''vg'', cs_state = ClassReady, cs_message = [], cs_device_states = []\<rparr>]\<rparr>"


end
