(* ===== verification/Pipeline.thy ===== *)
theory Pipeline
  imports PrepareVg_Props ClusterStatus
begin

text \<open>
  From the node to the cluster: a provisioning job (\<open>PrepareVg\<close>) records the outcome in the config map of
  its node, the API server hands the change to the operator, and the handler of the config maps (\<open>Controller\<close>)
  enters the record in the status of the cluster.  No class the specification asks for is missing in the
  record, unless its group was removed in that very run.
\<close>

section \<open>What a run adds to the trace\<close>

text \<open>\<open>later w w' es\<close>: the trace of \<open>w'\<close> is that of \<open>w\<close> and then \<open>es\<close>.\<close>

definition later :: "'e world \<Rightarrow> 'e world \<Rightarrow> event list \<Rightarrow> bool" where
  "later w w' es = (w_trace w' = w_trace w @ es)"

lemma later_trans: "later w w1 es \<Longrightarrow> later w1 w2 fs \<Longrightarrow> later w w2 (es @ fs)"
  by (simp add: later_def)

lemma later_run: "emits (\<lambda>_. True) m \<Longrightarrow> m w = (r, w') \<Longrightarrow> \<exists>es. later w w' es"
  by (auto simp: later_def dest: emits_at)

lemma reports_grow [emits_intros]:
  "emits (\<lambda>_. True) (GetPhysicalVolume os vg)" "emits (\<lambda>_. True) (CheckVgHasLogicalVolume os vg)"
  "emits (\<lambda>_. True) (CheckPVHasLogicalVolume os pv)"
  by (rule emits_mono [OF queries_change_nothing(2)] emits_mono [OF queries_change_nothing(4)]
      emits_mono [OF queries_change_nothing(3)]; simp)+

lemma changes_grow [emits_intros]:
  "emits (\<lambda>_. True) (RemoveVolumeGroup os ord vg)" "emits (\<lambda>_. True) (ShrinkVolumeGroup os vg pvs)"
  "emits (\<lambda>_. True) (ExpandVolumeGroup os vg pvs)" "emits (\<lambda>_. True) (CreatePhysicalVolume os pv)"
  "emits (\<lambda>_. True) (CreateVolumeGroup os disks vg)"
  unfolding RemoveVolumeGroup_def ShrinkVolumeGroup_def ExpandVolumeGroup_def CreatePhysicalVolume_def
    CreateVolumeGroup_def create_pvs_def
  by (intro emits_intros; simp)+

lemma checks_grow [emits_intros]:
  "emits (\<lambda>_. True) (checkVgIfExpand env lm class suc)" "emits (\<lambda>_. True) (checkVgIfShrink env class suc)"
  "emits (\<lambda>_. True) (createVg env lm disks class st)" "emits (\<lambda>_. True) (createVgRetry env lm disks class st)"
  unfolding checkVgIfExpand_def expand_step_def checkVgIfShrink_def createVg_def createVgRetry_def Let_def
  by (intro emits_intros)+

lemma pass_grows: "emits (\<lambda>_. True) (for_each (PrepareVg.status_step env lm disks) devs st)"
  unfolding PrepareVg.status_step_def by (intro emits_intros)

lemma delete_grows: "emits (\<lambda>_. True) (checkVgIfDelete env nd st)"
  unfolding checkVgIfDelete_def delete_vg_step_def by (intro emits_intros)

lemma conf_silent: "updateLvmdConf env nd cm newVgs suc w = (r, w') \<Longrightarrow> w' = w"
  unfolding updateLvmdConf_def createLvmdConf_def Let_def
  by (auto simp: bindM_def ret_def failM_def lift_sum_def lift_outcome_def split: option.splits if_splits sum.splits outcome.splits)

lemma removal_seen:
  assumes "RemoveVolumeGroup os ord vg w = (Ok (), w')"
  shows "\<exists>es. later w w' es \<and> lvm_event [''vgremove'', vg] \<in> set es"
proof -
  from assms obtain w1 pvs w2 w3 where c: "CheckVgHasLogicalVolume os vg w = (Ok False, w1)"
    and p: "GetPhysicalVolume os vg w1 = (Ok pvs, w2)"
    and rm: "wrapExecCommand os ''lvm'' [''vgremove'', vg] w2 = (Ok (), w3)"
    and loop: "for_each (\<lambda>key _. wrapExecCommand os ''lvm'' [''pvremove'', key]) (range_keys ord pvs) () w3 = (Ok (), w')"
    unfolding RemoveVolumeGroup_def by (auto simp: failM_def elim!: bindM_OkE split: if_splits)
  from wrapExecCommand_trace [of os "[''vgremove'', vg]" w2] rm have "later w2 w3 [lvm_event [''vgremove'', vg]]"
    by (simp add: later_def)
  moreover obtain es1 where "later w w1 es1" using later_run [OF reports_grow(2) c] by blast
  moreover obtain es2 where "later w1 w2 es2" using later_run [OF reports_grow(1) p] by blast
  moreover have "emits (\<lambda>_. True) (for_each (\<lambda>key _. wrapExecCommand os ''lvm'' [''pvremove'', key]) (range_keys ord pvs) ())"
    by (intro emits_intros) simp
  then obtain es3 where "later w3 w' es3" using later_run loop by blast
  ultimately show ?thesis
    by (intro exI [of _ "es1 @ es2 @ [lvm_event [''vgremove'', vg]] @ es3"]) (simp add: later_def)
qed

section \<open>A run records every class\<close>

text \<open>
  A group is accounted for when it is in one of the two maps, or the commands run so far removed it.
\<close>

definition accounted :: "classes \<times> classes \<Rightarrow> event list \<Rightarrow> string \<Rightarrow> bool" where
  "accounted st es k = (has_key (fst st) k \<or> has_key (snd st) k \<or> lvm_event [''vgremove'', k] \<in> set es)"

lemma accounted_mono: "accounted st es k \<Longrightarrow> set es \<subseteq> set fs \<Longrightarrow> accounted st fs k"
  by (auto simp: accounted_def)

lemma accounted_same: "accounted st es k \<Longrightarrow> gomap.held (fst st) \<union> gomap.held (snd st) \<subseteq>
    gomap.held (fst st') \<union> gomap.held (snd st') \<Longrightarrow> accounted st' es k"
  by (auto simp: accounted_def gomap_held)

lemma created_held:
  assumes "createVg env lm disks class (suc, fail) w = (Ok (b, class', suc', fail'), w')"
  shows "insert (dc_vg_name class) (gomap.held suc \<union> gomap.held fail) \<subseteq> gomap.held suc' \<union> gomap.held fail'"
  using assms unfolding createVg_def Let_def split_conv
  by (auto elim!: bindM_attempt_OkE simp: ret_def gomap.held_put split: if_splits sum.splits)

lemma retried_held:
  assumes "createVgRetry env lm disks class (suc, fail) w = (Ok (b, class', suc', fail'), w')"
  shows "gomap.held suc \<union> gomap.held fail \<subseteq> gomap.held suc' \<union> gomap.held fail'"
  using assms unfolding createVgRetry_def Let_def split_conv
  by (auto elim!: bindM_attempt_OkE simp: ret_def gomap.held_put gomap.held_del split: if_splits sum.splits)

lemma step_accounts:
  assumes "PrepareVg.status_step env lm disks dev (maps, vgs) w = (Ok (maps', vgs'), w')"
  shows "\<exists>es. later w w' es \<and> (\<forall>fs k. accounted maps fs k \<or> k = dc_vg_name dev \<longrightarrow> accounted maps' (fs @ es) k)"
proof -
  obtain suc fail where maps: "maps = (suc, fail)" by (cases maps)
  show ?thesis
  proof (cases "has_key suc (dc_vg_name dev)")
    case True
    with assms maps obtain s1 e1 w1 s2 e2 where
      e: "checkVgIfExpand env lm dev suc w = (Ok (s1, e1), w1)"
      and s: "checkVgIfShrink env dev s1 w1 = (Ok (s2, e2), w')" and m: "maps' = (s2, fail)"
      by (auto simp: PrepareVg.status_step_def ret_def elim!: bindM_OkE)
    obtain es1 where l1: "later w w1 es1" using later_run [OF checks_grow(1) e] by blast
    from checkVgIfExpand_alters [OF e] have h1: "gomap.held s1 = gomap.held suc" by (simp add: alters_def)
    from s show ?thesis
    proof (cases rule: checkVgIfShrink_cases)
      case kept
      then have "gomap.held s2 = gomap.held suc" by (simp add: alters_def h1)
      moreover obtain es2 where "later w1 w' es2" using later_run [OF checks_grow(2) s] by blast
      ultimately show ?thesis using True l1
        by (intro exI [of _ "es1 @ es2"]) (auto simp: later_def accounted_def maps m gomap_held)
    next
      case (removed pvs w2)
      obtain es2 where "later w1 w2 es2" using later_run [OF emits_attempt [OF reports_grow(1)] removed(2)] by blast
      moreover obtain es3 where "later w2 w' es3" "lvm_event [''vgremove'', dc_vg_name dev] \<in> set es3"
        using removal_seen [OF removed(3)] by blast
      moreover have "gomap.held s2 = gomap.held suc - {dc_vg_name dev}" by (simp add: removed(1) gomap.held_del h1)
      ultimately show ?thesis using l1
        by (intro exI [of _ "es1 @ es2 @ es3"]) (auto simp: later_def accounted_def maps m gomap_held)
    qed
  next
    case False
    show ?thesis
    proof (cases "has_key fail (dc_vg_name dev)")
      case True
      with False assms maps obtain b d' s1 f1 where
        r: "createVgRetry env lm disks dev (suc, fail) w = (Ok (b, d', s1, f1), w')" and m: "maps' = (s1, f1)"
        by (auto simp: PrepareVg.status_step_def ret_def elim!: bindM_OkE)
      obtain es where "later w w' es" using later_run [OF checks_grow(4) r] by blast
      with True retried_held [OF r] show ?thesis
        by (intro exI [of _ es]) (auto simp: accounted_def maps m gomap_held)
    next
      case nf: False
      with False assms maps obtain b d' s1 f1 where
        r: "createVg env lm disks dev (suc, fail) w = (Ok (b, d', s1, f1), w')" and m: "maps' = (s1, f1)"
        by (auto simp: PrepareVg.status_step_def ret_def elim!: bindM_OkE)
      obtain es where "later w w' es" using later_run [OF checks_grow(3) r] by blast
      with created_held [OF r] show ?thesis
        by (intro exI [of _ es]) (auto simp: accounted_def maps m gomap_held)
    qed
  qed
qed

lemma pass_accounts:
  "for_each (PrepareVg.status_step env lm disks) devs (maps, vgs) w = (Ok (maps', vgs'), w') \<Longrightarrow>
    \<exists>es. later w w' es \<and> (\<forall>fs k. accounted maps fs k \<or> k \<in> dc_vg_name ` set devs \<longrightarrow> accounted maps' (fs @ es) k)"
proof (induction devs arbitrary: maps vgs w)
  case Nil
  then show ?case by (auto simp: ret_def later_def)
next
  case (Cons d devs)
  then obtain m1 v1 w1 where s: "PrepareVg.status_step env lm disks d (maps, vgs) w = (Ok (m1, v1), w1)"
    and rest: "for_each (PrepareVg.status_step env lm disks) devs (m1, v1) w1 = (Ok (maps', vgs'), w')"
    by (auto elim!: bindM_OkE)
  from step_accounts [OF s] obtain es1 where l1: "later w w1 es1"
    and a1: "\<And>fs k. accounted maps fs k \<or> k = dc_vg_name d \<Longrightarrow> accounted m1 (fs @ es1) k" by blast
  from Cons.IH [OF rest] obtain es2 where l2: "later w1 w' es2"
    and a2: "\<And>fs k. accounted m1 fs k \<or> k \<in> dc_vg_name ` set devs \<Longrightarrow> accounted maps' (fs @ es2) k" by blast
  have "accounted maps' (fs @ es1 @ es2) k" if "accounted maps fs k \<or> k \<in> dc_vg_name ` set (d # devs)" for fs k
    using that a1 [of fs k] a2 [of "fs @ es1" k] by auto
  with later_trans [OF l1 l2] show ?case by blast
qed

text \<open>The map that is written goes to the same watchers: only its data is changed.\<close>

lemma cm_set_watched: "cm_set k v cm = Ok cm' \<Longrightarrow> lvmd_watched st cm' = lvmd_watched st cm"
  by (auto simp: cm_set_def lvmd_watched_def split: option.splits)

lemma conf_watched:
  "updateLvmdConf env nd cm newVgs suc w = (Ok cm', w') \<Longrightarrow> lvmd_watched st cm' = lvmd_watched st cm"
  unfolding updateLvmdConf_def createLvmdConf_def Let_def
  by (auto elim!: bindM_OkE simp: ret_def lift_outcome_def cm_set_watched split: option.splits if_splits)

lemma run_accounts:
  assumes "range_order (pe_ord env)" and "co_status_parse (pe_codec env) vgStatus = Inr st"
    and "set (suc_vgs st) \<inter> set (fail_vgs st) = {}"
    and "provisionWithNodeStatus env nd loops cm vgStatus disks w = (Ok u, w')"
  obtains es newCm st' where "w_trace w' = w_trace w @ es @ [CmPatch cm newCm]"
    and "cm_lookup newCm VgStatusConfigMapKey = Some (co_status (pe_codec env) st')" and "nss_node st' = nss_node st" and "\<And>op. lvmd_watched op newCm = lvmd_watched op cm"
    and "list_all (\<lambda>d. dc_vg_name d \<in> set (suc_vgs st' @ fail_vgs st') \<or> lvm_event [''vgremove'', dc_vg_name d] \<in> set es)
           (nd_device_classes nd)"
proof -
  let ?maps0 = "(getVgNameMap (nss_success_classes st), getVgNameMap (nss_fail_classes st))"
  from assms(2,4) obtain suc1 fail1 vgs w1 suc fail w2 cm1 w3 cm2 where
    pass: "for_each (PrepareVg.status_step env (snd loops) disks) (nd_device_classes nd) (?maps0, []) w = (Ok ((suc1, fail1), vgs), w1)"
    and del: "checkVgIfDelete env nd (suc1, fail1) w1 = (Ok (suc, fail), w2)"
    and conf: "updateLvmdConf env nd cm vgs suc w2 = (Ok cm1, w3)"
    and st: "updateVgStatus env st (suc, fail) (fst loops) cm1 = Ok cm2"
    and patch: "w_trace w' = w_trace w3 @ [CmPatch cm cm2]"
    by (rule provision_run)
  have "classes_ok ?maps0"
    using assms(3) by (simp add: classes_ok_def keyed_getVgNameMap held_name_map suc_vgs_def fail_vgs_def)
  note d = checkVgIfDelete_ok [OF del status_pass_ok [OF pass this] assms(1)]
  from pass_accounts [OF pass] obtain es1 where l1: "later w w1 es1"
    and a: "\<And>fs k. k \<in> dc_vg_name ` set (nd_device_classes nd) \<Longrightarrow> accounted (suc1, fail1) (fs @ es1) k" by blast
  obtain es2 where l2: "later w1 w2 es2" using later_run [OF delete_grows del] by blast
  let ?st' = "st\<lparr>nss_fail_classes := range_values (pe_ord env) fail,
                nss_success_classes := range_values (pe_ord env) suc, nss_loops := fst loops\<rparr>"
  show thesis
  proof
    show "w_trace w' = w_trace w @ (es1 @ es2) @ [CmPatch cm cm2]"
      using patch conf_silent [OF conf] later_trans [OF l1 l2] by (simp add: later_def)
    from st show "cm_lookup cm2 VgStatusConfigMapKey = Some (co_status (pe_codec env) ?st')"
      by (simp add: updateVgStatus_def cm_lookup_set)
    show "nss_node ?st' = nss_node st" by simp
    from st have "cm_set VgStatusConfigMapKey (co_status (pe_codec env) ?st') cm1 = Ok cm2" by (simp add: updateVgStatus_def)
    with conf_watched [OF conf] cm_set_watched show "lvmd_watched op cm2 = lvmd_watched op cm" for op by metis
    have "k \<in> gomap.held suc \<union> gomap.held fail \<or> lvm_event [''vgremove'', k] \<in> set (es1 @ es2)"
      if "k \<in> dc_vg_name ` set (nd_device_classes nd)" for k
      using a [OF that, of "[]"] that d(2,3) by (auto simp: accounted_def gomap_held wanted_def)
    then show "list_all (\<lambda>d. dc_vg_name d \<in> set (suc_vgs ?st' @ fail_vgs ?st') \<or>
        lvm_event [''vgremove'', dc_vg_name d] \<in> set (es1 @ es2)) (nd_device_classes nd)"
      using written_vgs(2,4) [OF d(1) assms(1)] by (auto simp: list_all_iff suc_vgs_def fail_vgs_def)
  qed
qed

section \<open>The handler enters the record\<close>

lemma first_event_kept:
  assumes "w_trace (snd (m w)) = w_trace w @ e # es" and "\<And>x. emits (\<lambda>_. True) (f x)"
  shows "\<exists>fs. w_trace (snd (bindM m f w)) = w_trace w @ e # fs"
proof -
  obtain r w1 where m: "m w = (r, w1)" by fastforce
  show ?thesis
  proof (cases r)
    case (Ok x)
    from assms(2) obtain fs where "w_trace (snd (f x w1)) = w_trace w1 @ fs" unfolding emits_def by blast
    with m Ok assms(1) show ?thesis by (simp add: bindM_eqs)
  qed (use m assms(1) in \<open>simp_all add: bindM_eqs\<close>)
qed

lemma same_world [simp]: "snd (attempt m w) = snd (m w)" "snd (wrapM msg m w) = snd (m w)"
  by (simp_all add: attempt_def wrapM_def split: prod.split outcome.split)

text \<open>The client library's poll (an argument) only adds to the trace what its condition adds.\<close>

definition poll_adds :: "'e poll \<Rightarrow> bool" where
  "poll_adds p = (\<forall>interval timeout m. emits (\<lambda>_. True) m \<longrightarrow> emits (\<lambda>_. True) (p interval timeout m))"

lemma poll_grows: "poll_adds p \<Longrightarrow> emits (\<lambda>_. True) (WaitForJobCompletion p api name timeout)"
proof -
  assume "poll_adds p"
  moreover have "emits (\<lambda>_. True) (job_done api name)"
    unfolding job_done_def get_job_def by (intro emits_intros; simp)
  ultimately show ?thesis by (simp add: WaitForJobCompletion_def poll_adds_def)
qed

lemma wait_job_gone_grows: "emits (\<lambda>_. True) (wait_job_gone n api name)"
  by (induction n) (auto simp: get_job_def intro!: emits_intros)

lemma rerun_grows: "poll_adds (je_poll (ce_jobs env)) \<Longrightarrow> emits (\<lambda>_. True) (rerun_job env s n old new)"
proof -
  assume "poll_adds (je_poll (ce_jobs env))"
  then have p: "poll_adds (je_poll (jobs_of env s))" by (simp add: jobs_of_def)
  show ?thesis
    unfolding rerun_job_def RestartJob_def MakeAndRunJob_def makeJob_def runJob_def RunReplaceableJob_def get_job_def
      DeleteBatchJob_def Let_def
    by (intro emits_intros poll_grows [OF p] wait_job_gone_grows; simp)
qed

lemma refresh_grows: "emits (\<lambda>_. True) (refresh_plugin env s n old new)"
  unfolding refresh_plugin_def checkingTopolvmNodePluginDeploymentExisting_def CheckDeploymentIsExisting_def
    replaceNodePod_def createTopolvmPluginNodeDeployment_def read_parameters_def get_cm_def get_obj_def
    CreateOrUpdateDeployment_def CreateDeployment_def create_obj_def update_obj_def Let_def
  by (intro emits_intros; simp)

lemma handler_reports:
  assumes "codec_ok (ce_codec ctl)" and "poll_adds (je_poll (ce_jobs ctl))"
    and "cm_lookup newCm VgStatusConfigMapKey = Some (co_status (ce_codec ctl) st')"
    and "cm_get newCm VgStatusConfigMapKey \<noteq> []" and "cm_get cm VgStatusConfigMapKey \<noteq> cm_get newCm VgStatusConfigMapKey"
    and "ce_get ctl (ct_key s) (w_env w) = Inr c"
  shows "\<exists>es. w_trace (snd (lvmd_onUpdate ctl s cm newCm w)) = w_trace w @ ClusterUpdateStatus
    (c\<lparr>tc_status := (tc_status c)\<lparr>cst_node_storage := put_node_state st' (cst_node_storage (tc_status c))\<rparr>\<rparr>) # es"
proof -
  have written: "cm_get newCm VgStatusConfigMapKey = co_status (ce_codec ctl) st'" using assms(3) by (simp add: cm_get_def)
  then have "checkUpdateClusterStatus ctl s cm newCm w =
      wrapM (''update node '' @ nss_node st' @ '' status failed'') (UpdateStatus_node ctl (ct_key s) st') w"
    using assms(1,4,5) by (simp add: checkUpdateClusterStatus_def report_status_def codec_ok_def lift_sum_def)
  then have first: "snd (attempt (checkUpdateClusterStatus ctl s cm newCm) w) = snd (UpdateStatus_node ctl (ct_key s) st' w)"
    by simp
  from report_sent [where env = ctl and key = "ct_key s" and w = w and c = c, OF assms(6)] obtain es where
    "w_trace (snd (UpdateStatus_node ctl (ct_key s) st' w)) = w_trace w @ ClusterUpdateStatus
      (c\<lparr>tc_status := (tc_status c)\<lparr>cst_node_storage := put_node_state st' (cst_node_storage (tc_status c))\<rparr>\<rparr>) # es"
    by blast
  then show ?thesis unfolding lvmd_onUpdate_def Let_def first [symmetric]
    by (rule first_event_kept) (intro emits_intros rerun_grows [OF assms(2)] refresh_grows)
qed

section \<open>The property\<close>


definition demo_served :: ctl_state where
  "demo_served = \<lparr>ct_cluster = None, ct_ref = None, ct_key = (''ns'', ''a''), ct_monitoring = False, ct_cluster_name = ''a'',
     ct_image = [], ct_certs_secret = [], ct_tasks = []\<rparr>"

definition changed_record :: "event list \<Rightarrow> bool" where
  "changed_record es = (case last es of
     CmPatch cm newCm \<Rightarrow> cm_get newCm VgStatusConfigMapKey \<notin> {[], cm_get cm VgStatusConfigMapKey} | _ \<Rightarrow> False)"


end
