(* ===== verification/FirstRun.thy ===== *)
theory FirstRun
  imports Pipeline
begin

text \<open>
  The first provisioning run of a node (\<open>provisionFirst\<close>, \<open>PrepareVg\<close>), which makes the node's config map, and the
  operator's informer (\<open>Controller\<close>), which is told of the new map.
\<close>

section \<open>Every class is noted\<close>

definition noted :: "classes \<times> classes \<Rightarrow> device_class \<Rightarrow> bool" where
  "noted st d = (map_option cs_name (map_of (fst st) (dc_vg_name d)) = Some (dc_class_name d)
     \<or> map_option cs_name (map_of (snd st) (dc_vg_name d)) = Some (dc_class_name d))"

lemma noted_listed:
  assumes "range_order ord" and "map_option cs_name (map_of m k) = Some n"
  shows "n \<in> cs_name ` set (range_values ord m)"
proof -
  from assms(2) obtain c where c: "map_of m k = Some c" "cs_name c = n" by auto
  from c(1) have "c \<in> set (range_values ord m)" by (auto simp: set_range_values [OF assms(1)])
  with c(2) show ?thesis by blast
qed

lemma first_step_notes:
  assumes "first_step env lm disks vgs dev ((suc, fail), new) w = (Ok ((suc', fail'), new'), w')"
  shows "noted (suc', fail') dev"
    and "noted (suc, fail) d \<Longrightarrow> dc_vg_name d \<noteq> dc_vg_name dev \<Longrightarrow> noted (suc', fail') d"
  using assms unfolding first_step_def createVg_def Let_def split_conv
  by (auto elim!: bindM_OkE bindM_attempt_OkE simp: ret_def noted_def update_conv' split: if_splits sum.splits)

lemma first_pass_notes:
  "for_each (first_step env lm disks vgs) devs (maps, new) w = (Ok (maps', new'), w') \<Longrightarrow>
     distinct (map dc_vg_name (devs @ noteds)) \<Longrightarrow> list_all (noted maps) noteds \<Longrightarrow> list_all (noted maps') (devs @ noteds)"
proof (induction devs arbitrary: maps new w noteds)
  case Nil
  then show ?case by (simp add: ret_def)
next
  case (Cons d devs)
  then obtain suc fail suc1 fail1 new1 w1 where m: "maps = (suc, fail)"
    and s: "first_step env lm disks vgs d ((suc, fail), new) w = (Ok ((suc1, fail1), new1), w1)"
    and rest: "for_each (first_step env lm disks vgs) devs ((suc1, fail1), new1) w1 = (Ok (maps', new'), w')"
    by (cases maps) (auto elim!: bindM_OkE)
  have "noted (suc1, fail1) n" if "n \<in> set (d # noteds)" for n
  proof (cases "n = d")
    case False
    with that Cons.prems(2) have "n \<in> set noteds" and "dc_vg_name n \<noteq> dc_vg_name d" by (auto simp: image_iff)
    with first_step_notes(2) [OF s, of n] Cons.prems(3) show ?thesis by (simp add: m list_all_iff)
  qed (use first_step_notes(1) [OF s] in simp)
  then have "list_all (noted (suc1, fail1)) (d # noteds)" by (simp add: list_all_iff)
  from Cons.IH [OF rest _ this] Cons.prems(2) show ?case by auto
qed

lemma cm_set_keeps:
  "cm_set k v cm = Ok cm' \<Longrightarrow> cm_name cm' = cm_name cm \<and> cm_namespace cm' = cm_namespace cm \<and> cm_annotations cm' = cm_annotations cm"
  by (auto simp: cm_set_def split: option.splits)

lemma conf_keeps:
  assumes "createLvmdConf co newVgs cm w = (Ok cm', w')"
  shows "lvmd_watched op cm' = lvmd_watched op cm" "cm_name cm' = cm_name cm" "cm_namespace cm' = cm_namespace cm"
    "cm_annotations cm' = cm_annotations cm" "cm_lookup cm' VgStatusConfigMapKey = cm_lookup cm VgStatusConfigMapKey"
proof -
  from assms have "cm' = cm \<or> (\<exists>v. cm_set LvmdConfigMapKey v cm = Ok cm')"
    unfolding createLvmdConf_def by (auto elim!: bindM_OkE simp: ret_def lift_outcome_def split: if_splits)
  then show "lvmd_watched op cm' = lvmd_watched op cm" "cm_name cm' = cm_name cm" "cm_namespace cm' = cm_namespace cm"
    "cm_annotations cm' = cm_annotations cm" "cm_lookup cm' VgStatusConfigMapKey = cm_lookup cm VgStatusConfigMapKey"
    using cm_set_keeps [of LvmdConfigMapKey _ cm cm'] cm_set_watched [of LvmdConfigMapKey _ cm cm']
    by (auto simp: cm_lookup_set VgStatusConfigMapKey_def LvmdConfigMapKey_def)
qed

section \<open>The handler of a new map\<close>

lemma start_grows: "emits (\<lambda>_. True) (startTopolvmNodePlugin env s cm)"
  unfolding startTopolvmNodePlugin_def checkingTopolvmNodePluginDeploymentExisting_def CheckDeploymentIsExisting_def
    createTopolvmPluginNodeDeployment_def read_parameters_def get_cm_def get_obj_def
    CreateOrUpdateDeployment_def CreateDeployment_def create_obj_def update_obj_def Let_def
  by (intro emits_intros; simp)

lemma new_map_reports:
  assumes "codec_ok (ce_codec ctl)" and "cm_lookup cm VgStatusConfigMapKey = Some (co_status (ce_codec ctl) st)"
    and "cm_get cm VgStatusConfigMapKey \<noteq> []" and "ce_get ctl (ct_key s) (w_env w) = Inr c"
  shows "\<exists>es. w_trace (snd (lvmd_onAdd ctl s cm w)) = w_trace w @ ClusterUpdateStatus
    (c\<lparr>tc_status := (tc_status c)\<lparr>cst_node_storage := put_node_state st (cst_node_storage (tc_status c))\<rparr>\<rparr>) # es"
proof -
  have written: "cm_get cm VgStatusConfigMapKey = co_status (ce_codec ctl) st" using assms(2) by (simp add: cm_get_def)
  have "report_status ctl s (co_status (ce_codec ctl) st) w =
      wrapM (''update node '' @ nss_node st @ '' status failed'') (UpdateStatus_node ctl (ct_key s) st) w"
    using assms(1) by (simp add: report_status_def codec_ok_def lift_sum_def)
  then have first: "snd (attempt (report_status ctl s (co_status (ce_codec ctl) st)) w) = snd (UpdateStatus_node ctl (ct_key s) st w)"
    by simp
  from report_sent [where env = ctl and key = "ct_key s" and w = w and c = c, OF assms(4)] obtain es where
    "w_trace (snd (attempt (report_status ctl s (co_status (ce_codec ctl) st)) w)) = w_trace w @ ClusterUpdateStatus
      (c\<lparr>tc_status := (tc_status c)\<lparr>cst_node_storage := put_node_state st (cst_node_storage (tc_status c))\<rparr>\<rparr>) # es"
    unfolding first by blast
  then have "\<exists>es2. w_trace (snd (bindM (attempt (report_status ctl s (co_status (ce_codec ctl) st))) (\<lambda>_. ret ()) w)) = w_trace w
      @ ClusterUpdateStatus (c\<lparr>tc_status := (tc_status c)\<lparr>cst_node_storage := put_node_state st (cst_node_storage (tc_status c))\<rparr>\<rparr>) # es2"
    by (rule first_event_kept) (rule emits_ret)
  then obtain es2 where
    "w_trace (snd (updateClusterStatus ctl s cm w)) = w_trace w @ ClusterUpdateStatus
      (c\<lparr>tc_status := (tc_status c)\<lparr>cst_node_storage := put_node_state st (cst_node_storage (tc_status c))\<rparr>\<rparr>) # es2"
    using assms(3) by (auto simp: updateClusterStatus_def Let_def written)
  then show ?thesis unfolding lvmd_onAdd_def
    by (rule first_event_kept) (intro emits_intros start_grows)
qed

section \<open>The property\<close>

text \<open>The parts of a first run that succeeds.\<close>

lemma wrapM_Ok: "wrapM msg m w = (Ok x, w') \<Longrightarrow> m w = (Ok x, w')"
  by (auto simp: wrapM_def split: prod.splits outcome.splits)

lemma first_run:
  assumes "provisionFirst env nd loops disks None w = (Ok u, w')"
  obtains vgs w1 suc fail new w2 cm1 cm2 w3 where
    "for_each (first_step env (snd loops) disks vgs) (nd_device_classes nd) (([], []), []) w1 = (Ok ((suc, fail), new), w2)"
    "updateVgStatus env (zero_node_storage_state\<lparr>nss_node := pe_node_name env\<rparr>) (suc, fail) (fst loops) (new_node_cm env nd) = Ok cm1"
    "createLvmdConf (pe_codec env) new cm1 w2 = (Ok cm2, w3)" "CreateOrPatchConfigmap (pe_cm env) cm2 w3 = (Ok u, w')"
  using assms unfolding provisionFirst_def Let_def
  by (auto simp: lift_outcome_def dest!: wrapM_Ok elim!: bindM_OkE split: prod.splits)

text \<open>
  C13: The first run of a node is seen by the operator.  When the provisioning of a node without a config map
  succeeds, the API server holds a config map under the name derived from the node; the operator watches it if the
  job ran in the operator's namespace; its annotation names the node; the record in it names the node and lists
  every class the specification asks for, successful or failed; and when the operator's informer is told of the
  map, its handler first sends a status of the cluster whose entry for the node is that record and whose other
  entries are those it read.  The classes must have groups of their own.
\<close>

theorem first_run_reaches_cluster:
  fixes ctl :: "'c ctl_env"
  assumes "cm_store (pe_cm env) view" and "range_order (pe_ord env)" and "distinct (map dc_vg_name (nd_device_classes nd))"
    and "provisionFirst env nd loops disks None w = (Ok u, w')"
    and "codec_ok (pe_codec env)" and "ce_codec ctl = pe_codec env"
  shows "\<exists>newCm st'. view (w_env w') (pe_namespace env, TruncateNodeName (pe_hash env) LvmdConfigMapFmt (nd_node_name nd)) = Some newCm
    \<and> (\<forall>op. lvmd_watched op newCm = (pe_namespace env = os_operator_namespace op)) \<and> getNodeName newCm = pe_node_name env
    \<and> nss_node st' = pe_node_name env
    \<and> list_all (\<lambda>d. dc_class_name d \<in> cs_name ` set (nss_success_classes st' @ nss_fail_classes st')) (nd_device_classes nd)
    \<and> (\<forall>s w2 c. cm_get newCm VgStatusConfigMapKey \<noteq> [] \<and> ce_get ctl (ct_key s) (w_env w2) = Inr c \<longrightarrow>
        (\<exists>items fs. w_trace (snd (newLvmdController ctl s (Added (ConfigMapObject newCm)) w2)) = w_trace w2
            @ ClusterUpdateStatus (c\<lparr>tc_status := (tc_status c)\<lparr>cst_node_storage := items\<rparr>\<rparr>) # fs
          \<and> find (\<lambda>n. nss_node n = pe_node_name env) items = Some st'
          \<and> filter (\<lambda>n. nss_node n \<noteq> pe_node_name env) items
              = filter (\<lambda>n. nss_node n \<noteq> pe_node_name env) (cst_node_storage (tc_status c))))"
proof -
  from assms(4) obtain vgs w1 suc fail new w2 cm1 cm2 w3 where
    pass: "for_each (first_step env (snd loops) disks vgs) (nd_device_classes nd) (([], []), []) w1 = (Ok ((suc, fail), new), w2)"
    and st: "updateVgStatus env (zero_node_storage_state\<lparr>nss_node := pe_node_name env\<rparr>) (suc, fail) (fst loops) (new_node_cm env nd) = Ok cm1"
    and conf: "createLvmdConf (pe_codec env) new cm1 w2 = (Ok cm2, w3)"
    and store: "CreateOrPatchConfigmap (pe_cm env) cm2 w3 = (Ok u, w')"
    by (rule first_run)
  let ?st' = "zero_node_storage_state\<lparr>nss_node := pe_node_name env, nss_fail_classes := range_values (pe_ord env) fail,
                nss_success_classes := range_values (pe_ord env) suc, nss_loops := fst loops\<rparr>"
  have set: "cm_set VgStatusConfigMapKey (co_status (pe_codec env) ?st') (new_node_cm env nd) = Ok cm1"
    using st by (simp add: updateVgStatus_def)
  note k = conf_keeps [OF conf] cm_set_keeps [OF set] cm_set_watched [OF set]
  have l: "cm_lookup cm2 VgStatusConfigMapKey = Some (co_status (ce_codec ctl) ?st')" and co: "codec_ok (ce_codec ctl)"
    using k cm_lookup_set [OF set, of VgStatusConfigMapKey] assms(5,6) by simp_all
  have held: "view (w_env w') (pe_namespace env, TruncateNodeName (pe_hash env) LvmdConfigMapFmt (nd_node_name nd)) = Some cm2"
    using cm_store.create_or_patch_stores [OF assms(1) store] k by (simp add: new_node_cm_def)
  have watched: "lvmd_watched op cm2 = (pe_namespace env = os_operator_namespace op)" for op
    using k by (simp add: lvmd_watched_def new_node_cm_def)
  have node: "getNodeName cm2 = pe_node_name env" using k by (simp add: getNodeName_def new_node_cm_def map_get_def)
  have "dc_class_name d \<in> cs_name ` set (range_values (pe_ord env) suc) \<union> cs_name ` set (range_values (pe_ord env) fail)"
    if "noted (suc, fail) d" for d
    using that noted_listed [OF assms(2)] unfolding noted_def fst_conv snd_conv by blast
  then have "list_all (\<lambda>d. dc_class_name d \<in> cs_name ` set (range_values (pe_ord env) suc)
      \<union> cs_name ` set (range_values (pe_ord env) fail)) (nd_device_classes nd)"
    using first_pass_notes [OF pass, of "[]"] assms(3) by (simp add: list_all_iff)
  then have all: "list_all (\<lambda>d. dc_class_name d \<in> cs_name ` set (nss_success_classes ?st' @ nss_fail_classes ?st')) (nd_device_classes nd)"
    by (simp add: image_Un)
  show ?thesis
  proof (intro exI [of _ cm2] exI [of _ ?st'] conjI held watched node all allI impI; (elim conjE)?)
    show "nss_node ?st' = pe_node_name env" by simp
  next
    fix s :: ctl_state and c and w2 :: "'c world"
    assume n: "cm_get cm2 VgStatusConfigMapKey \<noteq> []" and g: "ce_get ctl (ct_key s) (w_env w2) = Inr c"
    let ?items = "put_node_state ?st' (cst_node_storage (tc_status c))"
    from new_map_reports [OF co l n g] obtain fs where
      "w_trace (snd (lvmd_onAdd ctl s cm2 w2)) = w_trace w2
        @ ClusterUpdateStatus (c\<lparr>tc_status := (tc_status c)\<lparr>cst_node_storage := ?items\<rparr>\<rparr>) # fs" by blast
    with put_node_state_found [of ?st'] put_node_state_others [of ?st']
    show "\<exists>items fs. w_trace (snd (newLvmdController ctl s (Added (ConfigMapObject cm2)) w2)) = w_trace w2
            @ ClusterUpdateStatus (c\<lparr>tc_status := (tc_status c)\<lparr>cst_node_storage := items\<rparr>\<rparr>) # fs
          \<and> find (\<lambda>n. nss_node n = pe_node_name env) items = Some ?st'
          \<and> filter (\<lambda>n. nss_node n \<noteq> pe_node_name env) items
              = filter (\<lambda>n. nss_node n \<noteq> pe_node_name env) (cst_node_storage (tc_status c))"
      by (intro exI [of _ ?items] exI [of _ fs]) (simp add: newLvmdController_def getClientObject_def)
  qed
qed

section \<open>A node without a config map\<close>

interpretation site_cm: cm_store "on_cms mem_cms" "\<lambda>s. table_view (snd s)"
  by unfold_locales
    (auto simp: on_cms_def split: prod.splits
      dest: mem_cm.get_found mem_cm.get_named mem_cm.get_missing mem_cm.created mem_cm.create_refused mem_cm.patched
        mem_cm.patch_refused)

definition first_site_run :: "unit outcome \<times> site world" where
  "first_site_run = provisionFirst site_env \<lparr>nd_node_name = ''n1'', nd_device_classes = [ssd_class, hdd_class]\<rparr> ([], [])
     [(''/dev/sdd'', zero_local_disk)] None \<lparr>w_env = (idle_host, []), w_trace = []\<rparr>"

text \<open>The group \<open>ssd\<close> is created, the group \<open>hdd\<close> exists already, so its class fails.\<close>

theorem first_run_reaches_cluster_witness:
  "\<exists>newCm st' items fs. table_view (snd (w_env (snd first_site_run))) (''ns'', ''lvmdconfig-n1'') = Some newCm
    \<and> {''ssd'', ''hdd''} \<subseteq> cs_name ` set (nss_success_classes st' @ nss_fail_classes st')
    \<and> w_trace (snd (newLvmdController demo_env demo_served (Added (ConfigMapObject newCm)) demo_world)) =
        ClusterUpdateStatus ((demo_cluster ''a'' 3)\<lparr>tc_status := (tc_status (demo_cluster ''a'' 3))
          \<lparr>cst_node_storage := items\<rparr>\<rparr>) # fs
    \<and> find (\<lambda>n. nss_node n = ''n1'') items = Some st'"
proof -
  have ok: "case fst first_site_run of Ok x \<Rightarrow> True | _ \<Rightarrow> False" by code_simp
  have new: "case table_view (snd (w_env (snd first_site_run))) (''ns'', ''lvmdconfig-n1'') of
      Some cm \<Rightarrow> cm_get cm VgStatusConfigMapKey \<noteq> [] | None \<Rightarrow> False" by code_simp
  from ok have "fst first_site_run = Ok ()" by (cases "fst first_site_run") auto
  then obtain w' where run: "first_site_run = (Ok (), w')" by (metis prod.collapse)
  let ?nd = "\<lparr>nd_node_name = ''n1'', nd_device_classes = [ssd_class, hdd_class]\<rparr> :: node_devices"
  have store: "cm_store (pe_cm site_env) (\<lambda>s. table_view (snd s))"
    using site_cm.cm_store_axioms by (simp add: site_env_def)
  have o: "range_order (pe_ord site_env)" by (simp add: site_env_def)
  have d: "distinct (map dc_vg_name (nd_device_classes ?nd))" by (simp add: ssd_class_def hdd_class_def)
  have co: "codec_ok (pe_codec site_env)" "ce_codec demo_env = pe_codec site_env"
    by (simp_all add: site_env_def ref_codec_ok demo_env_def)
  have n: "pe_node_name site_env = ''n1''" "pe_namespace site_env = ''ns''"
    "TruncateNodeName (pe_hash site_env) LvmdConfigMapFmt (nd_node_name ?nd) = ''lvmdconfig-n1''"
    "dc_class_name ssd_class = ''ssd''" "dc_class_name hdd_class = ''hdd''"
    by (simp_all add: site_env_def ssd_class_def hdd_class_def) code_simp
  from first_run_reaches_cluster [OF store o d run [unfolded first_site_run_def] co, unfolded n] obtain newCm st' where
    held: "table_view (snd (w_env w')) (''ns'', ''lvmdconfig-n1'') = Some newCm"
    and all: "list_all (\<lambda>d. dc_class_name d \<in> cs_name ` set (nss_success_classes st' @ nss_fail_classes st')) [ssd_class, hdd_class]"
    and hd: "\<And>s w2 c. cm_get newCm VgStatusConfigMapKey \<noteq> [] \<and> ce_get demo_env (ct_key s) (w_env w2) = Inr c \<Longrightarrow>
        \<exists>items fs. w_trace (snd (newLvmdController demo_env s (Added (ConfigMapObject newCm)) w2)) = w_trace w2
            @ ClusterUpdateStatus (c\<lparr>tc_status := (tc_status c)\<lparr>cst_node_storage := items\<rparr>\<rparr>) # fs
          \<and> find (\<lambda>n. nss_node n = ''n1'') items = Some st'"
    by (simp only: node_devices.simps) blast
  from held new have c: "cm_get newCm VgStatusConfigMapKey \<noteq> []" by (simp add: run)
  have g: "ce_get demo_env (ct_key demo_served) (w_env demo_world) = Inr (demo_cluster ''a'' 3)"
    by (simp add: demo_defs demo_served_def)
  from hd [OF conjI [OF c g]] obtain items fs where
    "w_trace (snd (newLvmdController demo_env demo_served (Added (ConfigMapObject newCm)) demo_world)) = w_trace demo_world
      @ ClusterUpdateStatus ((demo_cluster ''a'' 3)\<lparr>tc_status := (tc_status (demo_cluster ''a'' 3))
          \<lparr>cst_node_storage := items\<rparr>\<rparr>) # fs"
    and "find (\<lambda>n. nss_node n = ''n1'') items = Some st'" by blast
  with all held show ?thesis
    by (intro exI [of _ newCm] exI [of _ st'] exI [of _ items] exI [of _ fs]) (simp add: run demo_world_def n)
qed

end
