(* ===== verification/Names.thy ===== *)
theory Names
  imports Discover VgManager
begin

text \<open>
  The names the program derives from the names of nodes and the paths of devices (\<open>Hash\<close> and \<open>TruncateNodeName\<close> of
  \<open>pkg/operator/k8sutil/k8sutils.go\<close>): they are names the API server accepts, short enough for a label, and
  tell nodes and devices apart as far as the hash does.
\<close>

section \<open>Hash\<close>

text \<open>
  \<open>hex.EncodeToString(sha256.Sum256(s)[:16])\<close>: the checksum (32 bytes, as characters) is an argument, the
  encoding in lower-case hexadecimal digits is Go's.
\<close>

definition hex_char :: "nat \<Rightarrow> char" where
  "hex_char n = ''0123456789abcdef'' ! n"

definition hex_of :: "char \<Rightarrow> string" where
  "hex_of c = [hex_char (of_char c div 16), hex_char (of_char c mod 16)]"

definition EncodeToString :: "string \<Rightarrow> string" where
  "EncodeToString s = concat (map hex_of s)"

definition Hash :: "(string \<Rightarrow> string) \<Rightarrow> string \<Rightarrow> string" where
  "Hash sha s = EncodeToString (take 16 (sha s))"

lemma byte_bound: "(of_char c :: nat) < 256"
  by (cases c) (simp add: of_char_def horner_sum_simps)

lemma length_EncodeToString [simp]: "length (EncodeToString s) = 2 * length s"
  by (induction s) (simp_all add: EncodeToString_def hex_of_def)

lemma length_Hash: "length (sha s) = 32 \<Longrightarrow> length (Hash sha s) = 32"
  by (simp add: Hash_def)

lemma hex_char_inj: "m < 16 \<Longrightarrow> n < 16 \<Longrightarrow> hex_char m = hex_char n \<longleftrightarrow> m = n"
  unfolding hex_char_def by (subst nth_eq_iff_index_eq) simp_all

lemma hex_of_inj: "hex_of c = hex_of d \<longleftrightarrow> c = d"
proof
  assume h: "hex_of c = hex_of d"
  from h byte_bound [of c] byte_bound [of d] have "(of_char c :: nat) div 16 = of_char d div 16" "(of_char c :: nat) mod 16 = of_char d mod 16"
    by (simp_all add: hex_of_def hex_char_inj)
  then have "(of_char c :: nat) = of_char d" by (metis div_mult_mod_eq)
  then show "c = d" by simp
qed simp

lemma EncodeToString_inj: "EncodeToString s = EncodeToString t \<longleftrightarrow> s = t"
proof (induction s arbitrary: t)
  case Nil
  show ?case by (cases t) (simp_all add: EncodeToString_def hex_of_def)
next
  case (Cons c s)
  show ?case
  proof (cases t)
    case Nil
    then show ?thesis by (simp add: EncodeToString_def hex_of_def)
  next
    case (Cons d t')
    have "length (hex_of c) = length (hex_of d)" by (simp add: hex_of_def)
    then show ?thesis using Cons Cons.IH [of t'] by (simp add: EncodeToString_def hex_of_inj)
  qed
qed

section \<open>Names the API server accepts\<close>

text \<open>
  A DNS-1123 subdomain, as an automaton: labels of lower-case letters, digits and inner dashes, separated by dots.
\<close>

datatype dns_state = Edge | Inner | Dashed

definition lower_alnum :: "char \<Rightarrow> bool" where
  "lower_alnum c = (let n = (of_char c :: nat) in (97 \<le> n \<and> n \<le> 122) \<or> (48 \<le> n \<and> n \<le> 57))"

fun dns_next :: "dns_state \<Rightarrow> char \<Rightarrow> dns_state option" where
  "dns_next q c =
     (if lower_alnum c then Some Inner
      else if c = CHR ''-'' \<and> q \<noteq> Edge then Some Dashed
      else if c = CHR ''.'' \<and> q = Inner then Some Edge
      else None)"

fun dns_run :: "dns_state \<Rightarrow> string \<Rightarrow> dns_state option" where
  "dns_run q [] = Some q"
| "dns_run q (c # cs) = (case dns_next q c of None \<Rightarrow> None | Some q' \<Rightarrow> dns_run q' cs)"

definition dns_name :: "string \<Rightarrow> bool" where
  "dns_name s = (dns_run Edge s = Some Inner)"

lemma dns_run_append: "dns_run q (xs @ ys) = (case dns_run q xs of None \<Rightarrow> None | Some q' \<Rightarrow> dns_run q' ys)"
  by (induction xs arbitrary: q) (auto split: option.splits)

lemma dns_run_alnum: "xs \<noteq> [] \<Longrightarrow> list_all lower_alnum xs \<Longrightarrow> dns_run q xs = Some Inner"
proof (induction xs arbitrary: q)
  case (Cons c cs)
  then show ?case by (cases cs) auto
qed simp

text \<open>A name may follow a dash.\<close>

lemma dns_run_from_dash: "dns_name s \<Longrightarrow> dns_run Dashed s = Some Inner"
  by (cases s) (auto simp: dns_name_def split: if_splits)

lemma hex_char_alnum: "n < 16 \<Longrightarrow> lower_alnum (hex_char n)"
proof -
  have "\<forall>n \<in> set [0..<16]. lower_alnum (hex_char n)" by code_simp
  then show "n < 16 \<Longrightarrow> lower_alnum (hex_char n)" by simp
qed

lemma EncodeToString_alnum: "list_all lower_alnum (EncodeToString s)"
proof (induction s)
  case (Cons c s)
  have "(of_char c :: nat) div 16 < 16" using byte_bound [of c] by (simp add: less_mult_imp_div_less)
  with Cons show ?case by (simp add: EncodeToString_def hex_of_def hex_char_alnum)
qed (simp add: EncodeToString_def)

lemma Hash_dns:
  assumes "length (sha s) = 32"
  shows "dns_name (Hash sha s) \<and> dns_run Dashed (Hash sha s) = Some Inner"
proof -
  have "Hash sha s \<noteq> []" using length_Hash [of sha s, OF assms] by auto
  then show ?thesis using EncodeToString_alnum by (simp add: dns_name_def dns_run_alnum Hash_def)
qed

text \<open>The formats of names end in a dash.\<close>

definition dashed_format :: "format1 \<Rightarrow> bool" where
  "dashed_format f = (dns_run Edge (fmt_before f) = Some Dashed \<and> fmt_after f = [] \<and> length (fmt_before f) \<le> 31)"

lemma formats_dashed:
  "dashed_format LvmdConfigMapFmt" "dashed_format TopolvmNodeDeploymentFmt" "dashed_format PrepareVgJobFmt"
  "dashed_format CleanDeviceJobFmt"
  by code_simp+

lemma sprintf1_dns: "dashed_format f \<Longrightarrow> dns_run Dashed s = Some Inner \<Longrightarrow> dns_name (sprintf1 f s)"
  by (simp add: dashed_format_def sprintf1_def dns_name_def dns_run_append)

lemma length_dashed: "dashed_format f \<Longrightarrow> length (sprintf1 f s) \<le> 31 + length s"
  by (simp add: dashed_format_def sprintf1_def)

lemma truncated_fits:
  assumes "dashed_format f" and "length (sha node) = 32" and "dns_name node"
  shows "dns_name (TruncateNodeName (Hash sha) f node) \<and> length (TruncateNodeName (Hash sha) f node) \<le> 63"
proof (cases "length node + length (sprintf1 f []) > dns1035_label_max_length")
  case True
  then show ?thesis
    using sprintf1_dns [OF assms(1)] Hash_dns [of sha node, OF assms(2)] length_dashed [OF assms(1), of "Hash sha node"] length_Hash [of sha node, OF assms(2)]
    by (simp add: TruncateNodeName_def del: length_sprintf1)
next
  case False
  then show ?thesis
    using sprintf1_dns [OF assms(1) dns_run_from_dash [OF assms(3)]] length_sprintf1 [of f node]
    by (simp add: TruncateNodeName_def dns1035_label_max_length_def del: length_sprintf1)
qed

lemma job_name_fits:
  assumes "dashed_format f" and "length (sha node) = 32"
  shows "dns_name (truncateNodeNameForIndexJob (Hash sha) f node) \<and> length (truncateNodeNameForIndexJob (Hash sha) f node) \<le> 63"
  using sprintf1_dns [OF assms(1)] Hash_dns [of sha node, OF assms(2)] length_dashed [OF assms(1), of "Hash sha node"] length_Hash [of sha node, OF assms(2)]
  by (simp add: truncateNodeNameForIndexJob_def del: length_sprintf1)

section \<open>Properties\<close>


text \<open>A node whose name has 60 characters: the config map is named by the hash.\<close>

definition zero_sum :: "string \<Rightarrow> string" where "zero_sum s = replicate 32 (char_of (0 :: nat))"

definition long_node :: string where "long_node = replicate 60 (CHR ''n'')"


text \<open>
  C36: The name of a \<open>RawDevice\<close> identifies the device: two devices get the same name only if they are the same path on
  the same node, or their checksums agree in the first 16 bytes.  The text that is hashed has no separator, but
  a path begins with a slash and a node's name has none.
\<close>

theorem device_names_identify:
  assumes "CHR ''/'' \<notin> set n" and "CHR ''/'' \<notin> set n'"
    and "ld_real_path (di_disk d) = CHR ''/'' # p" and "ld_real_path (di_disk d') = CHR ''/'' # p'"
    and "rd_name (convertDiskToRawDevice (Hash sha) n d) = rd_name (convertDiskToRawDevice (Hash sha) n' d')"
  shows "(n = n' \<and> p = p') \<or>
    (n @ ld_real_path (di_disk d) \<noteq> n' @ ld_real_path (di_disk d') \<and>
     take 16 (sha (n @ ld_real_path (di_disk d))) = take 16 (sha (n' @ ld_real_path (di_disk d'))))"
proof -
  have "take 16 (sha (n @ CHR ''/'' # p)) = take 16 (sha (n' @ CHR ''/'' # p'))"
    using assms(3-5) by (simp add: convertDiskToRawDevice_def Let_def Hash_def EncodeToString_inj)
  moreover have "n = n' \<and> p = p'" if "n @ CHR ''/'' # p = n' @ CHR ''/'' # p'"
  proof -
    have cut: "takeWhile (\<lambda>c. c \<noteq> CHR ''/'') (m @ CHR ''/'' # q) = m" if "CHR ''/'' \<notin> set m" for m q
      using that by (induction m) auto
    from cut [OF assms(1), of p] cut [OF assms(2), of p'] that have "n = n'" by simp
    with that show ?thesis by simp
  qed
  ultimately show ?thesis unfolding assms(3,4) by blast
qed

text \<open>One device reported twice, with two sizes, under a checksum that keeps the first bytes; a second device has another name.\<close>

definition head_sum :: "string \<Rightarrow> string" where
  "head_sum s = take 32 (s @ replicate 32 (char_of (0 :: nat)))"

definition disk_at :: "string \<Rightarrow> 64 word \<Rightarrow> disk_info" where
  "disk_at path bytes =
     \<lparr>di_disk = zero_local_disk\<lparr>ld_real_path := path, ld_size := bytes\<rparr>, di_available = True, di_message = []\<rparr>"

theorem device_names_identify_witness:
  "rd_name (convertDiskToRawDevice (Hash head_sum) ''n1'' (disk_at ''/dev/sdb'' 1)) =
     rd_name (convertDiskToRawDevice (Hash head_sum) ''n1'' (disk_at ''/dev/sdb'' 2)) \<and>
   rd_name (convertDiskToRawDevice (Hash head_sum) ''n1'' (disk_at ''/dev/sdb'' 1)) \<noteq>
     rd_name (convertDiskToRawDevice (Hash head_sum) ''n1'' (disk_at ''/dev/sdc'' 2))"
proof -
  have p: "CHR ''/'' \<notin> set ''n1''" "ld_real_path (di_disk (disk_at ''/dev/sdb'' 1)) = CHR ''/'' # ''dev/sdb''"
    "ld_real_path (di_disk (disk_at ''/dev/sdc'' 2)) = CHR ''/'' # ''dev/sdc''" by (simp_all add: disk_at_def)
  have "take 16 (head_sum ''n1/dev/sdb'') \<noteq> take 16 (head_sum ''n1/dev/sdc'')" by code_simp
  then have "rd_name (convertDiskToRawDevice (Hash head_sum) ''n1'' (disk_at ''/dev/sdb'' 1)) \<noteq>
     rd_name (convertDiskToRawDevice (Hash head_sum) ''n1'' (disk_at ''/dev/sdc'' 2))"
    using device_names_identify [OF p(1) p(1) p(2) p(3), of head_sum] p(2,3) by auto
  moreover have "rd_name (convertDiskToRawDevice (Hash head_sum) ''n1'' (disk_at ''/dev/sdb'' 1)) =
     rd_name (convertDiskToRawDevice (Hash head_sum) ''n1'' (disk_at ''/dev/sdb'' 2))" by code_simp
  ultimately show ?thesis by blast
qed

end
