(* ===== verification/RawWrites.thy ===== *)
theory RawWrites
  imports Discover RawCsi_Props Frames
begin

text \<open>
  The other half of the contract of the store of \<open>RawDevice\<close> objects: what a creation, an update of the
  specification and a deletion do.  The laws are the API's: an object is created without a status (the
  status is a subresource) and only under a new name, an update keeps the status, a deletion removes
  the object of that name, a refused call changes nothing.  The order of the objects is left open.
  Over the contract, one pass of the discovery agent is shown to keep every volume.
\<close>

definition put_spec :: "raw_device \<Rightarrow> raw_device \<Rightarrow> raw_device" where
  "put_spec d x = (if rd_name x = rd_name d then d\<lparr>rd_status_name := rd_status_name x\<rparr> else x)"

text \<open>The writes, whatever the reader of the store sees.\<close>

locale raw_server =
  fixes api :: "'e raw_api" and view :: "'e \<Rightarrow> raw_device list"
  assumes created: "ra_create api d e = (Inr u, e') \<Longrightarrow>
      rd_name d \<notin> rd_name ` set (view e) \<and> mset (view e') = add_mset (d\<lparr>rd_status_name := []\<rparr>) (mset (view e))"
    and create_refused: "ra_create api d e = (Inl err, e') \<Longrightarrow> view e' = view e"
    and got: "ra_get api n e = (r, e') \<Longrightarrow> view e' = view e \<and> (\<forall>d. r = Inr d \<longrightarrow> d \<in> set (view e) \<and> rd_name d = n)"
    and updated: "ra_update api d e = (Inr u, e') \<Longrightarrow> mset (view e') = mset (map (put_spec d) (view e))"
    and update_refused: "ra_update api d e = (Inl err, e') \<Longrightarrow> view e' = view e"
    and deleted: "ra_delete api n e = (Inr u, e') \<Longrightarrow> mset (view e') = mset (filter (\<lambda>x. rd_name x \<noteq> n) (view e))"
    and delete_refused: "ra_delete api n e = (Inl err, e') \<Longrightarrow> view e' = view e"

text \<open>The writes of a store whose lists are up to date.\<close>

locale raw_writes = raw_store api view + raw_server api view
  for api :: "'e raw_api" and view :: "'e \<Rightarrow> raw_device list"

section \<open>Volumes and the order of the store\<close>

lemma volumes_ok_mset: "mset ds = mset ds' \<Longrightarrow> volumes_ok ds = volumes_ok ds'"
proof -
  assume m: "mset ds = mset ds'"
  then have "mset (map rd_name ds) = mset (map rd_name ds')" by simp
  then have "distinct (map rd_name ds) = distinct (map rd_name ds')" by (rule mset_eq_imp_distinct_iff)
  with mset_eq_setD [OF m] show ?thesis by (simp add: volumes_ok_def)
qed

lemma held_ids_mset: "mset ds = mset ds' \<Longrightarrow> held_ids ds = held_ids ds'"
  using mset_eq_setD [of ds ds'] by (simp add: held_ids_def)

lemma map_name_put_spec [simp]: "map (\<lambda>x. rd_name (put_spec d x)) ds = map rd_name ds"
  by (simp add: put_spec_def)

lemma volumes_ok_put_spec: "volumes_ok ds \<Longrightarrow> volumes_ok (map (put_spec d) ds)"
  unfolding volumes_ok_def map_map comp_def map_name_put_spec by (auto simp: put_spec_def)

lemma held_ids_put_spec: "held_ids (map (put_spec d) ds) = held_ids ds"
proof -
  have "rd_status_name (put_spec d x) = rd_status_name x" for x by (simp add: put_spec_def)
  then show ?thesis by (simp add: held_ids_image image_image)
qed

lemma volumes_ok_filter: "volumes_ok ds \<Longrightarrow> volumes_ok (filter P ds)"
  by (auto simp: volumes_ok_def distinct_map_filter)

lemma held_ids_filter_free:
  assumes "\<And>x. x \<in> set ds \<Longrightarrow> \<not> P x \<Longrightarrow> rd_status_name x = []"
  shows "held_ids (filter P ds) = held_ids ds"
  using assms by (fastforce simp: held_ids_def)

lemma volumes_ok_insert:
  "volumes_ok ds \<Longrightarrow> rd_name d \<noteq> [] \<Longrightarrow> rd_name d \<notin> rd_name ` set ds \<Longrightarrow>
     volumes_ok (d\<lparr>rd_status_name := []\<rparr> # ds)"
  by (auto simp: volumes_ok_def)

lemma held_ids_insert_free: "held_ids (d\<lparr>rd_status_name := []\<rparr> # ds) = held_ids ds"
  by (auto simp: held_ids_def)

text \<open>The relation a step that touches no volume keeps: a consistent store stays so, with the same ids.\<close>

definition same_volumes :: "raw_device list \<Rightarrow> raw_device list \<Rightarrow> bool" where
  "same_volumes ds ds' = (volumes_ok ds \<longrightarrow> volumes_ok ds' \<and> held_ids ds' = held_ids ds)"

lemma same_volumes_refl [simp]: "same_volumes ds ds"
  by (simp add: same_volumes_def)

lemma same_volumes_trans: "same_volumes a b \<Longrightarrow> same_volumes b c \<Longrightarrow> same_volumes a c"
  by (simp add: same_volumes_def)

interpretation volumes: env_relation "\<lambda>a b. same_volumes (view a) (view b)" for view :: "'e \<Rightarrow> raw_device list"
  by unfold_locales (auto intro: same_volumes_trans)

section \<open>A pass of the agent keeps the volumes\<close>

context raw_server
begin

lemma create_same: "rd_name d \<noteq> [] \<Longrightarrow> ra_create api d e = (r, e') \<Longrightarrow> same_volumes (view e) (view e')"
proof (cases r)
  case (Inr u)
  assume n: "rd_name d \<noteq> []" and c: "ra_create api d e = (r, e')"
  with created Inr have f: "rd_name d \<notin> rd_name ` set (view e)"
    and m: "mset (view e') = mset (d\<lparr>rd_status_name := []\<rparr> # view e)" by auto
  show ?thesis unfolding same_volumes_def volumes_ok_mset [OF m] held_ids_mset [OF m] held_ids_insert_free
    using volumes_ok_insert [OF _ n f] by blast
qed (simp add: create_refused)

lemma update_same: "ra_update api d e = (r, e') \<Longrightarrow> same_volumes (view e) (view e')"
proof (cases r)
  case (Inr u)
  assume c: "ra_update api d e = (r, e')"
  with updated Inr have m: "mset (view e') = mset (map (put_spec d) (view e))" by auto
  show ?thesis unfolding same_volumes_def volumes_ok_mset [OF m] held_ids_mset [OF m] held_ids_put_spec
    using volumes_ok_put_spec by blast
qed (simp add: update_refused)

lemma create_or_update_same:
  assumes "rd_name d \<noteq> []"
  shows "moves (\<lambda>a b. same_volumes (view a) (view b)) (CreateOrUpdateRawDevice api d)"
  unfolding CreateOrUpdateRawDevice_def CreateRawDevice_def
  by (intro volumes.intros moves_external) (auto dest: create_same [OF assms] update_same got)

end

context raw_writes
begin

lemma delete_step_shrinks:
  assumes "dm_raw m = api" and "volumes_ok ds" and "dev \<in> set ds"
    and "set (view (w_env w)) \<subseteq> set ds" and "same_volumes ds (view (w_env w))"
  shows "set (view (w_env (snd (delete_step m devices dev err w)))) \<subseteq> set ds
    \<and> same_volumes ds (view (w_env (snd (delete_step m devices dev err w))))"
proof (cases "\<not> still_there m devices dev \<and> rd_status_name dev = []")
  case False
  then have "delete_step m devices dev err = ret err" by (auto simp: delete_step_def)
  with assms(4,5) show ?thesis by (simp add: ret_def)
next
  case True
  obtain r e' where d: "ra_delete api (rd_name dev) (w_env w) = (r, e')" by fastforce
  with True assms(1) have run: "w_env (snd (delete_step m devices dev err w)) = e'"
    by (simp add: delete_step_def bindM_eqs(1) [OF attempt_external] ret_def)
  show ?thesis
  proof (cases r)
    case (Inl x)
    with d delete_refused assms(4,5) show ?thesis by (simp add: run)
  next
    case (Inr u)
    with d deleted have m: "mset (view e') = mset (filter (\<lambda>x. rd_name x \<noteq> rd_name dev) (view (w_env w)))" by auto
    have "rd_status_name x = []" if "x \<in> set (view (w_env w))" "\<not> rd_name x \<noteq> rd_name dev" for x
    proof -
      from that assms(2-4) have "x = dev" by (auto simp: volumes_ok_def distinct_map inj_on_def)
      with True show ?thesis by simp
    qed
    then have h: "held_ids (filter (\<lambda>x. rd_name x \<noteq> rd_name dev) (view (w_env w))) = held_ids (view (w_env w))"
      by (rule held_ids_filter_free)
    have "same_volumes (view (w_env w)) (view e')"
      by (simp add: same_volumes_def volumes_ok_mset [OF m] held_ids_mset [OF m] h volumes_ok_filter)
    with same_volumes_trans [OF assms(5)] mset_eq_setD [OF m] assms(4) show ?thesis by (auto simp: run)
  qed
qed

lemma checkRawDeviceDeleted_same:
  assumes "dm_raw m = api"
  shows "moves (\<lambda>a b. same_volumes (view a) (view b)) (checkRawDeviceDeleted m devices)"
proof (rule movesI)
  fix w r w'
  assume c: "checkRawDeviceDeleted m devices w = (r, w')"
  obtain l w0 where l: "list_node_devices api (dm_node_name m) w = (l, w0)" by fastforce
  note l' = list_node_devices_view [OF l]
  show "same_volumes (view (w_env w)) (view (w_env w'))"
  proof (cases l)
    case (Ok ds)
    let ?ds = "view (w_env w)"
    let ?raws = "filter (on_node (dm_node_name m)) ?ds"
    let ?I = "\<lambda>w1. set (view (w_env w1)) \<subseteq> set ?ds \<and> same_volumes ?ds (view (w_env w1))"
    have "volumes_ok ?ds \<Longrightarrow> ?I (snd (for_each (delete_step m devices) ?raws None w))"
      by (rule for_each_world [where I = ?I]) (use delete_step_shrinks [OF assms, of ?ds] in auto)
    moreover obtain r1 w1 where f: "for_each (delete_step m devices) ?raws None w = (r1, w1)" by fastforce
    from Ok l l' c assms f have "w' = w1"
      by (cases r1) (simp_all add: checkRawDeviceDeleted_def bindM_eqs ret_def failM_def split: option.splits)
    ultimately show ?thesis using f by (auto simp: same_volumes_def)
  qed (use c l l' assms in \<open>simp_all add: checkRawDeviceDeleted_def bindM_eqs\<close>)
qed

lemma report_same:
  assumes "dm_raw m = api" and "\<And>s. dm_hash m s \<noteq> []"
  shows "moves (\<lambda>a b. same_volumes (view a) (view b)) (createOrUpdateRawDevice m devices)"
  unfolding createOrUpdateRawDevice_def assms(1)
  by (intro volumes.intros checkRawDeviceDeleted_same assms(1) create_or_update_same)
    (simp add: convertDiskToRawDevice_def Let_def assms(2))

end

interpretation mem: raw_writes mem_api "\<lambda>ds. ds"
  by unfold_locales (auto simp: mem_api_def put_spec_def find_Some_iff cong: map_cong split: if_splits option.splits)

end
