(* ===== verification/Mirror.thy ===== *)
theory Mirror
  imports RawWrites
begin

text \<open>
  What a pass of the discovery agent achieves when the API server accepts its calls: the store mirrors
  the node.  Every reported device has an object with the reported specification, an object of the
  node that was not reported is gone unless it is allocated, and every other object is as it was.
\<close>

locale live_store = raw_writes api view for api :: "'e raw_api" and view :: "'e \<Rightarrow> raw_device list" +
  assumes lists: "\<exists>ds. ra_list api e = Inr ds"
    and accepts: "rd_name d \<notin> rd_name ` set (view e) \<Longrightarrow> \<exists>e'. ra_create api d e = (Inr (), e')"
    and rejects: "rd_name d \<in> rd_name ` set (view e) \<Longrightarrow> \<exists>n e'. ra_create api d e = (Inl (ApiAlreadyExists n), e')"
    and finds: "n \<in> rd_name ` set (view e) \<Longrightarrow> \<exists>d e'. ra_get api n e = (Inr d, e')"
    and updates: "rd_name d \<in> rd_name ` set (view e) \<Longrightarrow> \<exists>e'. ra_update api d e = (Inr (), e')"
    and claims: "rd_name d \<in> rd_name ` set (view e) \<Longrightarrow> \<exists>e'. ra_update_status api d e = (Inr (), e')"
    and removes: "n \<in> rd_name ` set (view e) \<Longrightarrow> \<exists>e'. ra_delete api n e = (Inr (), e')"

text \<open>The object of a device after the report, by the object of its name before it.\<close>

definition reported :: "raw_device list \<Rightarrow> raw_device \<Rightarrow> raw_device" where
  "reported ds d = (case find (\<lambda>x. rd_name x = rd_name d) ds of None \<Rightarrow> d | Some old \<Rightarrow> with_spec_of d old)"

definition named :: "raw_device list \<Rightarrow> bool" where
  "named ds = distinct (map rd_name ds)"

lemma volumes_named: "volumes_ok ds \<Longrightarrow> named ds"
  by (simp add: volumes_ok_def named_def)

lemma named_mset: "mset ds = mset ds' \<Longrightarrow> named ds = named ds'"
  unfolding named_def by (metis mset_eq_imp_distinct_iff mset_map)

lemma named_same: "named ds \<Longrightarrow> x \<in> set ds \<Longrightarrow> y \<in> set ds \<Longrightarrow> rd_name x = rd_name y \<Longrightarrow> x = y"
  by (auto simp: named_def distinct_map inj_on_def)

lemma find_named:
  "named ds \<Longrightarrow> find (\<lambda>x. rd_name x = n) ds = Some x \<longleftrightarrow> x \<in> set ds \<and> rd_name x = n"
  by (auto simp: find_Some_iff in_set_conv_nth named_def distinct_conv_nth)

lemma find_absent: "find (\<lambda>x. rd_name x = n) ds = None \<longleftrightarrow> n \<notin> rd_name ` set ds"
  by (auto simp: find_None_iff)

lemma ex_find: "(\<exists>x. find P xs = Some x) \<longleftrightarrow> (\<exists>x \<in> set xs. P x)"
  by (induction xs) auto

lemma reported_name [simp]: "rd_name (reported ds d) = rd_name d"
  by (auto simp: reported_def with_spec_of_def find_Some_iff split: option.splits)

lemma reported_new: "rd_name d \<notin> rd_name ` set ds \<Longrightarrow> reported ds d = d"
  using find_absent [of "rd_name d" ds] by (simp add: reported_def)

lemma reported_old: "named ds \<Longrightarrow> old \<in> set ds \<Longrightarrow> rd_name old = rd_name d \<Longrightarrow> reported ds d = with_spec_of d old"
  using find_named [of ds "rd_name d" old] by (simp add: reported_def)

lemma reported_cong:
  assumes "named ds" and "named ds'" and "\<And>x. rd_name x = rd_name d \<Longrightarrow> x \<in> set ds' \<longleftrightarrow> x \<in> set ds"
  shows "reported ds' d = reported ds d"
proof (cases "rd_name d \<in> rd_name ` set ds")
  case True
  then obtain old where "old \<in> set ds" "rd_name old = rd_name d" by auto
  with assms show ?thesis by (simp add: reported_old [of ds old] reported_old [of ds' old])
next
  case False
  with assms(3) have "rd_name d \<notin> rd_name ` set ds'" by fastforce
  with False show ?thesis by (simp add: reported_new)
qed

context live_store
begin

lemma create_or_update_view:
  assumes "named (view (w_env w))" and "rd_status_name d = []"
  obtains r w' where "attempt (CreateOrUpdateRawDevice api d) w = (Ok r, w')" and "named (view (w_env w'))"
    and "set (view (w_env w')) =
      insert (reported (view (w_env w)) d) {x \<in> set (view (w_env w)). rd_name x \<noteq> rd_name d}"
proof (cases "rd_name d \<in> rd_name ` set (view (w_env w))")
  case False
  then obtain e' where c: "ra_create api d (w_env w) = (Inr (), e')" using accepts by blast
  have "d\<lparr>rd_status_name := []\<rparr> = d" using assms(2) by simp
  with created [OF c] have m: "mset (view e') = mset (d # view (w_env w))" by simp
  have "attempt (CreateOrUpdateRawDevice api d) w =
      (Ok (Inr ()), w\<lparr>w_env := e', w_trace := w_trace w @ [RawCreate d]\<rparr>)"
    by (simp add: CreateOrUpdateRawDevice_def CreateRawDevice_def attempt_def bindM_def ret_def external_def c)
  moreover have "named (view e')" unfolding named_mset [OF m] using assms(1) False by (simp add: named_def)
  moreover have "set (view e') = insert d {x \<in> set (view (w_env w)). rd_name x \<noteq> rd_name d}"
    using mset_eq_setD [OF m] False by (auto simp: image_iff)
  ultimately show ?thesis using that reported_new [OF False] by simp
next
  case True
  let ?ds = "view (w_env w)"
  from True obtain n e1 where c: "ra_create api d (w_env w) = (Inl (ApiAlreadyExists n), e1)" using rejects by blast
  from create_refused [OF c] have v1: "view e1 = ?ds" .
  with True finds [of "rd_name d" e1] obtain old e2 where g: "ra_get api (rd_name d) e1 = (Inr old, e2)" by auto
  from got [OF g] v1 have v2: "view e2 = ?ds" and old: "old \<in> set ?ds" "rd_name old = rd_name d" by auto
  let ?new = "with_spec_of d old"
  have nm: "rd_name ?new = rd_name d" using old by (simp add: with_spec_of_def)
  with True v2 updates [of ?new e2] obtain e3 where u: "ra_update api ?new e2 = (Inr (), e3)" by auto
  from updated [OF u] v2 have m: "mset (view e3) = mset (map (put_spec ?new) ?ds)" by simp
  have put: "put_spec ?new x = (if rd_name x = rd_name d then ?new else x)" if "x \<in> set ?ds" for x
    using that named_same [OF assms(1) that old(1)] old(2) nm by (auto simp: put_spec_def with_spec_of_def)
  have run: "attempt (CreateOrUpdateRawDevice api d) w = (Ok (Inl (ApiAlreadyExists n)),
      w\<lparr>w_env := e3, w_trace := w_trace w @ [RawCreate d, RawUpdate ?new]\<rparr>)"
    by (simp add: CreateOrUpdateRawDevice_def CreateRawDevice_def attempt_def bindM_def failM_def external_def c g u)
  have s: "set (view e3) = insert (reported ?ds d) {x \<in> set ?ds. rd_name x \<noteq> rd_name d}"
    using mset_eq_setD [OF m] put old unfolding reported_old [OF assms(1) old] by force
  have "named (view e3)" using assms(1) unfolding named_mset [OF m] by (simp add: named_def comp_def)
  with that [OF run] s show ?thesis by simp
qed

lemma report_loop:
  assumes "named (view (w_env w))" and "distinct (map (\<lambda>i. rd_name (conv i)) is)" and "\<And>i. rd_status_name (conv i) = []"
  shows "\<exists>w'. for_each (\<lambda>i _. bindM (attempt (CreateOrUpdateRawDevice api (conv i))) (\<lambda>_. ret ())) is () w = (Ok (), w')
    \<and> named (view (w_env w')) \<and> set (view (w_env w')) = (\<lambda>i. reported (view (w_env w)) (conv i)) ` set is
        \<union> {d \<in> set (view (w_env w)). rd_name d \<notin> (\<lambda>i. rd_name (conv i)) ` set is}"
  using assms(1,2)
proof (induction "is" arbitrary: w)
  case Nil
  then show ?case by (simp add: ret_def)
next
  case (Cons i js)
  let ?ds = "view (w_env w)"
  from create_or_update_view [OF Cons.prems(1) assms(3), of i] obtain r w1
    where c: "attempt (CreateOrUpdateRawDevice api (conv i)) w = (Ok r, w1)" and n1: "named (view (w_env w1))"
      and v1: "set (view (w_env w1)) = insert (reported ?ds (conv i)) {x \<in> set ?ds. rd_name x \<noteq> rd_name (conv i)}"
    by blast
  from Cons.prems(2) have fresh: "rd_name (conv i) \<notin> (\<lambda>j. rd_name (conv j)) ` set js" and "distinct (map (\<lambda>i. rd_name (conv i)) js)"
    by auto
  with Cons.IH [OF n1] obtain w2 where
    f: "for_each (\<lambda>i _. bindM (attempt (CreateOrUpdateRawDevice api (conv i))) (\<lambda>_. ret ())) js () w1 = (Ok (), w2)"
    and n2: "named (view (w_env w2))"
    and v2: "set (view (w_env w2)) = (\<lambda>i. reported (view (w_env w1)) (conv i)) ` set js
        \<union> {d \<in> set (view (w_env w1)). rd_name d \<notin> (\<lambda>i. rd_name (conv i)) ` set js}" by blast
  have "reported (view (w_env w1)) (conv j) = reported ?ds (conv j)" if "j \<in> set js" for j
  proof (rule reported_cong [OF Cons.prems(1) n1])
    from that fresh have "rd_name (conv j) \<noteq> rd_name (conv i)" by (auto simp: image_iff)
    then show "x \<in> set (view (w_env w1)) \<longleftrightarrow> x \<in> set ?ds" if "rd_name x = rd_name (conv j)" for x
      using that unfolding v1 by auto
  qed
  then have "(\<lambda>j. reported (view (w_env w1)) (conv j)) ` set js = (\<lambda>j. reported ?ds (conv j)) ` set js" by simp
  with v2 have "set (view (w_env w2)) = (\<lambda>j. reported ?ds (conv j)) ` set (i # js)
      \<union> {d \<in> set ?ds. rd_name d \<notin> (\<lambda>j. rd_name (conv j)) ` set (i # js)}"
    using fresh unfolding v1 by auto
  moreover have "for_each (\<lambda>i _. bindM (attempt (CreateOrUpdateRawDevice api (conv i))) (\<lambda>_. ret ())) (i # js) () w = (Ok (), w2)"
    using c f by (simp add: bindM_def ret_def)
  ultimately show ?case using n2 by blast
qed

lemma delete_step_live:
  assumes "dm_raw m = api" and "dev \<in> set (view (w_env w))"
  shows "\<exists>w'. delete_step m devices dev None w = (Ok None, w')
    \<and> mset (view (w_env w')) = mset (filter (\<lambda>d. still_there m devices dev \<or> rd_status_name dev \<noteq> [] \<or> rd_name d \<noteq> rd_name dev)
            (view (w_env w)))"
proof (cases "still_there m devices dev \<or> rd_status_name dev \<noteq> []")
  case True
  then show ?thesis by (auto simp: delete_step_def ret_def)
next
  case False
  from assms(2) removes obtain e' where d: "ra_delete api (rd_name dev) (w_env w) = (Inr (), e')" by blast
  with False deleted [OF d] assms(1) show ?thesis
    by (simp add: delete_step_def attempt_def external_def bindM_def ret_def)
qed

lemma delete_loop_live:
  assumes "dm_raw m = api" and "named raws" and "set raws \<subseteq> set (view (w_env w))" and "named (view (w_env w))"
  shows "\<exists>w'. for_each (delete_step m devices) raws None w = (Ok None, w')
    \<and> set (view (w_env w')) = {d \<in> set (view (w_env w)).
        \<not> (\<exists>dev \<in> set raws. \<not> still_there m devices dev \<and> rd_status_name dev = [] \<and> rd_name d = rd_name dev)}"
  using assms(2-4)
proof (induction raws arbitrary: w)
  case Nil
  then show ?case by (simp add: ret_def)
next
  case (Cons dev raws)
  from Cons.prems(2) delete_step_live [OF assms(1), of dev w devices] obtain w1
    where c: "delete_step m devices dev None w = (Ok None, w1)"
      and v1: "mset (view (w_env w1)) = mset (filter (\<lambda>d. still_there m devices dev \<or> rd_status_name dev \<noteq> [] \<or> rd_name d \<noteq> rd_name dev)
            (view (w_env w)))" by auto
  have "named (view (w_env w1))" unfolding named_mset [OF v1] using Cons.prems(3)
    by (auto simp: named_def distinct_map_filter)
  moreover have "named raws" and "set raws \<subseteq> set (view (w_env w1))"
    using Cons.prems(1,2) mset_eq_setD [OF v1] by (auto simp: named_def image_iff)
  ultimately obtain w2 where f: "for_each (delete_step m devices) raws None w1 = (Ok None, w2)"
    and v2: "set (view (w_env w2)) = {d \<in> set (view (w_env w1)).
        \<not> (\<exists>dev \<in> set raws. \<not> still_there m devices dev \<and> rd_status_name dev = [] \<and> rd_name d = rd_name dev)}"
    using Cons.IH [of w1] by blast
  have "for_each (delete_step m devices) (dev # raws) None w = (Ok None, w2)" using c f by (simp add: bindM_def)
  with v2 mset_eq_setD [OF v1] show ?case by (intro exI [of _ w2]) auto
qed

text \<open>The objects after a pass.\<close>

lemma report_mirrors:
  assumes "dm_raw m = api" and "named (view (w_env w))"
    and "distinct (map (\<lambda>i. rd_name (convertDiskToRawDevice (dm_hash m) (dm_node_name m) i)) devices)"
  shows "\<exists>w'. createOrUpdateRawDevice m devices w = (Ok (), w') \<and> set (view (w_env w')) =
      (\<lambda>i. reported (view (w_env w)) (convertDiskToRawDevice (dm_hash m) (dm_node_name m) i)) ` set devices
      \<union> {d \<in> set (view (w_env w)). \<not> still_there m devices d \<and> \<not> (on_node (dm_node_name m) d \<and> rd_status_name d = [])}"
proof -
  let ?conv = "convertDiskToRawDevice (dm_hash m) (dm_node_name m)"
  have st: "still_there m devices d \<longleftrightarrow> rd_name d \<in> (\<lambda>i. rd_name (?conv i)) ` set devices" for d
    by (auto simp: still_there_def convertDiskToRawDevice_def Let_def)
  have free: "rd_status_name (?conv i) = []" for i by (simp add: convertDiskToRawDevice_def Let_def)
  from report_loop [OF assms(2,3) free] obtain w1 where
    f: "for_each (\<lambda>i _. bindM (attempt (CreateOrUpdateRawDevice api (?conv i))) (\<lambda>_. ret ())) devices () w = (Ok (), w1)"
    and n1: "named (view (w_env w1))"
    and v1: "set (view (w_env w1)) = (\<lambda>i. reported (view (w_env w)) (?conv i)) ` set devices
        \<union> {d \<in> set (view (w_env w)). \<not> still_there m devices d}" unfolding st by blast
  let ?raws = "filter (on_node (dm_node_name m)) (view (w_env w1))"
  from lists [of "w_env w1"] list_shows have "list_node_devices api (dm_node_name m) w1 = (Ok ?raws, w1)"
    by (auto simp: list_node_devices_def list_all_devices_def external_def bindM_def ret_def)
  moreover have "named ?raws" using n1 by (auto simp: named_def distinct_map_filter)
  then obtain w2 where d: "for_each (delete_step m devices) ?raws None w1 = (Ok None, w2)"
    and v2: "set (view (w_env w2)) = {d \<in> set (view (w_env w1)).
        \<not> (\<exists>dev \<in> set ?raws. \<not> still_there m devices dev \<and> rd_status_name dev = [] \<and> rd_name d = rd_name dev)}"
    using delete_loop_live [OF assms(1), of ?raws w1 devices] n1 by auto
  ultimately have "createOrUpdateRawDevice m devices w = (Ok (), w2)"
    using f assms(1) by (simp add: createOrUpdateRawDevice_def checkRawDeviceDeleted_def bindM_def ret_def)
  moreover have "set (view (w_env w2)) = {d \<in> set (view (w_env w1)).
      still_there m devices d \<or> \<not> (on_node (dm_node_name m) d \<and> rd_status_name d = [])}"
    unfolding v2 using named_same [OF n1] by auto
  moreover have "still_there m devices (reported ds (?conv i))" if "i \<in> set devices" for ds i
    using that by (auto simp: st)
  ultimately show ?thesis unfolding v1 by (intro exI [of _ w2]) auto
qed

text \<open>A free device of a node that is large enough can be claimed, wherever it came from.\<close>

lemma claim_on_node:
  assumes "x \<in> set (view (w_env w))" and "on_node node x" and "fits gb x" and "0 < sint gb"
  shows "\<exists>v w'. createVolume api node gb name w = (Ok v, w')"
proof -
  let ?raws = "filter (on_node node) (view (w_env w))"
  from lists [of "w_env w"] list_shows have l: "list_node_devices api node w = (Ok ?raws, w)"
    by (auto simp: list_node_devices_def list_all_devices_def external_def bindM_def ret_def)
  from assms match_device_spec [OF assms(4), of ?raws] obtain i
    where i: "fst (match_device gb 0 ?raws (None, 0)) = Some i" "i < length ?raws"
    by (cases "fst (match_device gb 0 ?raws (None, 0))") auto
  from nth_mem [OF i(2)] have "?raws ! i \<in> set (view (w_env w))" by auto
  with claims [of "(?raws ! i)\<lparr>rd_status_name := rd_name (?raws ! i)\<rparr>" "w_env w"] obtain e' where
    "ra_update_status api ((?raws ! i)\<lparr>rd_status_name := rd_name (?raws ! i)\<rparr>) (w_env w) = (Inr (), e')" by auto
  with l i show ?thesis
    by (simp add: createVolume_def update_status_def external_def bindM_def ret_def Let_def)
qed

end

interpretation mem: live_store mem_api "\<lambda>ds. ds"
  by unfold_locales (auto simp: mem_api_def ex_find split: option.splits dest: find_absent [THEN iffD1])

end
