(* ===== verification/System.thy ===== *)
theory System
  imports Mirror CmStore
begin

text \<open>
  The parts that share the store of \<open>RawDevice\<close> objects, together: the discovery agents of all nodes
  (\<open>pkg/operator/discover\<close>) and the controller service of the CSI driver (\<open>driver/raw_device\<close>).  Their
  calls interleave in any order; one call of a service or one turn of an agent is one step.  The
  commands an agent runs and the config maps it writes live in the same environment, but are not part
  of the store.
\<close>

section \<open>An agent whose commands leave the store alone\<close>

locale quiet_os = env_relation R for R :: "'e \<Rightarrow> 'e \<Rightarrow> bool" +
  fixes os :: "'e os"
  assumes quiet: "os cmd args e = (r, e') \<Longrightarrow> R e e'"
begin

lemma command:
  "moves R (ExecuteCommand os cmd args)" "moves R (ExecuteCommandWithOutput os cmd args)"
  by (rule moves_command, erule quiet)+

lemma moves_output:
  "moves R m \<Longrightarrow> moves R (output_or_fail m)" "moves R m \<Longrightarrow> moves R (output_or_msg msg m)"
  unfolding output_or_fail_def output_or_msg_def by (intro intros; assumption)+

lemma moves_queries:
  "moves R (ListDevices os)" "moves R (GetDevicePropertiesFromPath os d)" "moves R (GetUdevInfo os d)"
  "moves R (GetDiskUUID os env d)" "moves R (ListDevicesChild os d)"
  unfolding ListDevices_def GetDevicePropertiesFromPath_def GetUdevInfo_def GetDiskUUID_def ListDevicesChild_def
  by (intro intros moves_output command)+

lemma moves_discover: "moves R (DiscoverDevices os env b)"
  unfolding DiscoverDevices_def discover_step_def populateDeviceInfo_def GetDeviceProperties_def
    populateDeviceUdevInfo_def children_of_def
  by (intro intros moves_queries)

lemma moves_all_devices: "moves R (GetAllDevices os env)"
  unfolding GetAllDevices_def all_devices_step_def children_of_def by (intro intros moves_discover moves_queries)

lemma moves_physical_volumes: "moves R (GetPhysicalVolume os vg)"
  unfolding GetPhysicalVolume_def parseOutput_def wrapExecCommandWithOutput_def by (intro intros moves_output command)

lemma moves_resetup: "moves R (ReSetupLoop os env f l)"
  unfolding ReSetupLoop_def wrapExecCommand_def by (intro intros moves_discover command)

end

text \<open>An agent whose commands, config maps and reports keep \<open>R\<close>: whatever it does keeps \<open>R\<close>.\<close>

locale quiet_agent = quiet_os R "dm_os m" for R :: "'e \<Rightarrow> 'e \<Rightarrow> bool" and m :: "'e manager" +
  assumes cm_created: "ca_create (dm_cm m) cm e = (rc, e') \<Longrightarrow> R e e'"
    and cm_patched: "ca_patch (dm_cm m) ns old new e = (rc, e') \<Longrightarrow> R e e'"
    and reports: "moves R (createOrUpdateRawDevice m devices)"
begin

lemma moves_cm: "moves R (publish_devices m str)" "moves R (PatchConfigMap (dm_cm m) ns old new)"
proof -
  have patch: "moves R (PatchConfigMap (dm_cm m) ns old new)" for ns old new
    unfolding PatchConfigMap_def by (rule moves_external) (rule cm_patched)
  have create: "moves R (create_cm (dm_cm m) cm)" for cm
    unfolding create_cm_def by (rule moves_external) (rule cm_created)
  show "moves R (publish_devices m str)"
    unfolding publish_devices_def get_cm_def by (intro intros patch create)
  show "moves R (PatchConfigMap (dm_cm m) ns old new)" by (rule patch)
qed

lemma moves_update: "moves R (updateDeviceCM m)"
  unfolding updateDeviceCM_def by (intro intros moves_all_devices reports moves_cm)

lemma moves_class: "moves R (checkDeviceClass m)"
  unfolding checkDeviceClass_def class_step_def get_cm_def Let_def
  by (intro intros moves_cm moves_physical_volumes)

lemma moves_loop: "moves R (Discover.checkLoopDevice m)"
  unfolding Discover.checkLoopDevice_def resetup_step_def get_cm_def by (intro intros moves_resetup)

lemma moves_agent: "moves R (Run_turn m i)" "moves R (Run_start m)" "moves R (retryLoopDevice n m)"
proof -
  show "moves R (Run_turn m i)"
    unfolding Run_turn_def by (cases i; simp only: manager_input.case; intro intros moves_update moves_class)
  show "moves R (Run_start m)"
    unfolding Run_start_def by (intro intros moves_update moves_loop)
  show "moves R (retryLoopDevice n m)"
    by (induction n) (simp_all only: retryLoopDevice.simps, intro intros, intro intros moves_loop)
qed

end

text \<open>The agents of a store: their client is the store's, and nothing else they do touches it.\<close>

definition agent_of :: "'e raw_api \<Rightarrow> ('e \<Rightarrow> raw_device list) \<Rightarrow> 'e manager \<Rightarrow> bool" where
  "agent_of api view m = (dm_raw m = api \<and> (\<forall>s. dm_hash m s \<noteq> [])
     \<and> (\<forall>cmd args e. view (snd (dm_os m cmd args e)) = view e)
     \<and> (\<forall>cm e. view (snd (ca_create (dm_cm m) cm e)) = view e)
     \<and> (\<forall>ns old new e. view (snd (ca_patch (dm_cm m) ns old new e)) = view e))"

lemma agent_of_frames:
  assumes "agent_of api view m"
  shows "dm_os m cmd args e = (r, e') \<Longrightarrow> view e' = view e"
    and "ca_create (dm_cm m) cm e = (rc, e') \<Longrightarrow> view e' = view e"
    and "ca_patch (dm_cm m) ns old new e = (rc, e') \<Longrightarrow> view e' = view e"
  using assms unfolding agent_of_def by (metis snd_conv)+

lemma agent_quiet:
  assumes "agent_of api view m" and "env_relation R" and "\<And>e e'. view e' = view e \<Longrightarrow> R e e'"
    and "\<And>devices. moves R (createOrUpdateRawDevice m devices)"
  shows "quiet_agent R m"
proof -
  note frames = agent_of_frames [OF assms(1)]
  show ?thesis
    by (intro quiet_agent.intro quiet_os.intro quiet_os_axioms.intro quiet_agent_axioms.intro assms(2,4))
      (rule assms(3), erule frames)+
qed

context raw_writes
begin

lemma agent_same:
  assumes "agent_of api view m"
  shows "quiet_agent (\<lambda>a b. same_volumes (view a) (view b)) m"
  by (rule agent_quiet [OF assms volumes.env_relation_axioms]) (use assms in \<open>auto simp: agent_of_def intro: report_same\<close>)

lemma turn_same:
  assumes "agent_of api view m"
  shows "moves (\<lambda>a b. same_volumes (view a) (view b)) (Run_turn m i)"
    and "moves (\<lambda>a b. same_volumes (view a) (view b)) (Run_start m)"
    and "moves (\<lambda>a b. same_volumes (view a) (view b)) (retryLoopDevice n m)"
  by (rule quiet_agent.moves_agent [OF agent_same [OF assms]])+

end

section \<open>Steps of the system\<close>

text \<open>\<open>may_delete\<close> says for which volume ids a deletion may be asked.\<close>

inductive system_step ::
  "'e raw_api \<Rightarrow> 'e manager set \<Rightarrow> (string \<Rightarrow> bool) \<Rightarrow> 'e world \<Rightarrow> 'e world \<Rightarrow> bool" for api agents may_delete where
  create: "CreateVolume api req w = (r, w') \<Longrightarrow> system_step api agents may_delete w w'"
| delete: "may_delete v \<Longrightarrow> DeleteVolume api v w = (r, w') \<Longrightarrow> system_step api agents may_delete w w'"
| validate: "ValidateVolumeCapabilities api v caps w = (r, w') \<Longrightarrow> system_step api agents may_delete w w'"
| capacity: "GetCapacity api topo w = (r, w') \<Longrightarrow> system_step api agents may_delete w w'"
| begins: "m \<in> agents \<Longrightarrow> Run_start m w = (r, w') \<Longrightarrow> system_step api agents may_delete w w'"
| retry: "m \<in> agents \<Longrightarrow> retryLoopDevice n m w = (r, w') \<Longrightarrow> system_step api agents may_delete w w'"
| turn: "m \<in> agents \<Longrightarrow> Run_turn m i w = (r, w') \<Longrightarrow> system_step api agents may_delete w w'"

inductive system_steps ::
  "'e raw_api \<Rightarrow> 'e manager set \<Rightarrow> (string \<Rightarrow> bool) \<Rightarrow> 'e world \<Rightarrow> 'e world \<Rightarrow> bool" for api agents may_delete where
  refl: "system_steps api agents may_delete w w"
| step: "system_steps api agents may_delete w w' \<Longrightarrow> system_step api agents may_delete w' w'' \<Longrightarrow>
    system_steps api agents may_delete w w''"

context raw_writes
begin

lemma create_keeps_held:
  assumes "CreateVolume api req w = (r, w')" and "volumes_ok (view (w_env w))"
  shows "held_ids (view (w_env w)) \<subseteq> held_ids (view (w_env w'))"
proof -
  from CreateVolume_view [OF assms(1)] show ?thesis
  proof
    assume "\<exists>resp gb d. r = Ok resp \<and> convertRequestCapacity (cv_required_bytes req) (cv_limit_bytes req) = Inr gb
       \<and> cr_capacity_bytes resp = from_gb gb \<and> cr_volume_id resp = rd_name d
       \<and> took_device view w w' (cr_node resp) gb d"
    with held_ids_take [OF assms(2)] show ?thesis by (auto simp: took_device_def)
  qed auto
qed

lemma delete_keeps_other:
  assumes "DeleteVolume api u w = (r, w')" and "volumes_ok (view (w_env w))" and "u \<noteq> v"
  shows "v \<in> held_ids (view (w_env w)) \<Longrightarrow> v \<in> held_ids (view (w_env w'))"
proof -
  assume v: "v \<in> held_ids (view (w_env w))"
  from DeleteVolume_view [OF assms(1)] show ?thesis
  proof
    assume "\<exists>d. u \<noteq> [] \<and> r = Ok () \<and> last_match u (view (w_env w)) None = Some d
       \<and> w_trace w' = w_trace w @ [RawUpdateStatus (d\<lparr>rd_status_name := []\<rparr>)]
       \<and> view (w_env w') = set_status (d\<lparr>rd_status_name := []\<rparr>) (view (w_env w))"
    then obtain d where u: "u \<noteq> []" and m: "last_match u (view (w_env w)) None = Some d"
      and e: "view (w_env w') = set_status (d\<lparr>rd_status_name := []\<rparr>) (view (w_env w))" by blast
    from last_match_Some [OF m] u have d: "d \<in> set (view (w_env w))" "rd_status_name d = u" by auto
    with held_own [OF assms(2) d(1)] u have "rd_name d = u" by simp
    with held_ids_release [OF assms(2) d(1)] e v assms(3) show ?thesis by auto
  qed (use v in auto)
qed

text \<open>One step: the store stays consistent, the pool makes a step of its own, and an id leaves it only by a deletion.\<close>

lemma system_step_ok:
  assumes "\<forall>m \<in> agents. agent_of api view m" and "system_step api agents P w w'" and ok: "volumes_ok (view (w_env w))"
  shows "volumes_ok (view (w_env w')) \<and> pool_step (held_ids (view (w_env w))) (held_ids (view (w_env w')))
    \<and> (\<forall>v \<in> held_ids (view (w_env w)). \<not> P v \<longrightarrow> v \<in> held_ids (view (w_env w')))"
  using assms(2)
proof (cases rule: system_step.cases)
  case (create req r)
  with step_refines [OF csi_step.create [OF create] ok] create_keeps_held [OF create ok] show ?thesis by auto
next
  case (delete v r)
  from delete_keeps_other [OF delete(2) ok] delete(1) have
    "\<forall>u \<in> held_ids (view (w_env w)). \<not> P u \<longrightarrow> u \<in> held_ids (view (w_env w'))" by metis
  with step_refines [OF csi_step.delete [OF delete(2)] ok] show ?thesis by blast
next
  case (validate v caps r)
  with Validate_view [OF validate] ok show ?thesis by (simp add: pool_step.stay)
next
  case (capacity topo r)
  with GetCapacity_view [OF capacity] ok show ?thesis by (simp add: pool_step.stay)
next
  case (begins m r)
  with assms(1) moves_at [OF turn_same(2) begins(2)] ok show ?thesis by (auto simp: same_volumes_def intro: pool_step.stay)
next
  case (retry m n r)
  with assms(1) moves_at [OF turn_same(3) retry(2)] ok show ?thesis by (auto simp: same_volumes_def intro: pool_step.stay)
next
  case (turn m i r)
  with assms(1) moves_at [OF turn_same(1) turn(2)] ok show ?thesis by (auto simp: same_volumes_def intro: pool_step.stay)
qed

lemma system_steps_ok:
  assumes "system_steps api agents P w w'" and "\<forall>m \<in> agents. agent_of api view m" and "volumes_ok (view (w_env w))"
  shows "volumes_ok (view (w_env w')) \<and> (\<forall>v \<in> held_ids (view (w_env w)). \<not> P v \<longrightarrow> v \<in> held_ids (view (w_env w')))"
  using assms
proof (induction rule: system_steps.induct)
  case (step w w' w'')
  then have "volumes_ok (view (w_env w'))" by simp
  from system_step_ok [OF step.prems(1) step.hyps(2) this] step show ?case by auto
qed simp

end

end
