(* ===== verification/Stale.thy ===== *)
theory Stale
  imports System
begin

text \<open>
  The store of \<open>RawDevice\<close> objects as the processes really see it: the lists of the CSI controller and of
  the agents come from the cache of an informer (\<open>generated/nativestore/rawdevice/listers\<close>), which may lag behind
  the API server.  What protects a volume then is the server: an update of an object that is no longer the
  cached one is refused, because its resource version changed.  A deletion carries no such condition.
\<close>

section \<open>What a call does, whatever its client\<close>

lemma createVolume_run:
  assumes "createVolume api node gb name w = (r, w1)" and "0 < sint gb"
  shows "(\<exists>ds d x. ra_list api (w_env w) = Inr ds \<and> d \<in> set ds \<and> on_node node d \<and> fits gb d
       \<and> ra_update_status api (d\<lparr>rd_status_name := rd_name d\<rparr>) (w_env w) = (x, w_env w1)
       \<and> r = (case x of Inl err \<Rightarrow> Fail err | Inr _ \<Rightarrow> Ok (rd_name d)))
    \<or> (\<exists>err. r = Fail err \<and> w_env w1 = w_env w)"
proof (cases "ra_list api (w_env w)")
  case (Inl err)
  with assms(1) show ?thesis
    by (auto simp: createVolume_def list_node_devices_def list_all_devices_def external_def bindM_def)
next
  case (Inr all)
  let ?ds = "filter (on_node node) all"
  have list: "list_node_devices api node w = (Ok ?ds, w)"
    using Inr by (simp add: list_node_devices_def list_all_devices_def external_def bindM_def ret_def)
  show ?thesis
  proof (cases "fst (match_device gb 0 ?ds (None, 0))")
    case None
    with assms(1) list show ?thesis by (auto simp: createVolume_def bindM_eqs failM_def)
  next
    case (Some i)
    with match_device_spec [OF assms(2), of ?ds] have i: "i < length ?ds" and d: "fits gb (?ds ! i)" by simp_all
    from nth_mem [OF i] have mem: "?ds ! i \<in> set all" "on_node node (?ds ! i)" unfolding set_filter by auto
    obtain x e where "ra_update_status api ((?ds ! i)\<lparr>rd_status_name := rd_name (?ds ! i)\<rparr>) (w_env w) = (x, e)" by fastforce
    moreover from this assms(1) list Some have "w_env w1 = e"
      "r = (case x of Inl err \<Rightarrow> Fail err | Inr _ \<Rightarrow> Ok (rd_name (?ds ! i)))"
      by (auto simp: createVolume_def bindM_def Let_def update_status_def external_def ret_def split: sum.splits)
    ultimately show ?thesis using Inr d mem by blast
  qed
qed

lemma deleteVolume_run:
  assumes "deleteVolume api v w = (r, w1)"
  shows "(\<exists>ds d x. ra_list api (w_env w) = Inr ds \<and> d \<in> set ds \<and> rd_status_name d = v
       \<and> ra_update_status api (d\<lparr>rd_status_name := []\<rparr>) (w_env w) = (x, w_env w1)
       \<and> r = (case x of Inl err \<Rightarrow> Fail err | Inr _ \<Rightarrow> Ok ()))
    \<or> (\<exists>err. r = Fail err \<and> w_env w1 = w_env w)"
proof (cases "ra_list api (w_env w)")
  case (Inl err)
  with assms show ?thesis by (auto simp: deleteVolume_def list_all_devices_def external_def bindM_def)
next
  case (Inr ds)
  then have list: "list_all_devices api w = (Ok ds, w)" by (simp add: list_all_devices_def external_def)
  show ?thesis
  proof (cases "last_match v ds None")
    case None
    with assms list show ?thesis by (auto simp: deleteVolume_def bindM_eqs failM_def)
  next
    case (Some d)
    obtain x e where "ra_update_status api (d\<lparr>rd_status_name := []\<rparr>) (w_env w) = (x, e)" by fastforce
    moreover from this assms list Some have "w_env w1 = e" "r = (case x of Inl err \<Rightarrow> Fail err | Inr _ \<Rightarrow> Ok ())"
      by (auto simp: deleteVolume_def bindM_eqs update_status_def external_def split: sum.splits)
    ultimately show ?thesis using Inr last_match_Some [OF Some] by blast
  qed
qed

text \<open>What only reads may be taken over from the store with up-to-date lists, with the writes cut off.\<close>

definition reader :: "'e raw_api \<Rightarrow> 'e raw_api" where
  "reader api = api\<lparr>ra_update_status := \<lambda>d e. (Inl (Msg []), e)\<rparr>"

lemma reader_store: "raw_store (reader api) (\<lambda>e. case ra_list api e of Inr ds \<Rightarrow> ds | Inl _ \<Rightarrow> [])"
  by unfold_locales (auto simp: reader_def)

lemma reader_lists:
  "list_all_devices (reader api) = list_all_devices api" "list_node_devices (reader api) n = list_node_devices api n"
  by (simp_all add: list_node_devices_def list_all_devices_def reader_def)

lemma reads_parts:
  "getMaxCapacity (reader api) = getMaxCapacity api" "getVolume (reader api) v = getVolume api v"
  "getCapacityByTopologyLabel (reader api) n = getCapacityByTopologyLabel api n"
  by (simp_all only: getMaxCapacity_def getVolume_def getCapacityByTopologyLabel_def reader_lists)

lemma reads_only:
  "choose_node (reader api) rq gb = choose_node api rq gb"
  "ValidateVolumeCapabilities (reader api) v caps = ValidateVolumeCapabilities api v caps"
  "GetCapacity (reader api) topo = GetCapacity api topo"
  by (simp_all only: choose_node_def ValidateVolumeCapabilities_def GetCapacity_def reads_parts)

lemma queries_keep_world:
  "choose_node api rq gb w = (r, w1) \<Longrightarrow> w1 = w \<and> (\<forall>p. r \<noteq> Panic p)"
  "ValidateVolumeCapabilities api v caps w = (r', w1) \<Longrightarrow> w1 = w"
  "GetCapacity api topo w = (r'', w1) \<Longrightarrow> w1 = w"
proof -
  assume "choose_node api rq gb w = (r, w1)"
  then have "choose_node (reader api) rq gb w = (r, w1)" by (simp only: reads_only)
  then show "w1 = w \<and> (\<forall>p. r \<noteq> Panic p)"
    using raw_store.choose_node_view(1,2) [OF reader_store] by metis
next
  assume "ValidateVolumeCapabilities api v caps w = (r', w1)"
  then have "ValidateVolumeCapabilities (reader api) v caps w = (r', w1)" by (simp only: reads_only)
  then show "w1 = w" by (rule raw_store.Validate_view [OF reader_store])
next
  assume "GetCapacity api topo w = (r'', w1)"
  then have "GetCapacity (reader api) topo w = (r'', w1)" by (simp only: reads_only)
  then show "w1 = w" by (rule raw_store.GetCapacity_view [OF reader_store])
qed

text \<open>A call that fails changed nothing, or its one update was refused.\<close>

definition undone :: "'e raw_api \<Rightarrow> 'e world \<Rightarrow> 'e world \<Rightarrow> bool" where
  "undone api w w1 = (w_env w1 = w_env w \<or> (\<exists>d err. ra_update_status api d (w_env w) = (Inl err, w_env w1)))"

lemma CreateVolume_run:
  assumes "CreateVolume api req w = (r, w1)"
  shows "(\<exists>resp gb ds d. r = Ok resp \<and> convertRequestCapacity (cv_required_bytes req) (cv_limit_bytes req) = Inr gb
       \<and> cr_capacity_bytes resp = from_gb gb \<and> cr_volume_id resp = rd_name d \<and> ra_list api (w_env w) = Inr ds \<and> d \<in> set ds
       \<and> on_node (cr_node resp) d \<and> fits gb d
       \<and> ra_update_status api (d\<lparr>rd_status_name := rd_name d\<rparr>) (w_env w) = (Inr (), w_env w1))
    \<or> (\<exists>err. r = Fail err \<and> undone api w w1)"
proof (cases "cv_has_content_source req \<or> cv_capabilities req = None
    \<or> (\<exists>e. check_capabilities (the (cv_capabilities req)) = Some e)
    \<or> (\<exists>e. convertRequestCapacity (cv_required_bytes req) (cv_limit_bytes req) = Inl e)")
  case True
  with assms show ?thesis
    by (auto simp: CreateVolume_def failM_def undone_def split: option.splits sum.splits if_splits)
next
  case False
  then obtain caps gb where g: "cv_has_content_source req = False" "cv_capabilities req = Some caps"
    "check_capabilities caps = None"
    "convertRequestCapacity (cv_required_bytes req) (cv_limit_bytes req) = Inr gb"
    by (cases "convertRequestCapacity (cv_required_bytes req) (cv_limit_bytes req)") auto
  from convertRequestCapacity_Inr(3) [OF g(4)] have pos: "0 < sint gb" by simp
  obtain n wn where n: "choose_node api (cv_requirements req) gb w = (n, wn)" by fastforce
  note n' = queries_keep_world(1) [OF n]
  show ?thesis
  proof (cases "\<exists>node. n = Ok node \<and> cv_name req \<noteq> []")
    case False
    with assms g n n' show ?thesis by (cases n) (auto simp: CreateVolume_def bindM_eqs failM_def undone_def)
  next
    case True
    then obtain node where node: "n = Ok node" "cv_name req \<noteq> []" by blast
    obtain v wv where v: "createVolume api node gb (to_lower (cv_name req)) w = (v, wv)" by fastforce
    from createVolume_run [OF v pos] show ?thesis
    proof (elim disjE exE conjE)
      fix ds d x assume c: "ra_list api (w_env w) = Inr ds" "d \<in> set ds" "on_node node d" "fits gb d"
        "ra_update_status api (d\<lparr>rd_status_name := rd_name d\<rparr>) (w_env w) = (x, w_env wv)"
        "v = (case x of Inl err \<Rightarrow> Fail err | Inr _ \<Rightarrow> Ok (rd_name d))"
      with assms g n n' node v show ?thesis
        by (cases x) (auto simp: CreateVolume_def status_of_def attempt_eqs bindM_eqs ret_def failM_def undone_def)
    next
      fix err assume "v = Fail err" "w_env wv = w_env w"
      with assms g n n' node v show ?thesis
        by (auto simp: CreateVolume_def status_of_def attempt_eqs bindM_eqs ret_def failM_def undone_def)
    qed
  qed
qed

lemma DeleteVolume_run:
  assumes "DeleteVolume api v w = (r, w1)"
  shows "(\<exists>ds d. r = Ok () \<and> v \<noteq> [] \<and> ra_list api (w_env w) = Inr ds \<and> d \<in> set ds \<and> rd_status_name d = v
       \<and> ra_update_status api (d\<lparr>rd_status_name := []\<rparr>) (w_env w) = (Inr (), w_env w1))
    \<or> (\<exists>err. r = Fail err \<and> undone api w w1)"
proof (cases "v = []")
  case True
  with assms show ?thesis by (auto simp: DeleteVolume_def failM_def undone_def)
next
  case False
  obtain x wx where x: "deleteVolume api v w = (x, wx)" by fastforce
  from deleteVolume_run [OF x] show ?thesis
  proof (elim disjE exE conjE)
    fix ds d y assume "ra_list api (w_env w) = Inr ds" "d \<in> set ds" "rd_status_name d = v"
      "ra_update_status api (d\<lparr>rd_status_name := []\<rparr>) (w_env w) = (y, w_env wx)"
      "x = (case y of Inl err \<Rightarrow> Fail err | Inr _ \<Rightarrow> Ok ())"
    with assms x False show ?thesis
      by (cases y) (auto simp: DeleteVolume_def status_of_def attempt_eqs bindM_eqs ret_def failM_def undone_def)
  next
    fix err assume "x = Fail err" "w_env wx = w_env w"
    with assms x False show ?thesis
      by (auto simp: DeleteVolume_def status_of_def attempt_eqs bindM_eqs failM_def undone_def)
  qed
qed

section \<open>A cache and its server\<close>

text \<open>
  \<open>now\<close> is what the server holds and \<open>cached\<close> what the client's lists show.  An update of the status of a
  cached object is accepted only while the server still holds that very object; \<open>raw_server\<close> has the laws
  of the other writes.
\<close>

locale stale_store = raw_server api now for api :: "'e raw_api" and now :: "'e \<Rightarrow> raw_device list" +
  fixes cached :: "'e \<Rightarrow> raw_device list"
  assumes lists_cache: "ra_list api e = Inr ds \<Longrightarrow> ds = cached e"
    and status_checked: "c \<in> set (cached e) \<Longrightarrow> ra_update_status api (c\<lparr>rd_status_name := s\<rparr>) e = (Inr u, e') \<Longrightarrow>
      c \<in> set (now e) \<and> now e' = set_status (c\<lparr>rd_status_name := s\<rparr>) (now e)"
    and status_kept: "ra_update_status api d e = (Inl err, e') \<Longrightarrow> now e' = now e"
begin

lemma undone_kept: "undone api w w1 \<Longrightarrow> now (w_env w1) = now (w_env w)"
  by (auto simp: undone_def dest: status_kept)

text \<open>A creation that succeeds took a device that was free at the server, one that fails took none.\<close>

definition claimed :: "'e world \<Rightarrow> 'e world \<Rightarrow> string \<Rightarrow> int64 \<Rightarrow> raw_device \<Rightarrow> bool" where
  "claimed w w1 node gb d = (d \<in> set (cached (w_env w)) \<and> d \<in> set (now (w_env w)) \<and> on_node node d \<and> fits gb d
     \<and> now (w_env w1) = set_status (d\<lparr>rd_status_name := rd_name d\<rparr>) (now (w_env w)))"

lemma CreateVolume_stale:
  assumes "CreateVolume api req w = (r, w1)"
  obtains (ok) resp gb d where "r = Ok resp" "convertRequestCapacity (cv_required_bytes req) (cv_limit_bytes req) = Inr gb"
      "cr_volume_id resp = rd_name d" "claimed w w1 (cr_node resp) gb d"
    | (fail) err where "r = Fail err" "now (w_env w1) = now (w_env w)"
  using CreateVolume_run [OF assms]
proof (elim disjE exE conjE)
  fix resp gb ds d
  assume "r = Ok resp" "convertRequestCapacity (cv_required_bytes req) (cv_limit_bytes req) = Inr gb"
    "cr_volume_id resp = rd_name d" "ra_list api (w_env w) = Inr ds" "d \<in> set ds" "on_node (cr_node resp) d" "fits gb d"
    "ra_update_status api (d\<lparr>rd_status_name := rd_name d\<rparr>) (w_env w) = (Inr (), w_env w1)"
  with ok lists_cache [of "w_env w" ds] status_checked [of d "w_env w"] show thesis by (auto simp: claimed_def)
qed (use fail undone_kept in blast)

lemma DeleteVolume_stale:
  assumes "DeleteVolume api v w = (r, w1)"
  obtains (ok) d where "r = Ok ()" "v \<noteq> []" "d \<in> set (now (w_env w))" "rd_status_name d = v"
      "now (w_env w1) = set_status (d\<lparr>rd_status_name := []\<rparr>) (now (w_env w))"
    | (fail) err where "r = Fail err" "now (w_env w1) = now (w_env w)"
  using DeleteVolume_run [OF assms]
proof (elim disjE exE conjE)
  fix ds d
  assume "r = Ok ()" "v \<noteq> []" "ra_list api (w_env w) = Inr ds" "d \<in> set ds" "rd_status_name d = v"
    "ra_update_status api (d\<lparr>rd_status_name := []\<rparr>) (w_env w) = (Inr (), w_env w1)"
  with ok lists_cache [of "w_env w" ds] status_checked [of d "w_env w"] show thesis by auto
qed (use fail undone_kept in blast)

lemma call_refines_pool:
  assumes "csi_step api w w'" and ok: "volumes_ok (now (w_env w))"
  shows "volumes_ok (now (w_env w')) \<and> pool_step (held_ids (now (w_env w))) (held_ids (now (w_env w')))"
  using assms(1)
proof (cases rule: csi_step.cases)
  case (create req r)
  from create show ?thesis
  proof (cases rule: CreateVolume_stale)
    case (ok resp gb d)
    then have d: "d \<in> set (now (w_env w))" "is_free d" by (simp_all add: claimed_def fits_def)
    then have "rd_name d \<notin> held_ids (now (w_env w))" by (intro free_not_held assms(2)) (simp_all add: is_free_def)
    moreover have "rd_name d \<noteq> []" using assms(2) d(1) by (simp add: volumes_ok_def)
    ultimately show ?thesis using ok d(1) assms(2)
      by (simp add: claimed_def held_ids_take volumes_ok_set_status pool_step.take_id)
  qed (simp add: ok pool_step.stay)
next
  case (delete v r)
  from delete show ?thesis
  proof (cases rule: DeleteVolume_stale)
    case (ok d)
    with held_own [OF assms(2)] have "rd_name d \<in> held_ids (now (w_env w))" by (force simp: held_ids_def)
    with ok assms(2) show ?thesis
      by (simp add: held_ids_release volumes_ok_set_status pool_step.release_id)
  qed (simp add: ok pool_step.stay)
next
  case (validate v caps r)
  with queries_keep_world(2) ok show ?thesis by (metis pool_step.stay)
next
  case (capacity topo r)
  with queries_keep_world(3) ok show ?thesis by (metis pool_step.stay)
qed

end

section \<open>The agents of a lagging cache\<close>

text \<open>An agent never takes an id; a deletion on the evidence of an old list may lose some.\<close>

definition loses :: "raw_device list \<Rightarrow> raw_device list \<Rightarrow> bool" where
  "loses ds ds' = (volumes_ok ds \<longrightarrow> volumes_ok ds' \<and> held_ids ds' \<subseteq> held_ids ds)"

interpretation losing: env_relation "\<lambda>a b. loses (now a) (now b)" for now :: "'e \<Rightarrow> raw_device list"
  by unfold_locales (auto simp: loses_def)

lemma loses_same: "same_volumes ds ds' \<Longrightarrow> loses ds ds'"
  by (simp add: same_volumes_def loses_def)

context raw_server
begin

lemma delete_loses: "ra_delete api n e = (r, e') \<Longrightarrow> loses (view e) (view e')"
proof (cases r)
  case (Inr u)
  assume "ra_delete api n e = (r, e')"
  with deleted Inr have m: "mset (view e') = mset (filter (\<lambda>x. rd_name x \<noteq> n) (view e))" by auto
  have "held_ids (filter (\<lambda>x. rd_name x \<noteq> n) (view e)) \<subseteq> held_ids (view e)" by (auto simp: held_ids_def)
  then show ?thesis by (simp add: loses_def volumes_ok_mset [OF m] held_ids_mset [OF m] volumes_ok_filter)
qed (simp add: delete_refused loses_def)

lemma report_loses:
  assumes "dm_raw m = api" and "\<And>s. dm_hash m s \<noteq> []"
  shows "moves (\<lambda>a b. loses (view a) (view b)) (createOrUpdateRawDevice m devices)"
proof -
  have put: "moves (\<lambda>a b. loses (view a) (view b)) (CreateOrUpdateRawDevice api d)" if "rd_name d \<noteq> []" for d
    using create_or_update_same [OF that] by (rule moves_mono) (rule loses_same)
  show ?thesis
    unfolding createOrUpdateRawDevice_def checkRawDeviceDeleted_def delete_step_def list_node_devices_def
      list_all_devices_def assms(1)
    by (intro losing.intros put moves_external) (auto simp: convertDiskToRawDevice_def Let_def assms(2) dest: delete_loses)
qed

lemma agent_loses:
  assumes "agent_of api view m"
  shows "quiet_agent (\<lambda>a b. loses (view a) (view b)) m"
proof (rule agent_quiet [OF assms losing.env_relation_axioms])
  show "moves (\<lambda>a b. loses (view a) (view b)) (createOrUpdateRawDevice m devices)" for devices
    using assms by (intro report_loses) (simp_all add: agent_of_def)
qed (simp add: loses_def)

end

section \<open>Steps of the lagging system\<close>

text \<open>
  Calls of any replica of the service, whatever the agents do, and any change that leaves the server's objects
  alone: caches that catch up, or fall behind.
\<close>

inductive lagging_step :: "'e raw_api set \<Rightarrow> 'e manager set \<Rightarrow> ('e \<Rightarrow> raw_device list) \<Rightarrow> 'e world \<Rightarrow> 'e world \<Rightarrow> bool"
  for clients agents now where
  call: "api \<in> clients \<Longrightarrow> csi_step api w w' \<Longrightarrow> lagging_step clients agents now w w'"
| begins: "m \<in> agents \<Longrightarrow> Run_start m w = (r, w') \<Longrightarrow> lagging_step clients agents now w w'"
| retry: "m \<in> agents \<Longrightarrow> retryLoopDevice n m w = (r, w') \<Longrightarrow> lagging_step clients agents now w w'"
| turn: "m \<in> agents \<Longrightarrow> Run_turn m i w = (r, w') \<Longrightarrow> lagging_step clients agents now w w'"
| sync: "now (w_env w') = now (w_env w) \<Longrightarrow> lagging_step clients agents now w w'"

inductive lagging_steps :: "'e raw_api set \<Rightarrow> 'e manager set \<Rightarrow> ('e \<Rightarrow> raw_device list) \<Rightarrow> 'e world \<Rightarrow> 'e world \<Rightarrow> bool"
  for clients agents now where
  refl: "lagging_steps clients agents now w w"
| step: "lagging_steps clients agents now w w' \<Longrightarrow> lagging_step clients agents now w' w'' \<Longrightarrow>
    lagging_steps clients agents now w w''"

definition lagging_agent :: "('e \<Rightarrow> raw_device list) \<Rightarrow> 'e manager \<Rightarrow> bool" where
  "lagging_agent now m = (raw_server (dm_raw m) now \<and> agent_of (dm_raw m) now m)"

lemma lagging_agent_loses: "lagging_agent now m \<Longrightarrow> quiet_agent (\<lambda>a b. loses (now a) (now b)) m"
  unfolding lagging_agent_def by (blast intro: raw_server.agent_loses)

lemma lagging_step_ok:
  assumes "\<forall>api \<in> clients. stale_store api now (cache api)" and "\<forall>m \<in> agents. lagging_agent now m"
    and "lagging_step clients agents now w w'" and "volumes_ok (now (w_env w))"
  shows "volumes_ok (now (w_env w'))"
  using assms(3)
proof (cases rule: lagging_step.cases)
  case (call api)
  with assms(1) stale_store.call_refines_pool [where now = now, OF _ call(2) assms(4)] show ?thesis by blast
next
  case (begins m r)
  with quiet_agent.moves_agent(2) [OF lagging_agent_loses] assms(2,4) show ?thesis by (auto simp: loses_def dest!: moves_at)
next
  case (retry m n r)
  with quiet_agent.moves_agent(3) [OF lagging_agent_loses] assms(2,4) show ?thesis by (auto simp: loses_def dest!: moves_at)
next
  case (turn m i r)
  with quiet_agent.moves_agent(1) [OF lagging_agent_loses] assms(2,4) show ?thesis by (auto simp: loses_def dest!: moves_at)
qed (simp add: assms(4))

lemma lagging_steps_ok:
  assumes "lagging_steps clients agents now w w'" and "\<forall>api \<in> clients. stale_store api now (cache api)"
    and "\<forall>m \<in> agents. lagging_agent now m" and "volumes_ok (now (w_env w))"
  shows "volumes_ok (now (w_env w'))"
  using assms(1,4) by (induction rule: lagging_steps.induct) (blast intro: lagging_step_ok [OF assms(2,3)])+

section \<open>What a deletion pass removes\<close>

context stale_store
begin

lemma delete_pass:
  assumes "dm_raw m = api" and "\<And>n e. n \<in> rd_name ` set (now e) \<Longrightarrow> \<exists>e'. ra_delete api n e = (Inr (), e')"
  shows "\<exists>acc' w'. for_each (delete_step m devices) ds acc w = (Ok acc', w') \<and> set (now (w_env w')) =
    {d \<in> set (now (w_env w)). \<not> (\<exists>c \<in> set ds. rd_name c = rd_name d \<and> rd_status_name c = [] \<and> \<not> still_there m devices c)}"
proof (induction ds arbitrary: acc w)
  case Nil
  then show ?case by (simp add: ret_def)
next
  case (Cons c cs)
  obtain acc1 w1 where s: "delete_step m devices c acc w = (Ok acc1, w1)" and v: "set (now (w_env w1)) =
      {d \<in> set (now (w_env w)). \<not> (rd_name c = rd_name d \<and> rd_status_name c = [] \<and> \<not> still_there m devices c)}"
  proof (cases "\<not> still_there m devices c \<and> rd_status_name c = []")
    case False
    then have "delete_step m devices c acc w = (Ok acc, w)" by (auto simp: delete_step_def ret_def)
    with that [of acc w] False show thesis by auto
  next
    case True
    obtain x e where d: "ra_delete api (rd_name c) (w_env w) = (x, e)" by fastforce
    have gone: "set (now e) = {d \<in> set (now (w_env w)). rd_name d \<noteq> rd_name c}"
    proof (cases x)
      case (Inl err)
      with assms(2) [of "rd_name c" "w_env w"] d have "rd_name c \<notin> rd_name ` set (now (w_env w))" by force
      with delete_refused [of "rd_name c" "w_env w" err e] d Inl show ?thesis by (auto simp: image_iff)
    next
      case (Inr u)
      with deleted [of "rd_name c" "w_env w" u e] d
      have "mset (now e) = mset (filter (\<lambda>x. rd_name x \<noteq> rd_name c) (now (w_env w)))" by simp
      then show ?thesis by (metis mset_eq_setD set_filter)
    qed
    have run: "delete_step m devices c acc w = (Ok (case x of Inl e \<Rightarrow> Some e | Inr _ \<Rightarrow> None),
        w\<lparr>w_env := e, w_trace := w_trace w @ [RawDelete (rd_name c)]\<rparr>)"
      using True assms(1) d by (simp add: delete_step_def bindM_eqs(1) [OF attempt_external] ret_def)
    show thesis
    proof (rule that [OF run])
      show "set (now (w_env (w\<lparr>w_env := e, w_trace := w_trace w @ [RawDelete (rd_name c)]\<rparr>))) =
          {d \<in> set (now (w_env w)). \<not> (rd_name c = rd_name d \<and> rd_status_name c = [] \<and> \<not> still_there m devices c)}"
        using True by (simp add: gone) metis
    qed
  qed
  obtain acc2 w2 where f: "for_each (delete_step m devices) cs acc1 w1 = (Ok acc2, w2)"
    "set (now (w_env w2)) = {d \<in> set (now (w_env w1)).
       \<not> (\<exists>c \<in> set cs. rd_name c = rd_name d \<and> rd_status_name c = [] \<and> \<not> still_there m devices c)}"
    using Cons.IH [of acc1 w1] by (elim exE conjE)
  have "for_each (delete_step m devices) (c # cs) acc w = (Ok acc2, w2)" using s f(1) by (simp add: bindM_eqs)
  moreover have "set (now (w_env w2)) = {d \<in> set (now (w_env w)). \<not> (\<exists>x \<in> set (c # cs).
      rd_name x = rd_name d \<and> rd_status_name x = [] \<and> \<not> still_there m devices x)}" unfolding f(2) v by auto
  ultimately show ?case by blast
qed

end

end
