(* ===== verification/Stale_Props.thy ===== *)
theory Stale_Props
  imports Stale System_Props
begin

text \<open>
  What is proved of the CSI controller and the agents when their lists lag behind the API server: creations
  and deletions of volumes still implement the pool of ids exactly, because the server refuses an update of
  an object that has changed since; a deletion by an agent has no such guard and may take a volume's device.
\<close>

section \<open>A server with resource versions and a cache\<close>

record lagging =
  lg_objects :: "(nat \<times> raw_device) list"
  lg_version :: nat
  lg_cache :: "(nat \<times> raw_device) list"
  lg_cms :: cm_table

definition lag_now :: "lagging \<Rightarrow> raw_device list" where "lag_now e = map snd (lg_objects e)"
definition lag_cached :: "lagging \<Rightarrow> raw_device list" where "lag_cached e = map snd (lg_cache e)"

definition is_held :: "string \<Rightarrow> lagging \<Rightarrow> bool" where
  "is_held n e = (n \<in> set (map rd_name (lag_now e)))"

text \<open>Every write gives the object the next version.\<close>

definition rewrite :: "string \<Rightarrow> (raw_device \<Rightarrow> raw_device) \<Rightarrow> lagging \<Rightarrow> lagging" where
  "rewrite n f e = e\<lparr>lg_objects := map (\<lambda>(v, x). if rd_name x = n then (lg_version e, f x) else (v, x)) (lg_objects e),
     lg_version := Suc (lg_version e)\<rparr>"

definition unchanged_since :: "string \<Rightarrow> lagging \<Rightarrow> bool" where
  "unchanged_since n e = list_all (\<lambda>(v, c). rd_name c = n \<longrightarrow> (v, c) \<in> set (lg_objects e)) (lg_cache e)"

definition lag_api :: "lagging raw_api" where
  "lag_api =
     \<lparr>ra_list = (\<lambda>e. Inr (lag_cached e)),
      ra_get = (\<lambda>n e. (case find (\<lambda>d. rd_name d = n) (lag_now e) of None \<Rightarrow> Inl (ApiNotFound n) | Some d \<Rightarrow> Inr d, e)),
      ra_create = (\<lambda>d e. if is_held (rd_name d) e then (Inl (ApiAlreadyExists (rd_name d)), e)
        else (Inr (), e\<lparr>lg_objects := lg_objects e @ [(lg_version e, d\<lparr>rd_status_name := []\<rparr>)], lg_version := Suc (lg_version e)\<rparr>)),
      ra_update = (\<lambda>d e. if is_held (rd_name d) e
        then (Inr (), rewrite (rd_name d) (\<lambda>x. d\<lparr>rd_status_name := rd_status_name x\<rparr>) e) else (Inl (ApiNotFound (rd_name d)), e)),
      ra_update_status = (\<lambda>d e. if \<not> is_held (rd_name d) e then (Inl (ApiNotFound (rd_name d)), e)
        else if unchanged_since (rd_name d) e then (Inr (), rewrite (rd_name d) (\<lambda>x. x\<lparr>rd_status_name := rd_status_name d\<rparr>) e)
        else (Inl (Msg ''the object has been modified''), e)),
      ra_delete = (\<lambda>n e. if is_held n e then (Inr (), e\<lparr>lg_objects := filter (\<lambda>(v, x). rd_name x \<noteq> n) (lg_objects e)\<rparr>)
        else (Inl (ApiNotFound n), e))\<rparr>"

lemma lag_rewrite: "lag_now (rewrite n f e) = map (\<lambda>x. if rd_name x = n then f x else x) (lag_now e)"
  by (simp add: lag_now_def rewrite_def case_prod_unfold)

lemma lag_delete: "map snd (filter (\<lambda>(v, x). rd_name x \<noteq> n) xs) = filter (\<lambda>x. rd_name x \<noteq> n) (map snd xs)"
  by (induction xs) auto

lemma lag_unchanged:
  assumes "c \<in> set (lag_cached e)" and "unchanged_since (rd_name c) e"
  shows "c \<in> set (lag_now e)"
  using assms by (force simp: lag_cached_def lag_now_def unchanged_since_def list_all_iff)

interpretation lag: stale_store lag_api lag_now lag_cached
proof
  show "\<And>c e s u e'. c \<in> set (lag_cached e) \<Longrightarrow> ra_update_status lag_api (c\<lparr>rd_status_name := s\<rparr>) e = (Inr u, e')
      \<Longrightarrow> c \<in> set (lag_now e) \<and> lag_now e' = set_status (c\<lparr>rd_status_name := s\<rparr>) (lag_now e)"
    by (auto simp: lag_api_def lag_rewrite set_status_def intro: lag_unchanged split: if_splits)
next
  show "\<And>d e u e'. ra_update lag_api d e = (Inr u, e') \<Longrightarrow> mset (lag_now e') = mset (map (put_spec d) (lag_now e))"
    by (auto simp: lag_api_def lag_rewrite put_spec_def cong: map_cong split: if_splits)
next
  show "\<And>n e u e'. ra_delete lag_api n e = (Inr u, e') \<Longrightarrow>
      mset (lag_now e') = mset (filter (\<lambda>x. rd_name x \<noteq> n) (lag_now e))"
    by (auto simp: lag_api_def lag_now_def lag_delete mset_map [symmetric] split: if_splits simp del: mset_map mset_filter)
qed (auto simp: lag_api_def is_held_def lag_now_def find_Some_iff split: if_splits option.splits)

text \<open>A node's agent and a claim, made and released over one old list.\<close>

definition lag_start :: "lagging world" where
  "lag_start =
     \<lparr>w_env = \<lparr>lg_objects = [(1, sample_device ''n1-sdb'' ''n1'' 8589934592 [])], lg_version = 2,
        lg_cache = [(1, sample_device ''n1-sdb'' ''n1'' 8589934592 [])], lg_cms = []\<rparr>, w_trace = []\<rparr>"

definition lag_claimed :: "lagging world" where
  "lag_claimed = snd (CreateVolume lag_api node_request lag_start)"

definition lag_agent :: "lagging manager" where
  "lag_agent =
     \<lparr>dm_os = (\<lambda>cmd args e. (fst (node_os cmd args ()), e)), dm_device_env = no_sgdisk, dm_raw = lag_api,
      dm_cm = \<lparr>ca_get = (\<lambda>ns n e. ca_get mem_cms ns n (lg_cms e)), ca_list = (\<lambda>ns e. ca_list mem_cms ns (lg_cms e)),
        ca_create = (\<lambda>cm e. case ca_create mem_cms cm (lg_cms e) of (r, t) \<Rightarrow> (r, e\<lparr>lg_cms := t\<rparr>)),
        ca_update = (\<lambda>cm e. case ca_update mem_cms cm (lg_cms e) of (r, t) \<Rightarrow> (r, e\<lparr>lg_cms := t\<rparr>)),
        ca_patch = (\<lambda>ns old new e. case ca_patch mem_cms ns old new (lg_cms e) of (r, t) \<Rightarrow> (r, e\<lparr>lg_cms := t\<rparr>)),
        ca_delete = (\<lambda>ns n e. case ca_delete mem_cms ns n (lg_cms e) of (r, t) \<Rightarrow> (r, e\<lparr>lg_cms := t\<rparr>))\<rparr>,
      dm_codec = ref_codec, dm_hash = (\<lambda>s. CHR ''h'' # s), dm_node_name = ''n1'', dm_namespace = ''ns'', dm_use_loop = False\<rparr>"

lemma lag_agent_lagging: "lagging_agent lag_now lag_agent"
  using lag.raw_server_axioms
  by (simp add: lagging_agent_def agent_of_def lag_agent_def lag_now_def split: prod.splits)

lemma lag_start_ok: "volumes_ok (lag_now (w_env lag_start))"
  by (simp add: volumes_ok_def lag_start_def lag_now_def sample_device_def)

lemma lag_claim_run:
  "CreateVolume lag_api node_request lag_start =
     (Ok \<lparr>cr_capacity_bytes = 3221225472, cr_volume_id = ''n1-sdb'', cr_node = ''n1''\<rparr>, lag_claimed)"
proof -
  have "fst (CreateVolume lag_api node_request lag_start) =
      Ok \<lparr>cr_capacity_bytes = 3221225472, cr_volume_id = ''n1-sdb'', cr_node = ''n1''\<rparr>" by code_simp
  then show ?thesis unfolding lag_claimed_def by (metis prod.collapse)
qed

section \<open>Calls of the service\<close>

text \<open>
  C3: No volume is shared, whatever the caches show.  After any interleaving of calls of any replicas of the
  service, of all nodes' agents, and of caches catching up or not, a creation that succeeds returns the
  id of a device that at the server was free at that moment, of the node it names and large enough; the id was
  in nobody's use.
\<close>

theorem no_volume_shared:
  assumes "\<forall>api \<in> clients. stale_store api now (cache api)" and "\<forall>m \<in> agents. lagging_agent now m"
    and "volumes_ok (now (w_env w))" and "lagging_steps clients agents now w w1"
    and "api \<in> clients" and "CreateVolume api req w1 = (Ok resp, w2)"
    and "convertRequestCapacity (cv_required_bytes req) (cv_limit_bytes req) = Inr gb"
  shows "cr_volume_id resp \<notin> held_ids (now (w_env w1))
    \<and> held_ids (now (w_env w2)) = insert (cr_volume_id resp) (held_ids (now (w_env w1)))
    \<and> (\<exists>d \<in> set (now (w_env w1)). rd_name d = cr_volume_id resp \<and> is_free d \<and> on_node (cr_node resp) d
         \<and> sint gb * 2 ^ 30 \<le> sint (rd_size d))"
proof -
  have ok: "volumes_ok (now (w_env w1))" by (rule lagging_steps_ok [OF assms(4,1,2,3)])
  from assms(1,5) have store: "stale_store api now (cache api)" by blast
  from assms(6) show ?thesis
  proof (cases rule: stale_store.CreateVolume_stale [OF store, consumes 1, case_names ok fail])
    case (ok resp' gb' d)
    then have d: "resp' = resp" "gb' = gb" "d \<in> set (now (w_env w1))" "fits gb d" "on_node (cr_node resp) d"
      "rd_name d = cr_volume_id resp" "now (w_env w2) = set_status (d\<lparr>rd_status_name := rd_name d\<rparr>) (now (w_env w1))"
      using assms(7) by (simp_all add: stale_store.claimed_def [OF store])
    then have "is_free d" by (simp add: fits_def)
    moreover from this have "rd_name d \<notin> held_ids (now (w_env w1))"
      by (intro free_not_held \<open>volumes_ok (now (w_env w1))\<close> d(3)) (simp add: is_free_def)
    moreover have "held_ids (now (w_env w2)) = insert (rd_name d) (held_ids (now (w_env w1)))"
      unfolding d(7) by (rule held_ids_take [OF \<open>volumes_ok (now (w_env w1))\<close> d(3)])
    ultimately show ?thesis using d fits_size [OF d(4)] by auto
  qed simp
qed

theorem no_volume_shared_witness:
  "''n1-sdb'' \<notin> held_ids (lag_now (w_env lag_start)) \<and> ''n1-sdb'' \<in> held_ids (lag_now (w_env lag_claimed))"
proof -
  have "convertRequestCapacity (cv_required_bytes node_request) (cv_limit_bytes node_request) = Inr 3" by code_simp
  from no_volume_shared [where clients = "{lag_api}" and agents = "{lag_agent}" and now = lag_now and cache = "\<lambda>_. lag_cached"
      and w = lag_start,
      OF _ _ lag_start_ok lagging_steps.refl _ lag_claim_run this]
  show ?thesis by (simp add: lag.stale_store_axioms lag_agent_lagging)
qed

section \<open>Deletions of the agents\<close>

text \<open>
  C5: What an agent's deletion pass removes is decided by its list, not by the server.  When deletions are accepted,
  the pass removes exactly the objects whose name has a cached object of this node that is not in the report and
  not allocated there: a device that was claimed after the list was taken is deleted with its volume.
\<close>

theorem stale_pass_deletes_by_list:
  assumes "stale_store (dm_raw m) now cached" and "ra_list (dm_raw m) (w_env w) = Inr ds"
    and "\<And>n e. n \<in> rd_name ` set (now e) \<Longrightarrow> \<exists>e'. ra_delete (dm_raw m) n e = (Inr (), e')"
  shows "set (now (w_env (snd (checkRawDeviceDeleted m devices w)))) =
    {d \<in> set (now (w_env w)). \<not> (\<exists>c \<in> set (cached (w_env w)). on_node (dm_node_name m) c \<and> rd_name c = rd_name d
        \<and> rd_status_name c = [] \<and> \<not> still_there m devices c)}"
proof -
  have ds: "ds = cached (w_env w)" by (rule stale_store.lists_cache [OF assms(1,2)])
  let ?raws = "filter (on_node (dm_node_name m)) ds"
  from stale_store.delete_pass [OF assms(1) HOL.refl assms(3), of devices ?raws None w] obtain acc w1
    where f: "for_each (delete_step m devices) ?raws None w = (Ok acc, w1)"
    and v: "set (now (w_env w1)) = {d \<in> set (now (w_env w)). \<not> (\<exists>c \<in> set ?raws.
       rd_name c = rd_name d \<and> rd_status_name c = [] \<and> \<not> still_there m devices c)}" by blast
  have "list_node_devices (dm_raw m) (dm_node_name m) w = (Ok ?raws, w)"
    using assms(2) by (simp add: list_node_devices_def list_all_devices_def external_def bindM_def ret_def)
  with f have "snd (checkRawDeviceDeleted m devices w) = w1"
    by (cases acc) (simp_all add: checkRawDeviceDeleted_def bindM_eqs ret_def failM_def)
  with v have "set (now (w_env (snd (checkRawDeviceDeleted m devices w)))) = {d \<in> set (now (w_env w)).
      \<not> (\<exists>c \<in> set ?raws. rd_name c = rd_name d \<and> rd_status_name c = [] \<and> \<not> still_there m devices c)}" by simp
  then show ?thesis unfolding ds set_filter by blast
qed

theorem stale_pass_deletes_by_list_witness:
  "''n1-sdb'' \<in> held_ids (lag_now (w_env lag_claimed))
   \<and> lag_now (w_env (snd (checkRawDeviceDeleted lag_agent [] lag_claimed))) = []"
proof -
  have raw: "dm_raw lag_agent = lag_api" by (simp add: lag_agent_def)
  have "\<exists>e'. ra_delete lag_api n e = (Inr (), e')" if "n \<in> rd_name ` set (lag_now e)" for n e
    using that by (simp add: lag_api_def is_held_def)
  from stale_pass_deletes_by_list [of lag_agent lag_now lag_cached lag_claimed _ "[]", unfolded raw,
      OF lag.stale_store_axioms _ this]
  have "set (lag_now (w_env (snd (checkRawDeviceDeleted lag_agent [] lag_claimed)))) =
    {d \<in> set (lag_now (w_env lag_claimed)). \<not> (\<exists>c \<in> set (lag_cached (w_env lag_claimed)).
       on_node ''n1'' c \<and> rd_name c = rd_name d \<and> rd_status_name c = [] \<and> \<not> still_there lag_agent [] c)}"
    by (simp add: lag_api_def lag_agent_def)
  moreover have all: "list_all (\<lambda>d. rd_name d = ''n1-sdb'' \<and> rd_status_name d = ''n1-sdb'') (lag_now (w_env lag_claimed))"
    and some: "lag_now (w_env lag_claimed) \<noteq> []" by code_simp+
  moreover have "list_ex (\<lambda>c. on_node ''n1'' c \<and> rd_name c = ''n1-sdb'' \<and> rd_status_name c = []) (lag_cached (w_env lag_claimed))"
    by code_simp
  ultimately have "set (lag_now (w_env (snd (checkRawDeviceDeleted lag_agent [] lag_claimed)))) = {}"
    by (auto simp: still_there_def list_all_iff list_ex_iff)
  moreover have "''n1-sdb'' \<in> held_ids (lag_now (w_env lag_claimed))"
    using all some by (cases "lag_now (w_env lag_claimed)") (force simp: held_ids_def)+
  ultimately show ?thesis by simp
qed

end
