(* ===== verification/Rest.thy ===== *)
theory Rest
  imports World
begin

text \<open>
  The generated clients (\<open>generated/nativestore/*/clientset\<close>): what each method asks of the REST client, and how
  the clients are put together from a configuration.  A request is kept as the calls that build it, in
  their order; the REST client that sends it and reads the answer, and the discovery client, are arguments.
\<close>

section \<open>Requests\<close>

text \<open>\<open>metav1.ListOptions\<close>: the two fields the code touches, and the others as they are.\<close>

record list_options =
  lo_timeout_seconds :: "64 word option"
  lo_watch :: bool
  lo_others :: "string gomap"

text \<open>\<open>'x\<close> is the options of a call (\<open>GetOptions\<close>, \<open>CreateOptions\<close> and their kin), which are only passed on.\<close>

datatype 'x params = CallOptions 'x | ListOptions list_options

datatype ('o, 'x) rest_body = ObjectBody 'o | OptionsBody 'x | BytesBody string

datatype verb = VGet | VPost | VPut | VDelete | VPatch string

datatype ('o, 'x) build =
    Namespace string
  | Resource string
  | Name string
  | SubResource "string list"
  | VersionedParams "'x params"
  | Timeout "64 word"
  | Body "('o, 'x) rest_body"

record ('o, 'x) rest_request =
  rq_verb :: verb
  rq_calls :: "('o, 'x) build list"

text \<open>
  \<open>rest.Interface\<close>: \<open>Do(ctx).Into(result)\<close> for an object and for a list, \<open>Do(ctx).Error()\<close>, \<open>Watch(ctx)\<close>.  \<open>Into\<close>
  fills \<open>result\<close> and returns an error beside it.
\<close>

record ('e, 'o, 'l, 'w, 'x) rest_client =
  rc_into :: "('o, 'x) rest_request \<Rightarrow> 'o \<Rightarrow> 'e \<Rightarrow> ('o \<times> go_error option) \<times> 'e"
  rc_into_list :: "('o, 'x) rest_request \<Rightarrow> 'l \<Rightarrow> 'e \<Rightarrow> ('l \<times> go_error option) \<times> 'e"
  rc_error :: "('o, 'x) rest_request \<Rightarrow> 'e \<Rightarrow> go_error option \<times> 'e"
  rc_watch :: "('o, 'x) rest_request \<Rightarrow> 'e \<Rightarrow> (go_error + 'w) \<times> 'e"

section \<open>Typed clients\<close>

text \<open>
  The struct behind a typed client, with what the generator wrote out for its type: the resource, the zero
  values and the name of an object.  Both generated clients have the same methods; only the clusters'
  begin with \<open>Namespace(c.ns)\<close>.
\<close>

record ('e, 'o, 'l, 'w, 'x) typed_client =
  ty_rest :: "('e, 'o, 'l, 'w, 'x) rest_client"
  ty_scope :: "('o, 'x) build list"
  ty_resource :: string
  ty_name :: "'o \<Rightarrow> string"
  ty_zero :: 'o
  ty_zero_list :: 'l

definition ask :: "('e, 'o, 'l, 'w, 'x) typed_client \<Rightarrow> verb \<Rightarrow> ('o, 'x) build list \<Rightarrow> ('o, 'x) rest_request" where
  "ask c v calls = \<lparr>rq_verb = v, rq_calls = ty_scope c @ Resource (ty_resource c) # calls\<rparr>"

text \<open>\<open>time.Duration(*opts.TimeoutSeconds) * time.Second\<close> on \<open>int64\<close>.\<close>

definition list_timeout :: "list_options \<Rightarrow> 64 word" where
  "list_timeout opts = (case lo_timeout_seconds opts of None \<Rightarrow> 0 | Some s \<Rightarrow> s * 1000000000)"

definition typed_Get where
  "typed_Get c name options =
     rc_into (ty_rest c) (ask c VGet [Name name, VersionedParams (CallOptions options)]) (ty_zero c)"

definition typed_List where
  "typed_List c opts =
     rc_into_list (ty_rest c) (ask c VGet [VersionedParams (ListOptions opts), Timeout (list_timeout opts)]) (ty_zero_list c)"

definition typed_Watch where
  "typed_Watch c opts =
     rc_watch (ty_rest c)
       (ask c VGet [VersionedParams (ListOptions (opts\<lparr>lo_watch := True\<rparr>)), Timeout (list_timeout opts)])"

definition typed_Create where
  "typed_Create c obj opts =
     rc_into (ty_rest c) (ask c VPost [VersionedParams (CallOptions opts), Body (ObjectBody obj)]) (ty_zero c)"

definition typed_Update where
  "typed_Update c obj opts =
     rc_into (ty_rest c)
       (ask c VPut [Name (ty_name c obj), VersionedParams (CallOptions opts), Body (ObjectBody obj)]) (ty_zero c)"

definition typed_UpdateStatus where
  "typed_UpdateStatus c obj opts =
     rc_into (ty_rest c)
       (ask c VPut [Name (ty_name c obj), SubResource [''status''], VersionedParams (CallOptions opts), Body (ObjectBody obj)])
       (ty_zero c)"

definition typed_Delete where
  "typed_Delete c name opts = rc_error (ty_rest c) (ask c VDelete [Name name, Body (OptionsBody opts)])"

definition typed_DeleteCollection where
  "typed_DeleteCollection c opts listOpts =
     rc_error (ty_rest c)
       (ask c VDelete [VersionedParams (ListOptions listOpts), Timeout (list_timeout listOpts), Body (OptionsBody opts)])"

definition typed_Patch where
  "typed_Patch c name pt data opts subresources =
     rc_into (ty_rest c)
       (ask c (VPatch pt) [Name name, SubResource subresources, VersionedParams (CallOptions opts), Body (BytesBody data)])
       (ty_zero c)"

lemmas typed_defs = ask_def typed_Get_def typed_List_def typed_Watch_def typed_Create_def typed_Update_def
  typed_UpdateStatus_def typed_Delete_def typed_DeleteCollection_def typed_Patch_def

text \<open>Deleting one object and deleting all of them differ by the name only.\<close>

lemma delete_names_object: "Name n \<in> set (rq_calls (ask c VDelete [Name n, Body b]))"
  by (simp add: ask_def)

section \<open>RawDevice and TopolvmCluster\<close>

definition zero_raw_device :: raw_device where
  "zero_raw_device =
     \<lparr>rd_name = [], rd_labels = [], rd_node_name = [], rd_size = 0, rd_type = [], rd_real_path = [], rd_major = 0,
      rd_minor = 0, rd_uuid = [], rd_available = False, rd_status_name = []\<rparr>"

definition zero_cluster :: topolvm_cluster where
  "zero_cluster =
     \<lparr>tc_name = [], tc_namespace = [], tc_finalizers = [], tc_deleted = False, tc_created = 0,
      tc_spec = \<lparr>sp_topolvm_version = [], sp_certs_secret = [],
        sp_storage = \<lparr>st_device_classes = None, st_use_all_nodes = False, st_use_all_devices = False, st_devices = None,
          st_volume_group_name = [], st_class_name = [], st_use_loop = False\<rparr>, sp_clean_up = False\<rparr>,
      tc_status = \<lparr>cst_phase = [], cst_node_storage = []\<rparr>\<rparr>"

definition newRawDevices ::
  "('e, raw_device, raw_device list, 'w, 'x) rest_client \<Rightarrow> ('e, raw_device, raw_device list, 'w, 'x) typed_client" where
  "newRawDevices client =
     \<lparr>ty_rest = client, ty_scope = [], ty_resource = ''rawdevices'', ty_name = rd_name, ty_zero = zero_raw_device,
      ty_zero_list = []\<rparr>"

definition newTopolvmClusters ::
  "('e, topolvm_cluster, topolvm_cluster list, 'w, 'x) rest_client \<Rightarrow> string \<Rightarrow>
   ('e, topolvm_cluster, topolvm_cluster list, 'w, 'x) typed_client" where
  "newTopolvmClusters client namespace =
     \<lparr>ty_rest = client, ty_scope = [Namespace namespace], ty_resource = ''topolvmclusters'', ty_name = tc_name,
      ty_zero = zero_cluster, ty_zero_list = []\<rparr>"

definition rawDevices_Get where "rawDevices_Get client = typed_Get (newRawDevices client)"
definition rawDevices_List where "rawDevices_List client = typed_List (newRawDevices client)"
definition rawDevices_Watch where "rawDevices_Watch client = typed_Watch (newRawDevices client)"
definition rawDevices_Create where "rawDevices_Create client = typed_Create (newRawDevices client)"
definition rawDevices_Update where "rawDevices_Update client = typed_Update (newRawDevices client)"
definition rawDevices_UpdateStatus where "rawDevices_UpdateStatus client = typed_UpdateStatus (newRawDevices client)"
definition rawDevices_Delete where "rawDevices_Delete client = typed_Delete (newRawDevices client)"
definition rawDevices_DeleteCollection where "rawDevices_DeleteCollection client = typed_DeleteCollection (newRawDevices client)"
definition rawDevices_Patch where "rawDevices_Patch client = typed_Patch (newRawDevices client)"

lemmas rawDevices_defs = newRawDevices_def rawDevices_Get_def rawDevices_List_def rawDevices_Watch_def rawDevices_Create_def
  rawDevices_Update_def rawDevices_UpdateStatus_def rawDevices_Delete_def rawDevices_DeleteCollection_def rawDevices_Patch_def

definition topolvmClusters_Get where "topolvmClusters_Get client ns = typed_Get (newTopolvmClusters client ns)"
definition topolvmClusters_List where "topolvmClusters_List client ns = typed_List (newTopolvmClusters client ns)"
definition topolvmClusters_Watch where "topolvmClusters_Watch client ns = typed_Watch (newTopolvmClusters client ns)"
definition topolvmClusters_Create where "topolvmClusters_Create client ns = typed_Create (newTopolvmClusters client ns)"
definition topolvmClusters_Update where "topolvmClusters_Update client ns = typed_Update (newTopolvmClusters client ns)"
definition topolvmClusters_UpdateStatus where
  "topolvmClusters_UpdateStatus client ns = typed_UpdateStatus (newTopolvmClusters client ns)"
definition topolvmClusters_Delete where "topolvmClusters_Delete client ns = typed_Delete (newTopolvmClusters client ns)"
definition topolvmClusters_DeleteCollection where
  "topolvmClusters_DeleteCollection client ns = typed_DeleteCollection (newTopolvmClusters client ns)"
definition topolvmClusters_Patch where "topolvmClusters_Patch client ns = typed_Patch (newTopolvmClusters client ns)"

section \<open>Configurations\<close>

text \<open>
  \<open>rest.Config\<close>; \<open>'lim\<close> is a rate limiter, \<open>'z\<close> a serializer, \<open>'k\<close> the rest (host, credentials).  \<open>QPS\<close> is only
  compared with 0 and passed on, so its type (\<open>float32\<close>) is a parameter.
\<close>

record ('q, 'lim, 'z, 'k) rest_config =
  cf_group_version :: "(string \<times> string) option"
  cf_api_path :: string
  cf_serializer :: "'z option"
  cf_user_agent :: string
  cf_qps :: 'q
  cf_burst :: int
  cf_rate_limiter :: "'lim option"
  cf_others :: 'k

definition RawDevice_GroupVersion :: "string \<times> string" where
  "RawDevice_GroupVersion = (''nativestor.alauda.io'', ''v1'')"

definition Topolvm_GroupVersion :: "string \<times> string" where
  "Topolvm_GroupVersion = (''topolvm.cybozu.com'', ''v2'')"

text \<open>\<open>agent\<close> stands for \<open>rest.DefaultKubernetesUserAgent()\<close>, \<open>codecs\<close> for \<open>scheme.Codecs.WithoutConversion()\<close>.\<close>

definition setConfigDefaults ::
  "string \<times> string \<Rightarrow> 'z \<Rightarrow> string \<Rightarrow> ('q, 'lim, 'z, 'k) rest_config \<Rightarrow> go_error + ('q, 'lim, 'z, 'k) rest_config" where
  "setConfigDefaults gv codecs agent config =
     (let config = config\<lparr>cf_group_version := Some gv, cf_api_path := ''/apis'', cf_serializer := Some codecs\<rparr>
      in Inr (if cf_user_agent config = [] then config\<lparr>cf_user_agent := agent\<rparr> else config))"

text \<open>\<open>client_for\<close> stands for \<open>rest.RESTClientFor\<close>.\<close>

definition typed_NewForConfig ::
  "(('q, 'lim, 'z, 'k) rest_config \<Rightarrow> go_error + 'c) \<Rightarrow> string \<times> string \<Rightarrow> 'z \<Rightarrow> string \<Rightarrow> ('q, 'lim, 'z, 'k) rest_config \<Rightarrow> go_error + 'c" where
  "typed_NewForConfig client_for gv codecs agent c =
     (case setConfigDefaults gv codecs agent c of Inl err \<Rightarrow> Inl err | Inr config \<Rightarrow> client_for config)"

definition typed_NewForConfigOrDie ::
  "(('q, 'lim, 'z, 'k) rest_config \<Rightarrow> go_error + 'c) \<Rightarrow> string \<times> string \<Rightarrow> 'z \<Rightarrow> string \<Rightarrow> ('q, 'lim, 'z, 'k) rest_config \<Rightarrow> 'c outcome" where
  "typed_NewForConfigOrDie client_for gv codecs agent c =
     (case typed_NewForConfig client_for gv codecs agent c of Inl err \<Rightarrow> Panic (err_text err) | Inr client \<Rightarrow> Ok client)"

text \<open>\<open>RESTClient\<close> of a nil client is nil.\<close>

definition RESTClient :: "'c option \<Rightarrow> 'c option" where
  "RESTClient c = (case c of None \<Rightarrow> None | Some client \<Rightarrow> Some client)"

text \<open>
  A clientset: the typed client and the discovery client.  \<open>typed\<close> and \<open>discovery\<close> make the two from a
  configuration, \<open>limiter\<close> is \<open>flowcontrol.NewTokenBucketRateLimiter\<close>.
\<close>

record ('c, 'd) clientset =
  cl_typed :: 'c
  cl_discovery :: 'd

definition with_limiter :: "('q :: {zero, ord} \<Rightarrow> int \<Rightarrow> 'lim) \<Rightarrow> ('q, 'lim, 'z, 'k) rest_config \<Rightarrow> go_error + ('q, 'lim, 'z, 'k) rest_config" where
  "with_limiter limiter c =
     (if cf_rate_limiter c = None \<and> cf_qps c > 0 then
        if cf_burst c \<le> 0 then
          Inl (Msg ''burst is required to be greater than 0 when RateLimiter is not set and QPS is set to greater than 0'')
        else Inr (c\<lparr>cf_rate_limiter := Some (limiter (cf_qps c) (cf_burst c))\<rparr>)
      else Inr c)"

definition clientset_NewForConfig where
  "clientset_NewForConfig limiter typed discovery c =
     (case with_limiter limiter c of
        Inl err \<Rightarrow> Inl err
      | Inr config \<Rightarrow>
          (case typed config of
             Inl err \<Rightarrow> Inl err
           | Inr t \<Rightarrow>
               (case discovery config of
                  Inl err \<Rightarrow> Inl err
                | Inr d \<Rightarrow> Inr \<lparr>cl_typed = t, cl_discovery = d\<rparr>)))"

text \<open>No limiter is made here: each of the two clients makes one of its own.\<close>

definition clientset_NewForConfigOrDie where
  "clientset_NewForConfigOrDie typed_or_die discovery_or_die c =
     (case typed_or_die c of
        Ok t \<Rightarrow> (case discovery_or_die c of Ok d \<Rightarrow> Ok \<lparr>cl_typed = t, cl_discovery = d\<rparr> | Fail e \<Rightarrow> Fail e | Panic p \<Rightarrow> Panic p)
      | Fail e \<Rightarrow> Fail e
      | Panic p \<Rightarrow> Panic p)"

definition clientset_New where
  "clientset_New new_typed new_discovery c = \<lparr>cl_typed = new_typed c, cl_discovery = new_discovery c\<rparr>"

definition clientset_Discovery :: "('c, 'd) clientset option \<Rightarrow> 'd option" where
  "clientset_Discovery c = (case c of None \<Rightarrow> None | Some cs \<Rightarrow> Some (cl_discovery cs))"

text \<open>The two clients of a clientset are made from one configuration, so they share its limiter.\<close>

lemma clientset_one_config:
  assumes "clientset_NewForConfig limiter typed discovery c = Inr cs"
  obtains config where "with_limiter limiter c = Inr config" and "typed config = Inr (cl_typed cs)"
    and "discovery config = Inr (cl_discovery cs)"
  using assms by (auto simp: clientset_NewForConfig_def split: sum.splits)

lemma with_limiter_limits:
  assumes "with_limiter limiter c = Inr config" and "0 < cf_qps c"
  shows "cf_rate_limiter config \<noteq> None"
  using assms by (auto simp: with_limiter_def split: if_splits)

lemma rawDevices_NewForConfig_asks:
  assumes "typed_NewForConfig client_for RawDevice_GroupVersion codecs agent c = Inr client"
  obtains config where "client_for config = Inr client" and "cf_group_version config = Some (''nativestor.alauda.io'', ''v1'')"
    and "cf_api_path config = ''/apis''" and "cf_rate_limiter config = cf_rate_limiter c"
    and "cf_user_agent config = (if cf_user_agent c = [] then agent else cf_user_agent c)"
proof -
  obtain config where config: "setConfigDefaults RawDevice_GroupVersion codecs agent c = Inr config"
    by (simp add: setConfigDefaults_def Let_def)
  with assms have "client_for config = Inr client" by (simp add: typed_NewForConfig_def)
  from that [OF this] show ?thesis
    using config by (auto simp: setConfigDefaults_def Let_def RawDevice_GroupVersion_def split: if_splits)
qed

section \<open>The clientsets of the two groups\<close>

definition topolvm_NewForConfig where
  "topolvm_NewForConfig client_for codecs agent c = typed_NewForConfig client_for Topolvm_GroupVersion codecs agent c"

definition topolvm_NewForConfigOrDie where
  "topolvm_NewForConfigOrDie client_for codecs agent c = typed_NewForConfigOrDie client_for Topolvm_GroupVersion codecs agent c"

definition topolvm_clientset where
  "topolvm_clientset limiter client_for codecs agent discovery c =
     clientset_NewForConfig limiter (topolvm_NewForConfig client_for codecs agent) discovery c"

definition topolvm_clientset_OrDie where
  "topolvm_clientset_OrDie client_for codecs agent discovery_or_die c =
     clientset_NewForConfigOrDie (topolvm_NewForConfigOrDie client_for codecs agent) discovery_or_die c"

definition rawdevice_clientset where
  "rawdevice_clientset limiter client_for codecs agent discovery c =
     clientset_NewForConfig limiter (typed_NewForConfig client_for RawDevice_GroupVersion codecs agent) discovery c"

text \<open>Each clientset talks to its own group, through a limiter whenever \<open>QPS\<close> is positive.\<close>

lemma clientset_asks:
  assumes "rawdevice_clientset limiter client_for codecs agent discovery c = Inr cs" and "0 < cf_qps c"
  obtains config where "client_for config = Inr (cl_typed cs)" and "cf_group_version config = Some (''nativestor.alauda.io'', ''v1'')"
    and "cf_rate_limiter config \<noteq> None"
proof -
  from assms(1) obtain config0 where l: "with_limiter limiter c = Inr config0"
    and t: "typed_NewForConfig client_for RawDevice_GroupVersion codecs agent config0 = Inr (cl_typed cs)"
    unfolding rawdevice_clientset_def by (rule clientset_one_config)
  from t obtain config where "client_for config = Inr (cl_typed cs)"
    "cf_group_version config = Some (''nativestor.alauda.io'', ''v1'')" "cf_rate_limiter config = cf_rate_limiter config0"
    by (rule rawDevices_NewForConfig_asks)
  with with_limiter_limits [OF l assms(2)] that [of config] show thesis by simp
qed

end
