(* ===== verification/Informers.thy ===== *)
theory Informers
  imports Rest
begin

text \<open>
  The generated listers and informers (\<open>generated/nativestore/*/listers\<close>, \<open>.../informers\<close>): how the lists of a cache are
  read, what a shared informer asks the server for, and the factory that hands out one informer for a type
  and runs it once.  The cache and the informers themselves are client-go's, hence arguments.
\<close>

section \<open>Listers\<close>

text \<open>
  \<open>cache.Indexer\<close>: \<open>ListAll\<close> and \<open>ListAllByNamespace\<close> call the function they are given for every object that
  matches, in the order of the list, and return an error beside it; \<open>'s\<close> is a selector.
\<close>

record ('e, 'o, 's) indexer =
  ix_list_all :: "'s \<Rightarrow> 'e \<Rightarrow> 'o list \<times> go_error option"
  ix_list_namespace :: "string \<Rightarrow> 's \<Rightarrow> 'e \<Rightarrow> 'o list \<times> go_error option"
  ix_get_by_key :: "string \<Rightarrow> 'e \<Rightarrow> 'o \<times> bool \<times> go_error option"

text \<open>\<open>func(m interface{}) { ret = append(ret, m) }\<close>, called for each object.\<close>

definition collect :: "'o list \<times> go_error option \<Rightarrow> 'o list \<times> go_error option" where
  "collect r = (foldl (\<lambda>ret m. ret @ [m]) [] (fst r), snd r)"

lemma collect_id [simp]: "collect r = r"
proof -
  have "foldl (\<lambda>ret m. ret @ [m]) acc xs = acc @ xs" for acc and xs :: "'a list" by (induction xs arbitrary: acc) auto
  then show ?thesis by (simp add: collect_def)
qed

definition get_from :: "'o \<times> bool \<times> go_error option \<Rightarrow> string \<Rightarrow> go_error + 'o" where
  "get_from r name =
     (case r of (obj, exists, err) \<Rightarrow>
        case err of
          Some e \<Rightarrow> Inl e
        | None \<Rightarrow> if \<not> exists then Inl (ApiNotFound name) else Inr obj)"

definition rawDeviceLister_List where
  "rawDeviceLister_List ix selector e = collect (ix_list_all ix selector e)"

definition rawDeviceLister_Get where
  "rawDeviceLister_Get ix name e = get_from (ix_get_by_key ix name e) name"

definition topolvmClusterLister_List where
  "topolvmClusterLister_List ix selector e = collect (ix_list_all ix selector e)"

definition topolvmClusterNamespaceLister_List where
  "topolvmClusterNamespaceLister_List ix namespace selector e = collect (ix_list_namespace ix namespace selector e)"

definition topolvmClusterNamespaceLister_Get where
  "topolvmClusterNamespaceLister_Get ix namespace name e = get_from (ix_get_by_key ix (namespace @ ''/'' @ name) e) name"

section \<open>Informers\<close>

text \<open>
  The arguments of \<open>cache.NewSharedIndexInformer\<close>.  A tweak of the list options that is nil is \<open>None\<close>.
\<close>

type_synonym tweak = "(list_options \<Rightarrow> list_options) option"

record ('e, 'l, 'w) shared_informer =
  si_list :: "list_options \<Rightarrow> 'e \<Rightarrow> ('l \<times> go_error option) \<times> 'e"
  si_watch :: "list_options \<Rightarrow> 'e \<Rightarrow> (go_error + 'w) \<times> 'e"
  si_type :: string
  si_resync :: "64 word"
  si_indexers :: "string list"

definition tweaked :: "tweak \<Rightarrow> list_options \<Rightarrow> list_options" where
  "tweaked tweakListOptions options = (case tweakListOptions of None \<Rightarrow> options | Some t \<Rightarrow> t options)"

definition NewFilteredRawDeviceInformer where
  "NewFilteredRawDeviceInformer client resyncPeriod indexers tweakListOptions =
     \<lparr>si_list = (\<lambda>options. rawDevices_List client (tweaked tweakListOptions options)),
      si_watch = (\<lambda>options. rawDevices_Watch client (tweaked tweakListOptions options)),
      si_type = ''RawDevice'', si_resync = resyncPeriod, si_indexers = indexers\<rparr>"

definition NewRawDeviceInformer where
  "NewRawDeviceInformer client resyncPeriod indexers = NewFilteredRawDeviceInformer client resyncPeriod indexers None"

definition NewFilteredTopolvmClusterInformer where
  "NewFilteredTopolvmClusterInformer client namespace resyncPeriod indexers tweakListOptions =
     \<lparr>si_list = (\<lambda>options. topolvmClusters_List client namespace (tweaked tweakListOptions options)),
      si_watch = (\<lambda>options. topolvmClusters_Watch client namespace (tweaked tweakListOptions options)),
      si_type = ''TopolvmCluster'', si_resync = resyncPeriod, si_indexers = indexers\<rparr>"

definition NewTopolvmClusterInformer where
  "NewTopolvmClusterInformer client namespace resyncPeriod indexers =
     NewFilteredTopolvmClusterInformer client namespace resyncPeriod indexers None"

section \<open>The factory of shared informers\<close>

text \<open>
  \<open>'c\<close> is the clientset, \<open>'i\<close> an informer; the maps are keyed by the name of the object's type (\<open>reflect.Type\<close>).
  The lock is held over each operation, which makes it one step.
\<close>

record ('c, 'i) informer_factory =
  fa_client :: 'c
  fa_namespace :: string
  fa_tweak :: tweak
  fa_default_resync :: "64 word"
  fa_custom_resync :: "64 word gomap"
  fa_informers :: "'i gomap"
  fa_started :: "bool gomap"

text \<open>The options; the configuration of \<open>WithCustomResyncConfig\<close> is a list in the order \<open>range\<close> visits it.\<close>

definition WithCustomResyncConfig ::
  "(string \<times> 64 word) list \<Rightarrow> ('c, 'i) informer_factory \<Rightarrow> ('c, 'i) informer_factory" where
  "WithCustomResyncConfig resyncConfig factory =
     factory\<lparr>fa_custom_resync := foldl (\<lambda>m (k, v). AList.update k v m) (fa_custom_resync factory) resyncConfig\<rparr>"

definition WithTweakListOptions :: "tweak \<Rightarrow> ('c, 'i) informer_factory \<Rightarrow> ('c, 'i) informer_factory" where
  "WithTweakListOptions tweakListOptions factory = factory\<lparr>fa_tweak := tweakListOptions\<rparr>"

definition WithNamespace :: "string \<Rightarrow> ('c, 'i) informer_factory \<Rightarrow> ('c, 'i) informer_factory" where
  "WithNamespace namespace factory = factory\<lparr>fa_namespace := namespace\<rparr>"

definition NewSharedInformerFactoryWithOptions ::
  "'c \<Rightarrow> 64 word \<Rightarrow> (('c, 'i) informer_factory \<Rightarrow> ('c, 'i) informer_factory) list \<Rightarrow> ('c, 'i) informer_factory" where
  "NewSharedInformerFactoryWithOptions client defaultResync options =
     foldl (\<lambda>factory opt. opt factory)
       \<lparr>fa_client = client, fa_namespace = [], fa_tweak = None, fa_default_resync = defaultResync,
        fa_custom_resync = [], fa_informers = [], fa_started = []\<rparr> options"

definition NewSharedInformerFactory :: "'c \<Rightarrow> 64 word \<Rightarrow> ('c, 'i) informer_factory" where
  "NewSharedInformerFactory client defaultResync = NewSharedInformerFactoryWithOptions client defaultResync []"

definition NewFilteredSharedInformerFactory :: "'c \<Rightarrow> 64 word \<Rightarrow> string \<Rightarrow> tweak \<Rightarrow> ('c, 'i) informer_factory" where
  "NewFilteredSharedInformerFactory client defaultResync namespace tweakListOptions =
     NewSharedInformerFactoryWithOptions client defaultResync [WithNamespace namespace, WithTweakListOptions tweakListOptions]"

text \<open>\<open>go informer.Run(stopCh)\<close> for every informer that was not started; the ones run are returned.\<close>

definition start_one ::
  "string \<Rightarrow> (string \<times> 'i) list \<times> ('c, 'i) informer_factory \<Rightarrow> (string \<times> 'i) list \<times> ('c, 'i) informer_factory" where
  "start_one t s =
     (case s of (run, f) \<Rightarrow>
        case map_of (fa_informers f) t of
          None \<Rightarrow> (run, f)
        | Some informer \<Rightarrow>
            if map_of (fa_started f) t = Some True then (run, f)
            else (run @ [(t, informer)], f\<lparr>fa_started := AList.update t True (fa_started f)\<rparr>))"

definition Start :: "range_ord \<Rightarrow> ('c, 'i) informer_factory \<Rightarrow> (string \<times> 'i) list \<times> ('c, 'i) informer_factory" where
  "Start ord f = fold start_one (range_keys ord (fa_informers f)) ([], f)"

text \<open>\<open>wait\<close> stands for \<open>cache.WaitForCacheSync(stopCh, informer.HasSynced)\<close>.\<close>

definition WaitForCacheSync :: "range_ord \<Rightarrow> ('i \<Rightarrow> bool) \<Rightarrow> ('c, 'i) informer_factory \<Rightarrow> bool gomap" where
  "WaitForCacheSync ord wait f =
     List.map_filter (\<lambda>t.
       if map_of (fa_started f) t = Some True then map_option (\<lambda>informer. (t, wait informer)) (map_of (fa_informers f) t)
       else None) (range_keys ord (fa_informers f))"

definition InformerFor ::
  "string \<Rightarrow> ('c \<Rightarrow> 64 word \<Rightarrow> 'i) \<Rightarrow> ('c, 'i) informer_factory \<Rightarrow> 'i \<times> ('c, 'i) informer_factory" where
  "InformerFor informerType newFunc f =
     (case map_of (fa_informers f) informerType of
        Some informer \<Rightarrow> (informer, f)
      | None \<Rightarrow>
          let resyncPeriod =
                (case map_of (fa_custom_resync f) informerType of None \<Rightarrow> fa_default_resync f | Some r \<Rightarrow> r);
              informer = newFunc (fa_client f) resyncPeriod
          in (informer, f\<lparr>fa_informers := AList.update informerType informer (fa_informers f)\<rparr>))"

text \<open>
  \<open>Rawdevice().V1().RawDevices()\<close> passes the tweak of the factory on and drops the namespace, since the
  objects have none; \<open>Topolvm().V2().TopolvmClusters()\<close> passes both.
\<close>

definition rawDeviceInformer_defaultInformer where
  "rawDeviceInformer_defaultInformer tweakListOptions client resyncPeriod =
     NewFilteredRawDeviceInformer client resyncPeriod [''namespace''] tweakListOptions"

definition rawDeviceInformer_Informer where
  "rawDeviceInformer_Informer f = InformerFor ''RawDevice'' (rawDeviceInformer_defaultInformer (fa_tweak f)) f"

definition topolvmClusterInformer_defaultInformer where
  "topolvmClusterInformer_defaultInformer namespace tweakListOptions client resyncPeriod =
     NewFilteredTopolvmClusterInformer client namespace resyncPeriod [''namespace''] tweakListOptions"

definition topolvmClusterInformer_Informer where
  "topolvmClusterInformer_Informer f =
     InformerFor ''TopolvmCluster'' (topolvmClusterInformer_defaultInformer (fa_namespace f) (fa_tweak f)) f"

text \<open>\<open>Lister\<close> asks for the informer first, so a lister that was handed out has an informer that \<open>Start\<close> runs.\<close>

definition rawDeviceInformer_Lister where
  "rawDeviceInformer_Lister get_indexer f = (case rawDeviceInformer_Informer f of (i, f') \<Rightarrow> (get_indexer i, f'))"

definition topolvmClusterInformer_Lister where
  "topolvmClusterInformer_Lister get_indexer f = (case topolvmClusterInformer_Informer f of (i, f') \<Rightarrow> (get_indexer i, f'))"

definition ForResource where
  "ForResource resource f =
     (if resource = (RawDevice_GroupVersion, ''rawdevices'') then
        (case rawDeviceInformer_Informer f of (i, f') \<Rightarrow> (Inr (i, ''rawdevices''), f'))
      else (Inl (Msg (''no informer found for '' @ snd resource)), f))"

section \<open>One informer for a type, run once\<close>

text \<open>The operations of the factory, with the informers that were run so far.\<close>

inductive factory_step ::
  "('c, 'i) informer_factory \<times> (string \<times> 'i) list \<Rightarrow> ('c, 'i) informer_factory \<times> (string \<times> 'i) list \<Rightarrow> bool" where
  get: "InformerFor t newFunc f = (i, f') \<Longrightarrow> factory_step (f, past) (f', past)"
| start: "range_order ord \<Longrightarrow> Start ord f = (run, f') \<Longrightarrow> factory_step (f, past) (f', past @ run)"

inductive_cases factory_stepE: "factory_step (f, past) (f', past')"

text \<open>The invariant: what was started is what ran, each once, and it is the informer on record.\<close>

definition factory_ok :: "('c, 'i) informer_factory \<times> (string \<times> 'i) list \<Rightarrow> bool" where
  "factory_ok s = (case s of (f, past) \<Rightarrow>
     distinct (map fst (fa_informers f)) \<and> distinct (map fst past) \<and>
     (\<forall>(t, i) \<in> set past. map_of (fa_informers f) t = Some i) \<and>
     (\<forall>t. map_of (fa_started f) t = Some True \<longleftrightarrow> t \<in> fst ` set past))"

lemma start_one_ok:
  assumes "factory_ok (f, past @ run)" and "start_one t (run, f) = (run', f')"
  shows "factory_ok (f', past @ run') \<and> fa_informers f' = fa_informers f \<and>
    (has_key (fa_informers f) t \<longrightarrow> t \<in> fst ` set (past @ run')) \<and> set (past @ run) \<subseteq> set (past @ run')"
proof (cases "map_of (fa_informers f) t")
  case None
  with assms show ?thesis by (auto simp: start_one_def has_key_def)
next
  case (Some i)
  show ?thesis
  proof (cases "map_of (fa_started f) t = Some True")
    case True
    with assms Some show ?thesis by (auto simp: start_one_def factory_ok_def)
  next
    case False
    with assms Some have f': "f' = f\<lparr>fa_started := AList.update t True (fa_started f)\<rparr>" "run' = run @ [(t, i)]"
      by (auto simp: start_one_def)
    from False assms(1) have "t \<notin> fst ` set (past @ run)" by (simp add: factory_ok_def)
    with assms(1) Some show ?thesis
      unfolding f' by (auto simp: factory_ok_def update_conv')
  qed
qed

lemma start_all_ok:
  assumes "factory_ok (f, past @ run)" and "fold start_one ts (run, f) = (run', f')"
  shows "factory_ok (f', past @ run') \<and> fa_informers f' = fa_informers f \<and>
    (\<forall>t \<in> set ts. has_key (fa_informers f) t \<longrightarrow> t \<in> fst ` set (past @ run')) \<and> set (past @ run) \<subseteq> set (past @ run')"
  using assms
proof (induction ts arbitrary: run f)
  case (Cons t ts)
  obtain r g where s: "start_one t (run, f) = (r, g)" by fastforce
  note one = start_one_ok [OF Cons.prems(1) s]
  from Cons.prems(2) s have "fold start_one ts (r, g) = (run', f')" by simp
  from Cons.IH [OF _ this] one have "factory_ok (f', past @ run') \<and> fa_informers f' = fa_informers g \<and>
    (\<forall>t \<in> set ts. has_key (fa_informers g) t \<longrightarrow> t \<in> fst ` set (past @ run')) \<and> set (past @ r) \<subseteq> set (past @ run')" by blast
  with one show ?case by (metis image_mono set_ConsD subset_iff subset_trans)
qed simp

lemma factory_step_ok: "factory_step s s' \<Longrightarrow> factory_ok s \<Longrightarrow> factory_ok s'"
proof (induction rule: factory_step.induct)
  case (get t newFunc f i f' past)
  show ?case
  proof (cases "map_of (fa_informers f) t")
    case None
    with get have f': "f' = f\<lparr>fa_informers := AList.update t i (fa_informers f)\<rparr>" by (auto simp: InformerFor_def Let_def)
    have "j = t \<Longrightarrow> (j, k) \<notin> set past" for j k using None get.prems by (auto simp: factory_ok_def)
    with get.prems show ?thesis by (auto simp: factory_ok_def f' update_conv' distinct_update)
  next
    case (Some j)
    with get show ?thesis by (simp add: InformerFor_def)
  qed
next
  case (start ord f run f' past)
  then show ?case using start_all_ok [of f past "[]" "range_keys ord (fa_informers f)" run f'] by (simp add: Start_def)
qed

lemma factory_steps_ok: "factory_step\<^sup>*\<^sup>* s s' \<Longrightarrow> factory_ok s \<Longrightarrow> factory_ok s'"
  by (induction rule: rtranclp_induct) (auto intro: factory_step_ok)

lemma new_factory_ok: "factory_ok (NewFilteredSharedInformerFactory client resync namespace tweak, [])"
  by (simp add: factory_ok_def NewFilteredSharedInformerFactory_def NewSharedInformerFactoryWithOptions_def
      WithNamespace_def WithTweakListOptions_def)

text \<open>A process that takes a lister and then starts the factory runs the informer behind the lister, and only it.\<close>

lemma start_runs_lister:
  assumes "rawDeviceInformer_Lister get_indexer (NewSharedInformerFactory client resync) = (ix, f)"
    and "range_order ord" and "Start ord f = (run, f')"
  obtains i where "run = [(''RawDevice'', i)]" and "ix = get_indexer i"
proof -
  from assms(2) have "mset (ord [''RawDevice'']) = {#''RawDevice''#}" by (simp add: range_order_def)
  then have "ord [''RawDevice''] = [''RawDevice'']" by (simp add: mset_single_iff_right)
  with assms that show ?thesis
    by (auto simp: rawDeviceInformer_Lister_def rawDeviceInformer_Informer_def InformerFor_def Let_def Start_def start_one_def
        range_keys_def NewSharedInformerFactory_def NewSharedInformerFactoryWithOptions_def)
qed



end
