(* ===== verification/Rest_Props.thy ===== *)
theory Rest_Props
  imports Stale_Props Informers
begin

text \<open>
  The store of \<open>RawDevice\<close> objects as the program reaches it: writes through the generated client, lists through the
  generated lister.  A locale states what the API server does with a request, whatever the order of the calls that
  built it, and what the cache shows; the locale \<open>stale_store\<close>, on which the properties of the CSI service rest,
  follows from it.
\<close>

section \<open>What a request asks for\<close>

fun last_call :: "(('o, 'x) build \<Rightarrow> 'a option) \<Rightarrow> ('o, 'x) build list \<Rightarrow> 'a option" where
  "last_call f [] = None"
| "last_call f (b # bs) = (case last_call f bs of Some x \<Rightarrow> Some x | None \<Rightarrow> f b)"

definition asked_namespace :: "('o, 'x) build \<Rightarrow> string option" where
  "asked_namespace b = (case b of Namespace n \<Rightarrow> Some n | _ \<Rightarrow> None)"

definition asked_resource :: "('o, 'x) build \<Rightarrow> string option" where
  "asked_resource b = (case b of Resource r \<Rightarrow> Some r | _ \<Rightarrow> None)"

definition asked_name :: "('o, 'x) build \<Rightarrow> string option" where
  "asked_name b = (case b of Name n \<Rightarrow> Some n | _ \<Rightarrow> None)"

definition asked_sub :: "('o, 'x) build \<Rightarrow> string list option" where
  "asked_sub b = (case b of SubResource s \<Rightarrow> Some s | _ \<Rightarrow> None)"

definition asked_body :: "('o, 'x) build \<Rightarrow> ('o, 'x) rest_body option" where
  "asked_body b = (case b of Body x \<Rightarrow> Some x | _ \<Rightarrow> None)"

record ('o, 'x) route =
  rt_verb :: verb
  rt_namespace :: "string option"
  rt_resource :: "string option"
  rt_name :: "string option"
  rt_sub :: "string list option"
  rt_body :: "('o, 'x) rest_body option"

definition route_of :: "('o, 'x) rest_request \<Rightarrow> ('o, 'x) route" where
  "route_of r =
     \<lparr>rt_verb = rq_verb r, rt_namespace = last_call asked_namespace (rq_calls r),
      rt_resource = last_call asked_resource (rq_calls r), rt_name = last_call asked_name (rq_calls r),
      rt_sub = last_call asked_sub (rq_calls r), rt_body = last_call asked_body (rq_calls r)\<rparr>"

definition raw_route :: "verb \<Rightarrow> string option \<Rightarrow> string list option \<Rightarrow> ('o, 'x) rest_body option \<Rightarrow> ('o, 'x) route" where
  "raw_route v name sub body =
     \<lparr>rt_verb = v, rt_namespace = None, rt_resource = Some ''rawdevices'', rt_name = name, rt_sub = sub, rt_body = body\<rparr>"

lemmas route_defs = route_of_def raw_route_def asked_namespace_def asked_resource_def asked_name_def asked_sub_def asked_body_def

section \<open>The server and the cache\<close>

text \<open>
  \<open>now\<close> is what the server holds.  A request that is refused changes nothing, nor does one that reads; a creation
  needs a new name and makes an object without a status, an update of an object keeps its status, an update of
  the subresource \<open>status\<close> of an object that was read before is accepted only while it is unchanged.
\<close>

locale rest_server =
  fixes rest :: "('e, raw_device, raw_device list, 'w, 'x) rest_client" and now :: "'e \<Rightarrow> raw_device list"
  assumes refused: "rc_into rest r z e = ((x, Some err), e') \<Longrightarrow> now e' = now e"
    and refused_error: "rc_error rest r e = (Some err, e') \<Longrightarrow> now e' = now e"
    and read: "route_of r = raw_route VGet (Some n) None None \<Longrightarrow> rc_into rest r z e = ((x, None), e') \<Longrightarrow>
      now e' = now e \<and> x \<in> set (now e) \<and> rd_name x = n"
    and post: "route_of r = raw_route VPost None None (Some (ObjectBody d)) \<Longrightarrow> rc_into rest r z e = ((x, None), e') \<Longrightarrow>
      rd_name d \<notin> rd_name ` set (now e) \<and> mset (now e') = add_mset (d\<lparr>rd_status_name := []\<rparr>) (mset (now e))"
    and put: "route_of r = raw_route VPut (Some (rd_name d)) None (Some (ObjectBody d)) \<Longrightarrow> rc_into rest r z e = ((x, None), e') \<Longrightarrow>
      mset (now e') = mset (map (put_spec d) (now e))"
    and delete: "route_of r = raw_route VDelete (Some n) None (Some (OptionsBody b)) \<Longrightarrow> rc_error rest r e = (None, e') \<Longrightarrow>
      mset (now e') = mset (filter (\<lambda>x. rd_name x \<noteq> n) (now e))"

locale cached_server = rest_server rest now
  for rest :: "('e, raw_device, raw_device list, 'w, 'x) rest_client" and now :: "'e \<Rightarrow> raw_device list" +
  fixes ix :: "('e, raw_device, 's) indexer" and everything :: 's and cached :: "'e \<Rightarrow> raw_device list" and opts :: 'x
  assumes listed: "ix_list_all ix everything e = (ds, None) \<Longrightarrow> ds = cached e"
    and put_status: "route_of r = raw_route VPut (Some (rd_name c)) (Some [''status'']) (Some (ObjectBody (c\<lparr>rd_status_name := s\<rparr>))) \<Longrightarrow>
      c \<in> set (cached e) \<Longrightarrow> rc_into rest r z e = ((x, None), e') \<Longrightarrow>
      c \<in> set (now e) \<and> now e' = set_status (c\<lparr>rd_status_name := s\<rparr>) (now e)"

section \<open>The client's calls\<close>

text \<open>\<open>_, err := ...\<close>: the error first, the value only without one.\<close>

definition result_of :: "('a \<times> go_error option) \<times> 'e \<Rightarrow> ('a \<Rightarrow> 'b) \<Rightarrow> (go_error + 'b) \<times> 'e" where
  "result_of r f = (case r of ((x, err), e) \<Rightarrow> (case err of None \<Rightarrow> Inr (f x) | Some m \<Rightarrow> Inl m, e))"

definition error_of :: "go_error option \<times> 'e \<Rightarrow> (go_error + unit) \<times> 'e" where
  "error_of r = (case r of (err, e) \<Rightarrow> (case err of None \<Rightarrow> Inr () | Some m \<Rightarrow> Inl m, e))"

lemma result_of_simps [simp]:
  "result_of r f = (Inr y, e') \<longleftrightarrow> (\<exists>x. r = ((x, None), e') \<and> y = f x)"
  "result_of r f = (Inl err, e') \<longleftrightarrow> (\<exists>x. r = ((x, Some err), e'))"
  by (auto simp: result_of_def split: prod.splits option.splits)

lemma error_of_simps [simp]:
  "error_of r = (Inr y, e') \<longleftrightarrow> r = (None, e')"
  "error_of r = (Inl err, e') \<longleftrightarrow> r = (Some err, e')"
  by (auto simp: error_of_def split: prod.splits option.splits)

text \<open>The clientset and the lister as the functions of the CSI driver and of the agent take them.\<close>

definition client_api ::
  "('e, raw_device, raw_device list, 'w, 'x) rest_client \<Rightarrow> ('e, raw_device, 's) indexer \<Rightarrow> 's \<Rightarrow> 'x \<Rightarrow> 'e raw_api" where
  "client_api rest ix everything opts =
     \<lparr>ra_list = (\<lambda>e. case rawDeviceLister_List ix everything e of (ds, None) \<Rightarrow> Inr ds | (ds, Some err) \<Rightarrow> Inl err),
      ra_get = (\<lambda>n e. result_of (rawDevices_Get rest n opts e) (\<lambda>x. x)),
      ra_create = (\<lambda>d e. result_of (rawDevices_Create rest d opts e) (\<lambda>_. ())),
      ra_update = (\<lambda>d e. result_of (rawDevices_Update rest d opts e) (\<lambda>_. ())),
      ra_update_status = (\<lambda>d e. result_of (rawDevices_UpdateStatus rest d opts e) (\<lambda>_. ())),
      ra_delete = (\<lambda>n e. error_of (rawDevices_Delete rest n opts e))\<rparr>"

text \<open>Each method asks for its own route.\<close>

lemma client_routes:
  "\<exists>r. rawDevices_Get rest n opts = rc_into rest r zero_raw_device \<and> route_of r = raw_route VGet (Some n) None None"
  "\<exists>r. rawDevices_Create rest d opts = rc_into rest r zero_raw_device \<and> route_of r = raw_route VPost None None (Some (ObjectBody d))"
  "\<exists>r. rawDevices_Update rest d opts = rc_into rest r zero_raw_device \<and>
     route_of r = raw_route VPut (Some (rd_name d)) None (Some (ObjectBody d))"
  "\<exists>r. rawDevices_UpdateStatus rest d opts = rc_into rest r zero_raw_device \<and>
     route_of r = raw_route VPut (Some (rd_name d)) (Some [''status'']) (Some (ObjectBody d))"
  "\<exists>r. rawDevices_Delete rest n opts = rc_error rest r \<and> route_of r = raw_route VDelete (Some n) None (Some (OptionsBody opts))"
  by (rule exI, rule conjI, rule ext, simp add: rawDevices_defs typed_defs, simp add: route_defs)+

sublocale cached_server \<subseteq> client: stale_store "client_api rest ix everything opts" now cached
proof
  fix d n c s e e' u err ds r
  let ?api = "client_api rest ix everything opts"
  show "ra_create ?api d e = (Inr u, e') \<Longrightarrow>
      rd_name d \<notin> rd_name ` set (now e) \<and> mset (now e') = add_mset (d\<lparr>rd_status_name := []\<rparr>) (mset (now e))"
    using client_routes(2) [of rest d opts] by (auto simp: client_api_def dest: post)
  show "ra_create ?api d e = (Inl err, e') \<Longrightarrow> now e' = now e"
    using client_routes(2) [of rest d opts] refused by (auto simp: client_api_def)
  show "ra_get ?api n e = (r, e') \<Longrightarrow> now e' = now e \<and> (\<forall>d. r = Inr d \<longrightarrow> d \<in> set (now e) \<and> rd_name d = n)"
    using client_routes(1) [of rest n opts] read refused by (cases r) (auto simp: client_api_def)
  show "ra_update ?api d e = (Inr u, e') \<Longrightarrow> mset (now e') = mset (map (put_spec d) (now e))"
    using client_routes(3) [of rest d opts] put by (auto simp: client_api_def)
  show "ra_update ?api d e = (Inl err, e') \<Longrightarrow> now e' = now e"
    using client_routes(3) [of rest d opts] refused by (auto simp: client_api_def)
  show "ra_delete ?api n e = (Inr u, e') \<Longrightarrow> mset (now e') = mset (filter (\<lambda>x. rd_name x \<noteq> n) (now e))"
    using client_routes(5) [of rest n opts] delete by (auto simp: client_api_def)
  show "ra_delete ?api n e = (Inl err, e') \<Longrightarrow> now e' = now e"
    using client_routes(5) [of rest n opts] refused_error by (auto simp: client_api_def)
  show "ra_list ?api e = Inr ds \<Longrightarrow> ds = cached e"
    using listed by (auto simp: client_api_def rawDeviceLister_List_def split: prod.splits option.splits)
  show "c \<in> set (cached e) \<Longrightarrow> ra_update_status ?api (c\<lparr>rd_status_name := s\<rparr>) e = (Inr u, e') \<Longrightarrow>
      c \<in> set (now e) \<and> now e' = set_status (c\<lparr>rd_status_name := s\<rparr>) (now e)"
    using client_routes(4) [of rest "c\<lparr>rd_status_name := s\<rparr>" opts] put_status by (auto simp: client_api_def)
  show "ra_update_status ?api d e = (Inl err, e') \<Longrightarrow> now e' = now e"
    using client_routes(4) [of rest d opts] refused by (auto simp: client_api_def)
qed

context cached_server
begin

lemma client_stale: "stale_store (client_api rest ix everything opts) now cached"
  by (rule client.stale_store_axioms)

end

section \<open>A server of requests\<close>

text \<open>The lagging server behind its REST interface: an unknown route is refused.\<close>

definition answer :: "'a \<Rightarrow> (go_error + 'a) \<times> 'e \<Rightarrow> ('a \<times> go_error option) \<times> 'e" where
  "answer z r = (case r of (Inl err, e) \<Rightarrow> ((z, Some err), e) | (Inr x, e) \<Rightarrow> ((x, None), e))"

definition answer_unit :: "'a \<Rightarrow> (go_error + unit) \<times> 'e \<Rightarrow> ('a \<times> go_error option) \<times> 'e" where
  "answer_unit z r = (case r of (Inl err, e) \<Rightarrow> ((z, Some err), e) | (Inr _, e) \<Rightarrow> ((z, None), e))"

definition lag_rest :: "(lagging, raw_device, raw_device list, unit, unit) rest_client" where
  "lag_rest =
     \<lparr>rc_into = (\<lambda>r z e.
        let t = route_of r in
        if rt_resource t \<noteq> Some ''rawdevices'' \<or> rt_namespace t \<noteq> None then ((z, Some (ApiNotFound [])), e)
        else case (rt_verb t, rt_name t, rt_sub t, rt_body t) of
            (VGet, Some n, None, None) \<Rightarrow> answer z (ra_get lag_api n e)
          | (VPost, None, None, Some (ObjectBody d)) \<Rightarrow> answer_unit z (ra_create lag_api d e)
          | (VPut, Some n, None, Some (ObjectBody d)) \<Rightarrow>
              if n = rd_name d then answer_unit z (ra_update lag_api d e) else ((z, Some (ApiInvalid n)), e)
          | (VPut, Some n, Some sub, Some (ObjectBody d)) \<Rightarrow>
              if n = rd_name d \<and> sub = [''status''] then answer_unit z (ra_update_status lag_api d e) else ((z, Some (ApiInvalid n)), e)
          | _ \<Rightarrow> ((z, Some (ApiInvalid [])), e)),
      rc_into_list = (\<lambda>r z e. ((lag_now e, None), e)),
      rc_error = (\<lambda>r e.
        let t = route_of r in
        if rt_resource t \<noteq> Some ''rawdevices'' \<or> rt_namespace t \<noteq> None then (Some (ApiNotFound []), e)
        else case (rt_verb t, rt_name t, rt_sub t, rt_body t) of
            (VDelete, Some n, None, Some (OptionsBody _)) \<Rightarrow>
              (case ra_delete lag_api n e of (Inl err, e') \<Rightarrow> (Some err, e') | (Inr _, e') \<Rightarrow> (None, e'))
          | _ \<Rightarrow> (Some (ApiInvalid []), e)),
      rc_watch = (\<lambda>r e. (Inl (ApiOther ''no watch''), e))\<rparr>"

definition lag_index :: "(lagging, raw_device, unit) indexer" where
  "lag_index =
     \<lparr>ix_list_all = (\<lambda>_ e. (lag_cached e, None)), ix_list_namespace = (\<lambda>_ _ e. (lag_cached e, None)),
      ix_get_by_key = (\<lambda>n e. case find (\<lambda>d. rd_name d = n) (lag_cached e) of
        None \<Rightarrow> (zero_raw_device, False, None) | Some d \<Rightarrow> (d, True, None))\<rparr>"

lemma answer_simps [simp]:
  "answer z r = ((x, None), e') \<longleftrightarrow> r = (Inr x, e')"
  "answer z r = ((x, Some err), e') \<longleftrightarrow> x = z \<and> r = (Inl err, e')"
  "answer_unit y q = ((v, None), e1) \<longleftrightarrow> v = y \<and> q = (Inr (), e1)"
  "answer_unit y q = ((v, Some err), e1) \<longleftrightarrow> v = y \<and> q = (Inl err, e1)"
  by (auto simp: answer_def answer_unit_def split: prod.splits sum.splits)

lemma lag_refused:
  "rc_into lag_rest r z e = ((x, Some err), e') \<Longrightarrow> lag_now e' = lag_now e"
  "rc_error lag_rest r e = (Some err, e') \<Longrightarrow> lag_now e' = lag_now e"
  by (auto simp: lag_rest_def Let_def dest!: lag.create_refused lag.update_refused lag.status_kept lag.delete_refused lag.got
      split: if_splits verb.splits option.splits rest_body.splits prod.splits sum.splits)

interpretation lag_rest: cached_server lag_rest lag_now lag_index "()" lag_cached "()"
proof
  fix r z e x e' n d b c s err ds
  show "rc_into lag_rest r z e = ((x, Some err), e') \<Longrightarrow> lag_now e' = lag_now e"
    "rc_error lag_rest r e = (Some err, e') \<Longrightarrow> lag_now e' = lag_now e" by (rule lag_refused, assumption)+
  show "route_of r = raw_route VGet (Some n) None None \<Longrightarrow> rc_into lag_rest r z e = ((x, None), e') \<Longrightarrow>
      lag_now e' = lag_now e \<and> x \<in> set (lag_now e) \<and> rd_name x = n"
    using lag.got [of n e "Inr x" e'] by (simp add: lag_rest_def raw_route_def)
  show "route_of r = raw_route VPost None None (Some (ObjectBody d)) \<Longrightarrow> rc_into lag_rest r z e = ((x, None), e') \<Longrightarrow>
      rd_name d \<notin> rd_name ` set (lag_now e) \<and> mset (lag_now e') = add_mset (d\<lparr>rd_status_name := []\<rparr>) (mset (lag_now e))"
    using lag.created [of d e "()" e'] by (simp add: lag_rest_def raw_route_def)
  show "route_of r = raw_route VPut (Some (rd_name d)) None (Some (ObjectBody d)) \<Longrightarrow> rc_into lag_rest r z e = ((x, None), e') \<Longrightarrow>
      mset (lag_now e') = mset (map (put_spec d) (lag_now e))"
    using lag.updated [of d e "()" e'] by (simp add: lag_rest_def raw_route_def)
  show "route_of r = raw_route VDelete (Some n) None (Some (OptionsBody b)) \<Longrightarrow> rc_error lag_rest r e = (None, e') \<Longrightarrow>
      mset (lag_now e') = mset (filter (\<lambda>x. rd_name x \<noteq> n) (lag_now e))"
    using lag.deleted [of n e "()" e'] by (auto simp: lag_rest_def raw_route_def split: prod.splits sum.splits)
  show "ix_list_all lag_index () e = (ds, None) \<Longrightarrow> ds = lag_cached e" by (simp add: lag_index_def)
  show "route_of r = raw_route VPut (Some (rd_name c)) (Some [''status'']) (Some (ObjectBody (c\<lparr>rd_status_name := s\<rparr>))) \<Longrightarrow>
      c \<in> set (lag_cached e) \<Longrightarrow> rc_into lag_rest r z e = ((x, None), e') \<Longrightarrow>
      c \<in> set (lag_now e) \<and> lag_now e' = set_status (c\<lparr>rd_status_name := s\<rparr>) (lag_now e)"
    using lag.status_checked [of c e s "()" e'] by (simp add: lag_rest_def raw_route_def)
qed

section \<open>Calls of the service\<close>

text \<open>
  C4: The CSI service implements the pool of volume ids over the API server's REST interface and any cache.  Whatever
  the lists it reads show, a call leaves the server's objects consistent, and seen through the ids in use at the
  server it changes nothing, takes one id that was not in use, or releases one that was.  What is assumed is what the
  server does with the requests the generated client builds, and that an object whose status is written is the
  one that was read.
\<close>

theorem rest_calls_refine_pool:
  assumes "cached_server rest now ix everything cached" and "csi_step (client_api rest ix everything opts) w w'"
    and "volumes_ok (now (w_env w))"
  shows "volumes_ok (now (w_env w')) \<and> pool_step (held_ids (now (w_env w))) (held_ids (now (w_env w')))"
  by (rule stale_store.call_refines_pool [OF cached_server.client_stale [OF assms(1)] assms(2,3)])

text \<open>A first creation is served, a second one over the list of the first is refused: nothing is taken.\<close>

abbreviation lag_client :: "lagging raw_api" where
  "lag_client \<equiv> client_api lag_rest lag_index () ()"

theorem rest_calls_refine_pool_witness:
  "fst (CreateVolume lag_client node_request lag_start) =
      Ok \<lparr>cr_capacity_bytes = 3221225472, cr_volume_id = ''n1-sdb'', cr_node = ''n1''\<rparr> \<and>
   pool_step (held_ids (lag_now (w_env lag_claimed))) (held_ids (lag_now (w_env (snd (CreateVolume lag_client node_request lag_claimed)))))"
proof -
  have "volumes_ok (lag_now (w_env lag_claimed))" by code_simp
  moreover have "csi_step lag_client lag_claimed (snd (CreateVolume lag_client node_request lag_claimed))"
    by (rule csi_step.create) (rule prod.collapse [symmetric])
  moreover have "fst (CreateVolume lag_client node_request lag_start) =
      Ok \<lparr>cr_capacity_bytes = 3221225472, cr_volume_id = ''n1-sdb'', cr_node = ''n1''\<rparr>" by code_simp
  ultimately show ?thesis using rest_calls_refine_pool [OF lag_rest.cached_server_axioms] by blast
qed

end
