(* ===== verification/DeepCopy.thy ===== *)
theory DeepCopy
  imports Types
begin

text \<open>
  The deep copies of the API types (\<open>apis/topolvm/v2/zz_generated.deepcopy.go\<close> and the one of \<open>rawdevice/v1\<close>),
  over an explicit memory: a slice is nil or the address of its backing array, and a struct that is copied
  shares its arrays until they are copied too.  The contract of a deep copy is a locale, kept by the
  construction of slices and structs, so that each generated function meets it by its own interpretation.
  Everywhere else in the development data is not shared; this is why it may be.
\<close>

section \<open>Memory\<close>

type_synonym addr = nat

type_synonym slice = "addr option"

text \<open>
  The structs with slices, in memory (\<open>'s\<close> a slice) and as values (\<open>'s\<close> the contents, \<open>None\<close> for nil).
\<close>

record 's class_struct =
  k_name :: string
  k_vg_name :: string
  k_state :: string
  k_message :: string
  k_device_states :: 's

record ('c, 'l) node_struct =
  n_node :: string
  n_phase :: string
  n_fail_classes :: 'c
  n_success_classes :: 'c
  n_loops :: 'l

record 's status_struct =
  s_phase :: string
  s_nodes :: 's

record 's device_class_struct =
  d_class_name :: string
  d_vg_name :: string
  d_device :: 's
  d_default :: bool
  d_spare_gb :: "64 word"
  d_stripe :: "64 word"
  d_stripe_size :: string

record 's node_devices_struct =
  v_node_name :: string
  v_device_classes :: 's

record ('n, 'd) storage_struct =
  t_device_classes :: 'n
  t_use_all_nodes :: bool
  t_use_all_devices :: bool
  t_devices :: 'd
  t_volume_group_name :: string
  t_class_name :: string
  t_use_loop :: bool

record 't spec_struct =
  p_topolvm_version :: string
  p_certs_secret :: string
  p_storage :: 't
  p_clean_up :: bool

record ('m, 't, 's) cluster_struct =
  c_type_meta :: "string \<times> string"
  c_meta :: 'm
  c_spec :: "'t spec_struct"
  c_status :: "'s status_struct"

record rawdevice_spec_struct =
  r_node_name :: string
  r_size :: "64 word"
  r_type :: string
  r_real_path :: string
  r_major :: "32 word"
  r_minor :: "32 word"
  r_uuid :: string
  r_available :: bool

record 'm rawdevice_struct =
  r_type_meta :: "string \<times> string"
  r_meta :: 'm
  r_spec :: rawdevice_spec_struct
  r_status_name :: string

record ('l, 'i) list_struct =
  l_type_meta :: "string \<times> string"
  l_list_meta :: 'l
  l_items :: 'i

text \<open>
  The metadata (\<open>ObjectMeta\<close>, \<open>ListMeta\<close>) is Kubernetes' own: its type and its copy are arguments.
\<close>

type_synonym 'm cluster_mem = "('m, (slice, slice) storage_struct, slice) cluster_struct"

datatype 'm cell =
    DeviceStates (device_states: "device_state list")
  | ClassStates (class_states: "slice class_struct list")
  | LoopStates (loop_states: "loop_state list")
  | NodeStates (node_states: "(slice, slice) node_struct list")
  | Disks (disks: "disk list")
  | DeviceClasses (device_classes: "slice device_class_struct list")
  | NodeDevicesOf (node_devices_of: "slice node_devices_struct list")
  | Clusters (clusters: "'m cluster_mem list")
  | RawDevices (raw_devices: "'m rawdevice_struct list")
  | Strings (strings: "string list")

record 'm memory =
  mem_cells :: "addr \<Rightarrow> 'm cell"
  mem_next :: addr

text \<open>\<open>make\<close> takes the next address; \<open>store\<close> writes an array.\<close>

definition reserve :: "'m memory \<Rightarrow> addr \<times> 'm memory" where
  "reserve h = (mem_next h, h\<lparr>mem_next := Suc (mem_next h)\<rparr>)"

definition store :: "'m memory \<Rightarrow> addr \<Rightarrow> 'm cell \<Rightarrow> 'm memory" where
  "store h a c = h\<lparr>mem_cells := (mem_cells h)(a := c)\<rparr>"

definition extends :: "'m memory \<Rightarrow> 'm memory \<Rightarrow> bool" where
  "extends h g = (mem_next h \<le> mem_next g \<and> (\<forall>a < mem_next h. mem_cells g a = mem_cells h a))"

lemma extends_refl [simp]: "extends h h"
  by (simp add: extends_def)

lemma extends_trans: "extends h g \<Longrightarrow> extends g k \<Longrightarrow> extends h k"
  by (simp add: extends_def)

lemma extends_reserve: "reserve h = (b, g) \<Longrightarrow> extends h g \<and> b = mem_next h \<and> mem_next g = Suc b \<and> mem_cells g = mem_cells h"
  by (auto simp: reserve_def extends_def)

lemma extends_store: "extends h g \<Longrightarrow> mem_next h \<le> b \<Longrightarrow> extends h (store g b c)"
  by (simp add: extends_def store_def)

lemma store_simps [simp]: "mem_next (store g b c) = mem_next g" "mem_cells (store g b c) = (mem_cells g)(b := c)"
  by (simp_all add: store_def)

abbreviation allocated :: "'m memory \<Rightarrow> addr set" where
  "allocated h \<equiv> {..<mem_next h}"

section \<open>The contract\<close>

text \<open>
  \<open>read\<close> is the value a struct stands for and \<open>reach\<close> the arrays it is made of.  A copy reads the same, is made of
  new arrays only, and overwrites nothing; what a struct reads depends on its own arrays only.
\<close>

locale deep_copy =
  fixes copy :: "'m memory \<Rightarrow> 'a \<Rightarrow> 'a \<times> 'm memory" and read :: "'m memory \<Rightarrow> 'a \<Rightarrow> 'v" and reach :: "'m memory \<Rightarrow> 'a \<Rightarrow> addr set"
  assumes copy_extends: "copy h x = (y, g) \<Longrightarrow> extends h g"
    and copy_reads: "reach h x \<subseteq> allocated h \<Longrightarrow> copy h x = (y, g) \<Longrightarrow> read g y = read h x"
    and copy_fresh: "reach h x \<subseteq> allocated h \<Longrightarrow> copy h x = (y, g) \<Longrightarrow> reach g y \<subseteq> {mem_next h..<mem_next g}"
    and read_frame: "(\<And>a. a \<in> reach h x \<Longrightarrow> mem_cells g a = mem_cells h a) \<Longrightarrow> read g x = read h x \<and> reach g x = reach h x"
begin

lemma extended: "reach h x \<subseteq> allocated h \<Longrightarrow> extends h g \<Longrightarrow> read g x = read h x \<and> reach g x = reach h x"
  by (rule read_frame) (auto simp: extends_def)

lemma extended_allocated: "reach h x \<subseteq> allocated h \<Longrightarrow> extends h g \<Longrightarrow> reach g x \<subseteq> allocated g"
  using extended [of h x g] by (auto simp: extends_def)

text \<open>Whatever is written to memory that is newer than the original leaves the original as it was.\<close>

lemma original_kept:
  assumes "reach h x \<subseteq> allocated h" and "copy h x = (y, g)" and "\<And>a. a \<notin> {mem_next h..<mem_next g} \<Longrightarrow> mem_cells k a = mem_cells g a"
  shows "read k x = read h x"
proof -
  have "mem_cells k a = mem_cells h a" if "a \<in> reach h x" for a
  proof -
    from that assms(1) have "a < mem_next h" by auto
    with assms(3) [of a] copy_extends [OF assms(2)] show ?thesis by (simp add: extends_def)
  qed
  then show ?thesis using read_frame by blast
qed

end

text \<open>A struct without slices, and a pair of parts copied one after the other.\<close>

definition plain :: "'m memory \<Rightarrow> 'a \<Rightarrow> 'a \<times> 'm memory" where "plain h x = (x, h)"

lemma deep_copy_plain: "deep_copy plain (\<lambda>h x. x) (\<lambda>h x. {})"
  by unfold_locales (simp_all add: plain_def)

definition both ::
  "('m memory \<Rightarrow> 'a \<Rightarrow> 'a \<times> 'm memory) \<Rightarrow> ('m memory \<Rightarrow> 'b \<Rightarrow> 'b \<times> 'm memory) \<Rightarrow> 'm memory \<Rightarrow> 'a \<times> 'b \<Rightarrow> ('a \<times> 'b) \<times> 'm memory" where
  "both c d h p = (case c h (fst p) of (x, h1) \<Rightarrow> case d h1 (snd p) of (y, h2) \<Rightarrow> ((x, y), h2))"

lemma deep_copy_both:
  fixes c :: "'m memory \<Rightarrow> 'a \<Rightarrow> 'a \<times> 'm memory" and c' :: "'m memory \<Rightarrow> 'b \<Rightarrow> 'b \<times> 'm memory"
  assumes "deep_copy c r k" and "deep_copy c' r' k'"
  shows "deep_copy (both c c') (\<lambda>h p. (r h (fst p), r' h (snd p))) (\<lambda>h p. k h (fst p) \<union> k' h (snd p))"
proof (rule deep_copy.intro)
  fix h g :: "'m memory" and p q
  assume b: "both c c' h p = (q, g)"
  obtain x h1 where x: "c h (fst p) = (x, h1)" by fastforce
  obtain y h2 where y: "c' h1 (snd p) = (y, h2)" by fastforce
  from b x y have q: "q = (x, y)" "h2 = g" by (simp_all add: both_def)
  note ex = deep_copy.copy_extends [OF assms(1) x] deep_copy.copy_extends [OF assms(2) y]
  show "extends h g" using extends_trans [OF ex] q by simp
  assume "k h (fst p) \<union> k' h (snd p) \<subseteq> allocated h"
  then have a: "k h (fst p) \<subseteq> allocated h" and a': "k' h (snd p) \<subseteq> allocated h" by simp_all
  note a1 = deep_copy.extended_allocated [OF assms(2) a' ex(1)] deep_copy.extended [OF assms(2) a' ex(1)]
  have f: "k h1 x \<subseteq> {mem_next h..<mem_next h1}" by (rule deep_copy.copy_fresh [OF assms(1) a x])
  then have "k h1 x \<subseteq> allocated h1" by auto
  note a2 = deep_copy.extended [OF assms(1) this ex(2)]
  have f': "k' h2 y \<subseteq> {mem_next h1..<mem_next h2}" by (rule deep_copy.copy_fresh [OF assms(2) a1(1) y])
  show "(r g (fst q), r' g (snd q)) = (r h (fst p), r' h (snd p))"
    using deep_copy.copy_reads [OF assms(1) a x] deep_copy.copy_reads [OF assms(2) a1(1) y] a1(2) a2 q by simp
  show "k g (fst q) \<union> k' g (snd q) \<subseteq> {mem_next h..<mem_next g}"
    using f f' a2 q ex by (auto simp: extends_def)
next
  fix h g :: "'m memory" and p
  assume "\<And>a. a \<in> k h (fst p) \<union> k' h (snd p) \<Longrightarrow> mem_cells g a = mem_cells h a"
  then show "(r g (fst p), r' g (snd p)) = (r h (fst p), r' h (snd p)) \<and> k g (fst p) \<union> k' g (snd p) = k h (fst p) \<union> k' h (snd p)"
    using deep_copy.read_frame [OF assms(1), of h "fst p" g] deep_copy.read_frame [OF assms(2), of h "snd p" g] by auto
qed

text \<open>A struct is copied, then its parts: \<open>parts\<close> are those with slices, \<open>put\<close> replaces them.\<close>

lemma deep_copy_struct:
  fixes c :: "'m memory \<Rightarrow> 'p \<Rightarrow> 'p \<times> 'm memory"
  assumes "deep_copy c r k" and "\<And>t x. parts (put t x) = t" and "\<And>t x v. value_of (put t x) v = value_of x v"
  shows "deep_copy (\<lambda>h x. case c h (parts x) of (t, g) \<Rightarrow> (put t x, g)) (\<lambda>h x. value_of x (r h (parts x))) (\<lambda>h x. k h (parts x))"
proof (rule deep_copy.intro)
  fix h g :: "'m memory" and x y
  assume "(case c h (parts x) of (t, g) \<Rightarrow> (put t x, g)) = (y, g)"
  then obtain t where t: "c h (parts x) = (t, g)" and y: "y = put t x" by (auto split: prod.splits)
  show "extends h g" by (rule deep_copy.copy_extends [OF assms(1) t])
  assume a: "k h (parts x) \<subseteq> allocated h"
  show "value_of y (r g (parts y)) = value_of x (r h (parts x))"
    using deep_copy.copy_reads [OF assms(1) a t] by (simp add: y assms(2,3))
  show "k g (parts y) \<subseteq> {mem_next h..<mem_next g}"
    using deep_copy.copy_fresh [OF assms(1) a t] by (simp add: y assms(2))
next
  fix h g :: "'m memory" and x
  assume "\<And>a. a \<in> k h (parts x) \<Longrightarrow> mem_cells g a = mem_cells h a"
  then show "value_of x (r g (parts x)) = value_of x (r h (parts x)) \<and> k g (parts x) = k h (parts x)"
    using deep_copy.read_frame [OF assms(1), of h "parts x" g] by simp
qed

lemma deep_copy_struct2:
  fixes c :: "'m memory \<Rightarrow> 'p \<Rightarrow> 'p \<times> 'm memory" and c' :: "'m memory \<Rightarrow> 'q \<Rightarrow> 'q \<times> 'm memory"
  assumes "deep_copy c r k" and "deep_copy c' r' k'"
    and "\<And>s t x. p (put s t x) = s" and "\<And>s t x. q (put s t x) = t" and "\<And>s t x. value_of (put s t x) = value_of x"
  shows "deep_copy (\<lambda>h x. case c h (p x) of (s, h1) \<Rightarrow> case c' h1 (q x) of (t, h2) \<Rightarrow> (put s t x, h2))
    (\<lambda>h x. value_of x (r h (p x)) (r' h (q x))) (\<lambda>h x. k h (p x) \<union> k' h (q x))"
  using deep_copy_struct [OF deep_copy_both [OF assms(1,2)], where parts = "\<lambda>x. (p x, q x)" and
      put = "\<lambda>(s, t) x. put s t x" and value_of = "\<lambda>x (v, w). value_of x v w"] assms(3-)
  by (simp add: both_def split_def)

lemma deep_copy_struct3:
  fixes c :: "'m memory \<Rightarrow> 'p \<Rightarrow> 'p \<times> 'm memory" and c' :: "'m memory \<Rightarrow> 'q \<Rightarrow> 'q \<times> 'm memory"
    and c'' :: "'m memory \<Rightarrow> 'o \<Rightarrow> 'o \<times> 'm memory"
  assumes "deep_copy c r k" and "deep_copy c' r' k'" and "deep_copy c'' r'' k''"
    and "\<And>s t u x. p (put s t u x) = s" and "\<And>s t u x. q (put s t u x) = t" and "\<And>s t u x. o' (put s t u x) = u"
    and "\<And>s t u x. value_of (put s t u x) = value_of x"
  shows "deep_copy (\<lambda>h x. case c h (p x) of (s, h1) \<Rightarrow> case c' h1 (q x) of (t, h2) \<Rightarrow>
      case c'' h2 (o' x) of (u, h3) \<Rightarrow> (put s t u x, h3))
    (\<lambda>h x. value_of x (r h (p x)) (r' h (q x)) (r'' h (o' x))) (\<lambda>h x. k h (p x) \<union> k' h (q x) \<union> k'' h (o' x))"
  using deep_copy_struct [OF deep_copy_both [OF deep_copy_both [OF assms(1,2)] assms(3)],
      where parts = "\<lambda>x. ((p x, q x), o' x)" and put = "\<lambda>((s, t), u) x. put s t u x" and
      value_of = "\<lambda>x ((v, w), z). value_of x v w z"] assms(4-)
  by (simp add: both_def split_def)

section \<open>Slices\<close>

text \<open>\<open>for i := range *in\<close> with a copy of each element.\<close>

fun copy_all :: "('m memory \<Rightarrow> 'a \<Rightarrow> 'a \<times> 'm memory) \<Rightarrow> 'm memory \<Rightarrow> 'a list \<Rightarrow> 'a list \<times> 'm memory" where
  "copy_all copy h [] = ([], h)"
| "copy_all copy h (x # xs) = (case copy h x of (y, h1) \<Rightarrow> case copy_all copy h1 xs of (ys, h2) \<Rightarrow> (y # ys, h2))"

text \<open>A slice that is not nil: \<open>make\<close>, then the elements are copied one after the other into the new array.\<close>

definition copy_slice ::
  "('a list \<Rightarrow> 'm cell) \<Rightarrow> ('m cell \<Rightarrow> 'a list) \<Rightarrow> ('m memory \<Rightarrow> 'a \<Rightarrow> 'a \<times> 'm memory) \<Rightarrow> 'm memory \<Rightarrow> slice \<Rightarrow> slice \<times> 'm memory" where
  "copy_slice mk un copy h s =
     (case s of
        None \<Rightarrow> (None, h)
      | Some a \<Rightarrow> (case reserve h of (b, h1) \<Rightarrow>
          case copy_all copy h1 (un (mem_cells h1 a)) of (ys, h2) \<Rightarrow> (Some b, store h2 b (mk ys))))"

definition read_slice :: "('m cell \<Rightarrow> 'a list) \<Rightarrow> ('m memory \<Rightarrow> 'a \<Rightarrow> 'v) \<Rightarrow> 'm memory \<Rightarrow> slice \<Rightarrow> 'v list option" where
  "read_slice un read h s = map_option (\<lambda>a. map (read h) (un (mem_cells h a))) s"

definition reach_slice :: "('m cell \<Rightarrow> 'a list) \<Rightarrow> ('m memory \<Rightarrow> 'a \<Rightarrow> addr set) \<Rightarrow> 'm memory \<Rightarrow> slice \<Rightarrow> addr set" where
  "reach_slice un reach h s = (case s of None \<Rightarrow> {} | Some a \<Rightarrow> insert a (\<Union>x \<in> set (un (mem_cells h a)). reach h x))"

locale slice_copy = deep_copy copy read reach
  for copy :: "'m memory \<Rightarrow> 'a \<Rightarrow> 'a \<times> 'm memory" and read :: "'m memory \<Rightarrow> 'a \<Rightarrow> 'v" and reach :: "'m memory \<Rightarrow> 'a \<Rightarrow> addr set" +
  fixes mk :: "'a list \<Rightarrow> 'm cell" and un :: "'m cell \<Rightarrow> 'a list"
  assumes un_mk: "un (mk xs) = xs"
begin

lemma copy_all_copies:
  assumes "copy_all copy h xs = (ys, g)" and "\<And>x. x \<in> set xs \<Longrightarrow> reach h x \<subseteq> allocated h"
  shows "extends h g \<and> map (read g) ys = map (read h) xs \<and> (\<forall>y \<in> set ys. reach g y \<subseteq> {mem_next h..<mem_next g})"
  using assms
proof (induction xs arbitrary: h ys)
  case (Cons x xs)
  obtain y h1 where y: "copy h x = (y, h1)" by fastforce
  obtain zs where zs: "copy_all copy h1 xs = (zs, g)" and ys: "ys = y # zs"
    using Cons.prems(1) y by (auto split: prod.splits)
  have ax: "reach h x \<subseteq> allocated h" using Cons.prems(2) by simp
  note e1 = copy_extends [OF y]
  have "reach h1 z \<subseteq> allocated h1" if "z \<in> set xs" for z
    using extended_allocated [OF _ e1] Cons.prems(2) that by simp
  from Cons.IH [OF zs this] have IH: "extends h1 g" "map (read g) zs = map (read h1) xs"
    "\<And>z. z \<in> set zs \<Longrightarrow> reach g z \<subseteq> {mem_next h1..<mem_next g}" by auto
  have same: "map (read h1) xs = map (read h) xs" using extended [OF _ e1] Cons.prems(2) by simp
  have fy: "reach h1 y \<subseteq> {mem_next h..<mem_next h1}" by (rule copy_fresh [OF ax y])
  then have "reach h1 y \<subseteq> allocated h1" by auto
  note ey = extended [OF this IH(1)]
  have "read g y = read h x" using ey copy_reads [OF ax y] by simp
  moreover have "reach g y \<subseteq> {mem_next h..<mem_next g}" using ey fy IH(1) by (auto simp: extends_def)
  moreover have "reach g z \<subseteq> {mem_next h..<mem_next g}" if "z \<in> set zs" for z
    using IH(3) [OF that] e1 by (auto simp: extends_def)
  ultimately show ?case using extends_trans [OF e1 IH(1)] IH(2) same ys by auto
qed simp

lemma copy_all_extends: "copy_all copy h xs = (ys, g) \<Longrightarrow> extends h g"
proof (induction xs arbitrary: h ys)
  case (Cons x xs)
  then show ?case by (auto split: prod.splits intro: extends_trans [OF copy_extends])
qed simp

lemma copy_slice_copies:
  assumes "copy_slice mk un copy h (Some a) = (t, g)" and "reach_slice un reach h (Some a) \<subseteq> allocated h"
  shows "read_slice un read g t = read_slice un read h (Some a) \<and> reach_slice un reach g t \<subseteq> {mem_next h..<mem_next g}"
proof -
  obtain b h1 where b: "reserve h = (b, h1)" by fastforce
  note rs = extends_reserve [OF b]
  obtain ys h2 where ys: "copy_all copy h1 (un (mem_cells h1 a)) = (ys, h2)" by fastforce
  from assms(1) b ys have t: "t = Some b" and g: "g = store h2 b (mk ys)" by (simp_all add: copy_slice_def)
  have el: "x \<in> set (un (mem_cells h1 a)) \<Longrightarrow> reach h x \<subseteq> allocated h" for x
    using assms(2) rs by (auto simp: reach_slice_def)
  have "x \<in> set (un (mem_cells h1 a)) \<Longrightarrow> reach h1 x \<subseteq> allocated h1" for x
    using extended_allocated [OF el] rs by blast
  note cp = copy_all_copies [OF ys this]
  have same: "read g y = read h2 y \<and> reach g y = reach h2 y" if "y \<in> set ys" for y
  proof (rule read_frame)
    fix a
    assume "a \<in> reach h2 y"
    with cp that have "a \<in> {mem_next h1..<mem_next h2}" by blast
    with rs show "mem_cells g a = mem_cells h2 a" by (simp add: g)
  qed
  have "map (read g) ys = map (read h2) ys" by (rule map_cong [OF refl]) (simp add: same)
  also have "\<dots> = map (read h1) (un (mem_cells h1 a))" using cp by blast
  also have "\<dots> = map (read h) (un (mem_cells h1 a))"
    using extended [OF el, where g = h1] rs by (intro map_cong [OF refl]) blast
  finally have "read_slice un read g t = read_slice un read h (Some a)" using rs by (simp add: read_slice_def t g un_mk)
  moreover have "reach g y \<subseteq> {mem_next h..<mem_next g}" if "y \<in> set ys" for y
  proof -
    from cp that have "reach h2 y \<subseteq> {mem_next h1..<mem_next h2}" by blast
    with same [OF that] rs show ?thesis by (simp add: g subset_iff) (meson Suc_leD)
  qed
  moreover have "mem_next h1 \<le> mem_next h2" using cp by (simp add: extends_def)
  ultimately show ?thesis using rs by (auto simp: reach_slice_def t g un_mk)
qed

end

sublocale slice_copy \<subseteq> slice: deep_copy "copy_slice mk un copy" "read_slice un read" "reach_slice un reach"
proof (rule deep_copy.intro)
  fix h g :: "'m memory" and s t
  assume c: "copy_slice mk un copy h s = (t, g)"
  show "extends h g"
  proof (cases s)
    case (Some a)
    with c show ?thesis
      by (auto simp: copy_slice_def reserve_def extends_def split: prod.splits dest!: copy_all_extends)
  qed (use c in \<open>simp add: copy_slice_def\<close>)
  assume "reach_slice un reach h s \<subseteq> allocated h"
  with c have "read_slice un read g t = read_slice un read h s \<and> reach_slice un reach g t \<subseteq> {mem_next h..<mem_next g}"
    by (cases s) (simp add: copy_slice_def read_slice_def reach_slice_def, metis copy_slice_copies)
  then show "read_slice un read g t = read_slice un read h s" "reach_slice un reach g t \<subseteq> {mem_next h..<mem_next g}"
    by blast+
next
  fix h g :: "'m memory" and s
  assume w: "\<And>a. a \<in> reach_slice un reach h s \<Longrightarrow> mem_cells g a = mem_cells h a"
  show "read_slice un read g s = read_slice un read h s \<and> reach_slice un reach g s = reach_slice un reach h s"
  proof (cases s)
    case (Some a)
    with w have "mem_cells g a = mem_cells h a" by (simp add: reach_slice_def)
    moreover have "read g x = read h x \<and> reach g x = reach h x" if "x \<in> set (un (mem_cells h a))" for x
      using that Some by (intro read_frame w) (auto simp: reach_slice_def)
    ultimately show ?thesis using Some by (simp add: read_slice_def reach_slice_def)
  qed (simp add: read_slice_def reach_slice_def)
qed

context slice_copy
begin

lemma deep_copy_slice: "deep_copy (copy_slice mk un copy) (read_slice un read) (reach_slice un reach)"
  by (rule slice.deep_copy_axioms)

end

lemma slice_copy_of:
  assumes "deep_copy copy read reach" and "\<And>xs. un (mk xs) = xs"
  shows "deep_copy (copy_slice mk un copy) (read_slice un read) (reach_slice un reach)"
  by (rule slice_copy.deep_copy_slice) (simp add: slice_copy_def slice_copy_axioms_def assms)

section \<open>Pointers\<close>

text \<open>\<open>DeepCopy\<close>: nil stays nil, otherwise a new struct is filled by \<open>DeepCopyInto\<close>.\<close>

definition copy_pointer :: "('m memory \<Rightarrow> 'a \<Rightarrow> 'a \<times> 'm memory) \<Rightarrow> 'm memory \<Rightarrow> 'a option \<Rightarrow> 'a option \<times> 'm memory" where
  "copy_pointer into h p = (case p of None \<Rightarrow> (None, h) | Some x \<Rightarrow> (case into h x of (y, g) \<Rightarrow> (Some y, g)))"

lemma copy_pointer_Some [simp]: "copy_pointer into h (Some x) = (q, g) \<longleftrightarrow> (\<exists>y. q = Some y \<and> into h x = (y, g))"
  by (auto simp: copy_pointer_def split: prod.splits)

lemma copy_pointer_None [simp]: "copy_pointer into h None = (None, h)"
  by (simp add: copy_pointer_def)

context deep_copy
begin

text \<open>The copy reads the same, shares no array with the original, and neither is changed by writes through the other.\<close>

lemma pointer_isolated:
  assumes a: "reach h x \<subseteq> allocated h" and c: "copy_pointer copy h (Some x) = (Some y, g)"
  shows "read g y = read h x \<and> reach g y \<inter> reach g x = {} \<and>
    (\<forall>k. (\<forall>a. a \<notin> reach g y \<longrightarrow> mem_cells k a = mem_cells g a) \<longrightarrow> read k x = read h x) \<and>
    (\<forall>k. (\<forall>a. a \<notin> reach g x \<longrightarrow> mem_cells k a = mem_cells g a) \<longrightarrow> read k y = read h x)"
proof -
  from c have c: "copy h x = (y, g)" by simp
  note same = extended [OF a copy_extends [OF c]]
  note new = copy_fresh [OF a c] copy_reads [OF a c]
  have apart: "reach g y \<inter> reach g x = {}" using new(1) a same by (fastforce simp: subset_iff disjoint_iff)
  have "read k x = read h x" if "\<forall>a. a \<notin> reach g y \<longrightarrow> mem_cells k a = mem_cells g a" for k
    using that apart same by (metis disjoint_iff read_frame)
  moreover have "read k y = read h x" if "\<forall>a. a \<notin> reach g x \<longrightarrow> mem_cells k a = mem_cells g a" for k
    using that apart new(2) by (metis disjoint_iff read_frame)
  ultimately show ?thesis using apart new(2) by blast
qed

end

end
