(* ===== verification/ApiCopy.thy ===== *)
theory ApiCopy
  imports DeepCopy
begin

text \<open>
  The generated deep copies (\<open>apis/topolvm/v2/zz_generated.deepcopy.go\<close>, \<open>apis/rawdevice/v1/zz_generated.deepcopy.go\<close>):
  every \<open>DeepCopyInto\<close>, with the value a struct stands for, the arrays it is made of, and the proof that it
  keeps the contract of \<open>DeepCopy.deep_copy\<close>.
\<close>

section \<open>Structs without slices\<close>

definition DeepCopyInto_DeviceState :: "'m memory \<Rightarrow> device_state \<Rightarrow> device_state \<times> 'm memory" where
  "DeepCopyInto_DeviceState h x = (x, h)"

definition DeepCopyInto_Disk :: "'m memory \<Rightarrow> disk \<Rightarrow> disk \<times> 'm memory" where
  "DeepCopyInto_Disk h x = (x, h)"

definition DeepCopyInto_LoopState :: "'m memory \<Rightarrow> loop_state \<Rightarrow> loop_state \<times> 'm memory" where
  "DeepCopyInto_LoopState h x = (x, h)"

definition DeepCopyInto_RawDeviceSpec :: "'m memory \<Rightarrow> rawdevice_spec_struct \<Rightarrow> rawdevice_spec_struct \<times> 'm memory" where
  "DeepCopyInto_RawDeviceSpec h x = (x, h)"

definition DeepCopyInto_RawDeviceStatus :: "'m memory \<Rightarrow> string \<Rightarrow> string \<times> 'm memory" where
  "DeepCopyInto_RawDeviceStatus h x = (x, h)"

interpretation DeviceState: deep_copy DeepCopyInto_DeviceState "\<lambda>h x. x" "\<lambda>h x. {}"
  by unfold_locales (simp_all add: DeepCopyInto_DeviceState_def)

interpretation Disk: deep_copy DeepCopyInto_Disk "\<lambda>h x. x" "\<lambda>h x. {}"
  by unfold_locales (simp_all add: DeepCopyInto_Disk_def)

interpretation LoopState: deep_copy DeepCopyInto_LoopState "\<lambda>h x. x" "\<lambda>h x. {}"
  by unfold_locales (simp_all add: DeepCopyInto_LoopState_def)

section \<open>Structs with slices\<close>

definition class_value where
  "class_value x u =
     \<lparr>k_name = k_name x, k_vg_name = k_vg_name x, k_state = k_state x, k_message = k_message x, k_device_states = u\<rparr>"

definition DeepCopyInto_ClassState :: "'m memory \<Rightarrow> slice class_struct \<Rightarrow> slice class_struct \<times> 'm memory" where
  "DeepCopyInto_ClassState h x =
     (case copy_slice DeviceStates device_states DeepCopyInto_DeviceState h (k_device_states x) of (s, h1) \<Rightarrow>
      (x\<lparr>k_device_states := s\<rparr>, h1))"

definition read_ClassState :: "'m memory \<Rightarrow> slice class_struct \<Rightarrow> device_state list option class_struct" where
  "read_ClassState h x = class_value x (read_slice device_states (\<lambda>h x. x) h (k_device_states x))"

definition reach_ClassState :: "'m memory \<Rightarrow> slice class_struct \<Rightarrow> addr set" where
  "reach_ClassState h x = reach_slice device_states (\<lambda>h x. {}) h (k_device_states x)"

interpretation ClassState: deep_copy DeepCopyInto_ClassState read_ClassState reach_ClassState
  unfolding DeepCopyInto_ClassState_def [abs_def] read_ClassState_def [abs_def] reach_ClassState_def [abs_def]
  by (rule deep_copy_struct [OF slice_copy_of [OF DeviceState.deep_copy_axioms],
        where put = "\<lambda>s x. x\<lparr>k_device_states := s\<rparr>"]) (simp_all add: class_value_def fun_eq_iff)

definition device_class_value where
  "device_class_value x u =
     \<lparr>d_class_name = d_class_name x, d_vg_name = d_vg_name x, d_device = u, d_default = d_default x, d_spare_gb = d_spare_gb x, d_stripe = d_stripe x, d_stripe_size = d_stripe_size x\<rparr>"

definition DeepCopyInto_DeviceClass :: "'m memory \<Rightarrow> slice device_class_struct \<Rightarrow> slice device_class_struct \<times> 'm memory" where
  "DeepCopyInto_DeviceClass h x =
     (case copy_slice Disks disks DeepCopyInto_Disk h (d_device x) of (s, h1) \<Rightarrow>
      (x\<lparr>d_device := s\<rparr>, h1))"

definition read_DeviceClass :: "'m memory \<Rightarrow> slice device_class_struct \<Rightarrow> disk list option device_class_struct" where
  "read_DeviceClass h x = device_class_value x (read_slice disks (\<lambda>h x. x) h (d_device x))"

definition reach_DeviceClass :: "'m memory \<Rightarrow> slice device_class_struct \<Rightarrow> addr set" where
  "reach_DeviceClass h x = reach_slice disks (\<lambda>h x. {}) h (d_device x)"

interpretation DeviceClass: deep_copy DeepCopyInto_DeviceClass read_DeviceClass reach_DeviceClass
  unfolding DeepCopyInto_DeviceClass_def [abs_def] read_DeviceClass_def [abs_def] reach_DeviceClass_def [abs_def]
  by (rule deep_copy_struct [OF slice_copy_of [OF Disk.deep_copy_axioms],
        where put = "\<lambda>s x. x\<lparr>d_device := s\<rparr>"]) (simp_all add: device_class_value_def fun_eq_iff)

definition node_devices_value where
  "node_devices_value x u =
     \<lparr>v_node_name = v_node_name x, v_device_classes = u\<rparr>"

definition DeepCopyInto_NodeDevices :: "'m memory \<Rightarrow> slice node_devices_struct \<Rightarrow> slice node_devices_struct \<times> 'm memory" where
  "DeepCopyInto_NodeDevices h x =
     (case copy_slice DeviceClasses device_classes DeepCopyInto_DeviceClass h (v_device_classes x) of (s, h1) \<Rightarrow>
      (x\<lparr>v_device_classes := s\<rparr>, h1))"

definition read_NodeDevices :: "'m memory \<Rightarrow> slice node_devices_struct \<Rightarrow> disk list option device_class_struct list option node_devices_struct" where
  "read_NodeDevices h x = node_devices_value x (read_slice device_classes read_DeviceClass h (v_device_classes x))"

definition reach_NodeDevices :: "'m memory \<Rightarrow> slice node_devices_struct \<Rightarrow> addr set" where
  "reach_NodeDevices h x = reach_slice device_classes reach_DeviceClass h (v_device_classes x)"

interpretation NodeDevices: deep_copy DeepCopyInto_NodeDevices read_NodeDevices reach_NodeDevices
  unfolding DeepCopyInto_NodeDevices_def [abs_def] read_NodeDevices_def [abs_def] reach_NodeDevices_def [abs_def]
  by (rule deep_copy_struct [OF slice_copy_of [OF DeviceClass.deep_copy_axioms],
        where put = "\<lambda>s x. x\<lparr>v_device_classes := s\<rparr>"]) (simp_all add: node_devices_value_def fun_eq_iff)

definition node_value where
  "node_value x u v w =
     \<lparr>n_node = n_node x, n_phase = n_phase x, n_fail_classes = u, n_success_classes = v, n_loops = w\<rparr>"

definition DeepCopyInto_NodeStorageState :: "'m memory \<Rightarrow> (slice, slice) node_struct \<Rightarrow> (slice, slice) node_struct \<times> 'm memory" where
  "DeepCopyInto_NodeStorageState h x =
     (case copy_slice ClassStates class_states DeepCopyInto_ClassState h (n_fail_classes x) of (s, h1) \<Rightarrow>
      case copy_slice ClassStates class_states DeepCopyInto_ClassState h1 (n_success_classes x) of (t, h2) \<Rightarrow>
      case copy_slice LoopStates loop_states DeepCopyInto_LoopState h2 (n_loops x) of (l, h3) \<Rightarrow>
      (x\<lparr>n_fail_classes := s, n_success_classes := t, n_loops := l\<rparr>, h3))"

definition read_NodeStorageState :: "'m memory \<Rightarrow> (slice, slice) node_struct \<Rightarrow> (device_state list option class_struct list option, loop_state list option) node_struct" where
  "read_NodeStorageState h x = node_value x (read_slice class_states read_ClassState h (n_fail_classes x)) (read_slice class_states read_ClassState h (n_success_classes x)) (read_slice loop_states (\<lambda>h x. x) h (n_loops x))"

definition reach_NodeStorageState :: "'m memory \<Rightarrow> (slice, slice) node_struct \<Rightarrow> addr set" where
  "reach_NodeStorageState h x = reach_slice class_states reach_ClassState h (n_fail_classes x) \<union> reach_slice class_states reach_ClassState h (n_success_classes x) \<union> reach_slice loop_states (\<lambda>h x. {}) h (n_loops x)"

interpretation NodeStorageState: deep_copy DeepCopyInto_NodeStorageState read_NodeStorageState reach_NodeStorageState
  unfolding DeepCopyInto_NodeStorageState_def [abs_def] read_NodeStorageState_def [abs_def] reach_NodeStorageState_def [abs_def]
  by (rule deep_copy_struct3 [OF slice_copy_of [OF ClassState.deep_copy_axioms] slice_copy_of [OF ClassState.deep_copy_axioms] slice_copy_of [OF LoopState.deep_copy_axioms],
        where put = "\<lambda>s t l x. x\<lparr>n_fail_classes := s, n_success_classes := t, n_loops := l\<rparr>"]) (simp_all add: node_value_def fun_eq_iff)

definition storage_value where
  "storage_value x u v =
     \<lparr>t_device_classes = u, t_use_all_nodes = t_use_all_nodes x, t_use_all_devices = t_use_all_devices x, t_devices = v, t_volume_group_name = t_volume_group_name x, t_class_name = t_class_name x, t_use_loop = t_use_loop x\<rparr>"

definition DeepCopyInto_Storage :: "'m memory \<Rightarrow> (slice, slice) storage_struct \<Rightarrow> (slice, slice) storage_struct \<times> 'm memory" where
  "DeepCopyInto_Storage h x =
     (case copy_slice NodeDevicesOf node_devices_of DeepCopyInto_NodeDevices h (t_device_classes x) of (s, h1) \<Rightarrow>
      case copy_slice Disks disks DeepCopyInto_Disk h1 (t_devices x) of (t, h2) \<Rightarrow>
      (x\<lparr>t_device_classes := s, t_devices := t\<rparr>, h2))"

definition read_Storage :: "'m memory \<Rightarrow> (slice, slice) storage_struct \<Rightarrow> (disk list option device_class_struct list option node_devices_struct list option, disk list option) storage_struct" where
  "read_Storage h x = storage_value x (read_slice node_devices_of read_NodeDevices h (t_device_classes x)) (read_slice disks (\<lambda>h x. x) h (t_devices x))"

definition reach_Storage :: "'m memory \<Rightarrow> (slice, slice) storage_struct \<Rightarrow> addr set" where
  "reach_Storage h x = reach_slice node_devices_of reach_NodeDevices h (t_device_classes x) \<union> reach_slice disks (\<lambda>h x. {}) h (t_devices x)"

interpretation Storage: deep_copy DeepCopyInto_Storage read_Storage reach_Storage
  unfolding DeepCopyInto_Storage_def [abs_def] read_Storage_def [abs_def] reach_Storage_def [abs_def]
  by (rule deep_copy_struct2 [OF slice_copy_of [OF NodeDevices.deep_copy_axioms] slice_copy_of [OF Disk.deep_copy_axioms],
        where put = "\<lambda>s t x. x\<lparr>t_device_classes := s, t_devices := t\<rparr>"]) (simp_all add: storage_value_def fun_eq_iff)

definition status_value where
  "status_value x u =
     \<lparr>s_phase = s_phase x, s_nodes = u\<rparr>"

definition DeepCopyInto_TopolvmClusterStatus :: "'m memory \<Rightarrow> slice status_struct \<Rightarrow> slice status_struct \<times> 'm memory" where
  "DeepCopyInto_TopolvmClusterStatus h x =
     (case copy_slice NodeStates node_states DeepCopyInto_NodeStorageState h (s_nodes x) of (s, h1) \<Rightarrow>
      (x\<lparr>s_nodes := s\<rparr>, h1))"

definition read_TopolvmClusterStatus :: "'m memory \<Rightarrow> slice status_struct \<Rightarrow> (device_state list option class_struct list option, loop_state list option) node_struct list option status_struct" where
  "read_TopolvmClusterStatus h x = status_value x (read_slice node_states read_NodeStorageState h (s_nodes x))"

definition reach_TopolvmClusterStatus :: "'m memory \<Rightarrow> slice status_struct \<Rightarrow> addr set" where
  "reach_TopolvmClusterStatus h x = reach_slice node_states reach_NodeStorageState h (s_nodes x)"

interpretation TopolvmClusterStatus: deep_copy DeepCopyInto_TopolvmClusterStatus read_TopolvmClusterStatus reach_TopolvmClusterStatus
  unfolding DeepCopyInto_TopolvmClusterStatus_def [abs_def] read_TopolvmClusterStatus_def [abs_def] reach_TopolvmClusterStatus_def [abs_def]
  by (rule deep_copy_struct [OF slice_copy_of [OF NodeStorageState.deep_copy_axioms],
        where put = "\<lambda>s x. x\<lparr>s_nodes := s\<rparr>"]) (simp_all add: status_value_def fun_eq_iff)

section \<open>TopolvmCluster\<close>

type_synonym spec_mem = "(slice, slice) storage_struct spec_struct"

type_synonym storage_val =
  "(disk list option device_class_struct list option node_devices_struct list option, disk list option) storage_struct"

type_synonym status_val =
  "(device_state list option class_struct list option, loop_state list option) node_struct list option status_struct"

definition spec_value where
  "spec_value x v =
     \<lparr>p_topolvm_version = p_topolvm_version x, p_certs_secret = p_certs_secret x, p_storage = v, p_clean_up = p_clean_up x\<rparr>"

definition DeepCopyInto_TopolvmClusterSpec :: "'m memory \<Rightarrow> spec_mem \<Rightarrow> spec_mem \<times> 'm memory" where
  "DeepCopyInto_TopolvmClusterSpec h x =
     (case DeepCopyInto_Storage h (p_storage x) of (s, h1) \<Rightarrow> (x\<lparr>p_storage := s\<rparr>, h1))"

definition read_TopolvmClusterSpec :: "'m memory \<Rightarrow> spec_mem \<Rightarrow> storage_val spec_struct" where
  "read_TopolvmClusterSpec h x = spec_value x (read_Storage h (p_storage x))"

definition reach_TopolvmClusterSpec :: "'m memory \<Rightarrow> spec_mem \<Rightarrow> addr set" where
  "reach_TopolvmClusterSpec h x = reach_Storage h (p_storage x)"

interpretation TopolvmClusterSpec: deep_copy DeepCopyInto_TopolvmClusterSpec read_TopolvmClusterSpec reach_TopolvmClusterSpec
  unfolding DeepCopyInto_TopolvmClusterSpec_def [abs_def] read_TopolvmClusterSpec_def [abs_def] reach_TopolvmClusterSpec_def [abs_def]
  by (rule deep_copy_struct [OF Storage.deep_copy_axioms, where put = "\<lambda>s x. x\<lparr>p_storage := s\<rparr>"])
    (simp_all add: spec_value_def fun_eq_iff)

definition cluster_value where
  "cluster_value x m v w = \<lparr>c_type_meta = c_type_meta x, c_meta = m, c_spec = v, c_status = w\<rparr>"

definition DeepCopyInto_TopolvmCluster ::
  "('m memory \<Rightarrow> 'm \<Rightarrow> 'm \<times> 'm memory) \<Rightarrow> 'm memory \<Rightarrow> 'm cluster_mem \<Rightarrow> 'm cluster_mem \<times> 'm memory" where
  "DeepCopyInto_TopolvmCluster copy_meta h x =
     (case copy_meta h (c_meta x) of (m, h1) \<Rightarrow>
      case DeepCopyInto_TopolvmClusterSpec h1 (c_spec x) of (s, h2) \<Rightarrow>
      case DeepCopyInto_TopolvmClusterStatus h2 (c_status x) of (t, h3) \<Rightarrow>
      (x\<lparr>c_meta := m, c_spec := s, c_status := t\<rparr>, h3))"

definition read_TopolvmCluster ::
  "('m memory \<Rightarrow> 'm \<Rightarrow> 'v) \<Rightarrow> 'm memory \<Rightarrow> 'm cluster_mem \<Rightarrow>
   ('v, storage_val, (device_state list option class_struct list option, loop_state list option) node_struct list option) cluster_struct" where
  "read_TopolvmCluster read_meta h x =
     cluster_value x (read_meta h (c_meta x)) (read_TopolvmClusterSpec h (c_spec x)) (read_TopolvmClusterStatus h (c_status x))"

definition reach_TopolvmCluster ::
  "('m memory \<Rightarrow> 'm \<Rightarrow> addr set) \<Rightarrow> 'm memory \<Rightarrow> 'm cluster_mem \<Rightarrow> addr set" where
  "reach_TopolvmCluster reach_meta h x =
     reach_meta h (c_meta x) \<union> reach_TopolvmClusterSpec h (c_spec x) \<union> reach_TopolvmClusterStatus h (c_status x)"

lemma deep_copy_TopolvmCluster:
  "deep_copy copy_meta read_meta reach_meta \<Longrightarrow>
   deep_copy (DeepCopyInto_TopolvmCluster copy_meta) (read_TopolvmCluster read_meta) (reach_TopolvmCluster reach_meta)"
  unfolding DeepCopyInto_TopolvmCluster_def [abs_def] read_TopolvmCluster_def [abs_def] reach_TopolvmCluster_def [abs_def]
  by (rule deep_copy_struct3 [OF _ TopolvmClusterSpec.deep_copy_axioms TopolvmClusterStatus.deep_copy_axioms,
        where put = "\<lambda>m s t x. x\<lparr>c_meta := m, c_spec := s, c_status := t\<rparr>"]) (simp_all add: cluster_value_def fun_eq_iff)

section \<open>RawDevice\<close>

definition raw_value where
  "raw_value x m = \<lparr>r_type_meta = r_type_meta x, r_meta = m, r_spec = r_spec x, r_status_name = r_status_name x\<rparr>"

definition DeepCopyInto_RawDevice ::
  "('m memory \<Rightarrow> 'm \<Rightarrow> 'm \<times> 'm memory) \<Rightarrow> 'm memory \<Rightarrow> 'm rawdevice_struct \<Rightarrow> 'm rawdevice_struct \<times> 'm memory" where
  "DeepCopyInto_RawDevice copy_meta h x =
     (case copy_meta h (r_meta x) of (m, h1) \<Rightarrow>
      (x\<lparr>r_meta := m, r_spec := r_spec x, r_status_name := r_status_name x\<rparr>, h1))"

definition read_RawDevice :: "('m memory \<Rightarrow> 'm \<Rightarrow> 'v) \<Rightarrow> 'm memory \<Rightarrow> 'm rawdevice_struct \<Rightarrow> 'v rawdevice_struct" where
  "read_RawDevice read_meta h x = raw_value x (read_meta h (r_meta x))"

definition reach_RawDevice :: "('m memory \<Rightarrow> 'm \<Rightarrow> addr set) \<Rightarrow> 'm memory \<Rightarrow> 'm rawdevice_struct \<Rightarrow> addr set" where
  "reach_RawDevice reach_meta h x = reach_meta h (r_meta x)"

lemma deep_copy_RawDevice:
  assumes "deep_copy copy_meta read_meta reach_meta"
  shows "deep_copy (DeepCopyInto_RawDevice copy_meta) (read_RawDevice read_meta) (reach_RawDevice reach_meta)"
proof -
  have "DeepCopyInto_RawDevice copy_meta = (\<lambda>h x. case copy_meta h (r_meta x) of (m, h1) \<Rightarrow> (x\<lparr>r_meta := m\<rparr>, h1))"
    by (simp add: DeepCopyInto_RawDevice_def fun_eq_iff split: prod.split)
  then show ?thesis
    unfolding read_RawDevice_def [abs_def] reach_RawDevice_def [abs_def]
    by (simp only:) (rule deep_copy_struct [OF assms, where put = "\<lambda>m x. x\<lparr>r_meta := m\<rparr>"], simp_all add: raw_value_def fun_eq_iff)
qed

section \<open>Lists\<close>

text \<open>A list of objects: the copy of its metadata (\<open>ListMeta\<close>) is an argument too.\<close>

definition list_value where
  "list_value x m v = \<lparr>l_type_meta = l_type_meta x, l_list_meta = m, l_items = v\<rparr>"

definition copy_list ::
  "('m memory \<Rightarrow> 'l \<Rightarrow> 'l \<times> 'm memory) \<Rightarrow> ('m memory \<Rightarrow> slice \<Rightarrow> slice \<times> 'm memory) \<Rightarrow>
   'm memory \<Rightarrow> ('l, slice) list_struct \<Rightarrow> ('l, slice) list_struct \<times> 'm memory" where
  "copy_list copy_list_meta copy_items h x =
     (case copy_list_meta h (l_list_meta x) of (m, h1) \<Rightarrow>
      case copy_items h1 (l_items x) of (s, h2) \<Rightarrow>
      (x\<lparr>l_list_meta := m, l_items := s\<rparr>, h2))"

definition read_list where
  "read_list read_list_meta read_items h x = list_value x (read_list_meta h (l_list_meta x)) (read_items h (l_items x))"

definition reach_list where
  "reach_list reach_list_meta reach_items h x = reach_list_meta h (l_list_meta x) \<union> reach_items h (l_items x)"

lemma deep_copy_list:
  "deep_copy cl rl kl \<Longrightarrow> deep_copy ci ri ki \<Longrightarrow> deep_copy (copy_list cl ci) (read_list rl ri) (reach_list kl ki)"
  unfolding copy_list_def [abs_def] read_list_def [abs_def] reach_list_def [abs_def]
  by (rule deep_copy_struct2 [where put = "\<lambda>m s x. x\<lparr>l_list_meta := m, l_items := s\<rparr>"]) (simp_all add: list_value_def fun_eq_iff)

definition DeepCopyInto_TopolvmClusterList where
  "DeepCopyInto_TopolvmClusterList copy_meta copy_list_meta =
     copy_list copy_list_meta (copy_slice Clusters clusters (DeepCopyInto_TopolvmCluster copy_meta))"

definition DeepCopyInto_RawDeviceList where
  "DeepCopyInto_RawDeviceList copy_meta copy_list_meta =
     copy_list copy_list_meta (copy_slice RawDevices raw_devices (DeepCopyInto_RawDevice copy_meta))"

lemma deep_copy_TopolvmClusterList:
  assumes "deep_copy cm rm km" and "deep_copy cl rl kl"
  shows "deep_copy (DeepCopyInto_TopolvmClusterList cm cl)
    (read_list rl (read_slice clusters (read_TopolvmCluster rm))) (reach_list kl (reach_slice clusters (reach_TopolvmCluster km)))"
  unfolding DeepCopyInto_TopolvmClusterList_def
  by (intro deep_copy_list slice_copy_of deep_copy_TopolvmCluster assms) simp

lemma deep_copy_RawDeviceList:
  assumes "deep_copy cm rm km" and "deep_copy cl rl kl"
  shows "deep_copy (DeepCopyInto_RawDeviceList cm cl)
    (read_list rl (read_slice raw_devices (read_RawDevice rm))) (reach_list kl (reach_slice raw_devices (reach_RawDevice km)))"
  unfolding DeepCopyInto_RawDeviceList_def
  by (intro deep_copy_list slice_copy_of deep_copy_RawDevice assms) simp

section \<open>DeepCopy and DeepCopyObject\<close>

definition DeepCopy_DeviceState where "DeepCopy_DeviceState = copy_pointer DeepCopyInto_DeviceState"

definition DeepCopy_Disk where "DeepCopy_Disk = copy_pointer DeepCopyInto_Disk"

definition DeepCopy_LoopState where "DeepCopy_LoopState = copy_pointer DeepCopyInto_LoopState"

definition DeepCopy_RawDeviceSpec where "DeepCopy_RawDeviceSpec = copy_pointer DeepCopyInto_RawDeviceSpec"

definition DeepCopy_RawDeviceStatus where "DeepCopy_RawDeviceStatus = copy_pointer DeepCopyInto_RawDeviceStatus"

definition DeepCopy_ClassState where "DeepCopy_ClassState = copy_pointer DeepCopyInto_ClassState"

definition DeepCopy_DeviceClass where "DeepCopy_DeviceClass = copy_pointer DeepCopyInto_DeviceClass"

definition DeepCopy_NodeDevices where "DeepCopy_NodeDevices = copy_pointer DeepCopyInto_NodeDevices"

definition DeepCopy_NodeStorageState where "DeepCopy_NodeStorageState = copy_pointer DeepCopyInto_NodeStorageState"

definition DeepCopy_Storage where "DeepCopy_Storage = copy_pointer DeepCopyInto_Storage"

definition DeepCopy_TopolvmClusterSpec where "DeepCopy_TopolvmClusterSpec = copy_pointer DeepCopyInto_TopolvmClusterSpec"

definition DeepCopy_TopolvmClusterStatus where "DeepCopy_TopolvmClusterStatus = copy_pointer DeepCopyInto_TopolvmClusterStatus"

definition DeepCopy_TopolvmCluster where "DeepCopy_TopolvmCluster copy_meta = copy_pointer (DeepCopyInto_TopolvmCluster copy_meta)"

definition DeepCopy_TopolvmClusterList where
  "DeepCopy_TopolvmClusterList copy_meta copy_list_meta = copy_pointer (DeepCopyInto_TopolvmClusterList copy_meta copy_list_meta)"

definition DeepCopy_RawDevice where "DeepCopy_RawDevice copy_meta = copy_pointer (DeepCopyInto_RawDevice copy_meta)"

definition DeepCopy_RawDeviceList where
  "DeepCopy_RawDeviceList copy_meta copy_list_meta = copy_pointer (DeepCopyInto_RawDeviceList copy_meta copy_list_meta)"

text \<open>
  \<open>runtime.Object\<close>, the interface the API machinery copies through; nil is \<open>None\<close>.  A nil pointer must come back as
  the nil interface and not as an interface that holds a nil pointer, which is why the code tests \<open>c != nil\<close>.
\<close>

datatype ('m, 'l) runtime_object =
    ClusterObject "'m cluster_mem"
  | ClusterListObject "('l, slice) list_struct"
  | RawDeviceObject "'m rawdevice_struct"
  | RawDeviceListObject "('l, slice) list_struct"

definition DeepCopyObject_TopolvmCluster where
  "DeepCopyObject_TopolvmCluster copy_meta h p =
     (case DeepCopy_TopolvmCluster copy_meta h p of
        (Some c, g) \<Rightarrow> (Some (ClusterObject c), g)
      | (None, g) \<Rightarrow> (None, g))"

definition DeepCopyObject_TopolvmClusterList where
  "DeepCopyObject_TopolvmClusterList copy_meta copy_list_meta h p =
     (case DeepCopy_TopolvmClusterList copy_meta copy_list_meta h p of
        (Some c, g) \<Rightarrow> (Some (ClusterListObject c), g)
      | (None, g) \<Rightarrow> (None, g))"

definition DeepCopyObject_RawDevice where
  "DeepCopyObject_RawDevice copy_meta h p =
     (case DeepCopy_RawDevice copy_meta h p of
        (Some c, g) \<Rightarrow> (Some (RawDeviceObject c), g)
      | (None, g) \<Rightarrow> (None, g))"

definition DeepCopyObject_RawDeviceList where
  "DeepCopyObject_RawDeviceList copy_meta copy_list_meta h p =
     (case DeepCopy_RawDeviceList copy_meta copy_list_meta h p of
        (Some c, g) \<Rightarrow> (Some (RawDeviceListObject c), g)
      | (None, g) \<Rightarrow> (None, g))"

section \<open>Copies are isolated\<close>

text \<open>
  C27: A \<open>TopolvmCluster\<close> that was copied (the controller keeps such a copy, the monitor fills the status of one) reads as
  the original did, shares no array with it, and writing through either of the two leaves the other as it was.
  The metadata's own copy is assumed to be a deep one.
\<close>

theorem cluster_copy_isolated:
  assumes "deep_copy copy_meta read_meta reach_meta"
    and "reach_TopolvmCluster reach_meta h c \<subseteq> allocated h"
    and "DeepCopy_TopolvmCluster copy_meta h (Some c) = (Some d, g)"
  shows "read_TopolvmCluster read_meta g d = read_TopolvmCluster read_meta h c \<and>
    reach_TopolvmCluster reach_meta g d \<inter> reach_TopolvmCluster reach_meta g c = {} \<and>
    (\<forall>k. (\<forall>a. a \<notin> reach_TopolvmCluster reach_meta g d \<longrightarrow> mem_cells k a = mem_cells g a) \<longrightarrow>
      read_TopolvmCluster read_meta k c = read_TopolvmCluster read_meta h c) \<and>
    (\<forall>k. (\<forall>a. a \<notin> reach_TopolvmCluster reach_meta g c \<longrightarrow> mem_cells k a = mem_cells g a) \<longrightarrow>
      read_TopolvmCluster read_meta k d = read_TopolvmCluster read_meta h c)"
  by (rule deep_copy.pointer_isolated [OF deep_copy_TopolvmCluster [OF assms(1)] assms(2)])
    (use assms(3) in \<open>simp add: DeepCopy_TopolvmCluster_def\<close>)

text \<open>Metadata that is a slice of finalizers, and a cluster with one node, one class and one device.\<close>

abbreviation finalizers_copy :: "slice memory \<Rightarrow> slice \<Rightarrow> slice \<times> slice memory" where
  "finalizers_copy \<equiv> copy_slice Strings strings plain"

abbreviation finalizers_read :: "slice memory \<Rightarrow> slice \<Rightarrow> string list option" where
  "finalizers_read \<equiv> read_slice strings (\<lambda>h x. x)"

abbreviation finalizers_reach :: "slice memory \<Rightarrow> slice \<Rightarrow> addr set" where
  "finalizers_reach \<equiv> reach_slice strings (\<lambda>h x. {})"

definition small_memory :: "slice memory" where
  "small_memory = \<lparr>mem_cells = (\<lambda>_. Strings [])
     (1 := DeviceStates [\<lparr>ds_name = ''sdb'', ds_state = ''Online'', ds_message = []\<rparr>],
      2 := ClassStates [\<lparr>k_name = ''hdd'', k_vg_name = ''vg1'', k_state = ''Ready'', k_message = [], k_device_states = Some 1\<rparr>],
      3 := NodeStates [\<lparr>n_node = ''node1'', n_phase = ''Ready'', n_fail_classes = None, n_success_classes = Some 2, n_loops = None\<rparr>],
      4 := Strings [''topolvm'']),
     mem_next = 5\<rparr>"

definition small_cluster :: "slice cluster_mem" where
  "small_cluster = \<lparr>c_type_meta = (''TopolvmCluster'', ''topolvm.cybozu.com/v2''), c_meta = Some 4,
     c_spec = \<lparr>p_topolvm_version = [], p_certs_secret = [],
       p_storage = \<lparr>t_device_classes = None, t_use_all_nodes = True, t_use_all_devices = False, t_devices = None,
         t_volume_group_name = ''vg1'', t_class_name = ''hdd'', t_use_loop = False\<rparr>, p_clean_up = False\<rparr>,
     c_status = \<lparr>s_phase = ''Ready'', s_nodes = Some 3\<rparr>\<rparr>"

lemmas reach_defs = reach_TopolvmCluster_def reach_TopolvmClusterSpec_def reach_TopolvmClusterStatus_def reach_Storage_def
  reach_NodeStorageState_def reach_ClassState_def reach_slice_def

lemma cluster_copy_isolated_witness:
  "\<exists>d g. DeepCopy_TopolvmCluster finalizers_copy small_memory (Some small_cluster) = (Some d, g) \<and>
    reach_TopolvmCluster finalizers_reach g d \<inter> reach_TopolvmCluster finalizers_reach g small_cluster = {} \<and>
    read_TopolvmCluster finalizers_read g d = read_TopolvmCluster finalizers_read small_memory small_cluster"
proof -
  obtain d g where d: "DeepCopy_TopolvmCluster finalizers_copy small_memory (Some small_cluster) = (Some d, g)"
    by (simp add: DeepCopy_TopolvmCluster_def) (meson surj_pair)
  have r: "reach_TopolvmCluster finalizers_reach small_memory small_cluster \<subseteq> allocated small_memory"
    by (simp add: reach_defs small_memory_def small_cluster_def)
  show ?thesis
    using cluster_copy_isolated [OF slice_copy_of [OF deep_copy_plain] r d] d by auto
qed

end
