(* ===== verification/Waits.thy ===== *)
theory Waits
  imports K8sApi Discover_Props
begin

text \<open>
  The loops of the program that wait: for an object to be gone (\<open>deleteResourceAndWait\<close> and
  \<open>DeleteResource\<close> of \<open>k8sutil\<close>) and for the loop devices to be set up (\<open>retryLoopDevice\<close> of the
  discovery agent).  Each repeats one program with a pause in between; when it returns, and with what,
  is told by the outcomes of the rounds.
\<close>

section \<open>Rounds\<close>

text \<open>The world in which round \<open>k\<close> of \<open>m\<close> starts, with pauses of \<open>s\<close> seconds.\<close>

definition after_round :: "('e, 'a) prog \<Rightarrow> nat \<Rightarrow> 'e world \<Rightarrow> 'e world" where
  "after_round m s w = (snd (m w))\<lparr>w_trace := w_trace (snd (m w)) @ [Sleep s]\<rparr>"

fun round_world :: "('e, 'a) prog \<Rightarrow> nat \<Rightarrow> nat \<Rightarrow> 'e world \<Rightarrow> 'e world" where
  "round_world m s 0 w = w"
| "round_world m s (Suc k) w = round_world m s k (after_round m s w)"

definition round_outcome :: "('e, 'a) prog \<Rightarrow> nat \<Rightarrow> 'e world \<Rightarrow> nat \<Rightarrow> 'a outcome" where
  "round_outcome m s w k = fst (m (round_world m s k w))"

lemma round_outcome_simps [simp]:
  "round_outcome m s w 0 = fst (m w)"
  "round_outcome m s w (Suc k) = round_outcome m s (after_round m s w) k"
  by (simp_all add: round_outcome_def)

text \<open>A search for the first round splits off round 0.\<close>

lemma find_first_round:
  "find P [0..<Suc n] = (if P 0 then Some 0 else map_option Suc (find (\<lambda>k. P (Suc k)) [0..<n]))"
proof -
  have shift: "find P (map Suc ks) = map_option Suc (find (\<lambda>k. P (Suc k)) ks)" for ks
    by (induction ks) auto
  show ?thesis unfolding upt_conv_Cons [OF zero_less_Suc] map_Suc_upt [symmetric] by (simp add: shift)
qed

lemma pause_then: "bindM (emit (Sleep s)) (\<lambda>_. m) w = m (w\<lparr>w_trace := w_trace w @ [Sleep s]\<rparr>)"
  by (simp add: bindM_def emit_def)

section \<open>Waiting for a deletion\<close>

text \<open>The first look that does not find the object decides; without one, the caller gives up.\<close>

lemma wait_gone_rounds:
  assumes "no_panic g"
  shows "wait_gone n g name w =
    (case find (\<lambda>k. round_outcome g 2 w k \<noteq> Ok ()) [0..<n] of
       None \<Rightarrow> (Fail (Msg (''gave up waiting for '' @ name @ '' pods to be terminated'')), round_world g 2 n w)
     | Some k \<Rightarrow>
         (case g (round_world g 2 k w) of
            (Fail err, w') \<Rightarrow>
              (if is_not_found err then Ok () else Fail (Msg (''failed to get '' @ name @ ''. '' @ err_text err)), w')))"
proof (induction n arbitrary: w)
  case 0
  then show ?case by (simp add: failM_def)
next
  case (Suc n)
  obtain r w1 where g: "g w = (r, w1)" by fastforce
  show ?case
  proof (cases r)
    case (Ok u)
    then have "wait_gone (Suc n) g name w = wait_gone n g name (after_round g 2 w)"
      using g by (simp add: bindM_eqs(1) [OF attempt_eqs(1)] pause_then after_round_def)
    moreover have "round_outcome g 2 w 0 = Ok ()" using g Ok by simp
    ultimately show ?thesis unfolding Suc.IH find_first_round by (auto split: option.split)
  next
    case (Fail err)
    with g show ?thesis unfolding find_first_round
      by (simp add: bindM_eqs(1) [OF attempt_eqs(2)] ret_def failM_def)
  next
    case (Panic p)
    with g assms have False by (metis fst_conv is_panic_def no_panic_def outcome.simps(12))
    then show ?thesis ..
  qed
qed

text \<open>
  C22: A deletion waits for a bounded time and says truly what came of it.  After the object's deletion
  was accepted, \<open>deleteResourceAndWait\<close> looks at most 45 times, two seconds apart.  The first look that
  does not find the object there decides: the call succeeds when that look reports that the object does not
  exist, and fails with that look's error otherwise; it gives up when all 45 looks find the object.
\<close>

theorem deletion_wait_decided:
  assumes "deleteAction w = (Ok (), w0)" and "no_panic getAction"
  shows "deleteResourceAndWait name resourceType deleteAction getAction w =
    (case find (\<lambda>k. round_outcome getAction 2 w0 k \<noteq> Ok ()) [0..<45] of
       None \<Rightarrow> (Fail (Msg (''gave up waiting for '' @ name @ '' pods to be terminated'')),
                round_world getAction 2 45 w0)
     | Some k \<Rightarrow>
         (case getAction (round_world getAction 2 k w0) of
            (Fail err, w') \<Rightarrow>
              (if is_not_found err then Ok () else Fail (Msg (''failed to get '' @ name @ ''. '' @ err_text err)), w')))"
  using assms by (simp add: deleteResourceAndWait_def bindM_eqs(1) [OF attempt_eqs(1)] wait_gone_rounds
    del: wait_gone.simps)

text \<open>A pod set that is gone at the third look; the environment counts the looks.\<close>

definition third_look :: "(nat, unit) prog" where
  "third_look = external [] (\<lambda>e. (if e < 2 then Inr () else Inl (ApiNotFound ''ds''), Suc e))"

theorem deletion_wait_decided_witness:
  "deleteResourceAndWait ''ds'' ''daemonset'' (delete_obj \<lparr>ka_get = (\<lambda>n e. Inl (ApiNotFound n)), ka_create = (\<lambda>x e. (Inr x, e)),
       ka_update = (\<lambda>x e. (Inr (x :: unit), e)), ka_delete = (\<lambda>n e. (Inr (), e))\<rparr> ''ds'') third_look \<lparr>w_env = 0, w_trace = []\<rparr> =
     (Ok (), \<lparr>w_env = 3, w_trace = [ResourceDelete ''ds'', Sleep 2, Sleep 2]\<rparr>)"
proof -
  let ?d = "delete_obj \<lparr>ka_get = (\<lambda>n e. Inl (ApiNotFound n)), ka_create = (\<lambda>x e. (Inr x, e)),
       ka_update = (\<lambda>x e. (Inr (x :: unit), e)), ka_delete = (\<lambda>n e. (Inr (), e))\<rparr> ''ds''"
  have d: "?d \<lparr>w_env = 0 :: nat, w_trace = []\<rparr> = (Ok (), \<lparr>w_env = 0, w_trace = [ResourceDelete ''ds'']\<rparr>)"
    by (simp add: delete_obj_def external_def)
  have "no_panic third_look" unfolding third_look_def by (intro no_panic_intros)
  from deletion_wait_decided [where deleteAction = ?d and name = "''ds''", OF d this, of "''daemonset''"] show ?thesis
    by (simp add: find_first_round [of _ 44, simplified] find_first_round [of _ 43, simplified]
      find_first_round [of _ 42, simplified] third_look_def external_def after_round_def)
qed

section \<open>Waiting for the loop devices\<close>

text \<open>
  C38: The agent sets its loop devices up as soon as that succeeds, and does so once.  If the first attempts
  of \<open>retryLoopDevice\<close> fail and attempt \<open>k\<close> succeeds, it returns right after attempt \<open>k\<close>, whatever number
  of attempts beyond that it was given, and is still retrying if it was given no more than \<open>k\<close>.
\<close>

theorem loop_devices_retried_until_set_up:
  assumes "\<And>j. j < k \<Longrightarrow> \<exists>err. round_outcome (checkLoopDevice m) 5 w j = Fail err"
    and "round_outcome (checkLoopDevice m) 5 w k = Ok ()"
  shows "retryLoopDevice fuel m w =
    (if k < fuel then (Ok (Some ()), snd (checkLoopDevice m (round_world (checkLoopDevice m) 5 k w)))
     else (Ok None, round_world (checkLoopDevice m) 5 fuel w))"
  using assms
proof (induction fuel arbitrary: k w)
  case 0
  then show ?case by (simp add: ret_def)
next
  case (Suc fuel)
  obtain r w1 where c: "checkLoopDevice m w = (r, w1)" by fastforce
  show ?case
  proof (cases k)
    case 0
    with Suc.prems(2) c show ?thesis by (simp add: bindM_eqs(1) [OF attempt_eqs(1)] ret_def)
  next
    case (Suc k')
    with Suc.prems(1) [of 0] c obtain err where r: "r = Fail err" by auto
    have "retryLoopDevice (Suc fuel) m w = retryLoopDevice fuel m (after_round (checkLoopDevice m) 5 w)"
      using c r by (simp add: bindM_eqs(1) [OF attempt_eqs(2)] pause_then after_round_def)
    also have "\<dots> = (if k' < fuel then (Ok (Some ()), snd (checkLoopDevice m
          (round_world (checkLoopDevice m) 5 k' (after_round (checkLoopDevice m) 5 w))))
        else (Ok None, round_world (checkLoopDevice m) 5 fuel (after_round (checkLoopDevice m) 5 w)))"
    proof (rule Suc.IH)
      fix j assume "j < k'"
      with Suc.prems(1) [of "Suc j"] Suc show "\<exists>err. round_outcome (checkLoopDevice m) 5
          (after_round (checkLoopDevice m) 5 w) j = Fail err" by simp
    qed (use Suc.prems(2) Suc in simp)
    finally show ?thesis using Suc by simp
  qed
qed

text \<open>An agent whose first command fails: the loop device is set up at the second attempt.\<close>

definition second_try :: "nat manager" where
  "second_try =
     \<lparr>dm_os = (\<lambda>cmd args e. (if e = 0 then bad_result else bad_result\<lparr>pr_err := None\<rparr>, Suc e)),
      dm_device_env = no_sgdisk,
      dm_raw = \<lparr>ra_list = (\<lambda>e. Inr []), ra_get = (\<lambda>n e. (Inl (ApiNotFound n), e)), ra_create = (\<lambda>d e. (Inr (), e)),
        ra_update = (\<lambda>d e. (Inr (), e)), ra_update_status = (\<lambda>d e. (Inr (), e)), ra_delete = (\<lambda>n e. (Inr (), e))\<rparr>,
      dm_cm = \<lparr>ca_get = (\<lambda>ns n e. Inr \<lparr>cm_name = n, cm_namespace = ns, cm_labels = [], cm_annotations = [],
                 cm_data = Some [(VgStatusConfigMapKey, ''n1'')]\<rparr>), ca_list = (\<lambda>ns e. Inr []),
               ca_create = (\<lambda>c e. (Inr (), e)), ca_update = (\<lambda>c e. (Inr (), e)),
               ca_patch = (\<lambda>ns a b e. (Inr (), e)), ca_delete = (\<lambda>ns n e. (Inr (), e))\<rparr>,
      dm_codec = test_codec\<lparr>co_status_parse := (\<lambda>s. Inr (zero_node_storage_state\<lparr>nss_loops :=
        [\<lparr>ls_name = ''l'', ls_file = ''/data/l'', ls_device_name = ''/dev/loop0'', ls_status = LoopCreateSuccessful,
          ls_message = []\<rparr>]\<rparr>))\<rparr>,
      dm_hash = (\<lambda>s. s), dm_node_name = ''n1'', dm_namespace = ''ns'', dm_use_loop = True\<rparr>"

theorem loop_devices_retried_until_set_up_witness:
  "fst (retryLoopDevice 9 second_try \<lparr>w_env = 0, w_trace = []\<rparr>) = Ok (Some ())
   \<and> fst (retryLoopDevice 1 second_try \<lparr>w_env = 0, w_trace = []\<rparr>) = Ok None"
proof -
  have "round_outcome (checkLoopDevice second_try) 5 \<lparr>w_env = 0, w_trace = []\<rparr> 0
      = Fail (Msg ''some loop device resetup failed'')"
    and two: "round_outcome (checkLoopDevice second_try) 5 \<lparr>w_env = 0, w_trace = []\<rparr> 1 = Ok ()" by code_simp+
  then have "\<exists>err. round_outcome (checkLoopDevice second_try) 5 \<lparr>w_env = 0, w_trace = []\<rparr> j = Fail err"
    if "j < 1" for j using that by simp
  from loop_devices_retried_until_set_up [OF this two, of 9] loop_devices_retried_until_set_up [OF this two, of 1]
  show ?thesis by (simp del: retryLoopDevice.simps)
qed

end
