(* ===== verification/Exec.thy ===== *)
theory Exec
  imports World
begin

text \<open>
  The rest of \<open>pkg/util/exec\<close>: the runs with an environment, with a time limit and with an output file
  (\<open>exec.go\<close>), and the executor that rewrites every command before another one runs it
  (\<open>translate_exec.go\<close>).  Processes, signals and temporary files are arguments.  As in \<open>World\<close>, a call
  that returns its output beside an error has both as its value.
\<close>

section \<open>With an environment\<close>

text \<open>A process inherits the environment of its parent unless one that is not empty is given.\<close>

type_synonym 'e os_env = "string list option \<Rightarrow> 'e os"

definition startCommand :: "'e os_env \<Rightarrow> string list \<Rightarrow> string \<Rightarrow> string list \<Rightarrow> ('e, proc_result) prog" where
  "startCommand os env cmd args = run_process (os (if length env > 0 then Some env else None)) cmd args"

definition ExecuteCommandWithEnv :: "'e os_env \<Rightarrow> string list \<Rightarrow> string \<Rightarrow> string list \<Rightarrow> ('e, unit) prog" where
  "ExecuteCommandWithEnv os env cmd args =
     bindM (startCommand os env cmd args) (\<lambda>r. case pr_err r of None \<Rightarrow> ret () | Some err \<Rightarrow> failM err)"

section \<open>With a time limit\<close>

text \<open>
  \<open>ExecuteCommandWithTimeout\<close>: a loop around a \<open>select\<close>.  What can happen while it waits: the timer
  fires, which makes it send a signal whose delivery may fail, or the process ends.  The output is
  what the buffer holds at that moment.
\<close>

datatype wait_input =
    TimerFires (wi_output: string) (wi_signal_error: "go_error option")
  | ProcessEnds (wi_output: string) (wi_error: "go_error option")

datatype proc_signal = Interrupt | Kill

datatype wait_state = Awaiting bool | Returned "string \<times> go_error option"

fun wait_step :: "string \<Rightarrow> wait_state \<Rightarrow> wait_input \<Rightarrow> wait_state \<times> proc_signal list" where
  "wait_step command (Returned r) i = (Returned r, [])"
| "wait_step command (Awaiting interruptSent) (TimerFires b err) =
     (if interruptSent then
        (Returned (trim_space b, Some (Msg (case err of
             Some e \<Rightarrow> ''timeout waiting for the command '' @ command
                 @ '' to return after interrupt signal was sent. Tried to kill the process but that failed: '' @ err_text e
           | None \<Rightarrow> ''timeout waiting for the command '' @ command @ '' to return''))), [Kill])
      else (Awaiting True, [Interrupt]))"
| "wait_step command (Awaiting interruptSent) (ProcessEnds b err) =
     (Returned (trim_space b,
        case err of
          Some e \<Rightarrow> Some e
        | None \<Rightarrow> if interruptSent then Some (Msg (''timeout waiting for the command '' @ command @ '' to return''))
                  else None), [])"

fun wait_run :: "string \<Rightarrow> wait_state \<Rightarrow> wait_input list \<Rightarrow> wait_state \<times> proc_signal list" where
  "wait_run command s [] = (s, [])"
| "wait_run command s (i # is) =
     (case wait_step command s i of (s', sent) \<Rightarrow> case wait_run command s' is of (t, sent') \<Rightarrow> (t, sent @ sent'))"

text \<open>The whole call: a process that does not start returns at once.\<close>

definition ExecuteCommandWithTimeout ::
  "string \<Rightarrow> go_error option \<Rightarrow> wait_input list \<Rightarrow> wait_state \<times> proc_signal list" where
  "ExecuteCommandWithTimeout command start_error inputs =
     (case start_error of
        Some err \<Rightarrow> (Returned ([], Some err), [])
      | None \<Rightarrow> wait_run command (Awaiting False) inputs)"

section \<open>With an output file\<close>

text \<open>
  A temporary file, by its name; \<open>ReadAll\<close> returns what it read beside its error.  Its second closing and
  its removal are deferred, and their errors dropped.
\<close>

record 'e file_env =
  fe_temp :: "('e, string) call"
  fe_read :: "string \<Rightarrow> 'e \<Rightarrow> string \<times> go_error option"
  fe_close :: "string \<Rightarrow> 'e \<Rightarrow> go_error option"
  fe_remove :: "string \<Rightarrow> ('e, unit) call"

definition read_all :: "'e file_env \<Rightarrow> string \<Rightarrow> ('e, string \<times> go_error option) prog" where
  "read_all fs name = external [] (\<lambda>e. (Inr (fe_read fs name e), e))"

definition close_file :: "'e file_env \<Rightarrow> string \<Rightarrow> ('e, go_error option) prog" where
  "close_file fs name = external [] (\<lambda>e. (Inr (fe_close fs name e), e))"

definition remove_file :: "'e file_env \<Rightarrow> string \<Rightarrow> ('e, unit) prog" where
  "remove_file fs name = bindM (attempt (external [FsRemove name] (fe_remove fs name))) (\<lambda>_. ret ())"

text \<open>\<open>f\<close> runs with a temporary file, which is removed when \<open>f\<close> is done.\<close>

definition with_temp_file ::
  "'e file_env \<Rightarrow> (string \<Rightarrow> ('e, string \<times> go_error option) prog) \<Rightarrow> ('e, string \<times> go_error option) prog" where
  "with_temp_file fs f =
     bindM (attempt (external [] (fe_temp fs))) (\<lambda>r.
       case r of
         Inl err \<Rightarrow> ret ([], Some (Msg (''failed to open output file: '' @ err_text err)))
       | Inr name \<Rightarrow> bindM (f name) (\<lambda>res. bindM (remove_file fs name) (\<lambda>_. ret res)))"

definition file_contents :: "'e file_env \<Rightarrow> string \<Rightarrow> ('e, string \<times> go_error option) prog" where
  "file_contents fs name =
     bindM (read_all fs name) (\<lambda>(fileOut, err).
     bindM (close_file fs name) (\<lambda>closed.
       ret (case closed of Some e \<Rightarrow> ([], Some e) | None \<Rightarrow> (fileOut, err))))"

text \<open>\<open>CombinedOutput\<close> does not fill the error's \<open>Stderr\<close>, so \<open>assertErrorType\<close> adds the text of a failed start only.\<close>

definition ExecuteCommandWithOutputFile ::
  "'e os \<Rightarrow> 'e file_env \<Rightarrow> string \<Rightarrow> string \<Rightarrow> string list \<Rightarrow> ('e, string \<times> go_error option) prog" where
  "ExecuteCommandWithOutputFile os fs command outfileArg arg =
     with_temp_file fs (\<lambda>name.
       bindM (run_process os command (arg @ [outfileArg, name])) (\<lambda>r.
         case pr_err r of
           Some err \<Rightarrow> ret (pr_combined r @ ''. '' @ assertErrorType err [], Some err)
         | None \<Rightarrow> file_contents fs name))"

text \<open>With a deadline: the process is killed when it passes, which the context reports.\<close>

type_synonym 'e os_deadline = "string \<Rightarrow> string list \<Rightarrow> 'e \<Rightarrow> (proc_result \<times> bool) \<times> 'e"

definition ExecuteCommandWithOutputFileTimeout ::
  "'e os_deadline \<Rightarrow> 'e file_env \<Rightarrow> string \<Rightarrow> string \<Rightarrow> string list \<Rightarrow> ('e, string \<times> go_error option) prog" where
  "ExecuteCommandWithOutputFileTimeout os fs command outfileArg arg =
     with_temp_file fs (\<lambda>name.
       let args = arg @ [outfileArg, name] in
       bindM (external [RunCmd command args] (\<lambda>e. case os command args e of (r, e') \<Rightarrow> (Inr r, e'))) (\<lambda>(r, exceeded).
         if exceeded then ret (pr_combined r, Some (Msg ''context deadline exceeded''))
         else case pr_err r of
                Some err \<Rightarrow> ret (pr_combined r, Some err)
              | None \<Rightarrow> file_contents fs name))"

section \<open>Executors\<close>

text \<open>The interface \<open>Executor\<close>; a duration is passed on as it is.\<close>

record ('e, 'd) executor =
  ex_command :: "string \<Rightarrow> string list \<Rightarrow> ('e, unit) prog"
  ex_env :: "string list \<Rightarrow> string \<Rightarrow> string list \<Rightarrow> ('e, unit) prog"
  ex_output :: "string \<Rightarrow> string list \<Rightarrow> ('e, string \<times> go_error option) prog"
  ex_combined :: "string \<Rightarrow> string list \<Rightarrow> ('e, string \<times> go_error option) prog"
  ex_file :: "string \<Rightarrow> string \<Rightarrow> string list \<Rightarrow> ('e, string \<times> go_error option) prog"
  ex_file_timeout :: "'d \<Rightarrow> string \<Rightarrow> string \<Rightarrow> string list \<Rightarrow> ('e, string \<times> go_error option) prog"
  ex_timeout :: "'d \<Rightarrow> string \<Rightarrow> string list \<Rightarrow> ('e, string \<times> go_error option) prog"

type_synonym translator = "string \<Rightarrow> string list \<Rightarrow> string \<times> string list"

definition TranslateCommandExecutor :: "translator \<Rightarrow> ('e, 'd) executor \<Rightarrow> ('e, 'd) executor" where
  "TranslateCommandExecutor tr ex =
     \<lparr>ex_command = (\<lambda>c a. case tr c a of (c', a') \<Rightarrow> ex_command ex c' a'),
      ex_env = (\<lambda>env c a. case tr c a of (c', a') \<Rightarrow> ex_env ex env c' a'),
      ex_output = (\<lambda>c a. case tr c a of (c', a') \<Rightarrow> ex_output ex c' a'),
      ex_combined = (\<lambda>c a. case tr c a of (c', a') \<Rightarrow> ex_combined ex c' a'),
      ex_file = (\<lambda>c outfileArg a. case tr c a of (c', a') \<Rightarrow> ex_file ex c' outfileArg a'),
      ex_file_timeout = (\<lambda>d c outfileArg a. case tr c a of (c', a') \<Rightarrow> ex_file_timeout ex d c' outfileArg a'),
      ex_timeout = (\<lambda>d c a. case tr c a of (c', a') \<Rightarrow> ex_timeout ex d c' a')\<rparr>"

section \<open>What the runs do\<close>

lemma wait_run_returned [simp]: "wait_run c (Returned r) is = (Returned r, [])"
  by (induction "is") auto

text \<open>The first event decides unless it is a timer; the second one decides always.\<close>

lemma wait_run_two:
  "wait_run c (Awaiting False) (i # j # is) =
     (case i of
        ProcessEnds b err \<Rightarrow> (Returned (trim_space b, err), [])
      | TimerFires b e \<Rightarrow> (case wait_step c (Awaiting True) j of (s, sent) \<Rightarrow> (s, Interrupt # sent)))"
  by (cases i; cases j) (auto split: option.splits)

lemma remove_file_eq:
  "remove_file fs name w = (Ok (), w\<lparr>w_env := snd (fe_remove fs name (w_env w)), w_trace := w_trace w @ [FsRemove name]\<rparr>)"
  by (simp add: remove_file_def bindM_eqs(1) [OF attempt_external] ret_def)

text \<open>Whatever the call in between does, a temporary file that was opened is removed at the end.\<close>

lemma with_temp_file_trace:
  assumes "fe_temp fs (w_env w) = (Inr name, e1)"
    and "\<And>name w. \<exists>res w'. f name w = (Ok res, w') \<and> w_trace w' = w_trace w @ es name"
  shows "\<exists>res w'. with_temp_file fs f w = (Ok res, w') \<and> w_trace w' = w_trace w @ es name @ [FsRemove name]"
proof -
  from assms(2) [of name "w\<lparr>w_env := e1\<rparr>"] obtain res w1
    where f: "f name (w\<lparr>w_env := e1\<rparr>) = (Ok res, w1)" "w_trace w1 = w_trace w @ es name" by auto
  have "attempt (external [] (fe_temp fs)) w = (Ok (Inr name), w\<lparr>w_env := e1\<rparr>)"
    using assms(1) by (simp add: attempt_external)
  with f show ?thesis by (simp add: with_temp_file_def bindM_eqs remove_file_eq ret_def)
qed

lemma file_contents_returns: "\<exists>res. file_contents fs name w = (Ok res, w)"
  by (simp add: file_contents_def read_all_def close_file_def external_def bindM_def ret_def split: prod.splits)

lemma output_file_returns:
  "\<exists>res w'. bindM (run_process os command (args name)) (\<lambda>r.
         case pr_err r of
           Some err \<Rightarrow> ret (pr_combined r @ ''. '' @ assertErrorType err [], Some err)
         | None \<Rightarrow> file_contents fs name) w = (Ok res, w') \<and> w_trace w' = w_trace w @ [RunCmd command (args name)]"
proof -
  obtain r e' where r: "os command (args name) (w_env w) = (r, e')" by fastforce
  let ?w = "w\<lparr>w_env := e', w_trace := w_trace w @ [RunCmd command (args name)]\<rparr>"
  have "run_process os command (args name) w = (Ok r, ?w)" using r by (simp add: run_process_def external_def)
  with file_contents_returns [of fs name ?w] show ?thesis
    by (cases "pr_err r") (auto simp: bindM_eqs ret_def)
qed

lemma deadline_file_returns:
  "\<exists>res w'. bindM (external [RunCmd command (args name)]
       (\<lambda>e. case osd command (args name) e of (r, e') \<Rightarrow> (Inr r, e'))) (\<lambda>(r, exceeded).
         if exceeded then ret (pr_combined r, Some (Msg ''context deadline exceeded''))
         else case pr_err r of
                Some err \<Rightarrow> ret (pr_combined r, Some err)
              | None \<Rightarrow> file_contents fs name) w = (Ok res, w') \<and> w_trace w' = w_trace w @ [RunCmd command (args name)]"
proof -
  obtain r late e' where r: "osd command (args name) (w_env w) = ((r, late), e')" by (metis prod.collapse)
  let ?w = "w\<lparr>w_env := e', w_trace := w_trace w @ [RunCmd command (args name)]\<rparr>"
  have "external [RunCmd command (args name)] (\<lambda>e. case osd command (args name) e of (r, e') \<Rightarrow> (Inr r, e')) w
      = (Ok (r, late), ?w)" using r by (simp add: external_def)
  with file_contents_returns [of fs name ?w] show ?thesis
    by (cases late; cases "pr_err r") (auto simp: bindM_eqs ret_def)
qed

end
