(* ===== verification/Process.thy ===== *)
theory Process
  imports Exec
begin

text \<open>
  What every process of the program is built from: how it ends on an error (\<open>TerminateOnError\<close>,
  \<open>TerminateFatal\<close> of \<open>cmd/topolvm/topolvm.go\<close> and \<open>pkg/cluster/context.go\<close>), its connection to the API
  server (\<open>NewContext\<close>), flags and log level (\<open>pkg/util/flags\<close>, \<open>pkg/cluster/topolvm/log.go\<close>), the two CSI
  servers of the raw-device driver (\<open>pkg/raw_device\<close>) and the generator of the webhook's certificate
  (\<open>topolvm/gencert\<close>).  A process that exits does not return to its caller: \<open>os.Exit\<close> is a panic here,
  with the status in its message.
\<close>

section \<open>Ending a process\<close>

definition exitM :: "nat \<Rightarrow> ('e, 'a) prog" where
  "exitM n = panicM (''exit status '' @ show_int (int n))"

definition terminationLog :: string where
  "terminationLog = ''/dev/termination-log''"

record 'e term_env =
  te_open :: "string \<Rightarrow> ('e, unit) call"
  te_write :: "string \<Rightarrow> string \<Rightarrow> ('e, unit) call"
  te_close :: "string \<Rightarrow> ('e, unit) call"

definition log_termination :: "'e term_env \<Rightarrow> string \<Rightarrow> ('e, unit) prog" where
  "log_termination te reason =
     bindM (attempt (external [] (te_open te terminationLog))) (\<lambda>r.
       case r of
         Inl _ \<Rightarrow> ret ()
       | Inr _ \<Rightarrow>
           bindM (attempt (external [FsWrite terminationLog reason] (te_write te terminationLog reason))) (\<lambda>_.
           bindM (attempt (external [] (te_close te terminationLog))) (\<lambda>_. ret ())))"

definition TerminateFatal :: "'e term_env \<Rightarrow> go_error \<Rightarrow> ('e, 'a) prog" where
  "TerminateFatal te reason = bindM (log_termination te (err_text reason)) (\<lambda>_. exitM 1)"

definition TerminateOnError :: "'e term_env \<Rightarrow> string \<Rightarrow> ('e, 'a) prog \<Rightarrow> ('e, 'a) prog" where
  "TerminateOnError te msg m =
     bindM (attempt m) (\<lambda>r.
       case r of Inr x \<Rightarrow> ret x | Inl err \<Rightarrow> TerminateFatal te (Msg (msg @ '': '' @ err_text err)))"

text \<open>
  \<open>NewContext\<close> tries the configuration of the cluster it runs in, then the user's.  The two client sets
  are made from the configuration alone; the configuration stands for them.
\<close>

record ('e, 'c) client_env =
  kc_in_cluster :: "'e \<Rightarrow> go_error + 'c"
  kc_user :: "'e \<Rightarrow> go_error + 'c"
  kc_clientset :: "'c \<Rightarrow> go_error + unit"
  kc_api_extension :: "'c \<Rightarrow> go_error + unit"

definition query :: "('e \<Rightarrow> go_error + 'a) \<Rightarrow> ('e, 'a) prog" where
  "query f = external [] (\<lambda>e. (f e, e))"

definition NewContext :: "'e term_env \<Rightarrow> ('e, 'c) client_env \<Rightarrow> ('e, 'c) prog" where
  "NewContext te kc =
     bindM (bindM (attempt (query (kc_in_cluster kc))) (\<lambda>r.
              case r of
                Inr cfg \<Rightarrow> ret cfg
              | Inl _ \<Rightarrow> TerminateOnError te ''failed to get k8s config'' (query (kc_user kc)))) (\<lambda>cfg.
     bindM (TerminateOnError te ''failed to create k8s clientset'' (lift_sum (kc_clientset kc cfg))) (\<lambda>_.
     bindM (TerminateOnError te ''failed to create k8s API extension clientset'' (lift_sum (kc_api_extension kc cfg)))
       (\<lambda>_. ret cfg)))"

section \<open>Flags and the log level\<close>

text \<open>
  A flag set, in the order \<open>VisitAll\<close> goes through it.  Parsing a value is the flag's own business, an
  argument: it gives the new value or an error.
\<close>

record flag =
  fl_name :: string
  fl_value :: string
  fl_parse :: "string \<Rightarrow> go_error + string"

definition flag_get :: "flag list \<Rightarrow> string \<Rightarrow> string option" where
  "flag_get fs name = map_option fl_value (find (\<lambda>f. fl_name f = name) fs)"

definition createRequiredFlagError :: "string \<Rightarrow> string list \<Rightarrow> go_error option" where
  "createRequiredFlagError name flags =
     (if length flags = 0 then None
      else if length flags = 1 then Some (Msg (hd flags @ '' is required for '' @ name))
      else Some (Msg (join_with (CHR '','') flags @ '' are required for '' @ name)))"

definition VerifyRequiredFlags :: "string \<Rightarrow> flag list \<Rightarrow> string list \<Rightarrow> go_error option" where
  "VerifyRequiredFlags cmd flags requiredFlags =
     createRequiredFlagError cmd
       (filter (\<lambda>f. case flag_get flags f of None \<Rightarrow> True | Some val \<Rightarrow> val = []) requiredFlags)"

definition upper_char :: "char \<Rightarrow> char" where
  "upper_char c = (let n = (of_char c :: nat) in if 97 \<le> n \<and> n \<le> 122 then char_of (n - 32) else c)"

definition env_var_of :: "string \<Rightarrow> string \<Rightarrow> string" where
  "env_var_of prefix name = prefix @ ''_'' @ map (\<lambda>c. if c = CHR ''-'' then CHR ''_'' else c) (map upper_char name)"

text \<open>The error that is logged is the last one \<open>Set\<close> returned, also when that is none.\<close>

fun SetFlagsFromEnv :: "(string \<Rightarrow> string) \<Rightarrow> string \<Rightarrow> flag list \<Rightarrow> flag list" where
  "SetFlagsFromEnv getenv prefix [] = []"
| "SetFlagsFromEnv getenv prefix (f # fs) =
     (let val = getenv (env_var_of prefix (fl_name f)) in
      (if val = [] then f else case fl_parse f val of Inl _ \<Rightarrow> f | Inr v \<Rightarrow> f\<lparr>fl_value := v\<rparr>)
        # SetFlagsFromEnv getenv prefix fs)"

text \<open>The match of the filter is an argument, \<open>False\<close> where the expression does not compile.\<close>

definition GetFlagsAndValues :: "(string \<Rightarrow> string \<Rightarrow> bool) \<Rightarrow> flag list \<Rightarrow> string \<Rightarrow> string list" where
  "GetFlagsAndValues re flags excludeFilter =
     map (\<lambda>f. ''--'' @ fl_name f @ ''='' @
       (if excludeFilter \<noteq> [] \<and> re excludeFilter (fl_name f) then ''*****'' else fl_value f)) flags"

text \<open>\<open>capnslog.ParseLevel\<close>, an argument, returns the level it falls back to beside its error.\<close>

definition SetLogLevel :: "(string \<Rightarrow> 'l \<times> go_error option) \<Rightarrow> string \<Rightarrow> 'l" where
  "SetLogLevel parseLevel raw = fst (parseLevel raw)"

section \<open>The CSI servers of the raw-device driver\<close>

record 'e net_env =
  ne_remove :: "string \<Rightarrow> ('e, unit) call"
  ne_not_exist :: "go_error \<Rightarrow> bool"
  ne_listen :: "string \<Rightarrow> ('e, unit) call"

text \<open>
  \<open>Start\<close> of the runner: it serves until its context is cancelled.  \<open>None\<close> when it never is.
\<close>

definition gRPC_Start :: "'e net_env \<Rightarrow> string \<Rightarrow> bool \<Rightarrow> ('e, unit option) prog" where
  "gRPC_Start ne sockFile cancelled =
     bindM (attempt (external [FsRemove sockFile] (ne_remove ne sockFile))) (\<lambda>r.
       case r of
         Inl err \<Rightarrow> if \<not> ne_not_exist ne err then failM err else
             bindM (external [Launch sockFile] (ne_listen ne sockFile)) (\<lambda>_. ret (if cancelled then Some () else None))
       | Inr _ \<Rightarrow> bindM (external [Launch sockFile] (ne_listen ne sockFile)) (\<lambda>_. ret (if cancelled then Some () else None)))"

text \<open>
  What the two \<open>subMain\<close> share: the client set, the informers, then the server, whose error is logged
  only; with leader election the same runs once this process leads.  Neither context is ever cancelled
  by the program, so a server that listens goes on for ever.
\<close>

record ('e, 'c) csi_env =
  cx_term :: "'e term_env"
  cx_clients :: "('e, 'c) client_env"
  cx_raw_client :: "'c \<Rightarrow> go_error + unit"
  cx_net :: "'e net_env"
  cx_socket :: string
  cx_elect :: bool
  cx_leads :: "('e, unit) call"

definition run_server :: "('e, 'c) csi_env \<Rightarrow> ('e, unit option) prog" where
  "run_server cx =
     bindM (emit (Launch ''informers'')) (\<lambda>_.
     bindM (attempt (gRPC_Start (cx_net cx) (cx_socket cx) False)) (\<lambda>r.
       ret (case r of Inl _ \<Rightarrow> Some () | Inr never \<Rightarrow> never)))"

definition serve :: "('e, 'c) csi_env \<Rightarrow> ('e, unit option) prog" where
  "serve cx =
     bindM (NewContext (cx_term cx) (cx_clients cx)) (\<lambda>cfg.
     bindM (lift_sum (cx_raw_client cx cfg)) (\<lambda>_.
       if \<not> cx_elect cx then run_server cx
       else bindM (external [Launch ''leader election''] (cx_leads cx)) (\<lambda>_. run_server cx)))"

definition controller_subMain :: "('e, 'c) csi_env \<Rightarrow> ('e, unit option) prog" where
  "controller_subMain cx = serve cx"

definition node_subMain :: "('e, 'c) csi_env \<Rightarrow> string \<Rightarrow> ('e, unit option) prog" where
  "node_subMain cx nodename =
     (if length nodename = 0 then failM (Msg ''node name is not given'') else serve cx)"

text \<open>\<open>ErrorLoggingInterceptor\<close> passes the handler's answer through.\<close>

definition ErrorLoggingInterceptor :: "('q \<Rightarrow> ('e, 'a) prog) \<Rightarrow> 'q \<Rightarrow> ('e, 'a) prog" where
  "ErrorLoggingInterceptor handler req = handler req"

text \<open>\<open>Execute\<close> exits with status 1 on an error and returns otherwise.\<close>

definition Execute :: "('e, unit option) prog \<Rightarrow> ('e, unit option) prog" where
  "Execute subMain = bindM (attempt subMain) (\<lambda>r. case r of Inl _ \<Rightarrow> exitM 1 | Inr x \<Rightarrow> ret x)"

text \<open>
  The command \<open>raw-device\<close>, which is also called by the names of its two subcommands.  \<open>os.Args\<close> has
  the name it was called by at its head.
\<close>

definition base_name :: "string \<Rightarrow> string" where
  "base_name p =
     (if p = [] then ''.''
      else let q = rev (dropWhile (\<lambda>c. c = CHR ''/'') (rev p)) in
           if q = [] then ''/'' else last (split_on (CHR ''/'') q))"

definition raw_device_main ::
  "('e, unit option) prog \<Rightarrow> ('e, unit option) prog \<Rightarrow> string list \<Rightarrow> ('e, unit option) prog" where
  "raw_device_main node controller args =
     (let name = base_name (hd args) in
      if name = ''raw-device'' \<and> length args = 1 then exitM 1
      else
        let name = (if name = ''raw-device'' then args ! 1 else name) in
        if name = ''raw-device-plugin'' then node
        else if name = ''raw-device-provisioner'' then controller
        else exitM 1)"

section \<open>The certificate of the webhook\<close>

text \<open>The host name and its parents' services: \<open>a.b.c\<close>, \<open>a.b\<close>, \<open>a\<close>.\<close>

definition dnsAliases :: "string \<Rightarrow> string list" where
  "dnsAliases host =
     (let parts = split_on (CHR ''.'') host in
      map (\<lambda>i. join_with (CHR ''.'') (take (length parts - i) parts)) [0..<length parts])"

text \<open>\<open>filepath.Join\<close>, which cleans its result, of two elements.\<close>

fun clean_parts :: "bool \<Rightarrow> string list \<Rightarrow> string list \<Rightarrow> string list" where
  "clean_parts rooted stack [] = rev stack"
| "clean_parts rooted stack (p # ps) =
     (if p = [] \<or> p = ''.'' then clean_parts rooted stack ps
      else if p \<noteq> ''..'' then clean_parts rooted (p # stack) ps
      else case stack of
             [] \<Rightarrow> clean_parts rooted (if rooted then [] else [p]) ps
           | q # qs \<Rightarrow> clean_parts rooted (if q = ''..'' then p # stack else qs) ps)"

definition clean_path :: "string \<Rightarrow> string" where
  "clean_path p =
     (let rooted = has_prefix ''/'' p; q = join_with (CHR ''/'') (clean_parts rooted [] (split_on (CHR ''/'') p))
      in if rooted then CHR ''/'' # q else if q = [] then ''.'' else q)"

definition join_path :: "string \<Rightarrow> string \<Rightarrow> string" where
  "join_path dir file = clean_path (if dir = [] then file else dir @ ''/'' @ file)"

text \<open>The certificate's template: who signs and who is certified are the same.\<close>

record certificate =
  cf_serial :: int
  cf_common_name :: string
  cf_not_before :: int
  cf_not_after :: int
  cf_key_usage :: "string list"
  cf_ext_key_usage :: "string list"
  cf_basic_constraints :: bool
  cf_dns_names :: "string list"

record 'e cert_env =
  ct_generate :: "('e, string) call"
  ct_now :: "'e \<Rightarrow> int"
  ct_sign :: "certificate \<Rightarrow> string \<Rightarrow> ('e, string) call"
  ct_stat :: "string \<Rightarrow> 'e \<Rightarrow> go_error option"
  ct_not_exist :: "go_error \<Rightarrow> bool"
  ct_mkdir :: "string \<Rightarrow> ('e, unit) call"
  ct_marshal :: "string \<Rightarrow> go_error + string"
  ct_open :: "string \<Rightarrow> ('e, unit) call"
  ct_encode :: "string \<Rightarrow> string \<Rightarrow> string \<Rightarrow> ('e, unit) call"
  ct_sync :: "string \<Rightarrow> ('e, unit) call"

text \<open>\<open>log.Fatal\<close>: any error ends the process with status 1.\<close>

definition or_exit :: "('e, 'a) prog \<Rightarrow> ('e, 'a) prog" where
  "or_exit m = bindM (attempt m) (\<lambda>r. case r of Inl _ \<Rightarrow> exitM 1 | Inr x \<Rightarrow> ret x)"

definition outputPEM :: "'e cert_env \<Rightarrow> string \<Rightarrow> string \<Rightarrow> string \<Rightarrow> ('e, unit) prog" where
  "outputPEM ct fname pemType content =
     bindM (or_exit (external [] (ct_open ct fname))) (\<lambda>_.
     bindM (or_exit (external [FsWrite fname content] (ct_encode ct fname pemType content))) (\<lambda>_.
       or_exit (external [] (ct_sync ct fname))))"

definition cert_template :: "string \<Rightarrow> int \<Rightarrow> int \<Rightarrow> certificate" where
  "cert_template host now validFor =
     \<lparr>cf_serial = 1, cf_common_name = ''controller'', cf_not_before = now, cf_not_after = now + validFor,
      cf_key_usage = [''digital signature'', ''key encipherment''], cf_ext_key_usage = [''server auth''],
      cf_basic_constraints = True, cf_dns_names = dnsAliases host\<rparr>"

definition gencert_main :: "'e cert_env \<Rightarrow> string \<Rightarrow> int \<Rightarrow> string \<Rightarrow> ('e, unit) prog" where
  "gencert_main ct host validFor outDir =
     bindM (or_exit (external [] (ct_generate ct))) (\<lambda>priv.
     bindM (query (\<lambda>e. Inr (ct_now ct e))) (\<lambda>now.
     bindM (or_exit (external [] (ct_sign ct (cert_template host now validFor) priv))) (\<lambda>certBytes.
     bindM (query (\<lambda>e. Inr (ct_stat ct outDir e))) (\<lambda>st.
     bindM (case st of
              None \<Rightarrow> ret ()
            | Some err \<Rightarrow> if ct_not_exist ct err then or_exit (external [FsMkdirAll outDir] (ct_mkdir ct outDir)) else exitM 1) (\<lambda>_.
     bindM (or_exit (lift_sum (ct_marshal ct priv))) (\<lambda>privBytes.
     bindM (outputPEM ct (join_path outDir ''cert.pem'') ''CERTIFICATE'' certBytes) (\<lambda>_.
       outputPEM ct (join_path outDir ''key.pem'') ''PRIVATE KEY'' privBytes)))))))"

end
