(* ===== verification/Operator.thy ===== *)
theory Operator
  imports Process Controller Monitor Discover PrepareVg
begin

text \<open>
  The commands of the program (\<open>main.go\<close>, \<open>cmd/\<close>) and what the operator's process is put together from: the
  controllers it adds with the events that wake them (\<open>Add\<close> and \<open>predicate.go\<close> of \<open>discover\<close>,
  \<open>topolvm/controller\<close>, \<open>raw_device/csi\<close> and \<open>topolvm/csi\<close>), the loop around the cluster check
  (\<open>topolvm/monitor\<close>), the exported gauges (\<open>topolvm/metric\<close>) and the objects of the Prometheus operator
  (\<open>k8sutil/prometheus.go\<close>).  The manager of controller-runtime is an argument.
\<close>

section \<open>Gauges\<close>

record gauges =
  gg_cluster :: "8 word gomap"
  gg_node :: "8 word gomap"

definition NewMetricsExporter :: gauges where
  "NewMetricsExporter = \<lparr>gg_cluster = [], gg_node = []\<rparr>"

text \<open>One message of the channel.\<close>

definition export_metrics :: "metrics \<Rightarrow> gauges \<Rightarrow> gauges" where
  "export_metrics met g =
     \<lparr>gg_cluster = AList.update (mt_cluster met) (mt_cluster_status met) (gg_cluster g),
      gg_node = fold (\<lambda>ele m. AList.update (nsm_node ele) (nsm_status ele) m) (mt_node_status met) (gg_node g)\<rparr>"

section \<open>Objects of the Prometheus operator\<close>

text \<open>The client of the monitoring API, and an object's specification, which alone is updated.\<close>

record ('e, 'o) mon_api =
  mo_config :: "'e \<Rightarrow> go_error + unit"
  mo_client :: "'e \<Rightarrow> go_error + unit"
  mo_kind :: "('e, 'o) kind_api"
  mo_name :: "'o \<Rightarrow> string"
  mo_with_spec :: "'o \<Rightarrow> 'o \<Rightarrow> 'o"
  mo_zero :: 'o

definition errorf :: "string \<Rightarrow> ('e, 'a) prog \<Rightarrow> ('e, 'a) prog" where
  "errorf msg m = bindM (attempt m) (\<lambda>r.
     case r of Inr x \<Rightarrow> ret x | Inl err \<Rightarrow> failM (Msg (msg @ ''. '' @ err_text err)))"

definition getMonitoringClient :: "('e, 'o) mon_api \<Rightarrow> ('e, unit) prog" where
  "getMonitoringClient mo =
     bindM (errorf ''failed to build config'' (query (mo_config mo))) (\<lambda>_.
       errorf ''failed to get monitoring client'' (query (mo_client mo)))"

definition CreateOrUpdateServiceMonitor :: "('e, 'o) mon_api \<Rightarrow> 'o \<Rightarrow> ('e, 'o) prog" where
  "CreateOrUpdateServiceMonitor mo sm =
     bindM (errorf ''failed to get monitoring client'' (getMonitoringClient mo)) (\<lambda>_.
     bindM (attempt (get_obj (mo_kind mo) (mo_name mo sm))) (\<lambda>r.
       case r of
         Inl err \<Rightarrow>
           if is_not_found err
           then errorf ''failed to create servicemonitor'' (create_obj (mo_kind mo) (mo_name mo) sm)
           else failM (Msg (''failed to retrieve servicemonitor. '' @ err_text err))
       | Inr oldSm \<Rightarrow>
           errorf ''failed to update servicemonitor'' (update_obj (mo_kind mo) (mo_name mo) (mo_with_spec mo oldSm sm))))"

text \<open>
  After an update the empty object of the failed creation is returned: the inner \<open>promRule\<close> shadows it.
\<close>

definition CreateOrUpdatePrometheusRule :: "('e, 'o) mon_api \<Rightarrow> 'o \<Rightarrow> ('e, 'o) prog" where
  "CreateOrUpdatePrometheusRule mo rule =
     bindM (errorf ''failed to get monitoring client'' (getMonitoringClient mo)) (\<lambda>_.
     bindM (attempt (create_obj (mo_kind mo) (mo_name mo) rule)) (\<lambda>r.
       case r of
         Inr promRule \<Rightarrow> ret promRule
       | Inl err \<Rightarrow>
           if \<not> is_already_exists err then failM (Msg (''failed to create prometheusRules. '' @ err_text err))
           else
             bindM (errorf ''failed to get prometheusRule object'' (get_obj (mo_kind mo) (mo_name mo rule))) (\<lambda>promRule.
             bindM (errorf ''failed to update prometheusRule''
                      (update_obj (mo_kind mo) (mo_name mo) (mo_with_spec mo promRule rule))) (\<lambda>_.
               ret (mo_zero mo)))))"

text \<open>Objects read from a file; the decoder is an argument.\<close>

definition GetServiceMonitor :: "(string \<Rightarrow> 'e \<Rightarrow> go_error + string) \<Rightarrow> (string \<Rightarrow> go_error + 'o) \<Rightarrow> string \<Rightarrow> ('e, 'o) prog" where
  "GetServiceMonitor read decode filePath =
     bindM (errorf ''servicemonitor file could not be fetched'' (query (read (clean_path filePath)))) (\<lambda>file.
       errorf ''servicemonitor could not be decoded'' (lift_sum (decode file)))"

definition GetPrometheusRule :: "(string \<Rightarrow> 'e \<Rightarrow> go_error + string) \<Rightarrow> (string \<Rightarrow> go_error + 'o) \<Rightarrow> string \<Rightarrow> ('e, 'o) prog" where
  "GetPrometheusRule read decode ruleFilePath =
     bindM (errorf ''prometheusRules file could not be fetched'' (query (read (clean_path ruleFilePath)))) (\<lambda>ruleFile.
       errorf ''prometheusRules could not be decoded'' (lift_sum (decode ruleFile)))"

record service_monitor =
  sm_name :: string
  sm_namespace :: string
  sm_labels :: "string gomap"
  sm_endpoints :: "(string \<times> string \<times> string) list"
  sm_match_names :: "string list"
  sm_match_labels :: "string gomap"

definition EnableServiceMonitor :: "('e, service_monitor) mon_api \<Rightarrow> string \<Rightarrow> ('e, unit) prog" where
  "EnableServiceMonitor mo namespace =
     wrapM ''service monitor could not be enabled''
       (bindM (CreateOrUpdateServiceMonitor mo
          \<lparr>sm_name = ''topolvm-service-monitor'', sm_namespace = namespace,
           sm_labels = [(''prometheus'', ''kube-prometheus'')],
           sm_endpoints = [(''30s'', ''/metrics'', ''metrics'')], sm_match_names = [namespace],
           sm_match_labels = [(''app.kubernetes.io/compose'', ''metrics'')]\<rparr>) (\<lambda>_. ret ()))"

text \<open>The rule is compiled in as text; decoding it and setting its namespace are arguments.\<close>

definition monitor_CreateOrUpdatePrometheusRule ::
  "('e, 'o) mon_api \<Rightarrow> (string \<Rightarrow> go_error + 'o) \<Rightarrow> ('o \<Rightarrow> 'o) \<Rightarrow> string \<Rightarrow> ('e, unit) prog" where
  "monitor_CreateOrUpdatePrometheusRule mo decode set_namespace text =
     bindM (errorf ''prometheusRules could not be decoded'' (lift_sum (decode text))) (\<lambda>rule.
     bindM (CreateOrUpdatePrometheusRule mo (set_namespace rule)) (\<lambda>_. ret ()))"

section \<open>The loop of the cluster check\<close>

datatype checker_input = CheckTick | CheckStop

text \<open>A turn's errors are logged.  \<open>True\<close> when the loop has ended.\<close>

definition checker_turn :: "'e monitor_env \<Rightarrow> ('e, unit) prog \<Rightarrow> ('e, unit) prog \<Rightarrow> ('e, unit) prog" where
  "checker_turn env enable rule =
     bindM (checkStatus env) (\<lambda>_. bindM (attempt enable) (\<lambda>_. bindM (attempt rule) (\<lambda>_. ret ())))"

fun checker_loop ::
  "'e monitor_env \<Rightarrow> ('e, unit) prog \<Rightarrow> ('e, unit) prog \<Rightarrow> checker_input list \<Rightarrow> ('e, bool) prog" where
  "checker_loop env enable rule [] = ret False"
| "checker_loop env enable rule (CheckStop # is) = ret True"
| "checker_loop env enable rule (CheckTick # is) =
     bindM (checker_turn env enable rule) (\<lambda>_. checker_loop env enable rule is)"

definition CheckClusterStatus ::
  "'e monitor_env \<Rightarrow> ('e, unit) prog \<Rightarrow> ('e, unit) prog \<Rightarrow> checker_input list \<Rightarrow> ('e, bool) prog" where
  "CheckClusterStatus env enable rule is = bindM (checkStatus env) (\<lambda>_. checker_loop env enable rule is)"

section \<open>The events that wake a controller\<close>

datatype watched = WatchedConfigMap config_map | WatchedOther

datatype watch_event = CreateEvent watched | UpdateEvent watched watched | DeleteEvent watched | GenericEvent watched

text \<open>The three controllers that watch the operator's settings have the same predicate but for the keys they look for.\<close>

fun settings_predicate ::
  "(string gomap option \<Rightarrow> string gomap option \<Rightarrow> string) \<Rightarrow> (string \<Rightarrow> bool) \<Rightarrow> watch_event \<Rightarrow> bool" where
  "settings_predicate diff findCSIChange (CreateEvent (WatchedConfigMap cm)) = create_predicate cm"
| "settings_predicate diff findCSIChange (UpdateEvent (WatchedConfigMap old) (WatchedConfigMap new)) =
     update_predicate diff findCSIChange old new"
| "settings_predicate diff findCSIChange _ = False"

definition discover_predicate :: "(string gomap option \<Rightarrow> string gomap option \<Rightarrow> string) \<Rightarrow> watch_event \<Rightarrow> bool" where
  "discover_predicate diff = settings_predicate diff findCSIChange_discover"

definition raw_csi_predicate :: "(string gomap option \<Rightarrow> string gomap option \<Rightarrow> string) \<Rightarrow> watch_event \<Rightarrow> bool" where
  "raw_csi_predicate diff = settings_predicate diff findCSIChange_raw"

definition topolvm_csi_predicate :: "(string gomap option \<Rightarrow> string gomap option \<Rightarrow> string) \<Rightarrow> watch_event \<Rightarrow> bool" where
  "topolvm_csi_predicate diff = settings_predicate diff findCSIChange_topolvm"

text \<open>The cluster's own controller ignores generic events only.\<close>

fun cluster_predicate :: "watch_event \<Rightarrow> bool" where
  "cluster_predicate (GenericEvent x) = False"
| "cluster_predicate _ = True"

section \<open>The operator\<close>

record 'e mgr =
  mg_new :: "('e, unit) call"
  mg_add :: "string \<Rightarrow> ('e, unit) call"
  mg_controller :: "string \<Rightarrow> ('e, unit) call"
  mg_watch :: "string \<Rightarrow> ('e, unit) call"
  mg_check :: "string \<Rightarrow> ('e, unit) call"
  mg_start :: "('e, unit) call"

definition add_controller :: "'e mgr \<Rightarrow> string \<Rightarrow> ('e, unit) prog" where
  "add_controller mg name =
     bindM (external [] (mg_controller mg name)) (\<lambda>_. external [Launch name] (mg_watch mg name))"

text \<open>The four \<open>add\<close> functions: a controller with its predicate on what it watches.\<close>

definition add_discover :: "'e mgr \<Rightarrow> ('e, unit) prog" where
  "add_discover mg = add_controller mg ''discover-device''"

definition add_topolvm :: "'e mgr \<Rightarrow> ('e, unit) prog" where
  "add_topolvm mg = add_controller mg ''topolvm-controller''"

definition add_raw_csi :: "'e mgr \<Rightarrow> ('e, unit) prog" where
  "add_raw_csi mg = add_controller mg ''raw-device-csi-controller''"

definition add_topolvm_csi :: "'e mgr \<Rightarrow> ('e, unit) prog" where
  "add_topolvm_csi mg = add_controller mg ''topolvm-csi-controller''"

lemmas add_defs = add_discover_def add_topolvm_def add_raw_csi_def add_topolvm_csi_def

text \<open>The daemon set is started once here, before the first event; an error is logged.\<close>

definition Add_discover :: "'e mgr \<Rightarrow> 'e drv_env \<Rightarrow> ('e, unit) prog" where
  "Add_discover mg drv = bindM (attempt (startDiscoverDeviceDaemonset drv)) (\<lambda>_. add_discover mg)"

definition Add_topolvm :: "'e mgr \<Rightarrow> 'e drv_env \<Rightarrow> ('e, unit) prog" where
  "Add_topolvm mg drv =
     bindM (external [Launch ''metrics-exporter''] (mg_add mg ''metrics-exporter'')) (\<lambda>_. add_topolvm mg)"

definition Add_raw_csi :: "'e mgr \<Rightarrow> 'e drv_env \<Rightarrow> ('e, unit) prog" where
  "Add_raw_csi mg drv = add_raw_csi mg"

definition Add_topolvm_csi :: "'e mgr \<Rightarrow> 'e drv_env \<Rightarrow> ('e, unit) prog" where
  "Add_topolvm_csi mg drv = add_topolvm_csi mg"

definition AddToManagerFuncs :: "('e mgr \<Rightarrow> 'e drv_env \<Rightarrow> ('e, unit) prog) list" where
  "AddToManagerFuncs = [Add_discover, Add_topolvm, Add_raw_csi, Add_topolvm_csi]"

text \<open>The image is the one of the operator's own pod; the variable for a flag is never set.\<close>

record 'e op_env =
  oe_getenv :: "string \<Rightarrow> string"
  oe_term :: "'e term_env"
  oe_mgr :: "'e mgr"
  oe_ctl :: "'e ctl_env"
  oe_pod :: "string \<Rightarrow> string \<Rightarrow> 'e \<Rightarrow> go_error + container_image list \<times> container_image list"
  oe_flag_image :: string

definition GetOperatorImage :: "'e op_env \<Rightarrow> string \<Rightarrow> ('e, string) prog" where
  "GetOperatorImage oe containerName =
     (if oe_flag_image oe \<noteq> [] then ret (oe_flag_image oe)
      else
        bindM (TerminateOnError (oe_term oe) ''failed to get pod'' 
                 (GetRunningPod (oe_getenv oe) (\<lambda>ns name. query (oe_pod oe ns name)))) (\<lambda>pod.
          TerminateOnError (oe_term oe) ''failed to get container image''
            (lift_sum (GetContainerImage (fst pod) (snd pod) containerName))))"

text \<open>
  The settings the controllers work with, from the environment and the operator's own pod.  The
  parameters of the config map are read again by every reconciliation, so they are not passed on.
\<close>

definition configured :: "string \<Rightarrow> string \<Rightarrow> 'e drv_env \<Rightarrow> 'e drv_env" where
  "configured namespace img drv =
     drv\<lparr>dv_settings := (dv_settings drv)\<lparr>os_namespace := namespace, os_operator_namespace := namespace, os_image := img\<rparr>\<rparr>"

definition PodNameSpaceEnv :: string where "PodNameSpaceEnv = ''POD_NAMESPACE''"
definition NodeNameEnv :: string where "NodeNameEnv = ''NODE_NAME''"
definition ClusterNameEnv :: string where "ClusterNameEnv = ''CLUSTER_NAME''"
definition UseLoopEnv :: string where "UseLoopEnv = ''USE_LOOP''"

definition start_parts :: "'e op_env \<Rightarrow> string \<Rightarrow> ('e, unit) prog" where
  "start_parts oe namespace =
     (let mg = oe_mgr oe in
      bindM (GetOperatorImage oe []) (\<lambda>img.
      bindM (read_parameters (dv_cms (ce_drv (oe_ctl oe))) namespace) (\<lambda>parameters.
      bindM (for_each (\<lambda>add _. add mg (configured namespace img (ce_drv (oe_ctl oe)))) AddToManagerFuncs ()) (\<lambda>_.
      bindM (or_exit (external [] (mg_check mg ''healthz''))) (\<lambda>_.
      bindM (or_exit (external [] (mg_check mg ''readyz''))) (\<lambda>_.
        or_exit (external [Launch ''manager''] (mg_start mg))))))))"

definition startOperator :: "'e op_env \<Rightarrow> ('e, 'c) client_env \<Rightarrow> ('e, unit) prog" where
  "startOperator oe kc =
     (let namespace = oe_getenv oe PodNameSpaceEnv in
      if namespace = [] then failM (Msg (''get env:'' @ PodNameSpaceEnv @ '' failed ''))
      else
        bindM (or_exit (external [] (mg_new (oe_mgr oe)))) (\<lambda>_.
        bindM (NewContext (oe_term oe) kc) (\<lambda>_.
        bindM (attempt (RemoveNodeCapacityAnnotations (oe_ctl oe))) (\<lambda>r.
          case r of
            Inl err \<Rightarrow> failM (Msg (''RemoveNodeCapacityAnnotations failed err '' @ err_text err))
          | Inr _ \<Rightarrow> start_parts oe namespace))))"

section \<open>The commands of the jobs and of the agent\<close>

text \<open>The third test repeats the second one's variable: an unset name of the cluster is accepted.\<close>

definition prepareVg ::
  "(string \<Rightarrow> string) \<Rightarrow> 'e term_env \<Rightarrow> ('e, 'c) client_env \<Rightarrow> ('c \<Rightarrow> go_error + unit)
     \<Rightarrow> (string \<Rightarrow> string \<Rightarrow> string \<Rightarrow> 'e prepare_env) \<Rightarrow> ('e, unit) prog" where
  "prepareVg getenv te kc new_client mk =
     (let nodeName = getenv NodeNameEnv; namespace = getenv PodNameSpaceEnv; topolvmClusterName = getenv ClusterNameEnv in
      if nodeName = [] then failM (Msg (''get env '' @ NodeNameEnv @ '' failed''))
      else if namespace = [] then failM (Msg (''get env '' @ PodNameSpaceEnv @ '' failed''))
      else if namespace = [] then failM (Msg (''get env '' @ ClusterNameEnv @ '' failed''))
      else
        bindM (NewContext te kc) (\<lambda>cfg.
        bindM (lift_sum (new_client cfg)) (\<lambda>_. Start (mk nodeName namespace topolvmClusterName))))"

definition discover ::
  "(string \<Rightarrow> string) \<Rightarrow> 'e term_env \<Rightarrow> ('e, 'c) client_env \<Rightarrow> ('c \<Rightarrow> go_error + unit)
     \<Rightarrow> (string \<Rightarrow> string \<Rightarrow> bool \<Rightarrow> 'e manager) \<Rightarrow> manager_input list \<Rightarrow> ('e, bool \<times> bool) prog" where
  "discover getenv te kc new_client mk is =
     bindM (NewContext te kc) (\<lambda>cfg.
     bindM (TerminateOnError te ''create raw device client set failed'' (lift_sum (new_client cfg))) (\<lambda>_.
       let nodeName = getenv NodeNameEnv; namespace = getenv PodNameSpaceEnv; useLoop = (getenv UseLoopEnv = ''true'') in
       bindM (TerminateOnError te []
                (if nodeName = [] \<or> namespace = [] then failM (Msg ''can not get node name and namespace'') else ret ())) (\<lambda>_.
       bindM (emit (Launch ''informers'')) (\<lambda>_.
       bindM (attempt (Run (mk nodeName namespace useLoop) is)) (\<lambda>r.
         case r of Inl err \<Rightarrow> TerminateFatal te err | Inr ended \<Rightarrow> ret ended)))))"

text \<open>
  \<open>viper.GetString\<close> of a key that is bound to a flag and to the environment: a flag set on the command
  line first, then a variable that is not empty, then the flag's default.
\<close>

definition viper_get :: "(string \<Rightarrow> string) \<Rightarrow> string option \<Rightarrow> string \<Rightarrow> string \<Rightarrow> string" where
  "viper_get getenv changed key dflt =
     (case changed of
        Some v \<Rightarrow> v
      | None \<Rightarrow> let v = getenv (map upper_char key) in if v = [] then dflt else v)"

text \<open>The settings are read in \<open>init\<close>, when no flag has been parsed yet: node, namespace, cluster.\<close>

definition clean_init :: "(string \<Rightarrow> string) \<Rightarrow> string \<times> string \<times> string" where
  "clean_init getenv =
     (viper_get getenv None ''node_name'' [], viper_get getenv None ''pod_namespace'' [],
      viper_get getenv None ''cluster_name'' [])"

definition cleanup ::
  "(string \<Rightarrow> string) \<Rightarrow> 'e term_env \<Rightarrow> ('e, 'c) client_env \<Rightarrow> ('c \<Rightarrow> go_error + unit)
     \<Rightarrow> 'e os \<Rightarrow> range_ord \<Rightarrow> (string \<Rightarrow> string \<Rightarrow> 'e \<Rightarrow> go_error + topolvm_cluster) \<Rightarrow> ('e, unit) prog" where
  "cleanup getenv te kc new_client os ord read_cluster =
     (case clean_init getenv of (node, namespace, clusterName) \<Rightarrow>
        bindM (NewContext te kc) (\<lambda>cfg.
        bindM (lift_sum (new_client cfg)) (\<lambda>_. CleanUp_Start os ord (read_cluster namespace clusterName) node)))"

text \<open>\<open>main\<close> prints the error of the command it ran and returns: the exit status is 0 all the same.\<close>

definition main :: "('e, 'a) prog \<Rightarrow> ('e, unit) prog" where
  "main cmd = bindM (attempt cmd) (\<lambda>_. ret ())"

end
