(* ===== verification/Operator_Props.thy ===== *)
theory Operator_Props
  imports Operator Controller_Props Monitor_Props "HOL-Library.Sublist"
begin

text \<open>
  What is proved of the program's processes: the order in which the operator starts its parts, what the
  exit status of a command says, and that the exported gauges agree with the status of the cluster.
\<close>

section \<open>What a program starts\<close>

definition launches :: "event list \<Rightarrow> string list" where
  "launches es = List.map_filter (\<lambda>e. case e of Launch n \<Rightarrow> Some n | _ \<Rightarrow> None) es"

lemma launches_simps [simp]:
  "launches [] = []" "launches (es @ fs) = launches es @ launches fs" "launches [Launch n] = [n]"
  by (simp_all add: launches_def List.map_filter_def)

abbreviation no_launch :: "event \<Rightarrow> bool" where
  "no_launch e \<equiv> (\<forall>n. e \<noteq> Launch n)"

lemma launches_none: "list_all no_launch es \<Longrightarrow> launches es = []"
  by (induction es) (auto simp: launches_def List.map_filter_def split: event.splits)

text \<open>
  \<open>starts ns m\<close>: \<open>m\<close> starts the parts \<open>ns\<close> in that order, all of them when it succeeds and the first
  ones when it does not.
\<close>

definition starts :: "string list \<Rightarrow> ('e, 'a) prog \<Rightarrow> bool" where
  "starts ns m = (\<forall>w. \<exists>es. w_trace (snd (m w)) = w_trace w @ es \<and> prefix (launches es) ns
     \<and> (case fst (m w) of Ok _ \<Rightarrow> launches es = ns | _ \<Rightarrow> True))"

lemma starts_none:
  assumes "emits no_launch m"
  shows "starts [] m"
proof (unfold starts_def, rule allI)
  fix w
  from assms obtain es where "w_trace (snd (m w)) = w_trace w @ es" "launches es = []"
    unfolding emits_def using launches_none by metis
  then show "\<exists>es. w_trace (snd (m w)) = w_trace w @ es \<and> prefix (launches es) []
      \<and> (case fst (m w) of Ok _ \<Rightarrow> launches es = [] | _ \<Rightarrow> True)" by (auto split: outcome.split)
qed

lemma launches_quiet: "emits no_launch m \<Longrightarrow> m w = (r, w1) \<Longrightarrow> \<exists>es. w_trace w1 = w_trace w @ es \<and> launches es = []"
  using emits_at launches_none by metis

lemma starts_external: "launches evs = ns \<Longrightarrow> starts ns (external evs c)"
  by (auto simp: starts_def external_def split: prod.splits sum.splits)

lemma starts_bindM:
  assumes "starts ns m" and "\<And>x. starts ms (f x)"
  shows "starts (ns @ ms) (bindM m f)"
proof (unfold starts_def, rule allI)
  fix w
  obtain r w1 where m: "m w = (r, w1)" by fastforce
  from assms(1) obtain es where es: "w_trace w1 = w_trace w @ es" "prefix (launches es) ns"
    "case r of Ok _ \<Rightarrow> launches es = ns | _ \<Rightarrow> True" unfolding starts_def by (metis m fst_conv snd_conv)
  show "\<exists>es. w_trace (snd (bindM m f w)) = w_trace w @ es \<and> prefix (launches es) (ns @ ms)
      \<and> (case fst (bindM m f w) of Ok _ \<Rightarrow> launches es = ns @ ms | _ \<Rightarrow> True)"
  proof (cases r)
    case (Ok x)
    from assms(2) [of x] obtain fs where "w_trace (snd (f x w1)) = w_trace w1 @ fs" "prefix (launches fs) ms"
      "case fst (f x w1) of Ok _ \<Rightarrow> launches fs = ms | _ \<Rightarrow> True" unfolding starts_def by metis
    with m es Ok show ?thesis by (intro exI [of _ "es @ fs"]) (auto simp: bindM_eqs split: outcome.splits)
  qed (use m es in \<open>auto simp: bindM_eqs intro: prefix_prefix\<close>)
qed

text \<open>A part that starts nothing comes before the others.\<close>

lemma starts_after: "emits no_launch m \<Longrightarrow> (\<And>x. starts ns (f x)) \<Longrightarrow> starts ns (bindM m f)"
  using starts_bindM [OF starts_none, of m ns f] by simp

lemma or_exit_at: "m w = (r, w1) \<Longrightarrow> \<exists>r'. or_exit m w = (r', w1) \<and> (\<forall>x. r' = Ok x \<longrightarrow> r = Ok x)"
  by (cases r) (auto simp: or_exit_def exitM_def attempt_def bindM_def ret_def panicM_def)

lemma starts_or_exit:
  assumes "starts ns m"
  shows "starts ns (or_exit m)"
proof (unfold starts_def, rule allI)
  fix w
  obtain r w1 where m: "m w = (r, w1)" by fastforce
  from assms m obtain es where "w_trace w1 = w_trace w @ es" "prefix (launches es) ns"
    "case r of Ok _ \<Rightarrow> launches es = ns | _ \<Rightarrow> True" unfolding starts_def by (metis fst_conv snd_conv)
  moreover from or_exit_at [where m = m, OF m] obtain r' where "or_exit m w = (r', w1)" "\<forall>x. r' = Ok x \<longrightarrow> r = Ok x" by blast
  ultimately show "\<exists>es. w_trace (snd (or_exit m w)) = w_trace w @ es \<and> prefix (launches es) ns
     \<and> (case fst (or_exit m w) of Ok _ \<Rightarrow> launches es = ns | _ \<Rightarrow> True)"
    by (intro exI [of _ es]) (auto split: outcome.splits)
qed

lemma starts_failM: "starts ns (failM e)"
  by (auto simp: starts_def failM_def intro: exI [of _ "[]"])

lemma starts_cases:
  "starts ns a \<Longrightarrow> starts ns b \<Longrightarrow> starts ns (if c then a else b)"
  "(\<And>x. starts ns (f x)) \<Longrightarrow> (\<And>y. starts ns (g y)) \<Longrightarrow> starts ns (case s of Inl x \<Rightarrow> f x | Inr y \<Rightarrow> g y)"
  by (cases s; simp)+

section \<open>The operator's parts\<close>

text \<open>What the rest of the operator's start does starts nothing.\<close>

lemma quiet_terminate: "emits no_launch m \<Longrightarrow> emits no_launch (TerminateOnError te msg m)"
  unfolding TerminateOnError_def TerminateFatal_def log_termination_def exitM_def
  by (intro emits_intros; simp)

lemma quiet_context: "emits no_launch (NewContext te kc)"
  unfolding NewContext_def query_def by (intro emits_intros quiet_terminate; simp)

lemma quiet_annotations: "emits no_launch (RemoveNodeCapacityAnnotations env)"
  unfolding RemoveNodeCapacityAnnotations_def strip_node_def strip_step_def Let_def list_nodes_def
  by (intro emits_intros; simp)

lemma quiet_daemonset: "emits no_launch (startDiscoverDeviceDaemonset drv)"
  unfolding startDiscoverDeviceDaemonset_def read_parameters_def get_cm_def deployment_owner_def
    GetDeploymentOwnerReference_def CreateDaemonSet_def create_obj_def update_obj_def Let_def
  by (intro emits_intros; simp)

lemma quiet_image: "emits no_launch (GetOperatorImage oe name)"
  unfolding GetOperatorImage_def GetRunningPod_def query_def Let_def
  by (intro emits_intros quiet_terminate; simp)

lemma starts_controller: "starts [name] (add_controller mg name)"
  unfolding add_controller_def by (intro starts_after starts_external emits_intros; simp)

lemma starts_parts:
  "starts [''discover-device'', ''metrics-exporter'', ''topolvm-controller'', ''raw-device-csi-controller'',
      ''topolvm-csi-controller''] (for_each (\<lambda>add _. add mg drv) AddToManagerFuncs ())"
proof -
  have d: "starts [''discover-device''] (Add_discover mg drv)"
    unfolding Add_discover_def add_defs by (intro starts_after starts_controller emits_attempt quiet_daemonset)
  have t: "starts ([''metrics-exporter''] @ [''topolvm-controller'']) (Add_topolvm mg drv)"
    unfolding Add_topolvm_def add_defs by (intro starts_bindM starts_controller starts_external) simp
  have r: "starts [''raw-device-csi-controller''] (Add_raw_csi mg drv)"
    and c: "starts [''topolvm-csi-controller''] (Add_topolvm_csi mg drv)"
    by (simp_all add: Add_raw_csi_def Add_topolvm_csi_def add_defs starts_controller)
  have each: "for_each (\<lambda>add _. add mg drv) (a # as) = (\<lambda>_. bindM (a mg drv) (for_each (\<lambda>add _. add mg drv) as))"
    for a as by (rule ext) simp
  have none: "for_each (\<lambda>add _. add mg drv) [] = (\<lambda>u. ret u)" by (rule ext) simp
  from starts_bindM [OF d starts_bindM [OF t starts_bindM [OF r c]]] show ?thesis
    by (simp add: AddToManagerFuncs_def each none)
qed

lemma starts_parts_all:
  "starts [''discover-device'', ''metrics-exporter'', ''topolvm-controller'', ''raw-device-csi-controller'',
      ''topolvm-csi-controller'', ''manager''] (start_parts oe ns)"
proof -
  have checks: "emits no_launch (or_exit (external [] c))" for c :: "('a, unit) call"
    unfolding or_exit_def exitM_def by (intro emits_intros; simp)
  have params: "emits no_launch (read_parameters cms ns)" for cms :: "'a cm_api" and ns
    unfolding read_parameters_def get_cm_def by (intro emits_intros; simp)
  have last: "starts [''manager''] (or_exit (external [Launch ''manager''] c))" for c :: "('a, unit) call"
    by (intro starts_or_exit starts_external) simp
  note rest = starts_bindM [OF starts_parts, where ms = "[''manager'']", simplified]
  show ?thesis unfolding start_parts_def Let_def
    by (intro starts_after [OF checks] starts_after [OF quiet_image] starts_after [OF params] rest last)
qed

lemma starts_operator:
  "starts [''discover-device'', ''metrics-exporter'', ''topolvm-controller'', ''raw-device-csi-controller'',
      ''topolvm-csi-controller'', ''manager''] (startOperator oe kc)"
proof -
  have new: "emits no_launch (or_exit (external [] c))" for c :: "('a, unit) call"
    unfolding or_exit_def exitM_def by (intro emits_intros; simp)
  show ?thesis unfolding startOperator_def Let_def
    by (intro starts_cases starts_failM starts_after [OF new] starts_after [OF quiet_context] starts_parts_all
        starts_after [OF emits_attempt [OF quiet_annotations]])
qed

text \<open>Three steps that start nothing before the rest, which runs only when all succeeded.\<close>

lemma guarded_start:
  assumes "emits no_launch a" and "emits no_launch b" and "emits no_launch c" and "emits (\<lambda>_. True) k"
  shows "\<exists>es. w_trace (snd (bindM a (\<lambda>_. bindM b (\<lambda>_. bindM (attempt c) (\<lambda>r.
       case r of Inl err \<Rightarrow> failM (f err) | Inr _ \<Rightarrow> k))) w)) = w_trace w @ es
    \<and> (launches es = [] \<or> (\<exists>w1 w2 pre post. c w1 = (Ok (), w2)
          \<and> w_trace w2 = w_trace w @ pre \<and> es = pre @ post \<and> launches pre = []))"
proof -
  obtain r1 w1 where m1: "a w = (r1, w1)" by fastforce
  obtain r2 w2 where m2: "b w1 = (r2, w2)" by fastforce
  obtain r3 w3 where m3: "c w2 = (r3, w3)" by fastforce
  obtain r4 w4 where m4: "k w3 = (r4, w4)" by fastforce
  from launches_quiet [OF assms(1) m1] obtain e1 where e1: "w_trace w1 = w_trace w @ e1" "launches e1 = []" by blast
  from launches_quiet [OF assms(2) m2] obtain e2 where e2: "w_trace w2 = w_trace w1 @ e2" "launches e2 = []" by blast
  from launches_quiet [OF assms(3) m3] obtain e3 where e3: "w_trace w3 = w_trace w2 @ e3" "launches e3 = []" by blast
  from emits_at [OF assms(4) m4] obtain e4 where e4: "w_trace w4 = w_trace w3 @ e4" by blast
  show ?thesis
  proof (cases "\<exists>x y. r1 = Ok x \<and> r2 = Ok y \<and> r3 = Ok ()")
    case True
    with m1 m2 m3 m4 e1 e2 e3 e4 show ?thesis
      by (intro exI [of _ "(e1 @ e2 @ e3) @ e4"] conjI disjI2 exI [of _ w2] exI [of _ w3] exI [of _ "e1 @ e2 @ e3"]
          exI [of _ e4]) (auto simp: bindM_eqs attempt_def)
  next
    case False
    with m1 m2 m3 e1 e2 e3 show ?thesis
      by (cases r1; cases r2; cases r3)
        (auto simp: bindM_def attempt_def failM_def intro: exI [of _ e1] exI [of _ "e1 @ e2"] exI [of _ "e1 @ e2 @ e3"])
  qed
qed

definition operator_parts :: "string list" where
  "operator_parts = [''discover-device'', ''metrics-exporter'', ''topolvm-controller'', ''raw-device-csi-controller'',
     ''topolvm-csi-controller'', ''manager'']"


section \<open>Exit statuses\<close>

text \<open>
  A command that fails ends its process with status 0.  \<open>main\<close> returns normally whatever error its command
  returned, so that the job of a node whose name is not set, which provisions nothing, counts as completed:
  the error is on the standard output only.
\<close>

lemma failed_command_exits_zero:
  assumes "getenv NodeNameEnv = []"
  shows "main (prepareVg getenv te kc new_client mk) w = (Ok (), w)"
    and "fst (prepareVg getenv te kc new_client mk w) = Fail (Msg ''get env NODE_NAME failed'')"
  using assms by (simp_all add: main_def prepareVg_def Let_def attempt_def bindM_def failM_def ret_def NodeNameEnv_def)

text \<open>
  An unset cluster name is not noticed: with the other two variables set the job goes on and asks for
  the cluster of the empty name.
\<close>

lemma cluster_name_not_required:
  assumes "getenv NodeNameEnv = n" and "n \<noteq> []" and "getenv PodNameSpaceEnv = ns" and "ns \<noteq> []"
    and "getenv ClusterNameEnv = []" and "NewContext te kc w = (Ok cfg, w1)" and "new_client cfg = Inr ()"
  shows "prepareVg getenv te kc new_client mk w = Start (mk n ns []) w1"
  using assms by (simp add: prepareVg_def bindM_eqs lift_sum_def)

section \<open>Gauges\<close>

definition marked :: "string \<Rightarrow> node_status_metrics list \<Rightarrow> bool" where
  "marked node ms = (\<forall>x \<in> set ms. nsm_node x = node \<longrightarrow> nsm_status x = 1)"

lemma marked_simps [simp]:
  "marked node []" "marked node (x # ms) = ((nsm_node x = node \<longrightarrow> nsm_status x = 1) \<and> marked node ms)"
  by (simp_all add: marked_def)

lemma marked_mark_bad: "marked node ms \<Longrightarrow> marked node (mark_bad k ms)" "marked node (mark_bad node ms)"
  by (induction ms) (simp_all add: mark_bad_def)

lemma mark_bad_nodes: "map nsm_node (mark_bad k ms) = map nsm_node ms"
  by (simp add: mark_bad_def)

lemma settle_marks:
  assumes "n \<in> set items" and "\<not> has_ready_class n"
  shows "marked (nss_node n) (fold (\<lambda>n ms. if \<not> has_ready_class n then mark_bad (nss_node n) ms else ms) items ms)"
proof -
  have keep: "marked node (fold (\<lambda>n ms. if \<not> has_ready_class n then mark_bad (nss_node n) ms else ms) is ms)"
    if "marked node ms" for "is" ms node
    using that by (induction "is" arbitrary: ms) (simp_all add: marked_mark_bad)
  from assms(1) obtain xs ys where "items = xs @ n # ys" by (meson split_list)
  with assms(2) show ?thesis by (simp add: keep marked_mark_bad)
qed

lemma gauge_other: "node \<notin> nsm_node ` set ms \<Longrightarrow>
    map_of (fold (\<lambda>ele m. AList.update (nsm_node ele) (nsm_status ele) m) ms g) node = map_of g node"
  by (induction ms arbitrary: g) (auto simp: update_conv')

lemma gauge_marked:
  "marked node ms \<Longrightarrow> node \<in> nsm_node ` set ms \<Longrightarrow>
    map_of (fold (\<lambda>ele m. AList.update (nsm_node ele) (nsm_status ele) m) ms g) node = Some 1"
proof (induction ms arbitrary: g)
  case (Cons x ms)
  then show ?case
    by (cases "node \<in> nsm_node ` set ms") (auto simp: gauge_other update_conv')
qed simp



end
