(* ===== verification/Spec2Isabelle.thy ===== *)
theory Spec2Isabelle
  imports Lvm_Props Device_Props Discover_Props BestFit Settled ClusterStatus FirstRun Names System_Props Stale_Props Rest_Props ApiCopy Waits Exec_Props Operator_Props
begin

text \<open>
  A model of nativestor, an operator for Kubernetes that hands out the local disks of a cluster's nodes:
  through LVM (volume groups for TopoLVM) and as whole devices (a CSI driver of its own).  Every definition
  that models code carries the name the code gives it where Isabelle allows; paths below are under
  \<open>src/\<close>.

  \<^bold>\<open>The program's parts and how they meet.\<close>  An operator process (\<open>cmd/operator\<close>) runs four controllers.
  The cluster controller (\<open>pkg/operator/topolvm/controller\<close>) serves one \<open>TopolvmCluster\<close> object: it starts a
  provisioning job on every node (\<open>topolvm/volumegroup/vgmanager.go\<close>), whose program
  (\<open>cmd/preparevg\<close>, \<open>topolvm/volumegroup/preparevg.go\<close>) creates, grows, shrinks and removes volume groups with
  the LVM tools and records the outcome in a config map of the node.  Handlers of that config map
  (\<open>lvmdconfig_controller.go\<close>) copy the record into the status of the cluster and start the node's plugin, and
  a monitor (\<open>topolvm/monitor\<close>) adds the phases it sees and exports metrics.  Two controllers deploy the CSI drivers
  from the operator's settings (\<open>topolvm/csi\<close>, \<open>raw_device/csi\<close>), a fourth the discovery agents.  The agent
  of a node (\<open>pkg/operator/discover\<close>) reports its devices as \<open>RawDevice\<close> objects; the CSI driver
  (\<open>driver/raw_device\<close>) hands those out as volumes.

  \<^bold>\<open>How it is modelled.\<close>  \<open>World\<close>: a step of the program is a function from a world (an environment that is an
  argument, and the trace of what was done) to an outcome (\<open>Ok\<close>, \<open>Fail\<close> with the error, \<open>Panic\<close>) and a world; every
  return, wrapped error and panic of the source is a branch.  \<open>os.Exit\<close> is a panic.  Commands, API clients,
  files, hashes, encodings and the order in which \<open>range\<close> visits a Go map are arguments.  A Go map is an
  association list read by \<open>map_of\<close> (\<open>Prelude\<close>), an \<open>int64\<close> or \<open>uint8\<close> a word, a string a list of bytes.
  One call of a service, one turn of a loop and one handler are one step; goroutines are tasks that run one
  after another in any order.

  \<^item> \<open>Prelude\<close>, \<open>Types\<close>, \<open>World\<close>, \<open>Frames\<close>: strings, numbers and maps; the API types (\<open>apis/\<close>,
    \<open>pkg/cluster/topolvm\<close>); programs, what they emit and what they keep of the environment.
  \<^item> \<open>Exec\<close>, \<open>Process\<close>, \<open>Operator\<close>: \<open>pkg/util/exec\<close>; what every process is built from (\<open>pkg/cluster\<close>,
    \<open>pkg/util/flags\<close>, \<open>pkg/raw_device\<close>, \<open>gencert\<close>); the commands, predicates, gauges and alert objects.
  \<^item> \<open>Lvm\<close>, \<open>Device\<close>: \<open>pkg/util/sys\<close>.  \<open>Host\<close> is an executable host for witnesses.
  \<^item> \<open>K8sApi\<close>, \<open>K8sPure\<close>: \<open>pkg/operator/k8sutil\<close> and \<open>pkg/operator/controller\<close>, calls and pure functions.
    \<open>CmStore\<close> is the interface of the config maps' server, \<open>Coder\<close> an executable encoding for witnesses.
  \<^item> \<open>RawCsi\<close>, \<open>RawStore\<close>, \<open>RawWrites\<close>, \<open>Mirror\<close>: the CSI driver, and the interface between it, the agents and the
    API server in three locales (\<open>raw_store\<close>: lists and claims; \<open>raw_writes\<close>: all writes; \<open>live_store\<close>: which calls
    succeed), interpreted on an in-memory server.
  \<^item> \<open>Discover\<close>: the agent.  \<open>System\<close>: agents and CSI controller on one store.  \<open>Stale\<close>: the same when every list comes
    from a cache that may lag behind the server (\<open>stale_store\<close>).
  \<^item> \<open>Rest\<close>, \<open>Informers\<close>: the generated clients, listers and informers (\<open>generated/nativestore\<close>); requests are the calls that
    build them.  \<open>Rest_Props\<close>: \<open>rest_server\<close> and \<open>cached_server\<close> say what the API server and the cache do with them, and
    give \<open>stale_store\<close>.
  \<^item> \<open>DeepCopy\<close>, \<open>ApiCopy\<close>: the generated deep copies (\<open>apis/*/zz_generated.deepcopy.go\<close>) over a memory of arrays.
  \<^item> \<open>PrepareVg\<close>, \<open>PrepareVg_Inv\<close>: the provisioning job and the invariant of its bookkeeping.
  \<^item> \<open>VgManager\<close>, \<open>CsiUtil\<close>, \<open>CsiDrivers\<close>, \<open>Controller\<close>, \<open>Monitor\<close>: jobs and cleaning, the deployment of the drivers,
    the cluster controller with its handlers, the monitor.
  \<^item> \<open>Names\<close>: the names derived from nodes and devices.

  \<^bold>\<open>What the theorems show.\<close>
  \<^item> \<open>System_Props\<close>, \<open>RawCsi_Props\<close>, \<open>BestFit\<close>: whatever agents and CSI calls do, the store implements the pool of
    volume ids: no id is given out twice, none is lost before it is deleted; the device chosen is the first
    of the smallest that fit; what an agent reports can be claimed, and its pass makes the store mirror the node.
  \<^item> \<open>Stale_Props\<close>, \<open>Rest_Props\<close>: over REST requests and caches of any age no volume is shared and every call of the service
    still implements the pool, since the server refuses to write the status of an object that changed.  A
    deletion by an agent is not protected like this: its pass deletes what its list shows as free and lost, so a
    device claimed since the list was made is deleted with its volume.
  \<^item> \<open>Informers\<close>, \<open>ApiCopy\<close>: a factory runs each informer once and hands out the one that runs; a copied cluster shares no
    array with the original.
  \<^item> \<open>PrepareVg_Props\<close>, \<open>Settled\<close>: the recorded status is keyed by group and disjoint; groups are created on usable
    devices only; lvmd's configuration follows the classes; on a settled node a run changes nothing.
  \<^item> \<open>Pipeline\<close>, \<open>FirstRun\<close>: a provisioning run accounts for every class it was asked for, the map it writes is one the
    operator watches, and the operator's informer puts its record into the status of the cluster.
  \<^item> \<open>ClusterStatus\<close>, \<open>Monitor_Props\<close>, \<open>Controller_Props\<close>: the status of the cluster stays well-formed and loses no
    node's report under its two writers; it is written only when it changed; the oldest cluster is served; the
    finalizer stays until the cleaning succeeded.
  \<^item> \<open>Lvm_Props\<close>, \<open>Device_Props\<close>, \<open>Discover_Props\<close>: no group with a logical volume is removed or shrunk; discovery
    runs no command that changes anything; the parsers read back what was printed; only lost, unallocated
    devices are deleted.
  \<^item> \<open>Exec_Props\<close>, \<open>Waits\<close>, \<open>Operator_Props\<close>: runs with a time limit return and temporary files are removed; bounded
    waits decide truly, the retry of the loop devices ends as soon as it succeeds; the operator starts its
    parts in order after it cleared old annotations; the gauges follow the status.
  \<^item> \<open>Names\<close>: the names of config maps, deployments and jobs are ones the API server accepts, however long the node's name
    is; the name of a \<open>RawDevice\<close> tells devices apart as far as the checksum does.

  \<^bold>\<open>Bounds and fuel.\<close>  Bounds of the source are kept: 45 looks of \<open>deleteResourceAndWait\<close>, the retries of \<open>DeleteResource\<close>,
  20 looks at a deleted job, 3 starts of the drivers.  Loops without a bound read a list of inputs (\<open>Run\<close>,
  \<open>checker_loop\<close>, \<open>wait_run\<close>) or take a fuel and return \<open>None\<close> when it ends (\<open>retryLoopDevice\<close>;
  \<open>loop_devices_retried_until_set_up\<close> says how much is enough).

  \<^bold>\<open>Hypotheses.\<close>  What theorems assume of code that is not here is a locale or a named definition: the
  locales of the \<open>RawDevice\<close> store (\<open>raw_store\<close>, \<open>raw_server\<close>, \<open>live_store\<close>, \<open>stale_store\<close>, \<open>cached_server\<close>), \<open>cm_store\<close>, \<open>status_store\<close> (reads return what was written last, refused
  writes change nothing, names are unique), \<open>agent_of\<close> (an agent's commands and config maps are not part of
  the store), \<open>range_order\<close> (\<open>range\<close> visits every key once), a codec that reads back what it wrote, a checksum of
  32 bytes, a poll that only runs its condition (\<open>poll_adds\<close>).  Each has an
  interpretation or witness on an executable instance.

  \<^bold>\<open>Not modelled.\<close>  Protocol buffers and their stubs, the registration of types, fake clients: what the program uses of
  them is an argument.  The client, clientset and factory are generated twice from one template and modelled
  once.  Outside \<open>DeepCopy\<close> data is not aliased.  How far a cache may lag is not bounded.  YAML templates and the text of the alerting rule are data for
  libraries.  Declarations of commands and flags configure the libraries that parse them.  Log output is dropped.
  Tests and mocks are not part of the program.  \<open>SetLoggingFlags\<close>, \<open>NewSecurityContextConstraints\<close> and the unused
  informer of \<open>k8sutils.go\<close> are not called.
\<close>

end
